(* ===== verification/Go_Prelude.thy ===== *)
theory Go_Prelude
  imports Main "HOL-Library.Word" "HOL-Library.Finite_Map" "HOL-Library.Char_ord"
    "HOL-Library.List_Lexorder" "HOL-Library.Product_Lexorder" "HOL-Library.Sublist"
begin

text \<open>
  The part of the Go language and of its standard library that several components use, and the
  generic lemmas about it: fixed-width integers, \<open>time.Time\<close> and \<open>time.Duration\<close>, byte strings
  and the functions of the package \<open>strings\<close>, decimal numerals, and the predicates the
  anchored regular expressions of the code denote.
\<close>

section \<open>Collections of facts\<close>

named_theorems text_defs \<open>definitions of the byte-string predicates, for evaluation\<close>
named_theorems validate_defs \<open>definitions of the Validate methods\<close>
named_theorems wire_consts \<open>the numeric limits of the wire protocol\<close>

section \<open>Integers, times and durations\<close>

type_synonym uint64 = "64 word"
type_synonym uint32 = "32 word"
type_synonym uint8 = "8 word"

text \<open>
  A \<open>time.Duration\<close> is a number of nanoseconds in an \<open>int64\<close>. A \<open>time.Time\<close> is the number of
  nanoseconds since the zero value of the type (January 1 of year 1, UTC), so that \<open>IsZero\<close> is
  equality with 0; all times of the code are in UTC. \<open>Sub\<close> saturates at the ends of the
  \<open>int64\<close> range, as the library documents.
\<close>

type_synonym duration = int
type_synonym time = int

definition Nanosecond :: duration where "Nanosecond = 1"
definition Millisecond :: duration where "Millisecond = 1000000"
definition Second :: duration where "Second = 1000 * 1000000"
definition Minute :: duration where "Minute = 60 * (1000 * 1000000)"
definition Hour :: duration where "Hour = 3600 * (1000 * 1000000)"

lemmas duration_defs = Nanosecond_def Millisecond_def Second_def Minute_def Hour_def

definition maxDuration :: duration where "maxDuration = 2 ^ 63 - 1"
definition minDuration :: duration where "minDuration = - (2 ^ 63)"

text \<open>The value of an \<open>int64\<close> expression whose mathematical value is \<open>x\<close>.\<close>

definition int64_wrap :: "int \<Rightarrow> int" where
  "int64_wrap x = (x + 2 ^ 63) mod 2 ^ 64 - 2 ^ 63"

lemma int64_wrap_id: "minDuration \<le> x \<Longrightarrow> x \<le> maxDuration \<Longrightarrow> int64_wrap x = x"
  by (simp add: int64_wrap_def minDuration_def maxDuration_def)

definition time_IsZero :: "time \<Rightarrow> bool" where
  [simp]: "time_IsZero t \<longleftrightarrow> t = 0"
definition time_After :: "time \<Rightarrow> time \<Rightarrow> bool" where
  [simp]: "time_After t u \<longleftrightarrow> u < t"
definition time_Before :: "time \<Rightarrow> time \<Rightarrow> bool" where
  [simp]: "time_Before t u \<longleftrightarrow> t < u"
definition time_Equal :: "time \<Rightarrow> time \<Rightarrow> bool" where
  [simp]: "time_Equal t u \<longleftrightarrow> t = u"
definition time_Add :: "time \<Rightarrow> duration \<Rightarrow> time" where
  [simp]: "time_Add t d = t + d"
definition time_Sub :: "time \<Rightarrow> time \<Rightarrow> duration" where
  "time_Sub t u = max minDuration (min maxDuration (t - u))"

text \<open>
  Comparing a saturated difference with a duration inside the range is comparing the exact
  difference.
\<close>

lemma time_Sub_le_iff: "minDuration \<le> d \<Longrightarrow> d < maxDuration \<Longrightarrow> time_Sub t u \<le> d \<longleftrightarrow> t - u \<le> d"
  by (auto simp: time_Sub_def minDuration_def maxDuration_def)

lemma time_Sub_less_iff: "minDuration < d \<Longrightarrow> d \<le> maxDuration \<Longrightarrow> time_Sub t u < d \<longleftrightarrow> t - u < d"
  by (auto simp: time_Sub_def minDuration_def maxDuration_def)

lemma time_Sub_gt_iff: "minDuration \<le> d \<Longrightarrow> d < maxDuration \<Longrightarrow> d < time_Sub t u \<longleftrightarrow> d < t - u"
  by (auto simp: time_Sub_def minDuration_def maxDuration_def)

lemma time_Sub_ge_iff: "minDuration < d \<Longrightarrow> d \<le> maxDuration \<Longrightarrow> d \<le> time_Sub t u \<longleftrightarrow> d \<le> t - u"
  by (auto simp: time_Sub_def minDuration_def maxDuration_def)

lemmas time_Sub_cmp = time_Sub_le_iff time_Sub_less_iff time_Sub_gt_iff time_Sub_ge_iff

section \<open>Byte strings\<close>

text \<open>
  A Go string is a sequence of bytes, and so is \<open>string\<close>, a list of \<open>char\<close>. The code compares
  bytes with ASCII literals, so the classes of bytes are given by their codes.
\<close>

definition byte_code :: "char \<Rightarrow> nat" where
  [text_defs]: "byte_code c = of_char c"

definition is_lower :: "char \<Rightarrow> bool" where
  [text_defs]: "is_lower c \<longleftrightarrow> 97 \<le> byte_code c \<and> byte_code c \<le> 122"
definition is_upper :: "char \<Rightarrow> bool" where
  [text_defs]: "is_upper c \<longleftrightarrow> 65 \<le> byte_code c \<and> byte_code c \<le> 90"
definition is_digit :: "char \<Rightarrow> bool" where
  [text_defs]: "is_digit c \<longleftrightarrow> 48 \<le> byte_code c \<and> byte_code c \<le> 57"
definition is_hex_lower :: "char \<Rightarrow> bool" where
  [text_defs]: "is_hex_lower c \<longleftrightarrow> is_digit c \<or> (97 \<le> byte_code c \<and> byte_code c \<le> 102)"
definition is_alnum :: "char \<Rightarrow> bool" where
  [text_defs]: "is_alnum c \<longleftrightarrow> is_lower c \<or> is_upper c \<or> is_digit c"

text \<open>\<open>strings.ContainsAny\<close> for a set of ASCII bytes.\<close>

definition ContainsAny :: "string \<Rightarrow> string \<Rightarrow> bool" where
  [text_defs]: "ContainsAny s chars \<longleftrightarrow> list_ex (\<lambda>c. c \<in> set chars) s"

definition HasPrefix :: "string \<Rightarrow> string \<Rightarrow> bool" where
  [text_defs]: "HasPrefix s p \<longleftrightarrow> take (length p) s = p"

text \<open>
  \<open>strings.TrimSpace\<close> removes the white space of Unicode at both ends. The encodings of these
  code points in UTF-8 are listed; no encoding is a proper prefix or suffix of another, so the
  rune at an end of a string is white space exactly when one of them stands there.
\<close>

definition white_space :: "string list" where
  "white_space =
     [[CHR 0x20], [CHR 0x09], [CHR 0x0A], [CHR 0x0B], [CHR 0x0C], [CHR 0x0D],
      [CHR 0xC2, CHR 0x85], [CHR 0xC2, CHR 0xA0], [CHR 0xE1, CHR 0x9A, CHR 0x80]] @
     map (\<lambda>c. [CHR 0xE2, CHR 0x80, c])
       [CHR 0x80, CHR 0x81, CHR 0x82, CHR 0x83, CHR 0x84, CHR 0x85, CHR 0x86, CHR 0x87,
        CHR 0x88, CHR 0x89, CHR 0x8A, CHR 0xA8, CHR 0xA9, CHR 0xAF] @
     [[CHR 0xE2, CHR 0x81, CHR 0x9F], [CHR 0xE3, CHR 0x80, CHR 0x80]]"

text \<open>
  Removing words of a list from the front of a string for as long as one of them is a prefix.
  Each removal is guarded by the word being non-empty, so the string gets shorter.
\<close>

lemma HasPrefix_drop_less:
  assumes "w \<noteq> []" and "HasPrefix s w"
  shows "length (drop (length w) s) < length s"
  using assms by (cases s) (auto simp: HasPrefix_def)

function strip_words :: "string list \<Rightarrow> string \<Rightarrow> string" where
  "strip_words ws s =
     (case find (\<lambda>w. w \<noteq> [] \<and> HasPrefix s w) ws of
        None \<Rightarrow> s
      | Some w \<Rightarrow> strip_words ws (drop (length w) s))"
  by pat_completeness auto
termination
  by (relation "measure (\<lambda>(ws, s). length s)")
     (auto simp: find_Some_iff intro!: HasPrefix_drop_less [simplified])

declare strip_words.simps [simp del]

definition TrimLeftSpace :: "string \<Rightarrow> string" where
  "TrimLeftSpace s = strip_words white_space s"

definition TrimRightSpace :: "string \<Rightarrow> string" where
  "TrimRightSpace s = rev (strip_words (map rev white_space) (rev s))"

definition TrimSpace :: "string \<Rightarrow> string" where
  "TrimSpace s = TrimRightSpace (TrimLeftSpace s)"

text \<open>A string that no word of the list prefixes is left as it is.\<close>

lemma strip_words_id: "\<forall>w \<in> set ws. w = [] \<or> \<not> HasPrefix s w \<Longrightarrow> strip_words ws s = s"
  by (subst strip_words.simps) (auto simp: find_Some_iff split: option.splits)

lemma strip_words_suffix: "suffix (strip_words ws s) s"
proof (induction ws s rule: strip_words.induct)
  case (1 ws s)
  show ?case
  proof (cases "find (\<lambda>w. w \<noteq> [] \<and> HasPrefix s w) ws")
    case None
    then show ?thesis by (simp add: strip_words.simps [of ws s])
  next
    case (Some w)
    with 1 have "suffix (strip_words ws (drop (length w) s)) (drop (length w) s)" by blast
    with Some show ?thesis
      by (simp add: strip_words.simps [of ws s]) (meson suffix_drop suffix_order.trans)
  qed
qed

text \<open>A string that starts and ends with letters or digits has no white space to trim.\<close>

definition graphic :: "char \<Rightarrow> bool" where
  [text_defs]: "graphic c \<longleftrightarrow> 33 \<le> byte_code c \<and> byte_code c \<le> 126"

lemma white_space_ends:
  "list_all (\<lambda>w. w \<noteq> [] \<and> \<not> graphic (hd w) \<and> \<not> graphic (hd (rev w))) white_space"
  by code_simp

lemma HasPrefix_hd: "HasPrefix (c # s) w \<Longrightarrow> w \<noteq> [] \<Longrightarrow> hd w = c"
  by (cases w) (auto simp: HasPrefix_def)

lemma TrimLeftSpace_graphic:
  assumes "graphic c"
  shows "TrimLeftSpace (c # s) = c # s"
  unfolding TrimLeftSpace_def
proof (rule strip_words_id, intro ballI)
  fix w assume "w \<in> set white_space"
  then have "w \<noteq> []" and "\<not> graphic (hd w)"
    using white_space_ends by (auto simp: list_all_iff)
  then show "w = [] \<or> \<not> HasPrefix (c # s) w"
    using assms HasPrefix_hd by blast
qed

lemma TrimRightSpace_graphic:
  assumes "graphic c"
  shows "TrimRightSpace (s @ [c]) = s @ [c]"
proof -
  have "strip_words (map rev white_space) (c # rev s) = c # rev s"
  proof (rule strip_words_id, intro ballI)
    fix v assume "v \<in> set (map rev white_space)"
    then have "v \<noteq> []" and "\<not> graphic (hd v)"
      using white_space_ends by (auto simp: list_all_iff)
    then show "v = [] \<or> \<not> HasPrefix (c # rev s) v"
      using assms HasPrefix_hd by blast
  qed
  then show ?thesis by (simp add: TrimRightSpace_def)
qed

lemma TrimSpace_graphic:
  assumes "s \<noteq> []" and "graphic (hd s)" and "graphic (last s)"
  shows "TrimSpace s = s"
proof -
  obtain c cs where s: "s = c # cs" using assms(1) by (cases s) auto
  have "TrimLeftSpace s = s" using assms(2) by (simp add: s TrimLeftSpace_graphic)
  moreover have "TrimRightSpace s = s"
    using TrimRightSpace_graphic [OF assms(3), of "butlast s"] assms(1) by simp
  ultimately show ?thesis by (simp add: TrimSpace_def)
qed

lemma TrimSpace_Nil [simp]: "TrimSpace [] = []"
proof -
  have "strip_words white_space [] = []" "strip_words (map rev white_space) [] = []"
    by (intro strip_words_id; auto simp: HasPrefix_def)+
  then show ?thesis by (simp add: TrimSpace_def TrimLeftSpace_def TrimRightSpace_def)
qed

section \<open>Decimal numerals\<close>

text \<open>
  \<open>strconv.Itoa\<close> on a non-negative number, and \<open>strconv.Atoi\<close> on a non-empty string of decimal
  digits. A value outside the \<open>int64\<close> range is an error of \<open>Atoi\<close>; leading zeros are accepted.
\<close>

definition digit_char :: "nat \<Rightarrow> char" where
  "digit_char d = char_of (48 + d)"

fun Itoa :: "nat \<Rightarrow> string" where
  "Itoa n = (if n < 10 then [digit_char n] else Itoa (n div 10) @ [digit_char (n mod 10)])"

declare Itoa.simps [simp del]

definition digit_value :: "char \<Rightarrow> nat" where
  "digit_value c = byte_code c - 48"

definition digits_value :: "string \<Rightarrow> nat" where
  "digits_value s = foldl (\<lambda>acc c. 10 * acc + digit_value c) 0 s"

definition Atoi :: "string \<Rightarrow> nat option" where
  "Atoi s = (if s \<noteq> [] \<and> list_all is_digit s \<and> digits_value s < 2 ^ 63
             then Some (digits_value s) else None)"

lemma byte_code_digit_char [simp]: "d < 10 \<Longrightarrow> byte_code (digit_char d) = 48 + d"
  by (simp add: digit_char_def byte_code_def)

lemma is_digit_digit_char [simp]: "d < 10 \<Longrightarrow> is_digit (digit_char d)"
  by (simp add: is_digit_def)

lemma digit_value_digit_char [simp]: "d < 10 \<Longrightarrow> digit_value (digit_char d) = d"
  by (simp add: digit_value_def)

lemma byte_code_inject: "byte_code c = byte_code d \<longleftrightarrow> c = d"
  by (simp add: byte_code_def)

lemma digit_char_numeral [simp]:
  "digit_char 0 = CHR ''0''" "digit_char (Suc 0) = CHR ''1''" "digit_char 2 = CHR ''2''"
  "digit_char 3 = CHR ''3''" "digit_char 4 = CHR ''4''" "digit_char 5 = CHR ''5''"
  "digit_char 6 = CHR ''6''" "digit_char 7 = CHR ''7''" "digit_char 8 = CHR ''8''"
  "digit_char 9 = CHR ''9''"
  by (simp_all add: byte_code_inject [symmetric] del: byte_code_inject)
     (simp_all add: byte_code_def)

lemma Itoa_neq_Nil [simp]: "Itoa n \<noteq> []"
  by (subst Itoa.simps) simp

lemma Itoa_digits: "list_all is_digit (Itoa n)"
proof (induction n rule: Itoa.induct)
  case (1 n)
  then show ?case by (subst Itoa.simps) auto
qed

lemma digits_value_snoc [simp]: "digits_value (s @ [c]) = 10 * digits_value s + digit_value c"
  by (simp add: digits_value_def)

lemma digits_value_Itoa [simp]: "digits_value (Itoa n) = n"
proof (induction n rule: Itoa.induct)
  case (1 n)
  show ?case
  proof (cases "n < 10")
    case True
    then show ?thesis by (simp add: Itoa.simps [of n] digits_value_def)
  next
    case False
    with 1 show ?thesis by (simp add: Itoa.simps [of n])
  qed
qed

lemma Atoi_Itoa: "n < 2 ^ 63 \<Longrightarrow> Atoi (Itoa n) = Some n"
  by (simp add: Atoi_def Itoa_digits)

lemma Itoa_inject: "Itoa m = Itoa n \<Longrightarrow> m = n"
  by (metis digits_value_Itoa)

section \<open>Splitting at a byte\<close>

text \<open>\<open>strings.Split\<close> with a one-byte separator: always at least one field.\<close>

fun Split :: "char \<Rightarrow> string \<Rightarrow> string list" where
  "Split c [] = [[]]"
| "Split c (x # xs) =
     (if x = c then [] # Split c xs
      else case Split c xs of [] \<Rightarrow> [[x]] | f # fs \<Rightarrow> (x # f) # fs)"

lemma Split_no_sep: "c \<notin> set s \<Longrightarrow> Split c s = [s]"
  by (induction s) auto

lemma Split_append_sep: "c \<notin> set s \<Longrightarrow> Split c (s @ c # t) = s # Split c t"
  by (induction s) auto

section \<open>Case mapping and substrings\<close>

text \<open>
  \<open>strings.ToLower\<close> and \<open>strings.ToUpper\<close>, for comparisons with ASCII text: the ASCII letters,
  and the code points outside ASCII whose other case is an ASCII letter (U+0130 and U+212A are
  lowered to \<open>i\<close> and \<open>k\<close>; U+0131 and U+017F are raised to \<open>I\<close> and \<open>S\<close>). The image of any other
  code point is outside ASCII and is left as it is.
\<close>

definition lower_byte :: "char \<Rightarrow> char" where
  "lower_byte c = (if is_upper c then char_of (byte_code c + 32) else c)"

definition upper_byte :: "char \<Rightarrow> char" where
  "upper_byte c = (if is_lower c then char_of (byte_code c - 32) else c)"

fun ToLower :: "string \<Rightarrow> string" where
  "ToLower [] = []"
| "ToLower (c # s) =
     (if c = CHR 0xC4 \<and> take 1 s = [CHR 0xB0] then CHR ''i'' # ToLower (drop 1 s)
      else if c = CHR 0xE2 \<and> take 2 s = [CHR 0x84, CHR 0xAA] then CHR ''k'' # ToLower (drop 2 s)
      else lower_byte c # ToLower s)"

fun ToUpper :: "string \<Rightarrow> string" where
  "ToUpper [] = []"
| "ToUpper (c # s) =
     (if c = CHR 0xC4 \<and> take 1 s = [CHR 0xB1] then CHR ''I'' # ToUpper (drop 1 s)
      else if c = CHR 0xC5 \<and> take 1 s = [CHR 0xBF] then CHR ''S'' # ToUpper (drop 1 s)
      else upper_byte c # ToUpper s)"

text \<open>\<open>strings.Contains\<close>.\<close>

fun Contains :: "string \<Rightarrow> string \<Rightarrow> bool" where
  "Contains [] t \<longleftrightarrow> t = []"
| "Contains (c # s) t \<longleftrightarrow> HasPrefix (c # s) t \<or> Contains s t"

text \<open>The bytes of a trimmed, raised or contained string.\<close>

lemma space_upper: "CHR '' '' \<in> set (ToUpper s) \<Longrightarrow> CHR '' '' \<in> set s"
proof (induction s rule: ToUpper.induct)
  case (2 c s)
  have "CHR '' '' \<noteq> upper_byte c" if "c \<noteq> CHR '' ''"
  proof
    assume eq: "CHR '' '' = upper_byte c"
    with that have "is_lower c" by (auto simp: upper_byte_def split: if_splits)
    moreover from this have "byte_code (upper_byte c) = byte_code c - 32"
      by (auto simp: upper_byte_def byte_code_def is_lower_def)
    ultimately show False using eq [symmetric] by (auto simp: is_lower_def byte_code_def)
  qed
  with 2 show ?case by (auto split: if_splits dest: in_set_dropD)
qed simp

lemma set_TrimSpace: "set (TrimSpace s) \<subseteq> set s"
  using strip_words_suffix set_mono_suffix
  unfolding TrimSpace_def TrimLeftSpace_def TrimRightSpace_def
  by (metis order_trans set_rev)

lemma HasPrefix_set: "HasPrefix s t \<Longrightarrow> set t \<subseteq> set s"
  unfolding HasPrefix_def by (metis set_take_subset)

lemma Contains_set: "Contains s t \<Longrightarrow> set t \<subseteq> set s"
proof (induction s t rule: Contains.induct)
  case (2 c s t)
  then show ?case using HasPrefix_set [of "c # s" t] by auto
qed simp

text \<open>\<open>strings.Join\<close>.\<close>

fun Join :: "string \<Rightarrow> string list \<Rightarrow> string" where
  "Join sep [] = []"
| "Join sep [x] = x"
| "Join sep (x # y # r) = x @ sep @ Join sep (y # r)"

section \<open>Hexadecimal text\<close>

text \<open>\<open>hex.EncodeToString\<close>.\<close>

definition hex_char :: "nat \<Rightarrow> char" where
  "hex_char n = (if n < 10 then char_of (48 + n) else char_of (87 + n))"

definition hex_EncodeToString :: "string \<Rightarrow> string" where
  "hex_EncodeToString s =
     concat (map (\<lambda>c. [hex_char (byte_code c div 16), hex_char (byte_code c mod 16)]) s)"

lemma is_hex_lower_hex_char: "n < 16 \<Longrightarrow> is_hex_lower (hex_char n)"
  by (auto simp: hex_char_def is_hex_lower_def is_digit_def byte_code_def)

lemma length_hex_EncodeToString [simp]: "length (hex_EncodeToString s) = 2 * length s"
  by (induction s) (auto simp: hex_EncodeToString_def)

lemma hex_EncodeToString_hex: "list_all is_hex_lower (hex_EncodeToString s)"
proof -
  have "byte_code c div 16 < 16" for c
    by (rule less_mult_imp_div_less) (simp add: byte_code_def)
  then show ?thesis
    by (auto simp: hex_EncodeToString_def list_all_iff is_hex_lower_hex_char)
qed

lemma byte_code_less: "byte_code c < 256"
  by (simp add: byte_code_def)

lemma byte_code_hex_char: "n < 16 \<Longrightarrow> byte_code (hex_char n) = (if n < 10 then 48 + n else 87 + n)"
  by (simp add: hex_char_def byte_code_def)

lemma hex_char_inject:
  assumes "m < 16" and "n < 16" and "hex_char m = hex_char n" shows "m = n"
proof -
  have "(if m < 10 then 48 + m else 87 + m) = (if n < 10 then 48 + n else 87 + n)"
    using byte_code_hex_char [OF assms(1)] byte_code_hex_char [OF assms(2)] assms(3)
    by (simp only: )
  then show ?thesis by presburger
qed

lemma hex_EncodeToString_inject: "hex_EncodeToString s = hex_EncodeToString t \<Longrightarrow> s = t"
proof (induction s arbitrary: t)
  case Nil
  then show ?case by (cases t) (auto simp: hex_EncodeToString_def)
next
  case (Cons c s)
  then obtain d t' where t: "t = d # t'" by (cases t) (auto simp: hex_EncodeToString_def)
  from Cons.prems have h: "hex_char (byte_code c div 16) = hex_char (byte_code d div 16)"
    "hex_char (byte_code c mod 16) = hex_char (byte_code d mod 16)"
    and r: "hex_EncodeToString s = hex_EncodeToString t'"
    by (auto simp: hex_EncodeToString_def t)
  have "byte_code c div 16 = byte_code d div 16" "byte_code c mod 16 = byte_code d mod 16"
    using h by (auto intro!: hex_char_inject simp: byte_code_less less_mult_imp_div_less)
  then have "byte_code c = byte_code d" by (metis div_mult_mod_eq)
  with Cons.IH [OF r] show ?case by (simp add: t byte_code_inject)
qed

end
