(* ===== verification/Connector_Errors.thy ===== *)
theory Connector_Errors
  imports Go_Prelude
begin

text \<open>
  The typed errors of the connector protocol (\<open>src/internal/connectorprotocol/protocol.go\<close>,
  lines 60 to 197, and the two classifiers at lines 1581 to 1597): error codes, disconnect
  reasons, the struct \<open>Error\<close>, and the functions \<open>codeError\<close>, \<open>CodeOf\<close>, \<open>ReasonOf\<close>,
  \<open>validCode\<close> and \<open>validDisconnectReason\<close>. The cleanup wrapping of the session code
  (\<open>joinCleanup\<close>) is here too, because it only builds errors.
\<close>

section \<open>Codes and reasons\<close>

text \<open>
  Both types are Go strings with a finite set of named constants. A value received from the wire
  may be any string, and the zero value is the empty string; the constructors \<open>CodeOther\<close> and
  \<open>ReasonOther\<close> stand for every string that is none of the named ones.
\<close>

datatype (plugins only: code size) Code =
    CodeEmpty |
    CodeInvalidInput | CodeMalformedFrame | CodeFrameTooLarge | CodeProtocolIncompatible |
    CodeCapabilityMissing | CodeAuthenticationFailed | CodeCredentialExpired |
    CodeIdentityMismatch | CodeSessionConflict | CodeSessionClosed | CodeLeaseExpired |
    CodeHeartbeatTimeout | CodeSnapshotRequired | CodeGenerationGap | CodeStaleGeneration |
    CodeContentHashMismatch | CodeSnapshotRejected | CodeDeltaRejected | CodeNotReady |
    CodeCanceled | CodeStaleSession | CodeUnsupportedMessage | CodeDrainRejected |
    CodeDrainTimeout | CodeCredentialRotationRejected | CodeCredentialRotationNotReady |
    CodeCredentialRotationFailed | CodeOther string

datatype (plugins only: code size) DisconnectReason =
    ReasonEmpty |
    ReasonProtocolMismatch | ReasonCapabilityMissing | ReasonMalformed | ReasonAuthentication |
    ReasonCredentialExpired | ReasonLeaseExpired | ReasonHeartbeatTimeout |
    ReasonSessionReplaced | ReasonStaleGeneration | ReasonSnapshotRejected |
    ReasonGenerationGap | ReasonCredentialRotation | ReasonCanceled | ReasonServerShutdown |
    ReasonProtocolClosed | ReasonOther string

text \<open>The wire form of a code and of a reason.\<close>

fun Code_string :: "Code \<Rightarrow> string" where
  "Code_string CodeEmpty = ''''"
| "Code_string CodeInvalidInput = ''invalid_input''"
| "Code_string CodeMalformedFrame = ''malformed_frame''"
| "Code_string CodeFrameTooLarge = ''frame_too_large''"
| "Code_string CodeProtocolIncompatible = ''protocol_incompatible''"
| "Code_string CodeCapabilityMissing = ''capability_missing''"
| "Code_string CodeAuthenticationFailed = ''authentication_failed''"
| "Code_string CodeCredentialExpired = ''credential_expired''"
| "Code_string CodeIdentityMismatch = ''identity_mismatch''"
| "Code_string CodeSessionConflict = ''session_conflict''"
| "Code_string CodeSessionClosed = ''session_closed''"
| "Code_string CodeLeaseExpired = ''lease_expired''"
| "Code_string CodeHeartbeatTimeout = ''heartbeat_timeout''"
| "Code_string CodeSnapshotRequired = ''snapshot_required''"
| "Code_string CodeGenerationGap = ''generation_gap''"
| "Code_string CodeStaleGeneration = ''stale_generation''"
| "Code_string CodeContentHashMismatch = ''content_hash_mismatch''"
| "Code_string CodeSnapshotRejected = ''snapshot_rejected''"
| "Code_string CodeDeltaRejected = ''delta_rejected''"
| "Code_string CodeNotReady = ''not_ready''"
| "Code_string CodeCanceled = ''canceled''"
| "Code_string CodeStaleSession = ''stale_session''"
| "Code_string CodeUnsupportedMessage = ''unsupported_message''"
| "Code_string CodeDrainRejected = ''drain_rejected''"
| "Code_string CodeDrainTimeout = ''drain_timeout''"
| "Code_string CodeCredentialRotationRejected = ''credential_rotation_rejected''"
| "Code_string CodeCredentialRotationNotReady = ''credential_rotation_not_ready''"
| "Code_string CodeCredentialRotationFailed = ''credential_rotation_failed''"
| "Code_string (CodeOther s) = s"

fun DisconnectReason_string :: "DisconnectReason \<Rightarrow> string" where
  "DisconnectReason_string ReasonEmpty = ''''"
| "DisconnectReason_string ReasonProtocolMismatch = ''protocol_mismatch''"
| "DisconnectReason_string ReasonCapabilityMissing = ''capability_missing''"
| "DisconnectReason_string ReasonMalformed = ''malformed_message''"
| "DisconnectReason_string ReasonAuthentication = ''authentication_failed''"
| "DisconnectReason_string ReasonCredentialExpired = ''credential_expired''"
| "DisconnectReason_string ReasonLeaseExpired = ''lease_expired''"
| "DisconnectReason_string ReasonHeartbeatTimeout = ''heartbeat_timeout''"
| "DisconnectReason_string ReasonSessionReplaced = ''session_replaced''"
| "DisconnectReason_string ReasonStaleGeneration = ''stale_generation''"
| "DisconnectReason_string ReasonSnapshotRejected = ''snapshot_rejected''"
| "DisconnectReason_string ReasonGenerationGap = ''generation_gap''"
| "DisconnectReason_string ReasonCredentialRotation = ''credential_rotation''"
| "DisconnectReason_string ReasonCanceled = ''canceled''"
| "DisconnectReason_string ReasonServerShutdown = ''server_shutdown''"
| "DisconnectReason_string ReasonProtocolClosed = ''protocol_closed''"
| "DisconnectReason_string (ReasonOther s) = s"

text \<open>
  \<open>validCode\<close> and \<open>validDisconnectReason\<close> accept the named constants and nothing else.
\<close>

definition validCode :: "Code \<Rightarrow> bool" where
  "validCode c \<longleftrightarrow> (case c of CodeEmpty \<Rightarrow> False | CodeOther _ \<Rightarrow> False | _ \<Rightarrow> True)"

definition validDisconnectReason :: "DisconnectReason \<Rightarrow> bool" where
  "validDisconnectReason r \<longleftrightarrow> (case r of ReasonEmpty \<Rightarrow> False | ReasonOther _ \<Rightarrow> False | _ \<Rightarrow> True)"

lemma validCode_simps [simp]:
  "\<not> validCode CodeEmpty" "\<not> validCode (CodeOther s)"
  "validCode CodeDrainRejected" "validCode CodeDrainTimeout"
  by (simp_all add: validCode_def)

lemma validDisconnectReason_simps [simp]:
  "\<not> validDisconnectReason ReasonEmpty" "\<not> validDisconnectReason (ReasonOther s)"
  "validDisconnectReason ReasonSessionReplaced" "validDisconnectReason ReasonCredentialExpired"
  "validDisconnectReason ReasonLeaseExpired" "validDisconnectReason ReasonHeartbeatTimeout"
  "validDisconnectReason ReasonProtocolClosed"
  by (simp_all add: validDisconnectReason_def)

section \<open>Error values\<close>

text \<open>
  A Go \<open>error\<close> that this package builds is a \<open>*Error\<close> (with its optional cause), a value of
  \<open>errors.New\<close>, one wrapped by \<open>fmt.Errorf\<close> with \<open>%w\<close>, or several joined by \<open>errors.Join\<close>.
  The field \<open>RetryAfter\<close> is never written and is left out. A nil \<open>error\<close> is \<open>None\<close> of
  \<open>error option\<close>.
\<close>

datatype error =
    Error (err_Code: Code) (err_Reason: DisconnectReason) (err_Retryable: bool)
      (err_Cause: "error option")
  | ErrorString string
  | ErrorWrap string error
  | ErrorJoin "error list"

text \<open>The package's sentinel errors \<open>ErrInvalidInput\<close>, ... carry a code and nothing else.\<close>

definition Err :: "Code \<Rightarrow> error" where
  "Err c = Error c ReasonEmpty False None"

abbreviation ErrInvalidInput :: error where "ErrInvalidInput \<equiv> Err CodeInvalidInput"
abbreviation ErrMalformedFrame :: error where "ErrMalformedFrame \<equiv> Err CodeMalformedFrame"
abbreviation ErrFrameTooLarge :: error where "ErrFrameTooLarge \<equiv> Err CodeFrameTooLarge"
abbreviation ErrProtocolIncompatible :: error where "ErrProtocolIncompatible \<equiv> Err CodeProtocolIncompatible"
abbreviation ErrCapabilityMissing :: error where "ErrCapabilityMissing \<equiv> Err CodeCapabilityMissing"
abbreviation ErrAuthenticationFailed :: error where "ErrAuthenticationFailed \<equiv> Err CodeAuthenticationFailed"
abbreviation ErrCredentialExpired :: error where "ErrCredentialExpired \<equiv> Err CodeCredentialExpired"
abbreviation ErrIdentityMismatch :: error where "ErrIdentityMismatch \<equiv> Err CodeIdentityMismatch"
abbreviation ErrSessionConflict :: error where "ErrSessionConflict \<equiv> Err CodeSessionConflict"
abbreviation ErrSessionClosed :: error where "ErrSessionClosed \<equiv> Err CodeSessionClosed"
abbreviation ErrLeaseExpired :: error where "ErrLeaseExpired \<equiv> Err CodeLeaseExpired"
abbreviation ErrHeartbeatTimeout :: error where "ErrHeartbeatTimeout \<equiv> Err CodeHeartbeatTimeout"
abbreviation ErrSnapshotRequired :: error where "ErrSnapshotRequired \<equiv> Err CodeSnapshotRequired"
abbreviation ErrGenerationGap :: error where "ErrGenerationGap \<equiv> Err CodeGenerationGap"
abbreviation ErrStaleGeneration :: error where "ErrStaleGeneration \<equiv> Err CodeStaleGeneration"
abbreviation ErrContentHashMismatch :: error where "ErrContentHashMismatch \<equiv> Err CodeContentHashMismatch"
abbreviation ErrSnapshotRejected :: error where "ErrSnapshotRejected \<equiv> Err CodeSnapshotRejected"
abbreviation ErrDeltaRejected :: error where "ErrDeltaRejected \<equiv> Err CodeDeltaRejected"
abbreviation ErrNotReady :: error where "ErrNotReady \<equiv> Err CodeNotReady"
abbreviation ErrCanceled :: error where "ErrCanceled \<equiv> Err CodeCanceled"
abbreviation ErrStaleSession :: error where "ErrStaleSession \<equiv> Err CodeStaleSession"
abbreviation ErrUnsupportedMessage :: error where "ErrUnsupportedMessage \<equiv> Err CodeUnsupportedMessage"
abbreviation ErrDrainRejected :: error where "ErrDrainRejected \<equiv> Err CodeDrainRejected"
abbreviation ErrDrainTimeout :: error where "ErrDrainTimeout \<equiv> Err CodeDrainTimeout"
abbreviation ErrCredentialRotationRejected :: error where "ErrCredentialRotationRejected \<equiv> Err CodeCredentialRotationRejected"
abbreviation ErrCredentialRotationNotReady :: error where "ErrCredentialRotationNotReady \<equiv> Err CodeCredentialRotationNotReady"
abbreviation ErrCredentialRotationFailed :: error where "ErrCredentialRotationFailed \<equiv> Err CodeCredentialRotationFailed"

definition codeError :: "error \<Rightarrow> DisconnectReason \<Rightarrow> bool \<Rightarrow> error option \<Rightarrow> error" where
  "codeError base reason retryable cause = Error (err_Code base) reason retryable cause"

lemma codeError_Err [simp]: "codeError (Err c) r b e = Error c r b e"
  by (simp add: codeError_def Err_def)

text \<open>
  \<open>errors.As\<close> walks the tree of wrapped errors in pre-order and stops at the first \<open>*Error\<close>.
\<close>

fun first_Error :: "error \<Rightarrow> error option" where
  "first_Error (Error c r b e) = Some (Error c r b e)"
| "first_Error (ErrorString s) = None"
| "first_Error (ErrorWrap s e) = first_Error e"
| "first_Error (ErrorJoin []) = None"
| "first_Error (ErrorJoin (e # es)) =
     (case first_Error e of Some t \<Rightarrow> Some t | None \<Rightarrow> first_Error (ErrorJoin es))"

definition CodeOf :: "error option \<Rightarrow> Code" where
  "CodeOf err = (case Option.bind err first_Error of None \<Rightarrow> CodeEmpty | Some t \<Rightarrow> err_Code t)"

definition ReasonOf :: "error option \<Rightarrow> DisconnectReason" where
  "ReasonOf err = (case Option.bind err first_Error of None \<Rightarrow> ReasonEmpty | Some t \<Rightarrow> err_Reason t)"

text \<open>\<open>(*Error).Is\<close>: two typed errors match when their codes are equal.\<close>

definition Error_Is :: "error \<Rightarrow> error \<Rightarrow> bool" where
  "Error_Is e target \<longleftrightarrow>
     (case (e, target) of
        (Error c _ _ _, Error c' _ _ _) \<Rightarrow> c = c'
      | _ \<Rightarrow> False)"

definition Error_Temporary :: "error \<Rightarrow> bool" where
  "Error_Temporary e \<longleftrightarrow> (case e of Error _ _ b _ \<Rightarrow> b | _ \<Rightarrow> False)"

text \<open>
  \<open>joinCleanup\<close> (session.go): the failure of a cleanup never hides the primary error.
\<close>

definition joinCleanup :: "error option \<Rightarrow> error option \<Rightarrow> error option" where
  "joinCleanup primary cleanup =
     (case cleanup of
        None \<Rightarrow> primary
      | Some c \<Rightarrow>
          (let cleanup' = ErrorWrap ''abort prepared configuration'' c in
           case primary of
             None \<Rightarrow> Some cleanup'
           | Some p \<Rightarrow> Some (ErrorJoin [p, cleanup'])))"

lemma CodeOf_simps [simp]:
  "CodeOf None = CodeEmpty"
  "CodeOf (Some (Error c r b e)) = c"
  "CodeOf (Some (Err c)) = c"
  by (simp_all add: CodeOf_def Err_def)

lemma ReasonOf_simps [simp]:
  "ReasonOf None = ReasonEmpty"
  "ReasonOf (Some (Error c r b e)) = r"
  by (simp_all add: ReasonOf_def)

lemma Err_neq_None [simp]: "Err c = Err d \<longleftrightarrow> c = d"
  by (simp add: Err_def)

text \<open>A typed primary error keeps its code and reason through the join.\<close>

lemma joinCleanup_primary:
  assumes "first_Error p = Some t"
  shows "CodeOf (joinCleanup (Some p) c) = err_Code t"
    and "ReasonOf (joinCleanup (Some p) c) = err_Reason t"
  using assms by (auto simp: joinCleanup_def CodeOf_def ReasonOf_def split: option.splits)

lemma joinCleanup_eq_None [simp]: "joinCleanup p c = None \<longleftrightarrow> p = None \<and> c = None"
  by (auto simp: joinCleanup_def Let_def split: option.splits)

end
