(* ===== verification/Go_Base64.thy ===== *)
theory Go_Base64
  imports Go_Prelude
begin

text \<open>
  \<open>base64.RawURLEncoding\<close> of the Go standard library: the URL-safe alphabet without padding, and
  its strict decoder, which refuses non-zero trailing bits and skips carriage returns and line
  feeds. Decoding is the inverse of encoding, and the length of an encoding is the least number
  of sextets that hold the bytes.
\<close>

section \<open>Sextets\<close>

definition sextet_char :: "nat \<Rightarrow> char" where
  "sextet_char n =
     (if n < 26 then char_of (65 + n)
      else if n < 52 then char_of (97 + (n - 26))
      else if n < 62 then char_of (48 + (n - 52))
      else if n = 62 then CHR ''-'' else CHR ''_'')"

definition char_sextet :: "char \<Rightarrow> nat option" where
  "char_sextet c =
     (if is_upper c then Some (byte_code c - 65)
      else if is_lower c then Some (byte_code c - 97 + 26)
      else if is_digit c then Some (byte_code c - 48 + 52)
      else if c = CHR ''-'' then Some 62
      else if c = CHR ''_'' then Some 63
      else None)"

lemma byte_code_char_of: "n < 256 \<Longrightarrow> byte_code (char_of n) = n"
  by (simp add: byte_code_def)

lemma byte_code_dash_underscore [simp]: "byte_code CHR ''-'' = 45" "byte_code CHR ''_'' = 95"
  by (simp_all add: byte_code_def)

lemma char_sextet_sextet_char: "n < 64 \<Longrightarrow> char_sextet (sextet_char n) = Some n"
  by (auto simp: char_sextet_def sextet_char_def is_upper_def is_lower_def is_digit_def
      byte_code_char_of)

lemma graphic_sextet_char: "n < 64 \<Longrightarrow> graphic (sextet_char n)"
  by (auto simp: graphic_def sextet_char_def byte_code_char_of)

section \<open>Encoding\<close>

fun sextets_of :: "nat list \<Rightarrow> nat list" where
  "sextets_of [] = []"
| "sextets_of [a] = [a div 4, (a mod 4) * 16]"
| "sextets_of [a, b] = [a div 4, (a mod 4) * 16 + b div 16, (b mod 16) * 4]"
| "sextets_of (a # b # c # r) =
     [a div 4, (a mod 4) * 16 + b div 16, (b mod 16) * 4 + c div 64, c mod 64] @ sextets_of r"

definition EncodeToString :: "string \<Rightarrow> string" where
  "EncodeToString s = map sextet_char (sextets_of (map byte_code s))"

section \<open>Strict decoding\<close>

fun bytes_of :: "nat list \<Rightarrow> nat list option" where
  "bytes_of [] = Some []"
| "bytes_of [w] = None"
| "bytes_of [w, x] = (if x mod 16 = 0 then Some [w * 4 + x div 16] else None)"
| "bytes_of [w, x, y] =
     (if y mod 4 = 0 then Some [w * 4 + x div 16, (x mod 16) * 16 + y div 4] else None)"
| "bytes_of (w # x # y # z # r) =
     map_option (\<lambda>bs. [w * 4 + x div 16, (x mod 16) * 16 + y div 4, (y mod 4) * 64 + z] @ bs)
       (bytes_of r)"

definition DecodeString :: "string \<Rightarrow> string option" where
  "DecodeString s =
     (let body = filter (\<lambda>c. c \<noteq> CHR 0x0D \<and> c \<noteq> CHR 0x0A) s;
          sx = map char_sextet body
      in if None \<in> set sx then None
         else map_option (map char_of) (bytes_of (map the sx)))"

section \<open>Round trip and length\<close>

lemma byte_code_bound [simp]: "byte_code c < 256"
  by (simp add: byte_code_def)

lemma char_of_byte_code [simp]: "char_of (byte_code c) = c"
  by (simp add: byte_code_def)

lemma pack_bound: "x < m \<Longrightarrow> y < k \<Longrightarrow> x * k + y < m * (k :: nat)"
proof -
  assume "x < m" and "y < k"
  then have "x * k + y < Suc x * k" by simp
  also have "\<dots> \<le> m * k" using \<open>x < m\<close> by (intro mult_le_mono1) simp
  finally show ?thesis .
qed

lemma pack_split:
  assumes "y < (k :: nat)"
  shows "(x * k + y) div k = x" and "(x * k + y) mod k = y"
  using assms by simp_all

lemma byte_parts:
  assumes "(a :: nat) < 256"
  shows "a div 4 < 64" and "a div 16 < 16" and "a div 64 < 4"
  using assms by (simp_all add: less_mult_imp_div_less)

lemma sextets_of_bound: "list_all (\<lambda>b. b < 256) bs \<Longrightarrow> list_all (\<lambda>n. n < 64) (sextets_of bs)"
proof (induction bs rule: sextets_of.induct)
  case (2 a)
  then show ?case using pack_bound [of "a mod 4" 4 0 16] by (simp add: byte_parts)
next
  case (3 a b)
  then show ?case
    using pack_bound [of "a mod 4" 4 "b div 16" 16] pack_bound [of "b mod 16" 16 0 4]
    by (simp add: byte_parts)
next
  case (4 a b c r)
  then show ?case
    using pack_bound [of "a mod 4" 4 "b div 16" 16] pack_bound [of "b mod 16" 16 "c div 64" 4]
    by (simp add: byte_parts)
qed simp

lemma bytes_of_sextets_of: "list_all (\<lambda>b. b < 256) bs \<Longrightarrow> bytes_of (sextets_of bs) = Some bs"
proof (induction bs rule: sextets_of.induct)
  case (3 a b)
  then show ?case using byte_parts [of b] by (simp add: pack_split)
next
  case (4 a b c r)
  then show ?case using byte_parts [of b] byte_parts [of c] by (simp add: pack_split)
qed simp_all

lemma length_sextets_of: "length (sextets_of bs) = (4 * length bs + 2) div 3"
  by (induction bs rule: sextets_of.induct) auto

lemma length_EncodeToString: "length (EncodeToString s) = (4 * length s + 2) div 3"
  by (simp add: EncodeToString_def length_sextets_of)

lemma EncodeToString_sextets: "\<exists>ns. EncodeToString s = map sextet_char ns \<and> list_all (\<lambda>n. n < 64) ns"
  unfolding EncodeToString_def
  by (rule exI, rule conjI, rule refl, rule sextets_of_bound) (simp add: list_all_iff)

lemma EncodeToString_graphic: "list_all graphic (EncodeToString s)"
  using EncodeToString_sextets [of s] by (auto simp: list_all_iff graphic_sextet_char)

lemma graphic_not_newline: "graphic c \<Longrightarrow> c \<noteq> CHR 0x0D \<and> c \<noteq> CHR 0x0A"
  by (auto simp: graphic_def byte_code_def)

lemma DecodeString_EncodeToString: "DecodeString (EncodeToString s) = Some s"
proof -
  let ?ns = "sextets_of (map byte_code s)"
  have b: "list_all (\<lambda>n. n < 64) ?ns"
    by (rule sextets_of_bound) (simp add: list_all_iff)
  have f: "filter (\<lambda>c. c \<noteq> CHR 0x0D \<and> c \<noteq> CHR 0x0A) (EncodeToString s) = EncodeToString s"
    using EncodeToString_graphic [of s] graphic_not_newline by (auto simp: list_all_iff filter_id_conv)
  have m: "map char_sextet (EncodeToString s) = map Some ?ns"
    using b by (auto simp: EncodeToString_def list_all_iff char_sextet_sextet_char)
  have "bytes_of ?ns = Some (map byte_code s)"
    by (rule bytes_of_sextets_of) (simp add: list_all_iff)
  then show ?thesis
    unfolding DecodeString_def Let_def f m by (auto simp: comp_def)
qed

end
