(* ===== verification/Connector_Text.thy ===== *)
theory Connector_Text
  imports Connector_Errors Go_Base64
begin

text \<open>
  Validation of the textual fields of the connector protocol and the negotiation of versions and
  capabilities (\<open>src/internal/connectorprotocol/protocol.go\<close>, lines 29 to 58 and 199 to 424).

  Three functions of the Go standard library that read or hash text stay parameters of the model,
  as the fields of the record \<open>golib\<close>: \<open>url.Parse\<close>, \<open>sha256.Sum256\<close>, and the lexer and the
  string quoting of \<open>encoding/json\<close>. Every definition that needs one of them takes the record as
  an argument and every theorem holds for all its values.
\<close>

section \<open>Parameters from the standard library\<close>

text \<open>
  What the code reads of a parsed URL: \<open>url_HasUser\<close> is \<open>parsed.User != nil\<close>, \<open>url_Port\<close> is
  \<open>parsed.Port()\<close> and \<open>url_QueryKeys\<close> are the keys of \<open>parsed.Query()\<close>.
\<close>

record url =
  url_Scheme :: string
  url_Opaque :: string
  url_HasUser :: bool
  url_Host :: string
  url_Port :: string
  url_Path :: string
  url_RawQuery :: string
  url_QueryKeys :: "string list"
  url_Fragment :: string

text \<open>
  The successive results of \<open>(*json.Decoder).Token\<close> with \<open>UseNumber\<close>: commas and colons are
  consumed by the decoder; \<open>TBad\<close> is a call that fails; the end of the list is \<open>io.EOF\<close>.
\<close>

datatype json_token =
    TObjOpen | TObjClose | TArrOpen | TArrClose
  | TString string | TNumber string | TBool bool | TNull | TBad

record golib =
  lib_URLParse :: "string \<Rightarrow> url option"
  lib_Sum256 :: "string \<Rightarrow> string"
  lib_JSONTokens :: "string \<Rightarrow> json_token list"
  lib_JSONQuote :: "string \<Rightarrow> string"

section \<open>Limits\<close>

definition MaxSnapshotBytes :: nat where [wire_consts]: "MaxSnapshotBytes = 4 * 2 ^ 20"
definition MaxFrameBytes :: nat where [wire_consts]: "MaxFrameBytes = MaxSnapshotBytes + 64 * 2 ^ 10"
definition MaxDeltaBytes :: nat where [wire_consts]: "MaxDeltaBytes = 2 ^ 20"
definition MaxCapabilities :: nat where [wire_consts]: "MaxCapabilities = 64"
definition MaxCapabilityBytes :: nat where [wire_consts]: "MaxCapabilityBytes = 128"
definition MaxIdentifierBytes :: nat where [wire_consts]: "MaxIdentifierBytes = 128"
definition MaxCredentialRef :: nat where [wire_consts]: "MaxCredentialRef = 512"
definition MaxProofBytes :: nat where [wire_consts]: "MaxProofBytes = 16 * 2 ^ 10"
definition MaxNonceBytes :: nat where [wire_consts]: "MaxNonceBytes = 128"
definition MaxReasonMessage :: nat where [wire_consts]: "MaxReasonMessage = 512"
definition MaxJSONDepth :: nat where [wire_consts]: "MaxJSONDepth = 64"
definition MaxClockSkew :: duration where [wire_consts]: "MaxClockSkew = 2 * Minute"
definition DefaultLease :: duration where [wire_consts]: "DefaultLease = 45 * Second"
definition DefaultHeartbeat :: duration where [wire_consts]: "DefaultHeartbeat = 5 * Second"
definition DefaultApplyTimeout :: duration where [wire_consts]: "DefaultApplyTimeout = 15 * Second"
definition DefaultAbortTimeout :: duration where [wire_consts]: "DefaultAbortTimeout = 5 * Second"
definition MaxLease :: duration where [wire_consts]: "MaxLease = 24 * Hour"

definition ProtocolName :: string where "ProtocolName = ''paperboat.connector''"
definition ProtocolVersion :: string where "ProtocolVersion = ''1.0''"

section \<open>The regular expressions\<close>

definition identifierPattern :: "string \<Rightarrow> bool" where
  "identifierPattern s \<longleftrightarrow>
     (case s of
        [] \<Rightarrow> False
      | c # cs \<Rightarrow> is_alnum c \<and> length cs \<le> 127 \<and>
          list_all (\<lambda>d. is_alnum d \<or> d \<in> set ''._:-'') cs)"

definition capabilityPattern :: "string \<Rightarrow> bool" where
  "capabilityPattern s \<longleftrightarrow>
     (case s of
        [] \<Rightarrow> False
      | c # cs \<Rightarrow> is_lower c \<and> 1 \<le> length cs \<and> length cs \<le> 127 \<and>
          list_all (\<lambda>d. is_lower d \<or> is_digit d \<or> d \<in> set ''_.-'') cs)"

definition versionPattern :: "string \<Rightarrow> bool" where
  "versionPattern s \<longleftrightarrow>
     (let major = takeWhile is_digit s; rest = dropWhile is_digit s
      in major \<noteq> [] \<and>
         (case rest of
            [] \<Rightarrow> False
          | c # minor \<Rightarrow> c = CHR ''.'' \<and> minor \<noteq> [] \<and> list_all is_digit minor))"

definition hashPattern :: "string \<Rightarrow> bool" where
  "hashPattern s \<longleftrightarrow>
     HasPrefix s ''sha256:'' \<and> length (drop 7 s) = 64 \<and> list_all is_hex_lower (drop 7 s)"

definition identityThumbprintPattern :: "string \<Rightarrow> bool" where
  "identityThumbprintPattern s \<longleftrightarrow>
     length s = 43 \<and> list_all (\<lambda>d. is_alnum d \<or> d \<in> set ''_-'') s"

definition identityKeyIDPattern :: "string \<Rightarrow> bool" where
  "identityKeyIDPattern s \<longleftrightarrow>
     HasPrefix s ''ed25519:'' \<and> identityThumbprintPattern (drop 8 s)"

section \<open>Validators of single fields\<close>

definition ValidateIdentifier :: "string \<Rightarrow> error option" where
  "ValidateIdentifier value =
     (if \<not> identifierPattern value \<or> MaxIdentifierBytes < length value
      then Some ErrInvalidInput else None)"

definition ValidateCredentialReference :: "('a golib_scheme) \<Rightarrow> string \<Rightarrow> error option" where
  "ValidateCredentialReference L value =
     (if length value = 0 \<or> MaxCredentialRef < length value \<or> TrimSpace value \<noteq> value
         \<or> ContainsAny value [CHR 0x0D, CHR 0x0A]
      then Some ErrInvalidInput
      else case lib_URLParse L value of
        None \<Rightarrow> Some ErrInvalidInput
      | Some parsed \<Rightarrow>
          if url_Scheme parsed = '''' \<or> url_Host parsed \<noteq> ''paperboat'' \<or> url_HasUser parsed
             \<or> url_Opaque parsed \<noteq> '''' \<or> url_RawQuery parsed \<noteq> '''' \<or> url_Fragment parsed \<noteq> ''''
             \<or> url_Path parsed = ''''
          then Some ErrInvalidInput
          else if url_Scheme parsed \<in> set [''keychain'', ''credential-manager'', ''secret-service'',
                    ''protected-file'', ''tpm'']
          then None
          else Some ErrInvalidInput)"

definition ValidateProof :: "string \<Rightarrow> error option" where
  "ValidateProof value =
     (if length value < 32 \<or> MaxProofBytes < length value \<or> TrimSpace value \<noteq> value
         \<or> ContainsAny value [CHR 0x0D, CHR 0x0A]
      then Some ErrInvalidInput else None)"

text \<open>The nonce condition that \<open>AuthRequest\<close> and \<open>RenewalRequest\<close> write inline.\<close>

definition bad_nonce :: "string \<Rightarrow> bool" where
  "bad_nonce nonce \<longleftrightarrow>
     length nonce < 16 \<or> MaxNonceBytes < length nonce \<or> TrimSpace nonce \<noteq> nonce
     \<or> ContainsAny nonce [CHR 0x0D, CHR 0x0A]"

definition ValidateIdentityKey :: "string \<Rightarrow> string \<Rightarrow> error option" where
  "ValidateIdentityKey keyID thumbprint =
     (if \<not> identityKeyIDPattern keyID \<or> \<not> identityThumbprintPattern thumbprint
         \<or> drop 8 keyID \<noteq> thumbprint
      then Some ErrInvalidInput else None)"

definition IdentityThumbprint :: "('a golib_scheme) \<Rightarrow> string \<Rightarrow> error + string" where
  "IdentityThumbprint L publicKey =
     (if length publicKey \<noteq> 32 then Inl ErrInvalidInput
      else let q = [CHR 0x22];
               canonical = ''{'' @ q @ ''crv'' @ q @ '':'' @ q @ ''Ed25519'' @ q @ '','' @
                 q @ ''kty'' @ q @ '':'' @ q @ ''OKP'' @ q @ '','' @ q @ ''x'' @ q @ '':'' @ q @
                 EncodeToString publicKey @ q @ ''}''
           in Inr (EncodeToString (lib_Sum256 L canonical)))"

definition IdentityKeyID :: "('a golib_scheme) \<Rightarrow> string \<Rightarrow> error + string" where
  "IdentityKeyID L publicKey =
     (case IdentityThumbprint L publicKey of
        Inl err \<Rightarrow> Inl err
      | Inr thumbprint \<Rightarrow> Inr (''ed25519:'' @ thumbprint))"

section \<open>Detached proofs\<close>

definition SignProofPayload :: "string \<Rightarrow> (string \<Rightarrow> string) \<Rightarrow> error + string" where
  "SignProofPayload payload sign =
     (if length payload = 0 \<or> MaxProofBytes < length payload then Inl ErrInvalidInput
      else let signature = sign payload in
           if length signature = 0 \<or> MaxProofBytes < length signature then Inl ErrInvalidInput
           else Inr (EncodeToString signature))"

definition DecodeProof :: "string \<Rightarrow> error + string" where
  "DecodeProof signedProof =
     (if ValidateProof signedProof \<noteq> None then Inl ErrAuthenticationFailed
      else case DecodeString signedProof of
        None \<Rightarrow> Inl ErrAuthenticationFailed
      | Some signature \<Rightarrow>
          if length signature = 0 \<or> MaxProofBytes < length signature
          then Inl ErrAuthenticationFailed else Inr signature)"

definition VerifyProofPayload ::
  "string \<Rightarrow> string \<Rightarrow> (string \<Rightarrow> string \<Rightarrow> bool) \<Rightarrow> error option" where
  "VerifyProofPayload payload signedProof verify =
     (if length payload = 0 then Some ErrAuthenticationFailed
      else case DecodeProof signedProof of
        Inl _ \<Rightarrow> Some ErrAuthenticationFailed
      | Inr signature \<Rightarrow> if \<not> verify payload signature then Some ErrAuthenticationFailed else None)"

section \<open>Capabilities\<close>

definition CapabilitySnapshot :: string where "CapabilitySnapshot = ''config.snapshot.v1''"
definition CapabilityDelta :: string where "CapabilityDelta = ''config.delta.v1''"
definition CapabilityAck :: string where "CapabilityAck = ''config.ack.v1''"
definition CapabilityHeartbeat :: string where "CapabilityHeartbeat = ''session.heartbeat.v1''"
definition CapabilityRenewal :: string where "CapabilityRenewal = ''auth.renew.v1''"
definition CapabilityDrain :: string where "CapabilityDrain = ''connector.drain.v1''"
definition CapabilityCredentialRotation :: string where
  "CapabilityCredentialRotation = ''credential.rotate.v1''"

lemmas capability_names = CapabilitySnapshot_def CapabilityDelta_def CapabilityAck_def
  CapabilityHeartbeat_def CapabilityRenewal_def CapabilityDrain_def
  CapabilityCredentialRotation_def

text \<open>
  The required set is a Go map, which is iterated in an arbitrary order; only the text inside the
  cause of the error depends on the order, and the model takes the order of the literal.
\<close>

definition requiredCapabilities :: "string list" where
  "requiredCapabilities =
     [CapabilitySnapshot, CapabilityDelta, CapabilityAck, CapabilityHeartbeat, CapabilityRenewal]"

definition ProductionCapabilities :: "string list" where
  "ProductionCapabilities =
     [CapabilitySnapshot, CapabilityDelta, CapabilityAck, CapabilityHeartbeat, CapabilityRenewal,
      CapabilityDrain, CapabilityCredentialRotation]"

text \<open>The loop over the values, with the set \<open>seen\<close> as its accumulator.\<close>

fun scan_capabilities :: "string list \<Rightarrow> string list \<Rightarrow> error + string list" where
  "scan_capabilities seen [] = Inr seen"
| "scan_capabilities seen (value # rest) =
     (if MaxCapabilityBytes < length value \<or> \<not> capabilityPattern value then Inl ErrInvalidInput
      else if value \<in> set seen then Inl ErrInvalidInput
      else scan_capabilities (value # seen) rest)"

definition ValidateCapabilities :: "string list \<Rightarrow> error option" where
  "ValidateCapabilities vs =
     (if length vs = 0 \<or> MaxCapabilities < length vs then Some ErrCapabilityMissing
      else case scan_capabilities [] vs of
        Inl err \<Rightarrow> Some err
      | Inr seen \<Rightarrow>
          (case find (\<lambda>required. required \<notin> set seen) requiredCapabilities of
             None \<Rightarrow> None
           | Some required \<Rightarrow>
               Some (codeError ErrCapabilityMissing ReasonCapabilityMissing False
                 (Some (ErrorString (''missing capability '' @ required))))))"

definition NegotiateCapabilities :: "string list \<Rightarrow> string list \<Rightarrow> error + string list" where
  "NegotiateCapabilities offered supported =
     (case ValidateCapabilities offered of
        Some err \<Rightarrow> Inl err
      | None \<Rightarrow>
          (case ValidateCapabilities supported of
             Some err \<Rightarrow> Inl err
           | None \<Rightarrow>
               (let selected = filter (\<lambda>value. value \<in> set supported) offered in
                case ValidateCapabilities selected of
                  Some err \<Rightarrow>
                    Inl (codeError ErrCapabilityMissing ReasonCapabilityMissing False (Some err))
                | None \<Rightarrow> Inr selected)))"

text \<open>\<open>hasCapability\<close> of session.go.\<close>

definition hasCapability :: "string list \<Rightarrow> string \<Rightarrow> bool" where
  "hasCapability vs capability \<longleftrightarrow> list_ex (\<lambda>value. value = capability) vs"

section \<open>Versions\<close>

definition parseVersion :: "string \<Rightarrow> (nat \<times> nat) option" where
  "parseVersion value =
     (case Split CHR ''.'' value of
        [major, minor] \<Rightarrow>
          if major = '''' \<or> minor = '''' then None
          else (case (Atoi major, Atoi minor) of
            (Some a, Some b) \<Rightarrow>
              if Itoa a \<noteq> major \<or> Itoa b \<noteq> minor then None else Some (a, b)
          | _ \<Rightarrow> None)
      | _ \<Rightarrow> None)"

definition version_error :: "string \<Rightarrow> error" where
  "version_error text =
     codeError ErrProtocolIncompatible ReasonProtocolMismatch False (Some (ErrorString text))"

definition NegotiateVersion :: "string \<Rightarrow> string \<Rightarrow> error + string" where
  "NegotiateVersion minVersion maxVersion =
     (if \<not> versionPattern minVersion \<or> \<not> versionPattern maxVersion
      then Inl (version_error ''invalid version range'')
      else case (parseVersion minVersion, parseVersion maxVersion, parseVersion ProtocolVersion) of
        (Some (minMajor, minMinor), Some (maxMajor, maxMinor), Some (selMajor, selMinor)) \<Rightarrow>
          if maxMajor < minMajor \<or> selMajor < minMajor \<or> maxMajor < selMajor
             \<or> minMajor = selMajor \<and> selMinor < minMinor
             \<or> maxMajor = selMajor \<and> maxMinor < selMinor
          then Inl (version_error ''no compatible protocol version'')
          else Inr ProtocolVersion
      | _ \<Rightarrow> Inl (version_error ''invalid protocol version''))"

section \<open>Lemmas on the validators\<close>

lemma ValidateIdentifier_nonempty: "ValidateIdentifier s = None \<Longrightarrow> s \<noteq> ''''"
  by (auto simp: ValidateIdentifier_def identifierPattern_def split: if_splits)

lemma hashPattern_nonempty: "hashPattern s \<Longrightarrow> s \<noteq> ''''"
  by (auto simp: hashPattern_def)

text \<open>The scan succeeds exactly on distinct, well-formed names, and keeps them all.\<close>

lemma scan_capabilities_Inr:
  "scan_capabilities seen vs = Inr seen' \<Longrightarrow>
     set seen' = set seen \<union> set vs \<and> distinct vs \<and> set vs \<inter> set seen = {} \<and>
     list_all (\<lambda>v. length v \<le> MaxCapabilityBytes \<and> capabilityPattern v) vs"
  by (induction seen vs rule: scan_capabilities.induct) (auto split: if_splits)

lemma scan_capabilities_ok:
  "distinct vs \<Longrightarrow> set vs \<inter> set seen = {} \<Longrightarrow>
   list_all (\<lambda>v. length v \<le> MaxCapabilityBytes \<and> capabilityPattern v) vs \<Longrightarrow>
   scan_capabilities seen vs = Inr (rev vs @ seen)"
  by (induction seen vs rule: scan_capabilities.induct) auto

definition capabilities_ok :: "string list \<Rightarrow> bool" where
  "capabilities_ok vs \<longleftrightarrow>
     vs \<noteq> [] \<and> length vs \<le> MaxCapabilities \<and> distinct vs \<and>
     list_all (\<lambda>v. length v \<le> MaxCapabilityBytes \<and> capabilityPattern v) vs \<and>
     set requiredCapabilities \<subseteq> set vs"

lemma ValidateCapabilities_None_iff: "ValidateCapabilities vs = None \<longleftrightarrow> capabilities_ok vs"
proof
  assume "ValidateCapabilities vs = None"
  then obtain seen where
    "vs \<noteq> []" "length vs \<le> MaxCapabilities" "scan_capabilities [] vs = Inr seen"
    "find (\<lambda>r. r \<notin> set seen) requiredCapabilities = None"
    by (auto simp: ValidateCapabilities_def split: if_splits sum.splits option.splits)
  then show "capabilities_ok vs"
    using scan_capabilities_Inr [of "[]" vs seen]
    by (auto simp: capabilities_ok_def find_None_iff)
next
  assume ok: "capabilities_ok vs"
  then have "scan_capabilities [] vs = Inr (rev vs)"
    using scan_capabilities_ok [of vs "[]"] by (simp add: capabilities_ok_def)
  moreover have "find (\<lambda>r. r \<notin> set (rev vs)) requiredCapabilities = None"
    using ok by (auto simp: capabilities_ok_def find_None_iff)
  ultimately show "ValidateCapabilities vs = None"
    using ok by (simp add: ValidateCapabilities_def capabilities_ok_def)
qed

lemma capabilities_ok_filter:
  assumes "capabilities_ok offered" and "capabilities_ok supported"
  shows "capabilities_ok (filter (\<lambda>v. v \<in> set supported) offered)"
proof -
  let ?sel = "filter (\<lambda>v. v \<in> set supported) offered"
  have req: "set requiredCapabilities \<subseteq> set ?sel"
    using assms by (auto simp: capabilities_ok_def)
  then have "?sel \<noteq> []" by (metis empty_iff list.set(1) list.set_intros(1) requiredCapabilities_def subsetD)
  moreover have "length ?sel \<le> MaxCapabilities"
    using assms(1) by (metis capabilities_ok_def length_filter_le le_trans)
  ultimately show ?thesis
    using req assms(1) by (auto simp: capabilities_ok_def list_all_iff)
qed

lemma parseVersion_ProtocolVersion [simp]: "parseVersion ProtocolVersion = Some (1, 0)"
  by (simp add: parseVersion_def ProtocolVersion_def Atoi_def digits_value_def digit_value_def
      is_digit_def byte_code_def Itoa.simps)

lemma EncodeToString_ValidateProof:
  assumes "24 \<le> length sig" and "length sig \<le> 12288"
  shows "ValidateProof (EncodeToString sig) = None"
proof -
  let ?e = "EncodeToString sig"
  have len: "32 \<le> length ?e" "length ?e \<le> MaxProofBytes"
    using assms by (simp_all add: length_EncodeToString MaxProofBytes_def)
  then have ne: "?e \<noteq> []" by auto
  have g: "\<forall>c \<in> set ?e. graphic c" using EncodeToString_graphic [of sig] by (simp add: list_all_iff)
  then have "TrimSpace ?e = ?e" using ne by (intro TrimSpace_graphic) auto
  moreover have "\<not> ContainsAny ?e [CHR 0x0D, CHR 0x0A]"
    using g graphic_not_newline by (auto simp: ContainsAny_def list_ex_iff)
  ultimately show ?thesis using len by (simp add: ValidateProof_def)
qed

section \<open>Properties\<close>

text \<open>
  C2. Two capability lists that both validate always negotiate successfully: the result is the
  offered list restricted to the supported names, in the offered order, it contains every
  required capability and validates again. The last error branch of the function is dead.
\<close>

theorem NegotiateCapabilities_total:
  assumes "ValidateCapabilities offered = None" and "ValidateCapabilities supported = None"
  shows "\<exists>selected. NegotiateCapabilities offered supported = Inr selected \<and>
           ValidateCapabilities selected = None \<and>
           selected = filter (\<lambda>v. v \<in> set supported) offered \<and>
           set requiredCapabilities \<subseteq> set selected"
proof -
  let ?sel = "filter (\<lambda>v. v \<in> set supported) offered"
  have ok: "capabilities_ok ?sel"
    using assms by (simp add: ValidateCapabilities_None_iff capabilities_ok_filter)
  then have "ValidateCapabilities ?sel = None" by (simp add: ValidateCapabilities_None_iff)
  with assms ok show ?thesis by (auto simp: NegotiateCapabilities_def capabilities_ok_def)
qed

theorem NegotiateCapabilities_total_witness:
  "ValidateCapabilities ProductionCapabilities = None \<and>
   ValidateCapabilities (rev requiredCapabilities) = None \<and>
   (\<exists>selected. NegotiateCapabilities ProductionCapabilities (rev requiredCapabilities) = Inr selected \<and>
      ValidateCapabilities selected = None \<and>
      selected = filter (\<lambda>v. v \<in> set (rev requiredCapabilities)) ProductionCapabilities \<and>
      set requiredCapabilities \<subseteq> set selected)"
proof -
  have 1: "ValidateCapabilities ProductionCapabilities = None" by code_simp
  have 2: "ValidateCapabilities (rev requiredCapabilities) = None" by code_simp
  show ?thesis using 1 2 NegotiateCapabilities_total [OF 1 2] by blast
qed

text \<open>The text of a version: two canonical decimal numerals with a dot between them.\<close>

definition version_text :: "nat \<Rightarrow> nat \<Rightarrow> string" where
  "version_text a b = Itoa a @ CHR ''.'' # Itoa b"

lemma dot_not_digit: "\<not> is_digit CHR ''.''"
  by (simp add: is_digit_def byte_code_def)

lemma dot_notin_Itoa: "CHR ''.'' \<notin> set (Itoa n)"
  using Itoa_digits [of n] dot_not_digit by (auto simp: list_all_iff)

lemma versionPattern_version_text: "versionPattern (version_text a b)"
proof -
  have "takeWhile is_digit (version_text a b) = Itoa a"
    and "dropWhile is_digit (version_text a b) = CHR ''.'' # Itoa b"
    using Itoa_digits [of a] dot_not_digit
    by (simp_all add: version_text_def list_all_iff takeWhile_append2 dropWhile_append2)
  then show ?thesis using Itoa_digits [of b] by (simp add: versionPattern_def)
qed

lemma parseVersion_version_text:
  assumes "a < 2 ^ 63" and "b < 2 ^ 63"
  shows "parseVersion (version_text a b) = Some (a, b)"
proof -
  have "Split CHR ''.'' (version_text a b) = [Itoa a, Itoa b]"
    by (simp add: version_text_def Split_append_sep Split_no_sep dot_notin_Itoa)
  then show ?thesis using assms by (simp add: parseVersion_def Atoi_Itoa)
qed

lemma Split_join2: "Split c s = [f, g] \<Longrightarrow> s = f @ c # g"
proof (induction c s arbitrary: f g rule: Split.induct)
  case (2 c x xs)
  show ?case
  proof (cases "x = c")
    case True
    have "Split c xs = [g] \<Longrightarrow> xs = g" for g
    proof (induction c xs arbitrary: g rule: Split.induct)
      case (2 c y ys)
      then show ?case by (auto split: if_splits list.splits elim: Split.elims)
    qed simp
    with True 2 show ?thesis by auto
  next
    case False
    with 2 show ?thesis by (auto split: list.splits)
  qed
qed simp

lemma parseVersion_Some:
  "parseVersion s = Some (a, b) \<Longrightarrow> s = version_text a b \<and> a < 2 ^ 63 \<and> b < 2 ^ 63"
  by (auto simp: parseVersion_def version_text_def Atoi_def
      split: list.splits if_splits option.splits dest!: Split_join2)

text \<open>
  C1. Version negotiation accepts a range exactly when both ends are canonical version numerals
  and the implemented version 1.0 lies between them in the lexicographic order, and it then
  selects 1.0; every other input is the protocol-incompatible error.
\<close>

theorem NegotiateVersion_spec:
  "NegotiateVersion lo hi = Inr v \<longleftrightarrow>
     v = ProtocolVersion \<and>
     (\<exists>a b c d. lo = version_text a b \<and> hi = version_text c d \<and>
        a < 2 ^ 63 \<and> b < 2 ^ 63 \<and> c < 2 ^ 63 \<and> d < 2 ^ 63 \<and>
        (a, b) \<le> (1, 0) \<and> (1, 0) \<le> (c, d))"
proof
  assume n: "NegotiateVersion lo hi = Inr v"
  then obtain a b c d where p: "parseVersion lo = Some (a, b)" "parseVersion hi = Some (c, d)"
    by (auto simp: NegotiateVersion_def split: if_splits option.splits)
  with n have "v = ProtocolVersion" and "(a, b) \<le> (1, 0)" and "(1, 0) \<le> (c, d)"
    by (auto simp: NegotiateVersion_def split: if_splits)
  with p [THEN parseVersion_Some] show "v = ProtocolVersion \<and>
     (\<exists>a b c d. lo = version_text a b \<and> hi = version_text c d \<and>
        a < 2 ^ 63 \<and> b < 2 ^ 63 \<and> c < 2 ^ 63 \<and> d < 2 ^ 63 \<and>
        (a, b) \<le> (1, 0) \<and> (1, 0) \<le> (c, d))"
    by blast
next
  assume "v = ProtocolVersion \<and>
     (\<exists>a b c d. lo = version_text a b \<and> hi = version_text c d \<and>
        a < 2 ^ 63 \<and> b < 2 ^ 63 \<and> c < 2 ^ 63 \<and> d < 2 ^ 63 \<and>
        (a, b) \<le> (1, 0) \<and> (1, 0) \<le> (c, d))"
  then show "NegotiateVersion lo hi = Inr v"
    by (auto simp: NegotiateVersion_def parseVersion_version_text versionPattern_version_text)
qed

lemma SignProofPayload_verify_aux:
  assumes "SignProofPayload payload sign = Inr proof_text"
    and "verify payload (sign payload)"
    and "24 \<le> length (sign payload)" and "length (sign payload) \<le> 12288"
  shows "VerifyProofPayload payload proof_text verify = None"
proof -
  from assms(1) have p: "proof_text = EncodeToString (sign payload)" "payload \<noteq> []"
    by (auto simp: SignProofPayload_def Let_def split: if_splits)
  have "DecodeProof proof_text = Inr (sign payload)"
    using assms(3,4) EncodeToString_ValidateProof [OF assms(3,4)]
    by (auto simp: p DecodeProof_def DecodeString_EncodeToString MaxProofBytes_def)
  with assms(2) p(2) show ?thesis by (simp add: VerifyProofPayload_def)
qed

text \<open>
  C3. A detached proof made by \<open>SignProofPayload\<close> verifies against the same payload whenever the
  key pair verifies its own signature and the signature has between 24 and 12288 bytes, the
  lengths whose base64url text \<open>ValidateProof\<close> admits.
\<close>

theorem SignProofPayload_verifies:
  assumes "SignProofPayload payload sign = Inr proof_text"
    and "verify payload (sign payload)"
    and "24 \<le> length (sign payload)" and "length (sign payload) \<le> 12288"
  shows "VerifyProofPayload payload proof_text verify = None"
  using assms by (rule SignProofPayload_verify_aux)

theorem SignProofPayload_verifies_witness:
  "VerifyProofPayload ''x'' (EncodeToString (replicate 64 CHR ''s'')) (\<lambda>m s. s = replicate 64 CHR ''s'')
     = None"
proof -
  have s: "SignProofPayload ''x'' (\<lambda>_. replicate 64 CHR ''s'') =
             Inr (EncodeToString (replicate 64 CHR ''s''))"
    by (simp add: SignProofPayload_def MaxProofBytes_def)
  show ?thesis
    by (rule SignProofPayload_verifies [OF s]) simp_all
qed

end
