(* ===== verification/Connector_Config.thy ===== *)
theory Connector_Config
  imports Connector_Json
begin

text \<open>
  The tunnel configuration carried by a snapshot or a delta
  (\<open>src/internal/connectorprotocol/protocol.go\<close>, lines 1093 to 1272): the wire structs and the
  validation of a configuration document and of its routes.

  \<open>json.Unmarshal\<close> into these structs (with unknown fields disallowed) is the parameter
  \<open>lib_DecodeConfig\<close>, which extends the record of library functions; the presence of the required
  fields is checked on the document itself, as the code does.
\<close>

section \<open>Wire structs\<close>

record wireConfigRoute =
  route_ID :: string
  route_Name :: string
  route_Protocol :: string
  route_MatchType :: string
  route_MatchHostname :: string
  route_WildcardSuffix :: string
  route_PathPrefix :: "string option"
  route_OriginScheme :: string
  route_OriginAddress :: string
  route_PreserveHost :: bool
  route_HostOverride :: "string option"
  route_TLSVerification :: string
  route_TLSServerName :: "string option"
  route_CAReference :: "string option"
  route_MTLSCredentialReference :: "string option"
  route_ConnectTimeoutMs :: int
  route_IdleTimeoutMs :: int
  route_MaxConcurrentStreams :: int
  route_DesiredState :: string

record wireConfigSnapshot =
  cfg_Schema :: string
  cfg_Kind :: string
  cfg_TunnelID :: string
  cfg_Generation :: uint64
  cfg_Name :: string
  cfg_DesiredState :: string
  cfg_AccessMode :: string
  cfg_StableEndpoint :: string
  cfg_ExpiresAt :: "time option"
  cfg_Routes :: "wireConfigRoute list option"

record cfglib = golib +
  lib_DecodeConfig :: "json \<Rightarrow> wireConfigSnapshot option"

section \<open>Validation\<close>

definition wireHostnamePattern :: "string \<Rightarrow> bool" where
  "wireHostnamePattern value \<longleftrightarrow>
     value \<noteq> [] \<and> length value \<le> 253 \<and>
     list_all (\<lambda>c. is_lower c \<or> is_digit c \<or> c = CHR ''.'' \<or> c = CHR ''-'') value \<and>
     hd value \<noteq> CHR ''-'' \<and> last value \<noteq> CHR ''-''"

definition validWireStableEndpoint :: "('a golib_scheme) \<Rightarrow> string \<Rightarrow> bool" where
  "validWireStableEndpoint L value \<longleftrightarrow>
     \<not> (length value < length ''https://a'' \<or> 264 < length value \<or> TrimSpace value \<noteq> value) \<and>
     (case lib_URLParse L value of
        None \<Rightarrow> False
      | Some parsed \<Rightarrow>
          url_Scheme parsed = ''https'' \<and> \<not> url_HasUser parsed \<and> url_Opaque parsed = '''' \<and>
          url_Path parsed = '''' \<and> url_RawQuery parsed = '''' \<and> url_Fragment parsed = '''' \<and>
          url_Port parsed = '''' \<and> url_Host parsed \<noteq> '''' \<and>
          url_Host parsed = ToLower (url_Host parsed) \<and> wireHostnamePattern (url_Host parsed))"

text \<open>The conditions of \<open>validateWireConfigRoute\<close>, in the order of the code.\<close>

definition route_names_bad :: "wireConfigRoute \<Rightarrow> bool" where
  "route_names_bad r \<longleftrightarrow>
     ValidateIdentifier (route_ID r) \<noteq> None \<or> TrimSpace (route_Name r) \<noteq> route_Name r \<or>
     length (route_Name r) = 0 \<or> 80 < length (route_Name r) \<or>
     TrimSpace (route_OriginAddress r) \<noteq> route_OriginAddress r \<or>
     length (route_OriginAddress r) = 0 \<or> 512 < length (route_OriginAddress r) \<or>
     ContainsAny (route_OriginAddress r) [CHR 0x0D, CHR 0x0A, CHR ''@'']"

definition route_protocol_bad :: "wireConfigRoute \<Rightarrow> bool" where
  "route_protocol_bad r \<longleftrightarrow>
     (if route_Protocol r = ''http'' then route_OriginScheme r = ''tcp''
      else if route_Protocol r = ''tcp_private'' then route_OriginScheme r \<noteq> ''tcp''
      else True)"

definition route_match_bad :: "wireConfigRoute \<Rightarrow> bool" where
  "route_match_bad r \<longleftrightarrow>
     (if route_MatchType r = ''managed_exact'' \<or> route_MatchType r = ''exact''
      then route_MatchHostname r = '''' \<or> route_WildcardSuffix r \<noteq> '''' \<or>
           \<not> wireHostnamePattern (route_MatchHostname r)
      else if route_MatchType r = ''one_label_wildcard''
      then route_MatchHostname r \<noteq> '''' \<or> route_WildcardSuffix r = '''' \<or>
           \<not> wireHostnamePattern (route_WildcardSuffix r)
      else if route_MatchType r = ''catch_all''
      then route_MatchHostname r \<noteq> '''' \<or> route_WildcardSuffix r \<noteq> ''''
      else True)"

definition route_tls_bad :: "wireConfigRoute \<Rightarrow> bool" where
  "route_tls_bad r \<longleftrightarrow>
     route_OriginScheme r \<notin> set [''http'', ''https'', ''h2c'', ''unix'', ''tcp''] \<or>
     route_TLSVerification r \<notin> set [''not_applicable'', ''system'', ''custom_ca'', ''mutual_tls'',
       ''insecure_development''] \<or>
     route_OriginScheme r \<noteq> ''https'' \<and> route_TLSVerification r \<noteq> ''not_applicable''"

definition optional_bad :: "(string \<Rightarrow> bool) \<Rightarrow> string option \<Rightarrow> bool" where
  "optional_bad bad field \<longleftrightarrow> (case field of None \<Rightarrow> False | Some s \<Rightarrow> bad s)"

definition route_options_bad :: "('a golib_scheme) \<Rightarrow> wireConfigRoute \<Rightarrow> bool" where
  "route_options_bad L r \<longleftrightarrow>
     optional_bad (\<lambda>s. length s = 0 \<or> 512 < length s \<or> \<not> HasPrefix s ''/'' \<or>
                       ContainsAny s [CHR 0x0D, CHR 0x0A]) (route_PathPrefix r) \<or>
     optional_bad (\<lambda>s. length s = 0 \<or> 253 < length s \<or> TrimSpace s \<noteq> s) (route_HostOverride r) \<or>
     optional_bad (\<lambda>s. length s = 0 \<or> 253 < length s \<or> TrimSpace s \<noteq> s \<or>
                       ContainsAny s [CHR 0x0D, CHR 0x0A]) (route_TLSServerName r) \<or>
     list_ex (optional_bad (\<lambda>s. ValidateCredentialReference L s \<noteq> None))
       [route_CAReference r, route_MTLSCredentialReference r]"

definition route_limits_bad :: "wireConfigRoute \<Rightarrow> bool" where
  "route_limits_bad r \<longleftrightarrow>
     route_ConnectTimeoutMs r < 100 \<or> 120000 < route_ConnectTimeoutMs r \<or>
     route_IdleTimeoutMs r < 1000 \<or> 3600000 < route_IdleTimeoutMs r \<or>
     route_MaxConcurrentStreams r < 1 \<or> 100000 < route_MaxConcurrentStreams r \<or>
     route_DesiredState r \<notin> set [''active'', ''disabled'', ''deleted'']"

definition validateWireConfigRoute :: "('a golib_scheme) \<Rightarrow> wireConfigRoute \<Rightarrow> error option" where
  "validateWireConfigRoute L r =
     (if route_names_bad r then Some ErrInvalidInput
      else if route_protocol_bad r then Some ErrInvalidInput
      else if route_match_bad r then Some ErrInvalidInput
      else if route_tls_bad r then Some ErrInvalidInput
      else if route_options_bad L r then Some ErrInvalidInput
      else if route_limits_bad r then Some ErrInvalidInput
      else None)"

definition snapshot_fields :: "string list" where
  "snapshot_fields =
     [''schema'', ''kind'', ''tunnel_id'', ''generation'', ''name'', ''desired_state'',
      ''access_mode'', ''stable_endpoint'', ''expires_at'', ''routes'']"

definition route_fields :: "string list" where
  "route_fields =
     [''id'', ''name'', ''protocol'', ''match_type'', ''path_prefix'', ''origin_scheme'',
      ''origin_address'', ''preserve_host'', ''host_override'', ''tls_verification'',
      ''tls_server_name'', ''ca_reference'', ''mtls_credential_reference'',
      ''connect_timeout_ms'', ''idle_timeout_ms'', ''max_concurrent_streams'', ''desired_state'']"

text \<open>The loop over the routes: the raw document of each route beside its decoded struct.\<close>

fun validate_routes :: "('a golib_scheme) \<Rightarrow> (json \<times> wireConfigRoute) list \<Rightarrow> error option" where
  "validate_routes L [] = None"
| "validate_routes L ((raw, route) # rest) =
     (case raw of
        JObject kvs \<Rightarrow>
          (case find (\<lambda>field. field \<notin> set (map fst kvs)) route_fields of
             Some field \<Rightarrow>
               Some (ErrorWrap (''route field '' @ field @ '' is required'') ErrSnapshotRejected)
           | None \<Rightarrow>
               (case validateWireConfigRoute L route of
                  Some err \<Rightarrow> Some (ErrorWrap ''route'' ErrSnapshotRejected)
                | None \<Rightarrow> validate_routes L rest))
      | _ \<Rightarrow> Some ErrSnapshotRejected)"

definition raw_routes :: "(string \<times> json) list \<Rightarrow> json list option" where
  "raw_routes kvs =
     (case map_of kvs ''routes'' of
        Some (JArray raws) \<Rightarrow> Some raws
      | Some JNull \<Rightarrow> Some []
      | _ \<Rightarrow> None)"

definition config_header_bad :: "('a golib_scheme) \<Rightarrow> wireConfigSnapshot \<Rightarrow> string \<Rightarrow> uint64 \<Rightarrow> bool" where
  "config_header_bad L snapshot tunnelID generation \<longleftrightarrow>
     cfg_Schema snapshot \<noteq> ''paperboat.preview-tunnel/v1'' \<or>
     cfg_Kind snapshot \<noteq> ''tunnel_config_snapshot'' \<or> cfg_TunnelID snapshot \<noteq> tunnelID \<or>
     cfg_Generation snapshot \<noteq> generation \<or> TrimSpace (cfg_Name snapshot) \<noteq> cfg_Name snapshot \<or>
     length (cfg_Name snapshot) = 0 \<or> 80 < length (cfg_Name snapshot) \<or>
     cfg_DesiredState snapshot \<notin> set [''active'', ''paused'', ''deleted''] \<or>
     cfg_AccessMode snapshot \<notin> set [''public'', ''private'', ''team''] \<or>
     cfg_Routes snapshot = None \<or> \<not> validWireStableEndpoint L (cfg_StableEndpoint snapshot)"

definition validateConfigSnapshotPayload ::
  "('a cfglib_scheme) \<Rightarrow> json \<Rightarrow> string \<Rightarrow> uint64 \<Rightarrow> error option" where
  "validateConfigSnapshotPayload L payload tunnelID generation =
     (case payload of
        JObject kvs \<Rightarrow>
          (case find (\<lambda>field. field \<notin> set (map fst kvs)) snapshot_fields of
             Some field \<Rightarrow>
               Some (ErrorWrap (''snapshot field '' @ field @ '' is required'') ErrSnapshotRejected)
           | None \<Rightarrow>
               (case lib_DecodeConfig L payload of
                  None \<Rightarrow> Some (ErrorWrap ''snapshot shape'' ErrSnapshotRejected)
                | Some snapshot \<Rightarrow>
                    if config_header_bad L snapshot tunnelID generation
                    then Some ErrSnapshotRejected
                    else case raw_routes kvs of
                      None \<Rightarrow> Some ErrSnapshotRejected
                    | Some raws \<Rightarrow>
                        (let routes = the (cfg_Routes snapshot) in
                         if length raws \<noteq> length routes then Some ErrSnapshotRejected
                         else validate_routes L (zip raws routes))))
      | _ \<Rightarrow> Some ErrSnapshotRejected)"

section \<open>What a validated configuration guarantees\<close>

text \<open>The guarantees of one route, as a specification.\<close>

definition route_safe :: "wireConfigRoute \<Rightarrow> bool" where
  "route_safe r \<longleftrightarrow>
     (route_Protocol r = ''tcp_private'') = (route_OriginScheme r = ''tcp'') \<and>
     (route_Protocol r = ''http'' \<or> route_Protocol r = ''tcp_private'') \<and>
     (route_OriginScheme r \<noteq> ''https'' \<longrightarrow> route_TLSVerification r = ''not_applicable'') \<and>
     \<not> (route_MatchHostname r \<noteq> '''' \<and> route_WildcardSuffix r \<noteq> '''') \<and>
     (route_MatchHostname r = '''' \<and> route_WildcardSuffix r = '''' \<longrightarrow>
        route_MatchType r = ''catch_all'') \<and>
     route_ConnectTimeoutMs r \<in> {100..120000} \<and> route_IdleTimeoutMs r \<in> {1000..3600000} \<and>
     route_MaxConcurrentStreams r \<in> {1..100000}"

lemma validateWireConfigRoute_safe: "validateWireConfigRoute L r = None \<Longrightarrow> route_safe r"
  by (auto simp: validateWireConfigRoute_def route_protocol_bad_def route_match_bad_def
      route_tls_bad_def route_limits_bad_def route_safe_def split: if_splits)

lemma validate_routes_safe:
  "validate_routes L xs = None \<Longrightarrow> \<forall>r \<in> set (map snd xs). route_safe r"
  by (induction L xs rule: validate_routes.induct)
     (auto split: json.splits option.splits dest: validateWireConfigRoute_safe)

section \<open>A sample configuration\<close>

text \<open>
  A tunnel with one HTTP route, in two generations, and the library functions on the texts it is
  made of: closed examples for the theorems whose hypotheses speak of the library.
\<close>

definition sample_route_doc :: json where
  "sample_route_doc = JObject
     [(''ca_reference'', JNull), (''connect_timeout_ms'', JNumber ''1000''),
      (''desired_state'', JString ''active''), (''host_override'', JNull),
      (''id'', JString ''rt_1''), (''idle_timeout_ms'', JNumber ''60000''),
      (''match_type'', JString ''catch_all''), (''max_concurrent_streams'', JNumber ''8''),
      (''mtls_credential_reference'', JNull), (''name'', JString ''web''),
      (''origin_address'', JString ''localhost:8080''), (''origin_scheme'', JString ''http''),
      (''path_prefix'', JNull), (''preserve_host'', JBool False), (''protocol'', JString ''http''),
      (''tls_server_name'', JNull), (''tls_verification'', JString ''not_applicable'')]"

definition sample_doc :: "string \<Rightarrow> json" where
  "sample_doc generation = JObject
     [(''access_mode'', JString ''public''), (''desired_state'', JString ''active''),
      (''expires_at'', JNull), (''generation'', JNumber generation),
      (''kind'', JString ''tunnel_config_snapshot''), (''name'', JString ''demo''),
      (''routes'', JArray [sample_route_doc]),
      (''schema'', JString ''paperboat.preview-tunnel/v1''),
      (''stable_endpoint'', JString ''https://demo.test''), (''tunnel_id'', JString ''tun_1'')]"

definition sample_route :: wireConfigRoute where
  "sample_route =
     \<lparr>route_ID = ''rt_1'', route_Name = ''web'', route_Protocol = ''http'',
      route_MatchType = ''catch_all'', route_MatchHostname = '''', route_WildcardSuffix = '''',
      route_PathPrefix = None, route_OriginScheme = ''http'',
      route_OriginAddress = ''localhost:8080'', route_PreserveHost = False,
      route_HostOverride = None, route_TLSVerification = ''not_applicable'',
      route_TLSServerName = None, route_CAReference = None, route_MTLSCredentialReference = None,
      route_ConnectTimeoutMs = 1000, route_IdleTimeoutMs = 60000,
      route_MaxConcurrentStreams = 8, route_DesiredState = ''active''\<rparr>"

definition sample_config :: "uint64 \<Rightarrow> wireConfigSnapshot" where
  "sample_config generation =
     \<lparr>cfg_Schema = ''paperboat.preview-tunnel/v1'', cfg_Kind = ''tunnel_config_snapshot'',
      cfg_TunnelID = ''tun_1'', cfg_Generation = generation, cfg_Name = ''demo'',
      cfg_DesiredState = ''active'', cfg_AccessMode = ''public'',
      cfg_StableEndpoint = ''https://demo.test'', cfg_ExpiresAt = None,
      cfg_Routes = Some [sample_route]\<rparr>"

definition sample_url :: url where
  "sample_url =
     \<lparr>url_Scheme = ''https'', url_Opaque = '''', url_HasUser = False, url_Host = ''demo.test'',
      url_Port = '''', url_Path = '''', url_RawQuery = '''', url_QueryKeys = [], url_Fragment = ''''\<rparr>"

definition sample_quote :: "string \<Rightarrow> string" where
  "sample_quote s = CHR 0x22 # s @ [CHR 0x22]"

definition sample_base :: cfglib where
  "sample_base =
     \<lparr>lib_URLParse = (\<lambda>s. if s = ''https://demo.test'' then Some sample_url else None),
      lib_Sum256 = (\<lambda>s. replicate 32 (if 2 \<le> length (filter (\<lambda>c. c = CHR ''2'') s) then CHR 0x02 else CHR 0x01)),
      lib_JSONTokens = (\<lambda>_. []), lib_JSONQuote = sample_quote,
      lib_DecodeConfig = (\<lambda>v. if v = sample_doc ''1'' then Some (sample_config 1)
                              else if v = sample_doc ''2'' then Some (sample_config 2) else None)\<rparr>"

definition sample_text :: "string \<Rightarrow> string" where
  "sample_text generation = json_Marshal sample_base (sample_doc generation)"

section \<open>Soundness of the validation\<close>

text \<open>
  C7. A configuration payload that \<open>validateConfigSnapshotPayload\<close> accepts decodes to a snapshot of
  exactly the expected tunnel and generation, in a known state and access mode, with a stable
  HTTPS endpoint that carries no user, port, path, query or fragment, and with routes that are all
  internally consistent: private TCP routes have TCP origins and only those do, TLS verification is
  configured only for HTTPS origins, a route without host pattern is a catch-all, and every timeout
  and stream limit is in its range.
\<close>

theorem validateConfigSnapshotPayload_sound:
  assumes "validateConfigSnapshotPayload L payload tunnelID generation = None"
  shows "\<exists>snapshot routes.
     lib_DecodeConfig L payload = Some snapshot \<and> cfg_Routes snapshot = Some routes \<and>
     cfg_TunnelID snapshot = tunnelID \<and> cfg_Generation snapshot = generation \<and>
     cfg_DesiredState snapshot \<in> {''active'', ''paused'', ''deleted''} \<and>
     cfg_AccessMode snapshot \<in> {''public'', ''private'', ''team''} \<and>
     validWireStableEndpoint L (cfg_StableEndpoint snapshot) \<and> list_all route_safe routes"
proof -
  from assms obtain kvs snapshot raws where
      decode: "lib_DecodeConfig L payload = Some snapshot"
    and header: "\<not> config_header_bad L snapshot tunnelID generation"
    and len: "length raws = length (the (cfg_Routes snapshot))"
    and routes: "validate_routes L (zip raws (the (cfg_Routes snapshot))) = None"
    by (auto simp: validateConfigSnapshotPayload_def Let_def
        split: json.splits option.splits if_splits)
  from header obtain routes where r: "cfg_Routes snapshot = Some routes"
    by (auto simp: config_header_bad_def)
  have "\<forall>r \<in> set routes. route_safe r"
    using validate_routes_safe [OF routes] len r by (simp flip: set_map)
  with decode header r show ?thesis
    by (auto simp: config_header_bad_def list_all_iff)
qed

theorem validateConfigSnapshotPayload_sound_witness:
  "\<exists>snapshot routes.
     lib_DecodeConfig sample_base (sample_doc ''1'') = Some snapshot \<and>
     cfg_Routes snapshot = Some routes \<and>
     cfg_TunnelID snapshot = ''tun_1'' \<and> cfg_Generation snapshot = 1 \<and>
     cfg_DesiredState snapshot \<in> {''active'', ''paused'', ''deleted''} \<and>
     cfg_AccessMode snapshot \<in> {''public'', ''private'', ''team''} \<and>
     validWireStableEndpoint sample_base (cfg_StableEndpoint snapshot) \<and> list_all route_safe routes"
proof -
  have "validateConfigSnapshotPayload sample_base (sample_doc ''1'') ''tun_1'' 1 = None"
    by code_simp
  then show ?thesis by (rule validateConfigSnapshotPayload_sound)
qed

end
