(* ===== verification/Connector_Messages.thy ===== *)
theory Connector_Messages
  imports Connector_Config
begin

text \<open>
  The messages of the connector protocol and their \<open>Validate\<close> methods
  (\<open>src/internal/connectorprotocol/protocol.go\<close>, lines 802 to 1105 and 1274 to 1580).

  A \<open>Validate\<close> method is a function into \<open>error option\<close>, \<open>None\<close> for a nil error. A time argument
  of 0 is the zero \<open>time.Time\<close>, with which the code asks for the checks that need no clock.
\<close>

section \<open>Authentication\<close>

record AuthRequest =
  auth_AccountID :: string
  auth_TunnelID :: string
  auth_ConnectorID :: string
  auth_HostID :: string
  auth_IdentityKeyID :: string
  auth_IdentityKeyThumbprint :: string
  auth_ProcessGeneration :: uint64
  auth_CredentialGeneration :: uint64
  auth_Nonce :: string
  auth_SignedProof :: string
  auth_IssuedAt :: time
  auth_ExpiresAt :: time

definition AuthRequest_validate :: "time \<Rightarrow> bool \<Rightarrow> AuthRequest \<Rightarrow> error option" where
  "AuthRequest_validate now requireProof a =
     (if ValidateIdentifier (auth_AccountID a) \<noteq> None \<or> ValidateIdentifier (auth_TunnelID a) \<noteq> None
         \<or> ValidateIdentifier (auth_ConnectorID a) \<noteq> None \<or> ValidateIdentifier (auth_HostID a) \<noteq> None
         \<or> ValidateIdentityKey (auth_IdentityKeyID a) (auth_IdentityKeyThumbprint a) \<noteq> None
      then Some ErrInvalidInput
      else if bad_nonce (auth_Nonce a) \<or> auth_ProcessGeneration a = 0
         \<or> auth_CredentialGeneration a = 0 \<or> time_IsZero (auth_IssuedAt a)
         \<or> time_IsZero (auth_ExpiresAt a) \<or> \<not> time_After (auth_ExpiresAt a) (auth_IssuedAt a)
         \<or> 15 * Minute < time_Sub (auth_ExpiresAt a) (auth_IssuedAt a)
         \<or> requireProof \<and> ValidateProof (auth_SignedProof a) \<noteq> None
      then Some ErrInvalidInput
      else if \<not> time_IsZero now \<and> (time_After (auth_IssuedAt a) (time_Add now MaxClockSkew)
         \<or> MaxClockSkew < time_Sub now (auth_IssuedAt a) \<or> \<not> time_After (auth_ExpiresAt a) now)
      then Some (codeError ErrCredentialExpired ReasonCredentialExpired True None)
      else None)"

definition AuthRequest_Validate :: "time \<Rightarrow> AuthRequest \<Rightarrow> error option" where
  "AuthRequest_Validate now a = AuthRequest_validate now True a"

record AuthResult =
  res_AccountID :: string
  res_TunnelID :: string
  res_ConnectorID :: string
  res_SessionID :: string
  res_HostID :: string
  res_IdentityKeyID :: string
  res_IdentityKeyThumbprint :: string
  res_ProcessGeneration :: uint64
  res_CredentialGeneration :: uint64
  res_CredentialExpiresAt :: time
  res_LeaseExpiresAt :: time

definition AuthResult_Validate :: "time \<Rightarrow> AuthResult \<Rightarrow> error option" where
  "AuthResult_Validate now a =
     (if list_ex (\<lambda>value. ValidateIdentifier value \<noteq> None)
           [res_AccountID a, res_TunnelID a, res_ConnectorID a, res_HostID a]
      then Some ErrAuthenticationFailed
      else if res_SessionID a \<noteq> '''' \<and> ValidateIdentifier (res_SessionID a) \<noteq> None
      then Some ErrAuthenticationFailed
      else if ValidateIdentityKey (res_IdentityKeyID a) (res_IdentityKeyThumbprint a) \<noteq> None
         \<or> res_ProcessGeneration a = 0 \<or> res_CredentialGeneration a = 0
         \<or> time_IsZero (res_CredentialExpiresAt a) \<or> time_IsZero (res_LeaseExpiresAt a)
         \<or> time_After (res_LeaseExpiresAt a) (res_CredentialExpiresAt a)
      then Some ErrAuthenticationFailed
      else if \<not> time_IsZero now \<and> (\<not> time_After (res_CredentialExpiresAt a) now
         \<or> \<not> time_After (res_LeaseExpiresAt a) now
         \<or> MaxLease < time_Sub (res_LeaseExpiresAt a) now)
      then Some ErrAuthenticationFailed
      else None)"

definition AuthResult_ValidateBound :: "AuthResult \<Rightarrow> error option" where
  "AuthResult_ValidateBound a =
     (if AuthResult_Validate 0 a \<noteq> None \<or> ValidateIdentifier (res_SessionID a) \<noteq> None
      then Some ErrAuthenticationFailed else None)"

record RenewalRequest =
  ren_SessionID :: string
  ren_AccountID :: string
  ren_TunnelID :: string
  ren_ConnectorID :: string
  ren_HostID :: string
  ren_IdentityKeyID :: string
  ren_IdentityKeyThumbprint :: string
  ren_ProcessGeneration :: uint64
  ren_CredentialGeneration :: uint64
  ren_Nonce :: string
  ren_SignedProof :: string
  ren_RequestedAt :: time

definition RenewalRequest_validate :: "bool \<Rightarrow> RenewalRequest \<Rightarrow> error option" where
  "RenewalRequest_validate requireProof r =
     (if ValidateIdentifier (ren_SessionID r) \<noteq> None \<or> ValidateIdentifier (ren_AccountID r) \<noteq> None
         \<or> ValidateIdentifier (ren_TunnelID r) \<noteq> None \<or> ValidateIdentifier (ren_ConnectorID r) \<noteq> None
         \<or> ValidateIdentifier (ren_HostID r) \<noteq> None
         \<or> ValidateIdentityKey (ren_IdentityKeyID r) (ren_IdentityKeyThumbprint r) \<noteq> None
         \<or> ren_ProcessGeneration r = 0 \<or> ren_CredentialGeneration r = 0
         \<or> bad_nonce (ren_Nonce r) \<or> time_IsZero (ren_RequestedAt r)
         \<or> requireProof \<and> ValidateProof (ren_SignedProof r) \<noteq> None
      then Some ErrInvalidInput else None)"

definition RenewalRequest_Validate :: "RenewalRequest \<Rightarrow> error option" where
  "RenewalRequest_Validate r = RenewalRequest_validate True r"

definition RenewalRequest_ValidateAt :: "time \<Rightarrow> RenewalRequest \<Rightarrow> error option" where
  "RenewalRequest_ValidateAt now r =
     (case RenewalRequest_validate True r of
        Some err \<Rightarrow> Some err
      | None \<Rightarrow>
          if \<not> time_IsZero now \<and> (time_After (ren_RequestedAt r) (time_Add now MaxClockSkew)
             \<or> MaxClockSkew < time_Sub now (ren_RequestedAt r))
          then Some (codeError ErrAuthenticationFailed ReasonAuthentication False
                 (Some (ErrorString ''renewal request is outside clock skew'')))
          else None)"

section \<open>Signed transcripts\<close>

record authProofTranscript =
  tr_Domain :: string
  tr_Protocol :: string
  tr_Version :: string
  tr_AccountID :: string
  tr_TunnelID :: string
  tr_ConnectorID :: string
  tr_HostID :: string
  tr_IdentityKeyID :: string
  tr_IdentityKeyThumbprint :: string
  tr_ProcessGeneration :: uint64
  tr_CredentialGeneration :: uint64
  tr_SessionID :: string
  tr_Nonce :: string
  tr_IssuedAt :: time
  tr_ExpiresAt :: time
  tr_RequestedAt :: time

text \<open>\<open>json.Marshal\<close> of a transcript is the next library parameter.\<close>

record msglib = cfglib +
  lib_MarshalTranscript :: "authProofTranscript \<Rightarrow> error + string"

definition auth_transcript :: "AuthRequest \<Rightarrow> authProofTranscript" where
  "auth_transcript a =
     \<lparr>tr_Domain = ''paperboat.connector.auth.v1'', tr_Protocol = ProtocolName,
      tr_Version = ProtocolVersion, tr_AccountID = auth_AccountID a, tr_TunnelID = auth_TunnelID a,
      tr_ConnectorID = auth_ConnectorID a, tr_HostID = auth_HostID a,
      tr_IdentityKeyID = auth_IdentityKeyID a,
      tr_IdentityKeyThumbprint = auth_IdentityKeyThumbprint a,
      tr_ProcessGeneration = auth_ProcessGeneration a,
      tr_CredentialGeneration = auth_CredentialGeneration a, tr_SessionID = '''',
      tr_Nonce = auth_Nonce a, tr_IssuedAt = auth_IssuedAt a, tr_ExpiresAt = auth_ExpiresAt a,
      tr_RequestedAt = 0\<rparr>"

definition renewal_transcript :: "RenewalRequest \<Rightarrow> authProofTranscript" where
  "renewal_transcript r =
     \<lparr>tr_Domain = ''paperboat.connector.auth.renew.v1'', tr_Protocol = ProtocolName,
      tr_Version = ProtocolVersion, tr_AccountID = ren_AccountID r, tr_TunnelID = ren_TunnelID r,
      tr_ConnectorID = ren_ConnectorID r, tr_HostID = ren_HostID r,
      tr_IdentityKeyID = ren_IdentityKeyID r,
      tr_IdentityKeyThumbprint = ren_IdentityKeyThumbprint r,
      tr_ProcessGeneration = ren_ProcessGeneration r,
      tr_CredentialGeneration = ren_CredentialGeneration r, tr_SessionID = ren_SessionID r,
      tr_Nonce = ren_Nonce r, tr_IssuedAt = 0, tr_ExpiresAt = 0,
      tr_RequestedAt = ren_RequestedAt r\<rparr>"

definition AuthProofPayload :: "('a msglib_scheme) \<Rightarrow> AuthRequest \<Rightarrow> error + string" where
  "AuthProofPayload L request =
     (case AuthRequest_validate 0 False request of
        Some err \<Rightarrow> Inl err
      | None \<Rightarrow> lib_MarshalTranscript L (auth_transcript request))"

definition RenewalProofPayload :: "('a msglib_scheme) \<Rightarrow> RenewalRequest \<Rightarrow> error + string" where
  "RenewalProofPayload L request =
     (case RenewalRequest_validate False request of
        Some err \<Rightarrow> Inl err
      | None \<Rightarrow> lib_MarshalTranscript L (renewal_transcript request))"

definition VerifyAuthProof ::
  "('a msglib_scheme) \<Rightarrow> AuthRequest \<Rightarrow> (string \<Rightarrow> string \<Rightarrow> bool) \<Rightarrow> error option" where
  "VerifyAuthProof L request verify =
     (case AuthProofPayload L request of
        Inl err \<Rightarrow> Some err
      | Inr payload \<Rightarrow> VerifyProofPayload payload (auth_SignedProof request) verify)"

text \<open>
  \<open>SignAuthProof\<close> and \<open>SignRenewalProof\<close> return a request and an error; the request is the zero
  value unless the signature was made, so the model returns the error alone in those cases.
\<close>

definition SignAuthProof ::
  "('a msglib_scheme) \<Rightarrow> AuthRequest \<Rightarrow> (string \<Rightarrow> string) \<Rightarrow> error + (AuthRequest \<times> error option)" where
  "SignAuthProof L request sign =
     (case AuthProofPayload L request of
        Inl err \<Rightarrow> Inl err
      | Inr payload \<Rightarrow>
          (case SignProofPayload payload sign of
             Inl err \<Rightarrow> Inl err
           | Inr signedProof \<Rightarrow>
               (let request' = request\<lparr>auth_SignedProof := signedProof\<rparr>
                in Inr (request', AuthRequest_Validate 0 request'))))"

definition VerifyRenewalProof ::
  "('a msglib_scheme) \<Rightarrow> RenewalRequest \<Rightarrow> (string \<Rightarrow> string \<Rightarrow> bool) \<Rightarrow> error option" where
  "VerifyRenewalProof L request verify =
     (case RenewalProofPayload L request of
        Inl err \<Rightarrow> Some err
      | Inr payload \<Rightarrow> VerifyProofPayload payload (ren_SignedProof request) verify)"

definition SignRenewalProof ::
  "('a msglib_scheme) \<Rightarrow> RenewalRequest \<Rightarrow> (string \<Rightarrow> string) \<Rightarrow> error + (RenewalRequest \<times> error option)"
  where
  "SignRenewalProof L request sign =
     (case RenewalProofPayload L request of
        Inl err \<Rightarrow> Inl err
      | Inr payload \<Rightarrow>
          (case SignProofPayload payload sign of
             Inl err \<Rightarrow> Inl err
           | Inr signedProof \<Rightarrow>
               (let request' = request\<lparr>ren_SignedProof := signedProof\<rparr>
                in Inr (request', RenewalRequest_Validate request'))))"

section \<open>Session establishment\<close>

record Lease =
  lease_SessionID :: string
  lease_ExpiresAt :: time
  lease_HeartbeatIntervalMS :: uint32

definition heartbeat_interval :: "Lease \<Rightarrow> duration" where
  "heartbeat_interval l = uint (lease_HeartbeatIntervalMS l) * Millisecond"

definition Lease_Validate :: "time \<Rightarrow> Lease \<Rightarrow> error option" where
  "Lease_Validate now l =
     (if ValidateIdentifier (lease_SessionID l) \<noteq> None \<or> time_IsZero (lease_ExpiresAt l)
         \<or> lease_HeartbeatIntervalMS l = 0
      then Some ErrInvalidInput
      else if \<not> time_IsZero now \<and> (\<not> time_After (lease_ExpiresAt l) now
         \<or> MaxLease < time_Sub (lease_ExpiresAt l) now
         \<or> time_Sub (lease_ExpiresAt l) now \<le> heartbeat_interval l)
      then Some ErrInvalidInput
      else None)"

record Hello =
  hello_Protocol :: string
  hello_MinVersion :: string
  hello_MaxVersion :: string
  hello_AccountID :: string
  hello_TunnelID :: string
  hello_ConnectorID :: string
  hello_HostID :: string
  hello_ProcessGeneration :: uint64
  hello_Capabilities :: "string list"
  hello_Auth :: AuthRequest

definition Hello_Validate :: "time \<Rightarrow> Hello \<Rightarrow> error option" where
  "Hello_Validate now h =
     (if hello_Protocol h \<noteq> ProtocolName \<or> hello_MinVersion h = '''' \<or> hello_MaxVersion h = ''''
         \<or> ValidateIdentifier (hello_AccountID h) \<noteq> None \<or> ValidateIdentifier (hello_TunnelID h) \<noteq> None
         \<or> ValidateIdentifier (hello_ConnectorID h) \<noteq> None \<or> ValidateIdentifier (hello_HostID h) \<noteq> None
         \<or> hello_ProcessGeneration h = 0
      then Some ErrInvalidInput
      else case NegotiateVersion (hello_MinVersion h) (hello_MaxVersion h) of
        Inl err \<Rightarrow> Some err
      | Inr _ \<Rightarrow>
          (case ValidateCapabilities (hello_Capabilities h) of
             Some err \<Rightarrow> Some err
           | None \<Rightarrow>
               if auth_AccountID (hello_Auth h) \<noteq> hello_AccountID h
                  \<or> auth_TunnelID (hello_Auth h) \<noteq> hello_TunnelID h
                  \<or> auth_ConnectorID (hello_Auth h) \<noteq> hello_ConnectorID h
                  \<or> auth_HostID (hello_Auth h) \<noteq> hello_HostID h
                  \<or> auth_ProcessGeneration (hello_Auth h) \<noteq> hello_ProcessGeneration h
               then Some (codeError ErrIdentityMismatch ReasonAuthentication False None)
               else AuthRequest_Validate now (hello_Auth h)))"

record Welcome =
  welcome_Protocol :: string
  welcome_Version :: string
  welcome_SessionID :: string
  welcome_Capabilities :: "string list"
  welcome_Lease :: Lease
  welcome_RequiresSnapshot :: bool
  welcome_ServerTime :: time

definition Welcome_Validate :: "time \<Rightarrow> Welcome \<Rightarrow> error option" where
  "Welcome_Validate now w =
     (if welcome_Protocol w \<noteq> ProtocolName \<or> welcome_Version w \<noteq> ProtocolVersion
         \<or> ValidateIdentifier (welcome_SessionID w) \<noteq> None \<or> \<not> welcome_RequiresSnapshot w
         \<or> ValidateCapabilities (welcome_Capabilities w) \<noteq> None \<or> time_IsZero (welcome_ServerTime w)
         \<or> lease_SessionID (welcome_Lease w) \<noteq> welcome_SessionID w
      then Some ErrInvalidInput
      else Lease_Validate now (welcome_Lease w))"

section \<open>Configuration messages\<close>

record Snapshot =
  snap_AccountID :: string
  snap_TunnelID :: string
  snap_ConnectorID :: string
  snap_SessionID :: string
  snap_ProcessGeneration :: uint64
  snap_Generation :: uint64
  snap_ContentHash :: string
  snap_Payload :: string

definition zero_Snapshot :: Snapshot where
  "zero_Snapshot =
     \<lparr>snap_AccountID = '''', snap_TunnelID = '''', snap_ConnectorID = '''', snap_SessionID = '''',
      snap_ProcessGeneration = 0, snap_Generation = 0, snap_ContentHash = '''', snap_Payload = ''''\<rparr>"

definition content_hash :: "('a golib_scheme) \<Rightarrow> string \<Rightarrow> string" where
  "content_hash L canonical = ''sha256:'' @ hex_EncodeToString (lib_Sum256 L canonical)"

definition NewSnapshot ::
  "('a cfglib_scheme) \<Rightarrow> string \<Rightarrow> uint64 \<Rightarrow> string \<Rightarrow> error + Snapshot" where
  "NewSnapshot L tunnelID generation payload =
     (if ValidateIdentifier tunnelID \<noteq> None \<or> generation = 0 \<or> length payload = 0
         \<or> MaxSnapshotBytes < length payload
      then Inl ErrInvalidInput
      else case canonical_value L payload MaxSnapshotBytes of
        Inl err \<Rightarrow> Inl err
      | Inr value \<Rightarrow>
          (case validateConfigSnapshotPayload L value tunnelID generation of
             Some err \<Rightarrow> Inl err
           | None \<Rightarrow>
               (let canonical = json_Marshal L value in
                Inr (zero_Snapshot
                      \<lparr>snap_TunnelID := tunnelID, snap_Generation := generation,
                       snap_ContentHash := content_hash L canonical, snap_Payload := canonical\<rparr>))))"

definition Snapshot_Validate :: "('a cfglib_scheme) \<Rightarrow> Snapshot \<Rightarrow> error option" where
  "Snapshot_Validate L s =
     (if ValidateIdentifier (snap_TunnelID s) \<noteq> None
         \<or> snap_AccountID s \<noteq> '''' \<and> ValidateIdentifier (snap_AccountID s) \<noteq> None
         \<or> snap_SessionID s \<noteq> '''' \<and> ValidateIdentifier (snap_SessionID s) \<noteq> None
         \<or> snap_Generation s = 0 \<or> \<not> hashPattern (snap_ContentHash s)
         \<or> length (snap_Payload s) = 0 \<or> MaxSnapshotBytes < length (snap_Payload s)
      then Some ErrInvalidInput
      else case canonical_value L (snap_Payload s) MaxSnapshotBytes of
        Inl err \<Rightarrow> Some (codeError ErrContentHashMismatch ReasonSnapshotRejected False (Some err))
      | Inr value \<Rightarrow>
          (let canonical = json_Marshal L value in
           if canonical \<noteq> snap_Payload s
           then Some (codeError ErrContentHashMismatch ReasonSnapshotRejected False None)
           else if snap_ContentHash s \<noteq> content_hash L canonical
           then Some (codeError ErrContentHashMismatch ReasonSnapshotRejected False None)
           else case validateConfigSnapshotPayload L value (snap_TunnelID s) (snap_Generation s) of
             Some err \<Rightarrow> Some (codeError ErrSnapshotRejected ReasonSnapshotRejected False (Some err))
           | None \<Rightarrow> None))"

definition Snapshot_ValidateBound :: "('a cfglib_scheme) \<Rightarrow> Snapshot \<Rightarrow> error option" where
  "Snapshot_ValidateBound L s =
     (if ValidateIdentifier (snap_AccountID s) \<noteq> None \<or> ValidateIdentifier (snap_ConnectorID s) \<noteq> None
         \<or> ValidateIdentifier (snap_SessionID s) \<noteq> None \<or> snap_ProcessGeneration s = 0
      then Some ErrInvalidInput
      else Snapshot_Validate L s)"

record Delta =
  delta_AccountID :: string
  delta_TunnelID :: string
  delta_ConnectorID :: string
  delta_SessionID :: string
  delta_ProcessGeneration :: uint64
  delta_PreviousGeneration :: uint64
  delta_Generation :: uint64
  delta_PreviousContentHash :: string
  delta_ContentHash :: string
  delta_Payload :: string

definition zero_Delta :: Delta where
  "zero_Delta =
     \<lparr>delta_AccountID = '''', delta_TunnelID = '''', delta_ConnectorID = '''',
      delta_SessionID = '''', delta_ProcessGeneration = 0, delta_PreviousGeneration = 0,
      delta_Generation = 0, delta_PreviousContentHash = '''', delta_ContentHash = '''',
      delta_Payload = ''''\<rparr>"

definition NewDelta ::
  "('a cfglib_scheme) \<Rightarrow> string \<Rightarrow> Snapshot \<Rightarrow> uint64 \<Rightarrow> string \<Rightarrow> error + Delta" where
  "NewDelta L tunnelID previous generation payload =
     (let err = Snapshot_Validate L previous in
      if err \<noteq> None \<or> generation \<noteq> snap_Generation previous + 1
      then Inl (codeError ErrGenerationGap ReasonGenerationGap False err)
      else case NewSnapshot L tunnelID generation payload of
        Inl err \<Rightarrow> Inl err
      | Inr snapshot \<Rightarrow>
          Inr (zero_Delta
                \<lparr>delta_TunnelID := tunnelID, delta_PreviousGeneration := snap_Generation previous,
                 delta_Generation := generation,
                 delta_PreviousContentHash := snap_ContentHash previous,
                 delta_ContentHash := snap_ContentHash snapshot,
                 delta_Payload := snap_Payload snapshot\<rparr>))"

definition Delta_Validate :: "('a cfglib_scheme) \<Rightarrow> Delta \<Rightarrow> error option" where
  "Delta_Validate L d =
     (if ValidateIdentifier (delta_TunnelID d) \<noteq> None
         \<or> delta_AccountID d \<noteq> '''' \<and> ValidateIdentifier (delta_AccountID d) \<noteq> None
         \<or> delta_SessionID d \<noteq> '''' \<and> ValidateIdentifier (delta_SessionID d) \<noteq> None
         \<or> \<not> hashPattern (delta_PreviousContentHash d) \<or> \<not> hashPattern (delta_ContentHash d)
         \<or> length (delta_Payload d) = 0 \<or> MaxDeltaBytes < length (delta_Payload d)
      then Some ErrInvalidInput
      else if delta_PreviousGeneration d = 0
         \<or> delta_Generation d \<noteq> delta_PreviousGeneration d + 1
      then Some (codeError ErrGenerationGap ReasonGenerationGap True None)
      else case canonical_value L (delta_Payload d) MaxDeltaBytes of
        Inl err \<Rightarrow> Some (codeError ErrContentHashMismatch ReasonGenerationGap False (Some err))
      | Inr value \<Rightarrow>
          (let canonical = json_Marshal L value in
           if canonical \<noteq> delta_Payload d
           then Some (codeError ErrContentHashMismatch ReasonGenerationGap False None)
           else if delta_ContentHash d \<noteq> content_hash L canonical
           then Some (codeError ErrContentHashMismatch ReasonGenerationGap False None)
           else case validateConfigSnapshotPayload L value (delta_TunnelID d) (delta_Generation d) of
             Some err \<Rightarrow> Some (codeError ErrDeltaRejected ReasonGenerationGap False (Some err))
           | None \<Rightarrow> None))"

definition Delta_ValidateBound :: "('a cfglib_scheme) \<Rightarrow> Delta \<Rightarrow> error option" where
  "Delta_ValidateBound L d =
     (if ValidateIdentifier (delta_AccountID d) \<noteq> None \<or> ValidateIdentifier (delta_ConnectorID d) \<noteq> None
         \<or> ValidateIdentifier (delta_SessionID d) \<noteq> None \<or> delta_ProcessGeneration d = 0
      then Some ErrInvalidInput
      else Delta_Validate L d)"

section \<open>Acknowledgements and readiness\<close>

datatype AckKind = AckSnapshot | AckDelta | AckReady | AckRenewal | AckKindOther string

datatype AckStatus =
  AckApplied | AckDuplicate | AckRejected | AckSnapshotRequired | AckStatusOther string

record Ack =
  ack_AccountID :: string
  ack_TunnelID :: string
  ack_ConnectorID :: string
  ack_SessionID :: string
  ack_ProcessGeneration :: uint64
  ack_Kind :: AckKind
  ack_Status :: AckStatus
  ack_Generation :: uint64
  ack_ContentHash :: string
  ack_Code :: Code

definition Ack_Validate :: "Ack \<Rightarrow> error option" where
  "Ack_Validate a =
     (if ValidateIdentifier (ack_AccountID a) \<noteq> None \<or> ValidateIdentifier (ack_TunnelID a) \<noteq> None
         \<or> ValidateIdentifier (ack_ConnectorID a) \<noteq> None \<or> ValidateIdentifier (ack_SessionID a) \<noteq> None
         \<or> ack_ProcessGeneration a = 0
         \<or> (ack_Kind a \<noteq> AckSnapshot \<and> ack_Kind a \<noteq> AckDelta \<and> ack_Kind a \<noteq> AckReady
            \<and> ack_Kind a \<noteq> AckRenewal)
         \<or> (ack_Status a \<noteq> AckApplied \<and> ack_Status a \<noteq> AckDuplicate \<and> ack_Status a \<noteq> AckRejected
            \<and> ack_Status a \<noteq> AckSnapshotRequired)
         \<or> ack_Generation a = 0 \<or> \<not> hashPattern (ack_ContentHash a)
      then Some ErrInvalidInput
      else if ack_Status a = AckRejected \<and> (ack_Code a = CodeEmpty \<or> \<not> validCode (ack_Code a))
         \<or> ack_Status a \<noteq> AckRejected \<and> ack_Code a \<noteq> CodeEmpty
      then Some ErrInvalidInput
      else None)"

record Readiness =
  rdy_AccountID :: string
  rdy_SessionID :: string
  rdy_TunnelID :: string
  rdy_ConnectorID :: string
  rdy_ProcessGeneration :: uint64
  rdy_Generation :: uint64
  rdy_ContentHash :: string
  rdy_EdgeReady :: bool
  rdy_RouteReady :: bool
  rdy_OriginReady :: bool

definition Readiness_Validate :: "Readiness \<Rightarrow> error option" where
  "Readiness_Validate r =
     (if ValidateIdentifier (rdy_AccountID r) \<noteq> None \<or> ValidateIdentifier (rdy_SessionID r) \<noteq> None
         \<or> ValidateIdentifier (rdy_TunnelID r) \<noteq> None \<or> ValidateIdentifier (rdy_ConnectorID r) \<noteq> None
         \<or> rdy_ProcessGeneration r = 0 \<or> rdy_Generation r = 0 \<or> \<not> hashPattern (rdy_ContentHash r)
      then Some ErrInvalidInput else None)"

record Heartbeat =
  hb_AccountID :: string
  hb_SessionID :: string
  hb_TunnelID :: string
  hb_ConnectorID :: string
  hb_ProcessGeneration :: uint64
  hb_LastAppliedGeneration :: uint64
  hb_LastAppliedHash :: string
  hb_SentAt :: time

definition Heartbeat_Validate :: "Heartbeat \<Rightarrow> error option" where
  "Heartbeat_Validate h =
     (if ValidateIdentifier (hb_AccountID h) \<noteq> None \<or> ValidateIdentifier (hb_SessionID h) \<noteq> None
         \<or> ValidateIdentifier (hb_TunnelID h) \<noteq> None \<or> ValidateIdentifier (hb_ConnectorID h) \<noteq> None
         \<or> hb_ProcessGeneration h = 0 \<or> hb_LastAppliedGeneration h = 0
         \<or> \<not> hashPattern (hb_LastAppliedHash h) \<or> time_IsZero (hb_SentAt h)
      then Some ErrInvalidInput else None)"

record HeartbeatAck =
  hba_AccountID :: string
  hba_TunnelID :: string
  hba_ConnectorID :: string
  hba_SessionID :: string
  hba_ProcessGeneration :: uint64
  hba_LeaseExpiresAt :: time
  hba_ServerTime :: time

definition HeartbeatAck_Validate :: "time \<Rightarrow> HeartbeatAck \<Rightarrow> error option" where
  "HeartbeatAck_Validate now h =
     (if ValidateIdentifier (hba_AccountID h) \<noteq> None \<or> ValidateIdentifier (hba_TunnelID h) \<noteq> None
         \<or> ValidateIdentifier (hba_ConnectorID h) \<noteq> None \<or> ValidateIdentifier (hba_SessionID h) \<noteq> None
         \<or> hba_ProcessGeneration h = 0 \<or> time_IsZero (hba_LeaseExpiresAt h)
         \<or> \<not> time_After (hba_LeaseExpiresAt h) now \<or> time_IsZero (hba_ServerTime h)
      then Some ErrInvalidInput else None)"

section \<open>Drain and disconnect\<close>

datatype DrainStatus =
  DrainAccepted | DrainProgress | DrainCompleted | DrainForced | DrainRejected
  | DrainStatusOther string

definition MaxActiveStreams :: uint32 where [wire_consts]: "MaxActiveStreams = 2 ^ 20"

record Drain =
  drain_AccountID :: string
  drain_TunnelID :: string
  drain_ConnectorID :: string
  drain_SessionID :: string
  drain_ProcessGeneration :: uint64
  drain_DrainID :: string
  drain_Generation :: uint64
  drain_ContentHash :: string
  drain_Deadline :: time
  drain_StopNewStreams :: bool
  drain_ForceAfterDeadline :: bool

definition Drain_Validate :: "time \<Rightarrow> Drain \<Rightarrow> error option" where
  "Drain_Validate now d =
     (if ValidateIdentifier (drain_AccountID d) \<noteq> None \<or> ValidateIdentifier (drain_TunnelID d) \<noteq> None
         \<or> ValidateIdentifier (drain_ConnectorID d) \<noteq> None \<or> ValidateIdentifier (drain_SessionID d) \<noteq> None
         \<or> ValidateIdentifier (drain_DrainID d) \<noteq> None \<or> drain_ProcessGeneration d = 0
         \<or> drain_Generation d = 0 \<or> \<not> hashPattern (drain_ContentHash d)
         \<or> time_IsZero (drain_Deadline d) \<or> \<not> drain_StopNewStreams d
      then Some ErrInvalidInput
      else if \<not> time_IsZero now \<and> (\<not> time_After (drain_Deadline d) now
         \<or> MaxLease < time_Sub (drain_Deadline d) now)
      then Some ErrInvalidInput
      else None)"

record DrainAck =
  dack_AccountID :: string
  dack_TunnelID :: string
  dack_ConnectorID :: string
  dack_SessionID :: string
  dack_ProcessGeneration :: uint64
  dack_DrainID :: string
  dack_Generation :: uint64
  dack_ContentHash :: string
  dack_Status :: DrainStatus
  dack_ActiveStreams :: uint32
  dack_ForcedClose :: bool
  dack_Code :: Code

definition drain_status_bad :: "DrainAck \<Rightarrow> bool" where
  "drain_status_bad a \<longleftrightarrow>
     (case dack_Status a of
        DrainAccepted \<Rightarrow> dack_ForcedClose a \<or> dack_Code a \<noteq> CodeEmpty
      | DrainProgress \<Rightarrow> dack_ForcedClose a \<or> dack_Code a \<noteq> CodeEmpty
      | DrainCompleted \<Rightarrow>
          dack_ActiveStreams a \<noteq> 0 \<or> dack_ForcedClose a \<or> dack_Code a \<noteq> CodeEmpty
      | DrainForced \<Rightarrow>
          \<not> dack_ForcedClose a \<or> dack_Code a \<noteq> CodeDrainTimeout \<or> dack_ActiveStreams a \<noteq> 0
      | DrainRejected \<Rightarrow> dack_ForcedClose a \<or> dack_Code a \<noteq> CodeDrainRejected
      | DrainStatusOther _ \<Rightarrow> True)"

definition DrainAck_Validate :: "time \<Rightarrow> DrainAck \<Rightarrow> error option" where
  "DrainAck_Validate now a =
     (if ValidateIdentifier (dack_AccountID a) \<noteq> None \<or> ValidateIdentifier (dack_TunnelID a) \<noteq> None
         \<or> ValidateIdentifier (dack_ConnectorID a) \<noteq> None \<or> ValidateIdentifier (dack_SessionID a) \<noteq> None
         \<or> ValidateIdentifier (dack_DrainID a) \<noteq> None \<or> dack_ProcessGeneration a = 0
         \<or> dack_Generation a = 0 \<or> \<not> hashPattern (dack_ContentHash a)
         \<or> MaxActiveStreams < dack_ActiveStreams a
      then Some ErrInvalidInput
      else if drain_status_bad a then Some ErrInvalidInput
      else if dack_Code a \<noteq> CodeEmpty \<and> \<not> validCode (dack_Code a) then Some ErrInvalidInput
      else None)"

record Disconnect =
  disc_AccountID :: string
  disc_TunnelID :: string
  disc_ConnectorID :: string
  disc_SessionID :: string
  disc_ProcessGeneration :: uint64
  disc_Reason :: DisconnectReason
  disc_Retryable :: bool
  disc_Message :: string

record Reject =
  rej_AccountID :: string
  rej_TunnelID :: string
  rej_ConnectorID :: string
  rej_SessionID :: string
  rej_ProcessGeneration :: uint64
  rej_Code :: Code
  rej_Reason :: DisconnectReason
  rej_Retryable :: bool
  rej_Message :: string

definition Reject_Validate :: "Reject \<Rightarrow> error option" where
  "Reject_Validate r =
     (if ValidateIdentifier (rej_AccountID r) \<noteq> None \<or> ValidateIdentifier (rej_TunnelID r) \<noteq> None
         \<or> ValidateIdentifier (rej_ConnectorID r) \<noteq> None \<or> ValidateIdentifier (rej_SessionID r) \<noteq> None
         \<or> rej_ProcessGeneration r = 0 \<or> \<not> validCode (rej_Code r)
         \<or> \<not> validDisconnectReason (rej_Reason r) \<or> MaxReasonMessage < length (rej_Message r)
      then Some ErrInvalidInput else None)"

definition Disconnect_Validate :: "Disconnect \<Rightarrow> error option" where
  "Disconnect_Validate d =
     (if ValidateIdentifier (disc_AccountID d) \<noteq> None \<or> ValidateIdentifier (disc_TunnelID d) \<noteq> None
         \<or> ValidateIdentifier (disc_ConnectorID d) \<noteq> None \<or> ValidateIdentifier (disc_SessionID d) \<noteq> None
         \<or> disc_ProcessGeneration d = 0 \<or> \<not> validDisconnectReason (disc_Reason d)
         \<or> MaxReasonMessage < length (disc_Message d)
      then Some ErrInvalidInput else None)"

section \<open>Lemmas on the messages\<close>







lemma content_hash_pattern:
  "length (lib_Sum256 L c) = 32 \<Longrightarrow> hashPattern (content_hash L c)"
  by (simp add: content_hash_def hashPattern_def HasPrefix_def hex_EncodeToString_hex)

lemma validateConfigSnapshotPayload_object:
  "validateConfigSnapshotPayload L doc t g = None \<Longrightarrow> json_Marshal L doc \<noteq> []"
  by (auto simp: validateConfigSnapshotPayload_def split: json.splits)

lemma NewSnapshot_Inr:
  assumes "NewSnapshot L t g payload = Inr s"
  obtains doc where "canonical_value L payload MaxSnapshotBytes = Inr doc"
    and "validateConfigSnapshotPayload L doc t g = None"
    and "ValidateIdentifier t = None" and "g \<noteq> 0"
    and "s = zero_Snapshot
           \<lparr>snap_TunnelID := t, snap_Generation := g,
            snap_ContentHash := content_hash L (json_Marshal L doc),
            snap_Payload := json_Marshal L doc\<rparr>"
  using assms by (auto simp: NewSnapshot_def Let_def split: if_splits sum.splits option.splits)

lemma Snapshot_Validate_None:
  assumes "Snapshot_Validate L s = None"
  shows "ValidateIdentifier (snap_TunnelID s) = None" and "snap_Generation s \<noteq> 0"
    and "hashPattern (snap_ContentHash s)"
    and "snap_ContentHash s = content_hash L (snap_Payload s)"
    and "\<exists>doc. canonical_value L (snap_Payload s) MaxSnapshotBytes = Inr doc \<and>
           json_Marshal L doc = snap_Payload s \<and>
           validateConfigSnapshotPayload L doc (snap_TunnelID s) (snap_Generation s) = None"
  using assms by (auto simp: Snapshot_Validate_def Let_def split: if_splits sum.splits option.splits)

lemma Delta_Validate_None:
  assumes "Delta_Validate L d = None"
  shows "ValidateIdentifier (delta_TunnelID d) = None"
    and "hashPattern (delta_ContentHash d)" and "hashPattern (delta_PreviousContentHash d)"
    and "delta_PreviousGeneration d \<noteq> 0"
    and "delta_Generation d = delta_PreviousGeneration d + 1"
    and "delta_ContentHash d = content_hash L (delta_Payload d)"
    and "\<exists>doc. canonical_value L (delta_Payload d) MaxDeltaBytes = Inr doc \<and>
           json_Marshal L doc = delta_Payload d \<and>
           validateConfigSnapshotPayload L doc (delta_TunnelID d) (delta_Generation d) = None"
  using assms by (auto simp: Delta_Validate_def Let_def split: if_splits sum.splits option.splits)

lemma NewSnapshot_Validate_aux:
  assumes "NewSnapshot L t g payload = Inr s" and "lib_JSONTokens L payload = tokens_of v"
    and "lib_JSONTokens L (snap_Payload s) = tokens_of (json_canon v)"
    and "length (lib_Sum256 L (snap_Payload s)) = 32"
  shows "Snapshot_Validate L s = None"
proof -
  from assms(1) obtain doc where
      doc: "canonical_value L payload MaxSnapshotBytes = Inr doc"
      "validateConfigSnapshotPayload L doc t g = None"
    and t: "ValidateIdentifier t = None" "g \<noteq> 0"
    and s: "s = zero_Snapshot
           \<lparr>snap_TunnelID := t, snap_Generation := g,
            snap_ContentHash := content_hash L (json_Marshal L doc),
            snap_Payload := json_Marshal L doc\<rparr>"
    by (rule NewSnapshot_Inr)
  note c = canonical_value_Inr [OF doc(1) assms(2)]
  have ne: "json_Marshal L doc \<noteq> []" using doc(2) by (rule validateConfigSnapshotPayload_object)
  have "canonical_value L (json_Marshal L doc) MaxSnapshotBytes = Inr doc"
    using assms(3) by (intro canonical_value_again [OF doc(1) assms(2) _ ne c(4)]) (simp add: s c(2))
  moreover have "hashPattern (content_hash L (json_Marshal L doc))"
    using assms(4) by (intro content_hash_pattern) (simp add: s)
  ultimately show ?thesis
    using doc(2) t ne c(4) by (simp add: Snapshot_Validate_def s zero_Snapshot_def)
qed

lemma canonical_value_doc:
  assumes "lib_JSONTokens L data = tokens_of v" and "json_ok 0 v"
    and "rejectSecretFields L (json_canon v) = None" and "data \<noteq> []" and "length data \<le> limit"
    and "length (json_Marshal L (json_canon v)) \<le> limit"
  shows "canonical_value L data limit = Inr (json_canon v)"
  using assms decodeValue_tokens_of(1) [OF assms(2), of "[]"] rejectDuplicateKeys_tokens [OF assms(1)]
  by (simp add: canonical_value_def)

section \<open>The sample messages\<close>

definition sample_lexer :: "string \<Rightarrow> json_token list" where
  "sample_lexer s =
     (if s = sample_text ''1'' then tokens_of (sample_doc ''1'')
      else if s = sample_text ''2'' then tokens_of (sample_doc ''2'') else [TBad])"

definition sample_lib :: msglib where
  "sample_lib =
     \<lparr>lib_URLParse = lib_URLParse sample_base, lib_Sum256 = lib_Sum256 sample_base,
      lib_JSONTokens = sample_lexer, lib_JSONQuote = sample_quote, lib_DecodeConfig = lib_DecodeConfig sample_base,
      lib_MarshalTranscript = (\<lambda>t. Inr (tr_Domain t @ ''/'' @ tr_Nonce t))\<rparr>"

definition sample_snapshot :: "string \<Rightarrow> uint64 \<Rightarrow> Snapshot" where
  "sample_snapshot n g = zero_Snapshot
     \<lparr>snap_TunnelID := ''tun_1'', snap_Generation := g,
      snap_ContentHash := content_hash sample_lib (sample_text n), snap_Payload := sample_text n\<rparr>"

definition sample_auth :: AuthRequest where
  "sample_auth =
     \<lparr>auth_AccountID = ''acc_1'', auth_TunnelID = ''tun_1'', auth_ConnectorID = ''con_1'',
      auth_HostID = ''host_1'', auth_IdentityKeyID = ''ed25519:'' @ replicate 43 CHR ''k'',
      auth_IdentityKeyThumbprint = replicate 43 CHR ''k'', auth_ProcessGeneration = 1,
      auth_CredentialGeneration = 1, auth_Nonce = replicate 16 CHR ''n'', auth_SignedProof = '''',
      auth_IssuedAt = 1000 * Second, auth_ExpiresAt = 1300 * Second\<rparr>"

definition sample_renewal :: RenewalRequest where
  "sample_renewal =
     \<lparr>ren_SessionID = ''ses_1'', ren_AccountID = ''acc_1'', ren_TunnelID = ''tun_1'',
      ren_ConnectorID = ''con_1'', ren_HostID = ''host_1'',
      ren_IdentityKeyID = ''ed25519:'' @ replicate 43 CHR ''k'',
      ren_IdentityKeyThumbprint = replicate 43 CHR ''k'', ren_ProcessGeneration = 1,
      ren_CredentialGeneration = 1, ren_Nonce = replicate 16 CHR ''n'', ren_SignedProof = '''',
      ren_RequestedAt = 1000 * Second\<rparr>"

lemma sample_text_lib: "json_Marshal sample_lib (sample_doc n) = sample_text n"
  by (simp add: sample_text_def sample_doc_def sample_route_doc_def sample_lib_def sample_base_def)

lemma sample_text_length:
  "length (sample_text ''1'') \<le> 1000" "length (sample_text ''2'') \<le> 1000"
  by code_simp+

lemma sample_text_distinct: "sample_text ''2'' \<noteq> sample_text ''1''"
  by code_simp

lemma sample_text_nonempty: "sample_text n \<noteq> []"
  by (simp add: sample_text_def sample_doc_def)

lemma sample_tokens:
  "lib_JSONTokens sample_lib (sample_text ''1'') = tokens_of (sample_doc ''1'')"
  "lib_JSONTokens sample_lib (sample_text ''2'') = tokens_of (sample_doc ''2'')"
  using sample_text_distinct by (simp_all add: sample_lib_def sample_lexer_def)

lemma sample_doc_shape:
  "json_ok 0 (sample_doc ''1'')" "json_ok 0 (sample_doc ''2'')"
  "json_canon (sample_doc ''1'') = sample_doc ''1''" "json_canon (sample_doc ''2'') = sample_doc ''2''"
  by code_simp+

lemma sample_doc_config:
  "validateConfigSnapshotPayload sample_lib (sample_doc ''1'') ''tun_1'' 1 = None"
  "validateConfigSnapshotPayload sample_lib (sample_doc ''2'') ''tun_1'' 2 = None"
  by code_simp+

lemma sample_doc_secrets: "rejectSecretFields sample_lib (sample_doc n) = None"
proof -
  have "list_all (\<lambda>k. normalized_key k \<notin> set secret_field_keys)
    [''access_mode'', ''desired_state'', ''expires_at'', ''generation'', ''kind'', ''name'',
     ''routes'', ''schema'', ''stable_endpoint'', ''tunnel_id'', ''ca_reference'',
     ''connect_timeout_ms'', ''host_override'', ''id'', ''idle_timeout_ms'', ''match_type'',
     ''max_concurrent_streams'', ''mtls_credential_reference'', ''origin_address'',
     ''origin_scheme'', ''path_prefix'', ''preserve_host'', ''protocol'', ''tls_server_name'',
     ''tls_verification'']"
    by code_simp
  moreover have "list_all (\<lambda>s. \<not> secret_string sample_lib s)
    [''public'', ''active'', ''tunnel_config_snapshot'', ''demo'', ''paperboat.preview-tunnel/v1'',
     ''https://demo.test'', ''tun_1'', ''rt_1'', ''catch_all'', ''web'', ''localhost:8080'',
     ''http'', ''not_applicable'']"
    by (simp add: secret_string_no_space sample_lib_def sample_base_def sample_url_def)
  ultimately show ?thesis by (simp add: sample_doc_def sample_route_doc_def)
qed

lemmas sample_doc_facts = sample_doc_shape sample_doc_config sample_doc_secrets

lemma sample_Sum256: "length (lib_Sum256 sample_lib s) = 32"
  by (simp add: sample_lib_def sample_base_def)

lemma sample_canonical_value:
  assumes "1000 \<le> limit"
  shows "canonical_value sample_lib (sample_text ''1'') limit = Inr (sample_doc ''1'')"
    and "canonical_value sample_lib (sample_text ''2'') limit = Inr (sample_doc ''2'')"
  using canonical_value_doc [OF sample_tokens(1) sample_doc_facts(1) _ sample_text_nonempty]
    canonical_value_doc [OF sample_tokens(2) sample_doc_facts(2) _ sample_text_nonempty]
    sample_text_length assms
  by (simp_all add: sample_doc_facts sample_text_lib)

lemma sample_NewSnapshot:
  "NewSnapshot sample_lib ''tun_1'' 1 (sample_text ''1'') = Inr (sample_snapshot ''1'' 1)"
  "NewSnapshot sample_lib ''tun_1'' 2 (sample_text ''2'') = Inr (sample_snapshot ''2'' 2)"
proof -
  have "ValidateIdentifier ''tun_1'' = None" by code_simp
  then show
    "NewSnapshot sample_lib ''tun_1'' 1 (sample_text ''1'') = Inr (sample_snapshot ''1'' 1)"
    "NewSnapshot sample_lib ''tun_1'' 2 (sample_text ''2'') = Inr (sample_snapshot ''2'' 2)"
    using sample_text_length
    by (simp_all add: NewSnapshot_def sample_text_nonempty sample_canonical_value sample_doc_facts
        sample_snapshot_def sample_text_lib MaxSnapshotBytes_def Let_def)
qed

lemma sample_Snapshot_Validate:
  "Snapshot_Validate sample_lib (sample_snapshot ''1'' 1) = None"
  "Snapshot_Validate sample_lib (sample_snapshot ''2'' 2) = None"
  using NewSnapshot_Validate_aux [OF sample_NewSnapshot(1) sample_tokens(1)]
    NewSnapshot_Validate_aux [OF sample_NewSnapshot(2) sample_tokens(2)]
  by (simp_all add: sample_Sum256 sample_snapshot_def sample_tokens sample_doc_facts)

lemma sample_auth_valid: "AuthRequest_validate 0 False sample_auth = None"
  by code_simp

lemma sample_renewal_valid: "RenewalRequest_validate False sample_renewal = None"
  by code_simp


text \<open>
  C8. A snapshot made by \<open>NewSnapshot\<close> passes \<open>Snapshot.Validate\<close>: its payload is canonical, its
  content hash is the hash of that payload and its configuration names the tunnel and the
  generation. This relies on the lexer reading the canonical text back as the canonical document
  and on SHA-256 digests having 32 bytes.
\<close>

theorem NewSnapshot_validates:
  assumes "NewSnapshot L t g payload = Inr s" and "lib_JSONTokens L payload = tokens_of v"
    and "lib_JSONTokens L (snap_Payload s) = tokens_of (json_canon v)"
    and "length (lib_Sum256 L (snap_Payload s)) = 32"
  shows "Snapshot_Validate L s = None \<and> snap_TunnelID s = t \<and> snap_Generation s = g \<and>
    snap_ContentHash s = content_hash L (json_Marshal L (json_canon v))"
proof -
  from assms(1) obtain doc where "canonical_value L payload MaxSnapshotBytes = Inr doc"
    and s: "s = zero_Snapshot
           \<lparr>snap_TunnelID := t, snap_Generation := g,
            snap_ContentHash := content_hash L (json_Marshal L doc),
            snap_Payload := json_Marshal L doc\<rparr>"
    by (rule NewSnapshot_Inr)
  with canonical_value_Inr(2) [OF this(1) assms(2)] NewSnapshot_Validate_aux [OF assms]
  show ?thesis by simp
qed

theorem NewSnapshot_validates_witness:
  "Snapshot_Validate sample_lib (sample_snapshot ''1'' 1) = None \<and>
   snap_TunnelID (sample_snapshot ''1'' 1) = ''tun_1'' \<and>
   snap_Generation (sample_snapshot ''1'' 1) = 1 \<and>
   snap_ContentHash (sample_snapshot ''1'' 1) =
     content_hash sample_lib (json_Marshal sample_lib (json_canon (sample_doc ''1'')))"
  by (rule NewSnapshot_validates [OF sample_NewSnapshot(1) sample_tokens(1)])
     (simp_all add: sample_snapshot_def sample_tokens sample_doc_shape sample_Sum256)

lemma validateConfigSnapshotPayload_names:
  assumes "validateConfigSnapshotPayload L doc t g = None"
    and "validateConfigSnapshotPayload L doc t' g' = None"
  shows "t = t' \<and> g = g'"
  using assms by (auto simp: validateConfigSnapshotPayload_def config_header_bad_def Let_def
      split: json.splits option.splits if_splits)

text \<open>Binding a valid snapshot to an identity keeps it valid.\<close>

lemma Snapshot_Validate_update:
  assumes "Snapshot_Validate L s = None"
    and "a = [] \<or> ValidateIdentifier a = None" and "i = [] \<or> ValidateIdentifier i = None"
  shows "Snapshot_Validate L
    (s\<lparr>snap_AccountID := a, snap_ConnectorID := c, snap_SessionID := i,
       snap_ProcessGeneration := p\<rparr>) = None"
proof -
  note v = Snapshot_Validate_None [OF assms(1)]
  from v(5) obtain doc where doc: "canonical_value L (snap_Payload s) MaxSnapshotBytes = Inr doc"
    "json_Marshal L doc = snap_Payload s"
    "validateConfigSnapshotPayload L doc (snap_TunnelID s) (snap_Generation s) = None" by blast
  have "snap_Payload s \<noteq> [] \<and> length (snap_Payload s) \<le> MaxSnapshotBytes"
    using assms(1) by (auto simp: Snapshot_Validate_def split: if_splits)
  with doc v(1-3) v(4) [symmetric] assms(2,3) show ?thesis
    by (auto simp: Snapshot_Validate_def)
qed

text \<open>
  C9. The content hash of a snapshot identifies its configuration: two snapshots that both pass
  \<open>Snapshot.Validate\<close> and have the same content hash have the same payload, tunnel and
  generation, unless SHA-256 collides on their payloads.
\<close>

theorem Snapshot_Validate_hash_binds:
  assumes "Snapshot_Validate L s = None" and "Snapshot_Validate L s' = None"
    and "snap_ContentHash s = snap_ContentHash s'"
    and "inj_on (lib_Sum256 L) {snap_Payload s, snap_Payload s'}"
  shows "snap_Payload s = snap_Payload s' \<and> snap_Generation s = snap_Generation s' \<and>
    snap_TunnelID s = snap_TunnelID s'"
proof -
  note v = Snapshot_Validate_None [OF assms(1)] and v' = Snapshot_Validate_None [OF assms(2)]
  have "content_hash L (snap_Payload s) = content_hash L (snap_Payload s')"
    using v(4) v'(4) assms(3) by metis
  then have "lib_Sum256 L (snap_Payload s) = lib_Sum256 L (snap_Payload s')"
    unfolding content_hash_def same_append_eq by (rule hex_EncodeToString_inject)
  from inj_onD [OF assms(4) this] have p: "snap_Payload s = snap_Payload s'" by simp
  from v(5) obtain doc where
      doc: "canonical_value L (snap_Payload s) MaxSnapshotBytes = Inr doc"
      "validateConfigSnapshotPayload L doc (snap_TunnelID s) (snap_Generation s) = None" by blast
  moreover from v'(5) doc(1) [unfolded p] have
      "validateConfigSnapshotPayload L doc (snap_TunnelID s') (snap_Generation s') = None" by auto
  ultimately have "snap_TunnelID s = snap_TunnelID s' \<and> snap_Generation s = snap_Generation s'"
    by (blast dest: validateConfigSnapshotPayload_names)
  with p show ?thesis by simp
qed

theorem Snapshot_Validate_hash_binds_witness:
  "let s = sample_snapshot ''1'' 1; s' = s\<lparr>snap_ConnectorID := ''con_1''\<rparr> in
   Snapshot_Validate sample_lib s' = None \<and> snap_Payload s = snap_Payload s' \<and>
   snap_Generation s = snap_Generation s' \<and> snap_TunnelID s = snap_TunnelID s'"
proof -
  let ?s = "sample_snapshot ''1'' 1"
  let ?s' = "?s\<lparr>snap_ConnectorID := ''con_1''\<rparr>"
  have "Snapshot_Validate sample_lib ?s' = None"
    using Snapshot_Validate_update [OF sample_Snapshot_Validate(1), where a = "[]" and i = "[]" and c = "''con_1''" and p = 0]
    by (simp add: sample_snapshot_def zero_Snapshot_def)
  with Snapshot_Validate_hash_binds [OF sample_Snapshot_Validate(1) this]
  show ?thesis by (simp add: Let_def)
qed

text \<open>
  C10. A delta made by \<open>NewDelta\<close> names the predecessor it was made from and the next generation,
  and passes \<open>Delta.Validate\<close> exactly when its payload has at most 1 MiB: \<open>NewDelta\<close> itself
  admits payloads up to the 4 MiB of a snapshot.
\<close>

theorem NewDelta_validates_iff:
  assumes "NewDelta L t previous g payload = Inr d" and "lib_JSONTokens L payload = tokens_of v"
    and "lib_JSONTokens L (delta_Payload d) = tokens_of (json_canon v)"
    and "length (lib_Sum256 L (delta_Payload d)) = 32"
  shows "(Delta_Validate L d = None \<longleftrightarrow> length (delta_Payload d) \<le> MaxDeltaBytes) \<and>
    delta_PreviousGeneration d = snap_Generation previous \<and>
    delta_PreviousContentHash d = snap_ContentHash previous \<and>
    unat (delta_Generation d) = unat (snap_Generation previous) + 1"
proof -
  from assms(1) obtain s where prev: "Snapshot_Validate L previous = None"
    and g: "g = snap_Generation previous + 1" and s: "NewSnapshot L t g payload = Inr s"
    and d: "d = zero_Delta
       \<lparr>delta_TunnelID := t, delta_PreviousGeneration := snap_Generation previous,
        delta_Generation := g, delta_PreviousContentHash := snap_ContentHash previous,
        delta_ContentHash := snap_ContentHash s, delta_Payload := snap_Payload s\<rparr>"
    by (auto simp: NewDelta_def Let_def split: if_splits sum.splits)
  from s obtain doc where doc: "canonical_value L payload MaxSnapshotBytes = Inr doc"
      "validateConfigSnapshotPayload L doc t g = None"
    and t: "ValidateIdentifier t = None" "g \<noteq> 0"
    and s': "s = zero_Snapshot
           \<lparr>snap_TunnelID := t, snap_Generation := g,
            snap_ContentHash := content_hash L (json_Marshal L doc),
            snap_Payload := json_Marshal L doc\<rparr>"
    by (rule NewSnapshot_Inr)
  note p = Snapshot_Validate_None [OF prev]
  note c = canonical_value_Inr [OF doc(1) assms(2)]
  have ne: "json_Marshal L doc \<noteq> []" using doc(2) by (rule validateConfigSnapshotPayload_object)
  have h: "hashPattern (content_hash L (json_Marshal L doc))"
    using assms(4) by (intro content_hash_pattern) (simp add: d s')
  have "Delta_Validate L d = None" if "length (json_Marshal L doc) \<le> MaxDeltaBytes"
  proof -
    have "canonical_value L (json_Marshal L doc) MaxDeltaBytes = Inr doc"
      using assms(3) that
      by (intro canonical_value_again [OF doc(1) assms(2) _ ne]) (simp_all add: d s' c(2))
    with that p h ne doc(2) t g show ?thesis
      by (simp add: Delta_Validate_def d s' zero_Delta_def)
  qed
  moreover have "length (json_Marshal L doc) \<le> MaxDeltaBytes" if "Delta_Validate L d = None"
    using that by (auto simp: Delta_Validate_def d s' split: if_splits)
  moreover have "unat g = unat (snap_Generation previous) + 1"
    using t(2) g by (metis add.commute unatSuc Suc_eq_plus1)
  ultimately show ?thesis by (auto simp: d s')
qed

definition sample_delta :: Delta where
  "sample_delta = zero_Delta
     \<lparr>delta_TunnelID := ''tun_1'', delta_PreviousGeneration := 1, delta_Generation := 2,
      delta_PreviousContentHash := snap_ContentHash (sample_snapshot ''1'' 1),
      delta_ContentHash := snap_ContentHash (sample_snapshot ''2'' 2),
      delta_Payload := sample_text ''2''\<rparr>"

lemma sample_NewDelta:
  "NewDelta sample_lib ''tun_1'' (sample_snapshot ''1'' 1) 2 (sample_text ''2'') = Inr sample_delta"
  by (simp add: NewDelta_def sample_Snapshot_Validate sample_NewSnapshot sample_delta_def
      Let_def) (simp add: sample_snapshot_def)

theorem NewDelta_validates_iff_witness:
  "Delta_Validate sample_lib sample_delta = None \<and>
   delta_PreviousContentHash sample_delta = snap_ContentHash (sample_snapshot ''1'' 1)"
proof -
  have "lib_JSONTokens sample_lib (delta_Payload sample_delta) = tokens_of (json_canon (sample_doc ''2''))"
    by (simp add: sample_delta_def sample_tokens sample_doc_shape)
  from NewDelta_validates_iff [OF sample_NewDelta sample_tokens(2) this sample_Sum256]
  show ?thesis using sample_text_length(2)
    by (simp add: sample_delta_def MaxDeltaBytes_def)
qed

lemma AuthProofPayload_update [simp]:
  "AuthProofPayload L (a\<lparr>auth_SignedProof := x\<rparr>) = AuthProofPayload L a"
  by (simp add: AuthProofPayload_def AuthRequest_validate_def auth_transcript_def)

lemma RenewalProofPayload_update [simp]:
  "RenewalProofPayload L (r\<lparr>ren_SignedProof := x\<rparr>) = RenewalProofPayload L r"
  by (simp add: RenewalProofPayload_def RenewalRequest_validate_def renewal_transcript_def)

lemma AuthRequest_validate_proof:
  assumes "AuthRequest_validate now False a = None" and "ValidateProof x = None"
  shows "AuthRequest_validate now True (a\<lparr>auth_SignedProof := x\<rparr>) = None"
  using assms by (auto simp: AuthRequest_validate_def split: if_splits)

lemma RenewalRequest_validate_proof:
  assumes "RenewalRequest_validate False r = None" and "ValidateProof x = None"
  shows "RenewalRequest_validate True (r\<lparr>ren_SignedProof := x\<rparr>) = None"
  using assms by (auto simp: RenewalRequest_validate_def split: if_splits)

lemma SignProofPayload_Inr:
  "SignProofPayload payload sign = Inr p \<Longrightarrow> p = EncodeToString (sign payload)"
  by (auto simp: SignProofPayload_def Let_def split: if_splits)

text \<open>
  C11. A request signed by \<open>SignAuthProof\<close> or \<open>SignRenewalProof\<close> is returned without an error,
  differs from the unsigned request in the proof only, and verifies, whenever the key verifies its
  own signatures and a signature has between 24 and 12288 bytes.
\<close>

theorem signed_requests_verify:
  assumes law: "\<And>m. verify m (sign m) \<and> 24 \<le> length (sign m) \<and> length (sign m) \<le> 12288"
  shows "(SignAuthProof L a sign = Inr (a', err) \<longrightarrow>
            err = None \<and> VerifyAuthProof L a' verify = None \<and>
            a'\<lparr>auth_SignedProof := auth_SignedProof a\<rparr> = a) \<and>
         (SignRenewalProof L r sign = Inr (r', err) \<longrightarrow>
            err = None \<and> VerifyRenewalProof L r' verify = None \<and>
            r'\<lparr>ren_SignedProof := ren_SignedProof r\<rparr> = r)"
proof (intro conjI impI)
  assume "SignAuthProof L a sign = Inr (a', err)"
  then obtain payload p where p: "AuthProofPayload L a = Inr payload"
      "SignProofPayload payload sign = Inr p"
    and a': "a' = a\<lparr>auth_SignedProof := p\<rparr>" "err = AuthRequest_Validate 0 a'"
    by (auto simp: SignAuthProof_def Let_def split: sum.splits)
  from p(1) have "AuthRequest_validate 0 False a = None"
    by (auto simp: AuthProofPayload_def split: option.splits)
  moreover have "ValidateProof p = None"
    unfolding SignProofPayload_Inr [OF p(2)] using law by (intro EncodeToString_ValidateProof) simp_all
  ultimately show "err = None"
    unfolding a' AuthRequest_Validate_def by (rule AuthRequest_validate_proof)
  show "VerifyAuthProof L a' verify = None"
    using SignProofPayload_verify_aux [OF p(2)] law p(1) by (simp add: VerifyAuthProof_def a')
  show "a'\<lparr>auth_SignedProof := auth_SignedProof a\<rparr> = a" by (simp add: a')
next
  assume "SignRenewalProof L r sign = Inr (r', err)"
  then obtain payload p where p: "RenewalProofPayload L r = Inr payload"
      "SignProofPayload payload sign = Inr p"
    and r': "r' = r\<lparr>ren_SignedProof := p\<rparr>" "err = RenewalRequest_Validate r'"
    by (auto simp: SignRenewalProof_def Let_def split: sum.splits)
  from p(1) have "RenewalRequest_validate False r = None"
    by (auto simp: RenewalProofPayload_def split: option.splits)
  moreover have "ValidateProof p = None"
    unfolding SignProofPayload_Inr [OF p(2)] using law by (intro EncodeToString_ValidateProof) simp_all
  ultimately show "err = None"
    unfolding r' RenewalRequest_Validate_def by (rule RenewalRequest_validate_proof)
  show "VerifyRenewalProof L r' verify = None"
    using SignProofPayload_verify_aux [OF p(2)] law p(1) by (simp add: VerifyRenewalProof_def r')
  show "r'\<lparr>ren_SignedProof := ren_SignedProof r\<rparr> = r" by (simp add: r')
qed

definition sample_sign :: "string \<Rightarrow> string" where
  "sample_sign m = replicate 64 CHR ''s''"

definition sample_verify :: "string \<Rightarrow> string \<Rightarrow> bool" where
  "sample_verify m s \<longleftrightarrow> s = replicate 64 CHR ''s''"

theorem signed_requests_verify_witness:
  "\<exists>a'. SignAuthProof sample_lib sample_auth sample_sign = Inr (a', None) \<and>
     VerifyAuthProof sample_lib a' sample_verify = None"
proof -
  have law: "sample_verify m (sample_sign m) \<and> 24 \<le> length (sample_sign m) \<and>
      length (sample_sign m) \<le> 12288" for m
    by (simp add: sample_verify_def sample_sign_def)
  have pay: "AuthProofPayload sample_lib sample_auth =
      Inr (''paperboat.connector.auth.v1'' @ ''/'' @ replicate 16 CHR ''n'')"
    by (simp add: AuthProofPayload_def sample_auth_valid)
       (simp add: sample_lib_def sample_auth_def auth_transcript_def)
  obtain a' err where "SignAuthProof sample_lib sample_auth sample_sign = Inr (a', err)"
    by (simp add: SignAuthProof_def pay SignProofPayload_def MaxProofBytes_def sample_sign_def Let_def)
  with signed_requests_verify [where verify = sample_verify and sign = sample_sign
      and L = sample_lib and a = sample_auth and a' = a' and err = err, OF law]
  show ?thesis by auto
qed








end
