(* ===== verification/Session_Registry.thy ===== *)
theory Session_Registry
  imports Connector_Messages
begin

text \<open>
  The registry of live connector sessions
  (\<open>src/internal/connectorprotocol/session.go\<close>, lines 11 to 106).

  The map \<open>current\<close> from connector identifiers to session references is a finite map. Every method
  holds the mutex for its whole body, so each is one atomic step from a registry to a registry.
\<close>

section \<open>State\<close>

datatype SessionState =
  SessionNew | SessionAwaitingSnapshot | SessionAwaitingReady | SessionReady | SessionDraining
  | SessionClosed

record SessionRef =
  ref_TunnelID :: string
  ref_ConnectorID :: string
  ref_SessionID :: string
  ref_ProcessGeneration :: uint64

definition SessionRef_Validate :: "SessionRef \<Rightarrow> error option" where
  "SessionRef_Validate r =
     (if ValidateIdentifier (ref_TunnelID r) \<noteq> None \<or> ValidateIdentifier (ref_ConnectorID r) \<noteq> None
         \<or> ValidateIdentifier (ref_SessionID r) \<noteq> None \<or> ref_ProcessGeneration r = 0
      then Some ErrInvalidInput else None)"

record AttachResult =
  att_Current :: SessionRef
  att_Replaced :: "SessionRef option"

type_synonym registry = "(string, SessionRef) fmap"

section \<open>Operations\<close>

definition NewSessionRegistry :: registry where
  "NewSessionRegistry = fmempty"

definition SessionRegistry_Attach :: "SessionRef \<Rightarrow> registry \<Rightarrow> (error + AttachResult) \<times> registry" where
  "SessionRegistry_Attach ref R =
     (if SessionRef_Validate ref \<noteq> None then (Inl ErrInvalidInput, R)
      else case fmlookup R (ref_ConnectorID ref) of
        Some previous \<Rightarrow>
          if ref_TunnelID previous \<noteq> ref_TunnelID ref
          then (Inl (codeError ErrIdentityMismatch ReasonAuthentication False None), R)
          else if ref_ProcessGeneration ref \<le> ref_ProcessGeneration previous
          then (Inl (codeError ErrSessionConflict ReasonStaleGeneration False None), R)
          else (Inr \<lparr>att_Current = ref, att_Replaced = Some previous\<rparr>,
                fmupd (ref_ConnectorID ref) ref R)
      | None \<Rightarrow>
          (Inr \<lparr>att_Current = ref, att_Replaced = None\<rparr>, fmupd (ref_ConnectorID ref) ref R))"

definition SessionRegistry_Disconnect ::
  "SessionRef \<Rightarrow> DisconnectReason \<Rightarrow> registry \<Rightarrow> error option \<times> registry" where
  "SessionRegistry_Disconnect ref reason R =
     (if SessionRef_Validate ref \<noteq> None \<or> \<not> validDisconnectReason reason
      then (Some ErrInvalidInput, R)
      else case fmlookup R (ref_ConnectorID ref) of
        None \<Rightarrow> (None, R)
      | Some current \<Rightarrow>
          if current \<noteq> ref
          then (Some (codeError ErrStaleSession ReasonStaleGeneration False None), R)
          else (None, fmdrop (ref_ConnectorID ref) R))"

definition SessionRegistry_Active :: "registry \<Rightarrow> string \<Rightarrow> SessionRef option" where
  "SessionRegistry_Active R connectorID =
     (if ValidateIdentifier connectorID \<noteq> None then None else fmlookup R connectorID)"

definition SessionRegistry_Count :: "registry \<Rightarrow> nat" where
  "SessionRegistry_Count R = fcard (fmdom R)"

section \<open>The contract of a fenced registry\<close>

text \<open>A history of operations on a registry.\<close>

datatype registry_op = OpAttach SessionRef | OpDisconnect SessionRef DisconnectReason

fun run_ops ::
  "(SessionRef \<Rightarrow> 'r \<Rightarrow> 'a \<times> 'r) \<Rightarrow> (SessionRef \<Rightarrow> DisconnectReason \<Rightarrow> 'r \<Rightarrow> 'b \<times> 'r) \<Rightarrow>
     registry_op list \<Rightarrow> 'r \<Rightarrow> 'r" where
  "run_ops attach disconnect [] r = r"
| "run_ops attach disconnect (OpAttach ref # ops) r =
     run_ops attach disconnect ops (snd (attach ref r))"
| "run_ops attach disconnect (OpDisconnect ref reason # ops) r =
     run_ops attach disconnect ops (snd (disconnect ref reason r))"

text \<open>An operation that belongs to another session than \<open>cur\<close> and not to a newer process.\<close>

fun foreign_op :: "SessionRef \<Rightarrow> registry_op \<Rightarrow> bool" where
  "foreign_op cur (OpAttach ref) \<longleftrightarrow>
     ref_ConnectorID ref \<noteq> ref_ConnectorID cur \<or> ref_ProcessGeneration ref \<le> ref_ProcessGeneration cur"
| "foreign_op cur (OpDisconnect ref reason) \<longleftrightarrow> ref \<noteq> cur"

text \<open>
  What the sessions rely on: attaching makes a reference current only over an older process
  generation of the same tunnel, and disconnecting removes exactly the given reference. An
  operation on one connector leaves all the others alone.
\<close>

locale fenced_registry =
  fixes lookup :: "'r \<Rightarrow> string \<Rightarrow> SessionRef option"
    and attach :: "SessionRef \<Rightarrow> 'r \<Rightarrow> (error + AttachResult) \<times> 'r"
    and disconnect :: "SessionRef \<Rightarrow> DisconnectReason \<Rightarrow> 'r \<Rightarrow> error option \<times> 'r"
  assumes attach_error: "attach ref r = (Inl err, r') \<Longrightarrow> r' = r"
    and attach_lookup: "attach ref r = (Inr res, r') \<Longrightarrow>
      lookup r' c = (if c = ref_ConnectorID ref then Some ref else lookup r c)"
    and attach_newer: "attach ref r = (Inr res, r') \<Longrightarrow> lookup r (ref_ConnectorID ref) = Some prev \<Longrightarrow>
      ref_TunnelID prev = ref_TunnelID ref \<and> ref_ProcessGeneration prev < ref_ProcessGeneration ref"
    and disconnect_lookup: "disconnect ref reason r = (e, r') \<Longrightarrow>
      lookup r' c = lookup r c \<or>
      c = ref_ConnectorID ref \<and> lookup r c = Some ref \<and> lookup r' c = None"
begin

lemma attach_stale:
  assumes "lookup r c = Some cur" and "c = ref_ConnectorID cur"
    and "ref_ConnectorID ref \<noteq> c \<or> ref_ProcessGeneration ref \<le> ref_ProcessGeneration cur"
  shows "lookup (snd (attach ref r)) c = Some cur"
proof (cases "attach ref r")
  case (Pair res r')
  show ?thesis
  proof (cases res)
    case (Inl e)
    with Pair assms(1) show ?thesis by (auto dest: attach_error)
  next
    case (Inr x)
    have "ref_ConnectorID ref \<noteq> c"
    proof
      assume c: "ref_ConnectorID ref = c"
      with Pair Inr assms(1) attach_newer have "ref_ProcessGeneration cur < ref_ProcessGeneration ref"
        by blast
      with c assms(3) show False by simp
    qed
    with Pair Inr assms(1) attach_lookup [of ref r x r' c] show ?thesis by simp
  qed
qed

lemma disconnect_other:
  assumes "lookup r c = Some cur" and "ref \<noteq> cur"
  shows "lookup (snd (disconnect ref reason r)) c = Some cur"
  using assms disconnect_lookup [of ref reason r "fst (disconnect ref reason r)"
      "snd (disconnect ref reason r)" c] by auto

lemma foreign_run:
  assumes "lookup r (ref_ConnectorID cur) = Some cur" and "list_all (foreign_op cur) ops"
  shows "lookup (run_ops attach disconnect ops r) (ref_ConnectorID cur) = Some cur"
  using assms
proof (induction ops arbitrary: r)
  case (Cons x ops)
  then show ?case by (cases x) (auto simp: attach_stale disconnect_other)
qed simp

end

section \<open>The registry implements the contract\<close>

interpretation reg: fenced_registry fmlookup SessionRegistry_Attach SessionRegistry_Disconnect
proof unfold_locales
  fix ref :: SessionRef and r r' :: registry and res prev err e c reason
  show "SessionRegistry_Attach ref r = (Inl err, r') \<Longrightarrow> r' = r"
    by (auto simp: SessionRegistry_Attach_def split: if_splits option.splits)
  show "SessionRegistry_Attach ref r = (Inr res, r') \<Longrightarrow>
      fmlookup r' c = (if c = ref_ConnectorID ref then Some ref else fmlookup r c)"
    by (auto simp: SessionRegistry_Attach_def split: if_splits option.splits)
  show "SessionRegistry_Attach ref r = (Inr res, r') \<Longrightarrow>
      fmlookup r (ref_ConnectorID ref) = Some prev \<Longrightarrow>
      ref_TunnelID prev = ref_TunnelID ref \<and> ref_ProcessGeneration prev < ref_ProcessGeneration ref"
    by (auto simp: SessionRegistry_Attach_def split: if_splits option.splits)
  show "SessionRegistry_Disconnect ref reason r = (e, r') \<Longrightarrow>
      fmlookup r' c = fmlookup r c \<or>
      c = ref_ConnectorID ref \<and> fmlookup r c = Some ref \<and> fmlookup r' c = None"
    by (auto simp: SessionRegistry_Disconnect_def split: if_splits option.splits)
qed

text \<open>Every entry is valid and stands under its own connector.\<close>

definition registry_ok :: "registry \<Rightarrow> bool" where
  "registry_ok R \<longleftrightarrow>
     (\<forall>c ref. fmlookup R c = Some ref \<longrightarrow> ref_ConnectorID ref = c \<and> SessionRef_Validate ref = None)"

lemma registry_ok_new: "registry_ok NewSessionRegistry"
  by (simp add: registry_ok_def NewSessionRegistry_def)

lemma registry_ok_Attach:
  "registry_ok R \<Longrightarrow> registry_ok (snd (SessionRegistry_Attach ref R))"
  by (auto simp: registry_ok_def SessionRegistry_Attach_def split: if_splits option.splits)

lemma registry_ok_Disconnect:
  "registry_ok R \<Longrightarrow> registry_ok (snd (SessionRegistry_Disconnect ref reason R))"
  unfolding registry_ok_def
  using reg.disconnect_lookup [of ref reason R "fst (SessionRegistry_Disconnect ref reason R)"]
  by (metis option.distinct(1) prod.collapse)

lemma SessionRef_Validate_connector:
  "SessionRef_Validate ref = None \<Longrightarrow> ValidateIdentifier (ref_ConnectorID ref) = None"
  by (auto simp: SessionRef_Validate_def split: if_splits)

lemma Active_lookup:
  "SessionRef_Validate ref = None \<Longrightarrow>
     SessionRegistry_Active R (ref_ConnectorID ref) = fmlookup R (ref_ConnectorID ref)"
  by (simp add: SessionRegistry_Active_def SessionRef_Validate_connector)

section \<open>Properties\<close>

lemma Attach_current:
  assumes "SessionRegistry_Attach ref R = (Inr res, R')"
  shows "SessionRef_Validate ref = None"
    and "R' = fmupd (ref_ConnectorID ref) ref R"
    and "res = \<lparr>att_Current = ref, att_Replaced = fmlookup R (ref_ConnectorID ref)\<rparr>"
  using assms by (auto simp: SessionRegistry_Attach_def split: if_splits option.splits)

text \<open>
  C13. A session that attached stays the active session of its connector through every sequence of
  operations of other sessions: a stale process cannot attach over it, and a stale or repeated
  close of another reference, an older process generation included, never removes it.
\<close>

theorem attached_session_fenced:
  assumes "SessionRegistry_Attach cur R = (Inr res, R')" and "list_all (foreign_op cur) ops"
  shows "SessionRegistry_Active
           (run_ops SessionRegistry_Attach SessionRegistry_Disconnect ops R') (ref_ConnectorID cur)
         = Some cur"
proof -
  note a = Attach_current [OF assms(1)]
  have "fmlookup R' (ref_ConnectorID cur) = Some cur" by (simp add: a(2))
  then show ?thesis using reg.foreign_run assms(2) a(1) by (simp add: Active_lookup)
qed

definition sample_ref :: "uint64 \<Rightarrow> SessionRef" where
  "sample_ref g =
     \<lparr>ref_TunnelID = ''tun_1'', ref_ConnectorID = ''con_1'', ref_SessionID = ''ses_1'',
      ref_ProcessGeneration = g\<rparr>"

theorem attached_session_fenced_witness:
  "SessionRegistry_Active
     (run_ops SessionRegistry_Attach SessionRegistry_Disconnect
        [OpDisconnect (sample_ref 1) ReasonLeaseExpired, OpAttach (sample_ref 1)]
        (snd (SessionRegistry_Attach (sample_ref 2) (fmupd ''con_1'' (sample_ref 1) NewSessionRegistry))))
     ''con_1'' = Some (sample_ref 2)"
proof -
  let ?R = "fmupd ''con_1'' (sample_ref 1) NewSessionRegistry"
  have v: "SessionRef_Validate (sample_ref 2) = None" by code_simp
  moreover have "\<not> (2::uint64) \<le> 1" by code_simp
  ultimately obtain res R' where a: "SessionRegistry_Attach (sample_ref 2) ?R = (Inr res, R')"
    by (simp add: SessionRegistry_Attach_def) (simp add: sample_ref_def)
  have "list_all (foreign_op (sample_ref 2))
     [OpDisconnect (sample_ref 1) ReasonLeaseExpired, OpAttach (sample_ref 1)]"
    by (simp add: sample_ref_def)
  from attached_session_fenced [OF a this] show ?thesis by (simp add: a) (simp add: sample_ref_def)
qed

lemma registry_ok_run:
  "registry_ok R \<Longrightarrow>
     registry_ok (run_ops SessionRegistry_Attach SessionRegistry_Disconnect ops R)"
proof (induction ops arbitrary: R)
  case (Cons x ops)
  then show ?case by (cases x) (auto simp: registry_ok_Attach registry_ok_Disconnect)
qed simp

lemma Count_Active:
  assumes "registry_ok R"
  shows "SessionRegistry_Count R = card {c. SessionRegistry_Active R c \<noteq> None}"
proof -
  have "SessionRegistry_Active R c = fmlookup R c" for c
    using assms SessionRef_Validate_connector
    by (auto simp: SessionRegistry_Active_def registry_ok_def split: option.splits)
       (metis not_None_eq)
  then have "{c. SessionRegistry_Active R c \<noteq> None} = fset (fmdom R)"
    by (auto simp: fmlookup_dom_iff)
  then show ?thesis by (simp add: SessionRegistry_Count_def fcard.rep_eq)
qed

text \<open>
  C14. Through every history from the empty registry each entry is a valid reference that stands
  under its own connector, and \<open>Count\<close> is the number of connectors that \<open>Active\<close> reports.
\<close>

theorem registry_history_ok:
  "registry_ok (run_ops SessionRegistry_Attach SessionRegistry_Disconnect ops NewSessionRegistry) \<and>
   SessionRegistry_Count (run_ops SessionRegistry_Attach SessionRegistry_Disconnect ops NewSessionRegistry)
     = card {c. SessionRegistry_Active
          (run_ops SessionRegistry_Attach SessionRegistry_Disconnect ops NewSessionRegistry) c \<noteq> None}"
  using registry_ok_run [OF registry_ok_new] Count_Active by blast

end
