(* ===== verification/Server_Session.thy ===== *)
theory Server_Session
  imports Session_Registry
begin

text \<open>
  The server side of a connector session
  (\<open>src/internal/connectorprotocol/session.go\<close>, lines 108 to 843).

  A method of \<open>ServerSession\<close> is a function from the registry and the session to its result, the
  registry and the session, one atomic step because the session mutex is held for its whole body;
  \<open>Renew\<close>, which releases the mutex around the call of the authenticator, is two steps. The
  arguments \<open>now\<close>, \<open>now'\<close> are the successive readings of the clock, \<open>ctxErr\<close> is \<open>ctx.Err()\<close>.
  The guards for a nil session, context, server or registry are left out: a session made by
  \<open>Accept\<close> has them all.
\<close>

section \<open>Configuration\<close>

text \<open>The interfaces the server is configured with, as functions that return what a call returns.\<close>

record Authenticator =
  authn_Authenticate :: "AuthRequest \<Rightarrow> error + AuthResult"
  authn_Renew :: "RenewalRequest \<Rightarrow> error + AuthResult"

definition AuthenticatorFuncs_Authenticate ::
  "(AuthRequest \<Rightarrow> error + AuthResult) option \<Rightarrow> AuthRequest \<Rightarrow> error + AuthResult" where
  "AuthenticatorFuncs_Authenticate f request =
     (case f of
        None \<Rightarrow> Inl (codeError ErrAuthenticationFailed ReasonAuthentication False
                  (Some (ErrorString ''authentication is not configured'')))
      | Some g \<Rightarrow> g request)"

definition AuthenticatorFuncs_Renew ::
  "(RenewalRequest \<Rightarrow> error + AuthResult) option \<Rightarrow> RenewalRequest \<Rightarrow> error + AuthResult" where
  "AuthenticatorFuncs_Renew f request =
     (case f of
        None \<Rightarrow> Inl (codeError ErrCredentialExpired ReasonCredentialExpired True
                  (Some (ErrorString ''credential renewal is not configured'')))
      | Some g \<Rightarrow> g request)"

text \<open>\<open>newOpaqueID\<close>, with the outcome of \<open>rand.Read\<close> on 18 bytes as an argument.\<close>

definition newOpaqueID :: "error + string \<Rightarrow> string \<Rightarrow> error + string" where
  "newOpaqueID random name =
     (case random of
        Inl err \<Rightarrow> Inl err
      | Inr bytes \<Rightarrow> Inr (name @ ''_'' @ hex_EncodeToString bytes))"

record ServerConfig =
  srv_Authenticator :: "Authenticator option"
  srv_Snapshots :: "(string \<Rightarrow> error + Snapshot) option"
  srv_Capabilities :: "string list"
  srv_LeaseDuration :: duration
  srv_HeartbeatInterval :: duration
  srv_SessionIDs :: "(error + string) option"

record Server =
  server_Authenticator :: Authenticator
  server_Snapshots :: "string \<Rightarrow> error + Snapshot"
  server_Capabilities :: "string list"
  server_LeaseDuration :: duration
  server_HeartbeatInterval :: duration
  server_SessionIDs :: "error + string"

definition NewServer :: "error + string \<Rightarrow> ServerConfig \<Rightarrow> error + Server" where
  "NewServer random config =
     (case (srv_Authenticator config, srv_Snapshots config) of
        (Some authenticator, Some snapshots) \<Rightarrow>
          (let lease = (if srv_LeaseDuration config = 0 then DefaultLease
                        else srv_LeaseDuration config);
               heartbeat = (if srv_HeartbeatInterval config = 0 then DefaultHeartbeat
                            else srv_HeartbeatInterval config);
               ids = (case srv_SessionIDs config of
                        None \<Rightarrow> newOpaqueID random ''sess''
                      | Some source \<Rightarrow> source)
           in if lease \<le> 0 \<or> MaxLease < lease \<or> heartbeat \<le> 0
                 \<or> lease \<le> int64_wrap (heartbeat * 2)
                 \<or> ValidateCapabilities (srv_Capabilities config) \<noteq> None
              then Inl ErrInvalidInput
              else Inr \<lparr>server_Authenticator = authenticator, server_Snapshots = snapshots,
                        server_Capabilities = srv_Capabilities config,
                        server_LeaseDuration = lease, server_HeartbeatInterval = heartbeat,
                        server_SessionIDs = ids\<rparr>)
      | _ \<Rightarrow> Inl ErrInvalidInput)"

section \<open>The session\<close>

record ServerSession =
  ss_ref :: SessionRef
  ss_auth :: AuthResult
  ss_lease :: Lease
  ss_welcome :: Welcome
  ss_pendingSnapshot :: "Snapshot option"
  ss_pendingDelta :: "Delta option"
  ss_active :: Snapshot
  ss_hasActive :: bool
  ss_candidate :: Snapshot
  ss_hasCandidate :: bool
  ss_readyGeneration :: uint64
  ss_needsSnapshot :: bool
  ss_state :: SessionState
  ss_lastHeartbeat :: time
  ss_lastHeartbeatSentAt :: time
  ss_drain :: "Drain option"
  ss_drainStatus :: DrainStatus
  ss_drainCode :: Code
  ss_drainCompleted :: bool
  ss_disconnectReason :: DisconnectReason

definition bindSnapshot :: "Snapshot \<Rightarrow> string \<Rightarrow> string \<Rightarrow> string \<Rightarrow> uint64 \<Rightarrow> Snapshot" where
  "bindSnapshot snapshot accountID connectorID sessionID processGeneration =
     snapshot\<lparr>snap_AccountID := accountID, snap_ConnectorID := connectorID,
              snap_SessionID := sessionID, snap_ProcessGeneration := processGeneration\<rparr>"

definition Server_Accept ::
  "('a cfglib_scheme) \<Rightarrow> Server \<Rightarrow> time \<Rightarrow> Hello \<Rightarrow> registry \<Rightarrow>
     (error + ServerSession \<times> Welcome \<times> Snapshot) \<times> registry" where
  "Server_Accept L s now hello R =
     (case Hello_Validate now hello of
        Some err \<Rightarrow> (Inl err, R)
      | None \<Rightarrow>
     (case NegotiateVersion (hello_MinVersion hello) (hello_MaxVersion hello) of
        Inl err \<Rightarrow> (Inl err, R)
      | Inr version \<Rightarrow>
     (case NegotiateCapabilities (hello_Capabilities hello) (server_Capabilities s) of
        Inl err \<Rightarrow> (Inl err, R)
      | Inr capabilities \<Rightarrow>
     (case authn_Authenticate (server_Authenticator s) (hello_Auth hello) of
        Inl err \<Rightarrow>
          (Inl (codeError ErrAuthenticationFailed ReasonAuthentication False (Some err)), R)
      | Inr auth \<Rightarrow>
     if AuthResult_Validate now auth \<noteq> None \<or> res_AccountID auth \<noteq> hello_AccountID hello
        \<or> res_TunnelID auth \<noteq> hello_TunnelID hello
        \<or> res_ConnectorID auth \<noteq> hello_ConnectorID hello \<or> res_HostID auth \<noteq> hello_HostID hello
        \<or> res_IdentityKeyID auth \<noteq> auth_IdentityKeyID (hello_Auth hello)
        \<or> res_IdentityKeyThumbprint auth \<noteq> auth_IdentityKeyThumbprint (hello_Auth hello)
        \<or> res_ProcessGeneration auth \<noteq> hello_ProcessGeneration hello
     then (Inl (codeError ErrAuthenticationFailed ReasonAuthentication False
                  (AuthResult_Validate now auth)), R)
     else
     (case server_Snapshots s (hello_TunnelID hello) of
        Inl err \<Rightarrow> (Inl (codeError ErrSnapshotRejected ReasonSnapshotRejected True (Some err)), R)
      | Inr snapshot \<Rightarrow>
     if Snapshot_Validate L snapshot \<noteq> None \<or> snap_TunnelID snapshot \<noteq> hello_TunnelID hello
     then (Inl (codeError ErrSnapshotRejected ReasonSnapshotRejected False
                  (Snapshot_Validate L snapshot)), R)
     else
     (case server_SessionIDs s of
        Inl err \<Rightarrow> (Inl (codeError ErrSessionConflict ReasonAuthentication True (Some err)), R)
      | Inr sessionID \<Rightarrow>
     if ValidateIdentifier sessionID \<noteq> None
     then (Inl (codeError ErrSessionConflict ReasonAuthentication True None), R)
     else
     (let configuredExpiry = time_Add now (server_LeaseDuration s);
          leaseExpiry = (if time_Before configuredExpiry (res_LeaseExpiresAt auth)
                         then configuredExpiry else res_LeaseExpiresAt auth);
          lease = \<lparr>lease_SessionID = sessionID, lease_ExpiresAt = leaseExpiry,
                   lease_HeartbeatIntervalMS =
                     word_of_int (server_HeartbeatInterval s div Millisecond)\<rparr>
      in
     (case Lease_Validate now lease of
        Some err \<Rightarrow>
          (Inl (codeError ErrAuthenticationFailed ReasonAuthentication False (Some err)), R)
      | None \<Rightarrow>
     (let ref = \<lparr>ref_TunnelID = hello_TunnelID hello, ref_ConnectorID = hello_ConnectorID hello,
                 ref_SessionID = sessionID, ref_ProcessGeneration = hello_ProcessGeneration hello\<rparr>
      in
     (case SessionRegistry_Attach ref R of
        (Inl err, R') \<Rightarrow> (Inl err, R')
      | (Inr _, R') \<Rightarrow>
     (let welcome = \<lparr>welcome_Protocol = ProtocolName, welcome_Version = version,
            welcome_SessionID = sessionID, welcome_Capabilities = capabilities,
            welcome_Lease = lease, welcome_RequiresSnapshot = True, welcome_ServerTime = now\<rparr>;
          bound = bindSnapshot snapshot (hello_AccountID hello) (hello_ConnectorID hello)
            sessionID (hello_ProcessGeneration hello);
          session = \<lparr>ss_ref = ref, ss_auth = auth, ss_lease = lease, ss_welcome = welcome,
            ss_pendingSnapshot = Some bound, ss_pendingDelta = None, ss_active = zero_Snapshot,
            ss_hasActive = False, ss_candidate = zero_Snapshot, ss_hasCandidate = False,
            ss_readyGeneration = 0, ss_needsSnapshot = False,
            ss_state = SessionAwaitingSnapshot, ss_lastHeartbeat = now,
            ss_lastHeartbeatSentAt = 0, ss_drain = None, ss_drainStatus = DrainStatusOther '''',
            ss_drainCode = CodeEmpty, ss_drainCompleted = False,
            ss_disconnectReason = ReasonEmpty\<rparr>
      in (Inr (session, welcome, bound), R'))))))))))))"

definition matchesIdentity :: "ServerSession \<Rightarrow> string \<Rightarrow> string \<Rightarrow> string \<Rightarrow> string \<Rightarrow> uint64 \<Rightarrow> bool"
  where
  "matchesIdentity s accountID tunnelID connectorID sessionID processGeneration \<longleftrightarrow>
     accountID = res_AccountID (ss_auth s) \<and> tunnelID = ref_TunnelID (ss_ref s) \<and>
     connectorID = ref_ConnectorID (ss_ref s) \<and> sessionID = ref_SessionID (ss_ref s) \<and>
     processGeneration = ref_ProcessGeneration (ss_ref s)"

definition restoreStateLocked :: "ServerSession \<Rightarrow> ServerSession" where
  "restoreStateLocked s =
     (if ss_hasActive s \<and> ss_readyGeneration s = snap_Generation (ss_active s) \<and> \<not> ss_needsSnapshot s
      then s\<lparr>ss_state := SessionReady\<rparr>
      else s\<lparr>ss_state := SessionAwaitingSnapshot\<rparr>)"

definition ServerSession_makeAckLocked :: "ServerSession \<Rightarrow> AckKind \<Rightarrow> AckStatus \<Rightarrow> Snapshot \<Rightarrow> Ack" where
  "ServerSession_makeAckLocked s kind status snapshot =
     \<lparr>ack_AccountID = res_AccountID (ss_auth s), ack_TunnelID = ref_TunnelID (ss_ref s),
      ack_ConnectorID = ref_ConnectorID (ss_ref s), ack_SessionID = ref_SessionID (ss_ref s),
      ack_ProcessGeneration = ref_ProcessGeneration (ss_ref s), ack_Kind = kind,
      ack_Status = status, ack_Generation = snap_Generation snapshot,
      ack_ContentHash = snap_ContentHash snapshot, ack_Code = CodeEmpty\<rparr>"

definition ServerSession_closeLocked ::
  "DisconnectReason \<Rightarrow> registry \<Rightarrow> ServerSession \<Rightarrow> registry \<times> ServerSession" where
  "ServerSession_closeLocked reason R s =
     (if ss_state s = SessionClosed then (R, s)
      else (snd (SessionRegistry_Disconnect (ss_ref s) reason R),
            s\<lparr>ss_state := SessionClosed, ss_disconnectReason := reason\<rparr>))"

text \<open>
  \<open>ensureActiveLocked\<close> closes the session when it may not go on. The guard shared by all handlers
  is \<open>guarded\<close>: the body runs on the unchanged state when the session is active, and the error of
  the check is returned otherwise.
\<close>

definition ServerSession_ensureActiveLocked ::
  "time \<Rightarrow> registry \<Rightarrow> ServerSession \<Rightarrow> error option \<times> registry \<times> ServerSession" where
  "ServerSession_ensureActiveLocked now R s =
     (if ss_state s = SessionClosed
      then (Some (codeError ErrSessionClosed (ss_disconnectReason s) False None), R, s)
      else if SessionRegistry_Active R (ref_ConnectorID (ss_ref s)) \<noteq> Some (ss_ref s)
      then (Some (codeError ErrStaleSession ReasonSessionReplaced False None),
            ServerSession_closeLocked ReasonSessionReplaced R s)
      else if \<not> time_After (res_CredentialExpiresAt (ss_auth s)) now
      then (Some (codeError ErrCredentialExpired ReasonCredentialExpired True None),
            ServerSession_closeLocked ReasonCredentialExpired R s)
      else if \<not> time_After (lease_ExpiresAt (ss_lease s)) now
      then (Some (codeError ErrLeaseExpired ReasonLeaseExpired True None),
            ServerSession_closeLocked ReasonLeaseExpired R s)
      else if \<not> time_IsZero (ss_lastHeartbeat s) \<and>
           2 * heartbeat_interval (ss_lease s) < time_Sub now (ss_lastHeartbeat s)
      then (Some (codeError ErrHeartbeatTimeout ReasonHeartbeatTimeout True None),
            ServerSession_closeLocked ReasonHeartbeatTimeout R s)
      else (None, R, s))"

definition guarded ::
  "(error \<Rightarrow> 'r) \<Rightarrow> time \<Rightarrow> (ServerSession \<Rightarrow> 'r \<times> ServerSession) \<Rightarrow> registry \<Rightarrow> ServerSession \<Rightarrow>
     'r \<times> registry \<times> ServerSession" where
  "guarded fail now body R s =
     (case ServerSession_ensureActiveLocked now R s of
        (Some err, R', s') \<Rightarrow> (fail err, R', s')
      | (None, R', s') \<Rightarrow> (case body s' of (r, s'') \<Rightarrow> (r, R', s'')))"

section \<open>Acknowledgements and readiness\<close>

definition has_ready_active :: "ServerSession \<Rightarrow> bool" where
  "has_ready_active s \<longleftrightarrow> ss_hasActive s \<and> ss_readyGeneration s = snap_Generation (ss_active s)"

definition ack_pending_snapshot :: "Ack \<Rightarrow> Snapshot \<Rightarrow> ServerSession \<Rightarrow> error option \<times> ServerSession" where
  "ack_pending_snapshot ack pending s =
     (if ack_Kind ack \<noteq> AckSnapshot \<or> ack_Generation ack \<noteq> snap_Generation pending
         \<or> ack_ContentHash ack \<noteq> snap_ContentHash pending
      then (Some (codeError ErrSnapshotRejected ReasonSnapshotRejected False None), s)
      else if ack_Status ack = AckSnapshotRequired \<or> ack_Status ack = AckRejected
      then (Some (if ack_Status ack = AckSnapshotRequired
                  then codeError ErrSnapshotRequired ReasonGenerationGap True None
                  else codeError ErrSnapshotRejected ReasonSnapshotRejected False None),
            restoreStateLocked (s\<lparr>ss_pendingSnapshot := None, ss_needsSnapshot := True\<rparr>))
      else (let s' = s\<lparr>ss_candidate := pending, ss_hasCandidate := True,
                       ss_pendingSnapshot := None, ss_needsSnapshot := False\<rparr>
            in (None, if \<not> has_ready_active s' then s'\<lparr>ss_state := SessionAwaitingReady\<rparr> else s')))"

definition ack_pending_delta :: "Ack \<Rightarrow> Delta \<Rightarrow> ServerSession \<Rightarrow> error option \<times> ServerSession" where
  "ack_pending_delta ack pending s =
     (if ack_Kind ack \<noteq> AckDelta \<or> ack_Generation ack \<noteq> delta_Generation pending
         \<or> ack_ContentHash ack \<noteq> delta_ContentHash pending
      then (Some (codeError ErrDeltaRejected ReasonGenerationGap False None), s)
      else let s1 = s\<lparr>ss_pendingDelta := None\<rparr> in
        if ack_Status ack = AckSnapshotRequired
        then (Some (codeError ErrSnapshotRequired ReasonGenerationGap True None),
              restoreStateLocked (s1\<lparr>ss_needsSnapshot := True\<rparr>))
        else if ack_Status ack = AckRejected
        then (Some (codeError ErrDeltaRejected ReasonSnapshotRejected False None),
              restoreStateLocked (s1\<lparr>ss_needsSnapshot := True\<rparr>))
        else if ss_hasActive s1 \<and>
             (delta_PreviousGeneration pending \<noteq> snap_Generation (ss_active s1) \<or>
              delta_PreviousContentHash pending \<noteq> snap_ContentHash (ss_active s1))
        then (Some (codeError ErrGenerationGap ReasonGenerationGap True None), s1)
        else let s2 = s1\<lparr>ss_candidate :=
                 \<lparr>snap_AccountID = res_AccountID (ss_auth s), snap_TunnelID = delta_TunnelID pending,
                  snap_ConnectorID = ref_ConnectorID (ss_ref s),
                  snap_SessionID = ref_SessionID (ss_ref s),
                  snap_ProcessGeneration = ref_ProcessGeneration (ss_ref s),
                  snap_Generation = delta_Generation pending,
                  snap_ContentHash = delta_ContentHash pending,
                  snap_Payload = delta_Payload pending\<rparr>, ss_hasCandidate := True\<rparr>
             in (None, if \<not> has_ready_active s2 then s2\<lparr>ss_state := SessionAwaitingReady\<rparr> else s2))"

definition ack_nothing_pending :: "Ack \<Rightarrow> ServerSession \<Rightarrow> error option" where
  "ack_nothing_pending ack s =
     (if ack_Status ack = AckDuplicate
      then if \<not> ss_hasCandidate s \<and> \<not> ss_hasActive s
           then Some (codeError ErrStaleGeneration ReasonStaleGeneration False None)
           else let current = (if ss_hasCandidate s then ss_candidate s else ss_active s)
                in if ack_Generation ack \<noteq> snap_Generation current
                      \<or> ack_ContentHash ack \<noteq> snap_ContentHash current
                   then Some (codeError ErrStaleGeneration ReasonStaleGeneration False None)
                   else None
      else Some (codeError ErrInvalidInput ReasonMalformed False None))"

definition HandleAck_locked ::
  "Ack \<Rightarrow> ServerSession \<Rightarrow> error option \<times> ServerSession" where
  "HandleAck_locked ack s =
     (if \<not> matchesIdentity s (ack_AccountID ack) (ack_TunnelID ack) (ack_ConnectorID ack)
            (ack_SessionID ack) (ack_ProcessGeneration ack)
      then (Some (codeError ErrIdentityMismatch ReasonAuthentication False None), s)
      else case ss_pendingSnapshot s of
        Some pending \<Rightarrow> ack_pending_snapshot ack pending s
      | None \<Rightarrow>
          (case ss_pendingDelta s of
             Some pending \<Rightarrow> ack_pending_delta ack pending s
           | None \<Rightarrow> (ack_nothing_pending ack s, s)))"

definition ServerSession_HandleAck ::
  "time \<Rightarrow> Ack \<Rightarrow> registry \<Rightarrow> ServerSession \<Rightarrow> error option \<times> registry \<times> ServerSession" where
  "ServerSession_HandleAck now ack R s =
     (case Ack_Validate ack of
        Some err \<Rightarrow> (Some err, R, s)
      | None \<Rightarrow> guarded Some now (HandleAck_locked ack) R s)"

definition ServerSession_CanPersistNegativeAck :: "ServerSession \<Rightarrow> Ack \<Rightarrow> bool" where
  "ServerSession_CanPersistNegativeAck s ack \<longleftrightarrow>
     (ack_Status ack = AckRejected \<or> ack_Status ack = AckSnapshotRequired) \<and>
     Ack_Validate ack = None \<and>
     matchesIdentity s (ack_AccountID ack) (ack_TunnelID ack) (ack_ConnectorID ack)
       (ack_SessionID ack) (ack_ProcessGeneration ack) \<and>
     (case ss_pendingSnapshot s of
        Some pending \<Rightarrow>
          ack_Kind ack = AckSnapshot \<and> ack_Generation ack = snap_Generation pending \<and>
          ack_ContentHash ack = snap_ContentHash pending
      | None \<Rightarrow>
          (case ss_pendingDelta s of
             Some pending \<Rightarrow>
               ack_Kind ack = AckDelta \<and> ack_Generation ack = delta_Generation pending \<and>
               ack_ContentHash ack = delta_ContentHash pending
           | None \<Rightarrow> False))"

definition HandleReadiness_locked ::
  "Readiness \<Rightarrow> ServerSession \<Rightarrow> (error + Ack) \<times> ServerSession" where
  "HandleReadiness_locked readiness s =
     (if \<not> matchesIdentity s (rdy_AccountID readiness) (rdy_TunnelID readiness)
            (rdy_ConnectorID readiness) (rdy_SessionID readiness) (rdy_ProcessGeneration readiness)
      then (Inl (codeError ErrIdentityMismatch ReasonAuthentication False None), s)
      else if ss_hasCandidate s \<and> (rdy_Generation readiness \<noteq> snap_Generation (ss_candidate s)
            \<or> rdy_ContentHash readiness \<noteq> snap_ContentHash (ss_candidate s))
      then (Inl (codeError ErrStaleGeneration ReasonStaleGeneration False None), s)
      else if \<not> ss_hasCandidate s \<and> (\<not> ss_hasActive s
            \<or> rdy_Generation readiness \<noteq> snap_Generation (ss_active s)
            \<or> rdy_ContentHash readiness \<noteq> snap_ContentHash (ss_active s))
      then (Inl (codeError ErrStaleGeneration ReasonStaleGeneration False None), s)
      else if \<not> rdy_EdgeReady readiness \<or> \<not> rdy_RouteReady readiness \<or> \<not> rdy_OriginReady readiness
      then (Inl (codeError ErrNotReady ReasonSnapshotRejected True None), s)
      else
        (let s1 = (if ss_hasCandidate s
                   then s\<lparr>ss_active := ss_candidate s, ss_hasActive := True,
                          ss_candidate := zero_Snapshot, ss_hasCandidate := False\<rparr>
                   else s);
             s2 = s1\<lparr>ss_needsSnapshot := False, ss_readyGeneration := rdy_Generation readiness,
                     ss_state := SessionReady\<rparr>
         in (Inr (ServerSession_makeAckLocked s2 AckReady AckApplied
               (zero_Snapshot\<lparr>snap_Generation := rdy_Generation readiness,
                              snap_ContentHash := rdy_ContentHash readiness\<rparr>)), s2)))"

definition ServerSession_HandleReadiness ::
  "time \<Rightarrow> Readiness \<Rightarrow> registry \<Rightarrow> ServerSession \<Rightarrow> (error + Ack) \<times> registry \<times> ServerSession" where
  "ServerSession_HandleReadiness now readiness R s =
     (case Readiness_Validate readiness of
        Some err \<Rightarrow> (Inl err, R, s)
      | None \<Rightarrow> guarded Inl now (HandleReadiness_locked readiness) R s)"

section \<open>Offers\<close>

text \<open>An identity field of an offer that is set must be the session's.\<close>

definition foreign_identity :: "ServerSession \<Rightarrow> string \<Rightarrow> string \<Rightarrow> string \<Rightarrow> uint64 \<Rightarrow> bool" where
  "foreign_identity s accountID connectorID sessionID processGeneration \<longleftrightarrow>
     accountID \<noteq> '''' \<and> accountID \<noteq> res_AccountID (ss_auth s) \<or>
     connectorID \<noteq> '''' \<and> connectorID \<noteq> ref_ConnectorID (ss_ref s) \<or>
     sessionID \<noteq> '''' \<and> sessionID \<noteq> ref_SessionID (ss_ref s) \<or>
     processGeneration \<noteq> 0 \<and> processGeneration \<noteq> ref_ProcessGeneration (ss_ref s)"

definition same_content :: "Snapshot \<Rightarrow> Snapshot \<Rightarrow> error option" where
  "same_content snapshot known =
     (if snap_ContentHash snapshot \<noteq> snap_ContentHash known
      then Some (codeError ErrContentHashMismatch ReasonSnapshotRejected False None) else None)"

text \<open>The last lines of \<open>OfferSnapshot\<close>: the bound snapshot becomes the pending offer.\<close>

definition offer_bound :: "Snapshot \<Rightarrow> ServerSession \<Rightarrow> ServerSession" where
  "offer_bound snapshot s =
     (let s1 = s\<lparr>ss_pendingDelta := None,
                 ss_pendingSnapshot := Some (bindSnapshot snapshot (res_AccountID (ss_auth s))
                   (ref_ConnectorID (ss_ref s)) (ref_SessionID (ss_ref s))
                   (ref_ProcessGeneration (ss_ref s)))\<rparr>
      in if \<not> ss_hasActive s1 then s1\<lparr>ss_state := SessionAwaitingSnapshot\<rparr> else s1)"

definition OfferSnapshot_locked ::
  "Snapshot \<Rightarrow> ServerSession \<Rightarrow> error option \<times> ServerSession" where
  "OfferSnapshot_locked snapshot s =
     (if snap_TunnelID snapshot \<noteq> ref_TunnelID (ss_ref s)
      then (Some (codeError ErrIdentityMismatch ReasonAuthentication False None), s)
      else if foreign_identity s (snap_AccountID snapshot) (snap_ConnectorID snapshot)
            (snap_SessionID snapshot) (snap_ProcessGeneration snapshot)
      then (Some (codeError ErrIdentityMismatch ReasonAuthentication False None), s)
      else if ss_hasActive s \<and> snap_Generation snapshot < snap_Generation (ss_active s)
      then (Some (codeError ErrStaleGeneration ReasonStaleGeneration False None), s)
      else if ss_hasCandidate s \<and> snap_Generation snapshot = snap_Generation (ss_candidate s)
      then (same_content snapshot (ss_candidate s), s)
      else if ss_hasActive s \<and> snap_Generation snapshot = snap_Generation (ss_active s)
      then (same_content snapshot (ss_active s), s)
      else case ss_pendingSnapshot s of
        Some pending \<Rightarrow>
          if snap_Generation snapshot = snap_Generation pending
          then (same_content snapshot pending, s)
          else (None, offer_bound snapshot s)
      | None \<Rightarrow> (None, offer_bound snapshot s))"

definition ServerSession_OfferSnapshot ::
  "('a cfglib_scheme) \<Rightarrow> time \<Rightarrow> Snapshot \<Rightarrow> registry \<Rightarrow> ServerSession \<Rightarrow>
     error option \<times> registry \<times> ServerSession" where
  "ServerSession_OfferSnapshot L now snapshot R s =
     (case Snapshot_Validate L snapshot of
        Some err \<Rightarrow>
          (Some (codeError ErrSnapshotRejected ReasonSnapshotRejected False (Some err)), R, s)
      | None \<Rightarrow> guarded Some now (OfferSnapshot_locked snapshot) R s)"

definition OfferDelta_locked ::
  "Delta \<Rightarrow> ServerSession \<Rightarrow> error option \<times> ServerSession" where
  "OfferDelta_locked delta s =
     (if \<not> has_ready_active s \<or> ss_needsSnapshot s
      then (Some (codeError ErrNotReady ReasonSnapshotRejected True None), s)
      else if ss_pendingSnapshot s \<noteq> None \<or> ss_pendingDelta s \<noteq> None \<or> ss_hasCandidate s
      then (Some (codeError ErrGenerationGap ReasonGenerationGap True None), s)
      else if delta_TunnelID delta \<noteq> ref_TunnelID (ss_ref s)
         \<or> foreign_identity s (delta_AccountID delta) (delta_ConnectorID delta)
              (delta_SessionID delta) (delta_ProcessGeneration delta)
         \<or> delta_PreviousGeneration delta \<noteq> snap_Generation (ss_active s)
         \<or> delta_PreviousContentHash delta \<noteq> snap_ContentHash (ss_active s)
      then (Some (codeError ErrGenerationGap ReasonGenerationGap True None), s)
      else (None, s\<lparr>ss_pendingDelta := Some (delta
              \<lparr>delta_AccountID := res_AccountID (ss_auth s),
               delta_ConnectorID := ref_ConnectorID (ss_ref s),
               delta_SessionID := ref_SessionID (ss_ref s),
               delta_ProcessGeneration := ref_ProcessGeneration (ss_ref s)\<rparr>)\<rparr>))"

definition ServerSession_OfferDelta ::
  "('a cfglib_scheme) \<Rightarrow> time \<Rightarrow> Delta \<Rightarrow> registry \<Rightarrow> ServerSession \<Rightarrow>
     error option \<times> registry \<times> ServerSession" where
  "ServerSession_OfferDelta L now delta R s =
     (case Delta_Validate L delta of
        Some err \<Rightarrow>
          (Some (codeError ErrDeltaRejected ReasonGenerationGap False (Some err)), R, s)
      | None \<Rightarrow> guarded Some now (OfferDelta_locked delta) R s)"

section \<open>Heartbeats\<close>

text \<open>The snapshot a heartbeat must name: the active one, else the staged, else the offered one.\<close>

definition heartbeat_expected :: "ServerSession \<Rightarrow> Snapshot option" where
  "heartbeat_expected s =
     (if ss_hasActive s then Some (ss_active s)
      else if ss_hasCandidate s then Some (ss_candidate s)
      else ss_pendingSnapshot s)"

definition HandleHeartbeat_locked ::
  "Server \<Rightarrow> time \<Rightarrow> Heartbeat \<Rightarrow> ServerSession \<Rightarrow> (error + HeartbeatAck) \<times> ServerSession" where
  "HandleHeartbeat_locked server now heartbeat s =
     (if \<not> matchesIdentity s (hb_AccountID heartbeat) (hb_TunnelID heartbeat)
            (hb_ConnectorID heartbeat) (hb_SessionID heartbeat) (hb_ProcessGeneration heartbeat)
      then (Inl (codeError ErrIdentityMismatch ReasonAuthentication False None), s)
      else if time_After (hb_SentAt heartbeat) (time_Add now MaxClockSkew)
      then (Inl (codeError ErrInvalidInput ReasonMalformed False None), s)
      else if time_Before (hb_SentAt heartbeat) (time_Add now (- MaxClockSkew))
      then (Inl (codeError ErrHeartbeatTimeout ReasonHeartbeatTimeout True None), s)
      else if \<not> time_IsZero (ss_lastHeartbeatSentAt s)
         \<and> \<not> time_After (hb_SentAt heartbeat) (ss_lastHeartbeatSentAt s)
      then (Inl (codeError ErrStaleSession ReasonStaleGeneration False None), s)
      else case heartbeat_expected s of
        None \<Rightarrow> (Inl (codeError ErrSnapshotRequired ReasonGenerationGap True None), s)
      | Some expected \<Rightarrow>
          if hb_LastAppliedGeneration heartbeat \<noteq> snap_Generation expected
             \<or> hb_LastAppliedHash heartbeat \<noteq> snap_ContentHash expected
          then (Inl (codeError ErrSnapshotRequired ReasonGenerationGap True None),
                if ss_hasActive s
                then s\<lparr>ss_needsSnapshot := True, ss_readyGeneration := 0,
                       ss_state := SessionAwaitingSnapshot\<rparr>
                else s)
          else
            (let configured = time_Add now (server_LeaseDuration server);
                 leaseExpiry = (if time_Before (res_CredentialExpiresAt (ss_auth s)) configured
                                then res_CredentialExpiresAt (ss_auth s) else configured)
             in (Inr \<lparr>hba_AccountID = res_AccountID (ss_auth s),
                      hba_TunnelID = ref_TunnelID (ss_ref s),
                      hba_ConnectorID = ref_ConnectorID (ss_ref s),
                      hba_SessionID = ref_SessionID (ss_ref s),
                      hba_ProcessGeneration = ref_ProcessGeneration (ss_ref s),
                      hba_LeaseExpiresAt = leaseExpiry, hba_ServerTime = now\<rparr>,
                 s\<lparr>ss_lastHeartbeatSentAt := hb_SentAt heartbeat, ss_lastHeartbeat := now,
                   ss_lease := (ss_lease s)\<lparr>lease_ExpiresAt := leaseExpiry\<rparr>\<rparr>)))"

definition ServerSession_HandleHeartbeat ::
  "Server \<Rightarrow> time \<Rightarrow> Heartbeat \<Rightarrow> registry \<Rightarrow> ServerSession \<Rightarrow>
     (error + HeartbeatAck) \<times> registry \<times> ServerSession" where
  "ServerSession_HandleHeartbeat server now heartbeat R s =
     (case Heartbeat_Validate heartbeat of
        Some err \<Rightarrow> (Inl err, R, s)
      | None \<Rightarrow> guarded Inl now (HandleHeartbeat_locked server now heartbeat) R s)"

section \<open>Drain\<close>

definition hasCapability_Drain :: "ServerSession \<Rightarrow> bool" where
  "hasCapability_Drain s = hasCapability (welcome_Capabilities (ss_welcome s)) CapabilityDrain"

definition BeginDrain_locked ::
  "time \<Rightarrow> string \<Rightarrow> time \<Rightarrow> bool \<Rightarrow> ServerSession \<Rightarrow> (error + Drain) \<times> ServerSession" where
  "BeginDrain_locked now' drainID deadline forceAfterDeadline s =
     (if \<not> hasCapability_Drain s
      then (Inl (codeError ErrCapabilityMissing ReasonCapabilityMissing False None), s)
      else case ss_drain s of
        Some drain \<Rightarrow>
          if drain_DrainID drain = drainID then (Inr drain, s)
          else (Inl (codeError ErrSessionConflict ReasonStaleGeneration True None), s)
      | None \<Rightarrow>
          if \<not> ss_hasActive s \<or> ss_needsSnapshot s
             \<or> ss_readyGeneration s \<noteq> snap_Generation (ss_active s) \<or> ss_state s \<noteq> SessionReady
          then (Inl (codeError ErrNotReady ReasonSnapshotRejected True None), s)
          else
            (let request = \<lparr>drain_AccountID = res_AccountID (ss_auth s),
                   drain_TunnelID = ref_TunnelID (ss_ref s),
                   drain_ConnectorID = ref_ConnectorID (ss_ref s),
                   drain_SessionID = ref_SessionID (ss_ref s),
                   drain_ProcessGeneration = ref_ProcessGeneration (ss_ref s),
                   drain_DrainID = drainID, drain_Generation = snap_Generation (ss_active s),
                   drain_ContentHash = snap_ContentHash (ss_active s),
                   drain_Deadline = deadline, drain_StopNewStreams = True,
                   drain_ForceAfterDeadline = forceAfterDeadline\<rparr>
             in case Drain_Validate now' request of
                  Some err \<Rightarrow> (Inl err, s)
                | None \<Rightarrow>
                    (Inr request,
                     s\<lparr>ss_drain := Some request, ss_drainStatus := DrainAccepted,
                       ss_drainCode := CodeEmpty, ss_drainCompleted := False,
                       ss_state := SessionDraining\<rparr>)))"

definition ServerSession_BeginDrain ::
  "error option \<Rightarrow> time \<Rightarrow> time \<Rightarrow> string \<Rightarrow> time \<Rightarrow> bool \<Rightarrow> registry \<Rightarrow> ServerSession \<Rightarrow>
     (error + Drain) \<times> registry \<times> ServerSession" where
  "ServerSession_BeginDrain ctxErr now now' drainID deadline forceAfterDeadline R s =
     (case ctxErr of
        Some err \<Rightarrow> (Inl (codeError ErrCanceled ReasonCanceled True (Some err)), R, s)
      | None \<Rightarrow> guarded Inl now (BeginDrain_locked now' drainID deadline forceAfterDeadline) R s)"

definition HandleDrainAck_locked ::
  "DrainAck \<Rightarrow> ServerSession \<Rightarrow> error option \<times> ServerSession" where
  "HandleDrainAck_locked ack s =
     (if \<not> matchesIdentity s (dack_AccountID ack) (dack_TunnelID ack) (dack_ConnectorID ack)
            (dack_SessionID ack) (dack_ProcessGeneration ack)
      then (Some (codeError ErrIdentityMismatch ReasonAuthentication False None), s)
      else case ss_drain s of
        None \<Rightarrow> (Some (codeError ErrStaleSession ReasonStaleGeneration False None), s)
      | Some drain \<Rightarrow>
          if dack_DrainID ack \<noteq> drain_DrainID drain
          then (Some (codeError ErrStaleSession ReasonStaleGeneration False None), s)
          else if dack_Generation ack \<noteq> drain_Generation drain
             \<or> dack_ContentHash ack \<noteq> drain_ContentHash drain
          then (Some (codeError ErrContentHashMismatch ReasonSnapshotRejected False None), s)
          else if ss_drainCompleted s
          then (if dack_Status ack = ss_drainStatus s \<and> dack_Code ack = ss_drainCode s
                then None
                else Some (codeError ErrStaleGeneration ReasonStaleGeneration False None), s)
          else
            (let s1 = s\<lparr>ss_drainStatus := dack_Status ack, ss_drainCode := dack_Code ack\<rparr>
             in case dack_Status ack of
                  DrainAccepted \<Rightarrow> (None, s1)
                | DrainProgress \<Rightarrow> (None, s1)
                | DrainCompleted \<Rightarrow> (None, s1\<lparr>ss_drainCompleted := True\<rparr>)
                | DrainForced \<Rightarrow> (None, s1\<lparr>ss_drainCompleted := True\<rparr>)
                | DrainRejected \<Rightarrow>
                    (Some (codeError ErrDrainRejected ReasonSnapshotRejected False None),
                     restoreStateLocked (s1\<lparr>ss_drainCompleted := True\<rparr>))
                | DrainStatusOther _ \<Rightarrow> (Some ErrInvalidInput, s1)))"

definition ServerSession_HandleDrainAck ::
  "error option \<Rightarrow> time \<Rightarrow> time \<Rightarrow> DrainAck \<Rightarrow> registry \<Rightarrow> ServerSession \<Rightarrow>
     error option \<times> registry \<times> ServerSession" where
  "ServerSession_HandleDrainAck ctxErr now now' ack R s =
     (case ctxErr of
        Some err \<Rightarrow> (Some (codeError ErrCanceled ReasonCanceled True (Some err)), R, s)
      | None \<Rightarrow>
     (case DrainAck_Validate now ack of
        Some err \<Rightarrow> (Some err, R, s)
      | None \<Rightarrow> guarded Some now' (HandleDrainAck_locked ack) R s))"

definition ServerSession_CanPersistNegativeDrainAck :: "ServerSession \<Rightarrow> DrainAck \<Rightarrow> bool" where
  "ServerSession_CanPersistNegativeDrainAck s ack \<longleftrightarrow>
     dack_Status ack = DrainRejected \<and> DrainAck_Validate 0 ack = None \<and>
     (case ss_drain s of
        None \<Rightarrow> False
      | Some drain \<Rightarrow>
          matchesIdentity s (dack_AccountID ack) (dack_TunnelID ack) (dack_ConnectorID ack)
            (dack_SessionID ack) (dack_ProcessGeneration ack) \<and>
          dack_DrainID ack = drain_DrainID drain \<and> dack_Generation ack = drain_Generation drain \<and>
          dack_ContentHash ack = drain_ContentHash drain)"

definition ServerSession_Drain :: "ServerSession \<Rightarrow> (Drain \<times> DrainStatus \<times> bool) option" where
  "ServerSession_Drain s =
     (case ss_drain s of
        None \<Rightarrow> None
      | Some drain \<Rightarrow> Some (drain, ss_drainStatus s, ss_drainCompleted s))"

section \<open>Renewal and close\<close>

text \<open>
  \<open>Renew\<close> up to the call of the authenticator; the values it carries over the call, \<open>now\<close>, the
  authentication and the reference, are its result.
\<close>

definition Renew_begin_locked ::
  "time \<Rightarrow> RenewalRequest \<Rightarrow> ServerSession \<Rightarrow> (error + time \<times> AuthResult \<times> SessionRef) \<times> ServerSession" where
  "Renew_begin_locked now request s =
     (if ren_SessionID request \<noteq> ref_SessionID (ss_ref s)
         \<or> ren_AccountID request \<noteq> res_AccountID (ss_auth s)
         \<or> ren_TunnelID request \<noteq> ref_TunnelID (ss_ref s)
         \<or> ren_ConnectorID request \<noteq> ref_ConnectorID (ss_ref s)
         \<or> ren_HostID request \<noteq> res_HostID (ss_auth s)
         \<or> ren_IdentityKeyID request \<noteq> res_IdentityKeyID (ss_auth s)
         \<or> ren_IdentityKeyThumbprint request \<noteq> res_IdentityKeyThumbprint (ss_auth s)
         \<or> ren_ProcessGeneration request \<noteq> ref_ProcessGeneration (ss_ref s)
         \<or> ren_CredentialGeneration request \<noteq> res_CredentialGeneration (ss_auth s)
      then (Inl (codeError ErrIdentityMismatch ReasonAuthentication False None), s)
      else (Inr (now, ss_auth s, ss_ref s), s))"

definition ServerSession_Renew_begin ::
  "time \<Rightarrow> RenewalRequest \<Rightarrow> registry \<Rightarrow> ServerSession \<Rightarrow>
     (error + time \<times> AuthResult \<times> SessionRef) \<times> registry \<times> ServerSession" where
  "ServerSession_Renew_begin now request R s =
     (case RenewalRequest_ValidateAt now request of
        Some err \<Rightarrow> (Inl err, R, s)
      | None \<Rightarrow> guarded Inl now (Renew_begin_locked now request) R s)"

text \<open>The check of the authenticator's answer, which needs no lock.\<close>

definition renewed_foreign :: "AuthResult \<Rightarrow> SessionRef \<Rightarrow> AuthResult \<Rightarrow> bool" where
  "renewed_foreign expected ref result \<longleftrightarrow>
     res_AccountID result \<noteq> res_AccountID expected \<or> res_TunnelID result \<noteq> ref_TunnelID ref \<or>
     res_ConnectorID result \<noteq> ref_ConnectorID ref \<or>
     res_SessionID result \<noteq> '''' \<and> res_SessionID result \<noteq> ref_SessionID ref \<or>
     res_HostID result \<noteq> res_HostID expected \<or>
     res_IdentityKeyID result \<noteq> res_IdentityKeyID expected \<or>
     res_IdentityKeyThumbprint result \<noteq> res_IdentityKeyThumbprint expected \<or>
     res_ProcessGeneration result \<noteq> ref_ProcessGeneration ref \<or>
     res_CredentialGeneration result < res_CredentialGeneration expected"

definition ServerSession_Renew_check ::
  "time \<times> AuthResult \<times> SessionRef \<Rightarrow> error + AuthResult \<Rightarrow> error + AuthResult" where
  "ServerSession_Renew_check = (\<lambda>(now, expected, ref) answer.
     case answer of
       Inl err \<Rightarrow> Inl (codeError ErrCredentialExpired ReasonCredentialExpired True (Some err))
     | Inr result \<Rightarrow>
         (case AuthResult_Validate now result of
            Some err \<Rightarrow> Inl (codeError ErrAuthenticationFailed ReasonAuthentication False (Some err))
          | None \<Rightarrow>
              if renewed_foreign expected ref result
              then Inl (codeError ErrAuthenticationFailed ReasonAuthentication False
                          (Some ErrIdentityMismatch))
              else Inr result))"

definition Renew_commit_locked ::
  "Server \<Rightarrow> time \<Rightarrow> AuthResult \<Rightarrow> SessionRef \<Rightarrow> AuthResult \<Rightarrow> ServerSession \<Rightarrow> (error + AuthResult) \<times> ServerSession" where
  "Renew_commit_locked server now expected ref result s =
     (if ss_auth s \<noteq> expected \<or> ss_ref s \<noteq> ref
      then (Inl (codeError ErrSessionConflict ReasonStaleGeneration True None), s)
      else
        (let result' = result\<lparr>res_SessionID := ref_SessionID ref\<rparr>;
             configuredExpiry = time_Add now (server_LeaseDuration server);
             expiry = (if time_Before configuredExpiry (res_LeaseExpiresAt result')
                       then configuredExpiry else res_LeaseExpiresAt result')
         in (Inr result',
             s\<lparr>ss_auth := result', ss_lease := (ss_lease s)\<lparr>lease_ExpiresAt := expiry\<rparr>,
               ss_lastHeartbeat := now\<rparr>)))"

definition ServerSession_Renew_commit ::
  "Server \<Rightarrow> time \<Rightarrow> time \<times> AuthResult \<times> SessionRef \<Rightarrow> AuthResult \<Rightarrow> registry \<Rightarrow> ServerSession \<Rightarrow>
     (error + AuthResult) \<times> registry \<times> ServerSession" where
  "ServerSession_Renew_commit server now' = (\<lambda>(now, expected, ref) result R s.
     guarded Inl now' (Renew_commit_locked server now expected ref result) R s)"

definition ServerSession_Renew ::
  "Server \<Rightarrow> time \<Rightarrow> time \<Rightarrow> RenewalRequest \<Rightarrow> registry \<Rightarrow> ServerSession \<Rightarrow>
     (error + AuthResult) \<times> registry \<times> ServerSession" where
  "ServerSession_Renew server now now' request R s =
     (case ServerSession_Renew_begin now request R s of
        (Inl err, R', s') \<Rightarrow> (Inl err, R', s')
      | (Inr saved, R', s') \<Rightarrow>
          (case ServerSession_Renew_check saved (authn_Renew (server_Authenticator server) request) of
             Inl err \<Rightarrow> (Inl err, R', s')
           | Inr result \<Rightarrow> ServerSession_Renew_commit server now' saved result R' s'))"

definition ServerSession_Close ::
  "DisconnectReason \<Rightarrow> registry \<Rightarrow> ServerSession \<Rightarrow> error option \<times> registry \<times> ServerSession" where
  "ServerSession_Close reason R s =
     (if \<not> validDisconnectReason reason then (Some ErrInvalidInput, R, s)
      else (None, ServerSession_closeLocked reason R s))"

definition ServerSession_Disconnect :: "ServerSession \<Rightarrow> Disconnect" where
  "ServerSession_Disconnect s =
     (let reason = (if ss_disconnectReason s = ReasonEmpty then ReasonProtocolClosed
                    else ss_disconnectReason s)
      in \<lparr>disc_AccountID = res_AccountID (ss_auth s), disc_TunnelID = ref_TunnelID (ss_ref s),
          disc_ConnectorID = ref_ConnectorID (ss_ref s), disc_SessionID = ref_SessionID (ss_ref s),
          disc_ProcessGeneration = ref_ProcessGeneration (ss_ref s), disc_Reason = reason,
          disc_Retryable = (reason = ReasonLeaseExpired \<or> reason = ReasonHeartbeatTimeout
             \<or> reason = ReasonCredentialExpired \<or> reason = ReasonSessionReplaced),
          disc_Message = ''''\<rparr>)"

section \<open>Accessors\<close>

definition ServerSession_Current :: "ServerSession \<Rightarrow> Snapshot \<times> bool \<times> uint64" where
  "ServerSession_Current s =
     (if \<not> ss_hasActive s then (zero_Snapshot, False, 0)
      else (ss_active s,
            ss_state s = SessionReady \<and> \<not> ss_needsSnapshot s \<and>
              ss_readyGeneration s = snap_Generation (ss_active s),
            ss_readyGeneration s))"

definition ServerSession_CheckLease ::
  "time \<Rightarrow> registry \<Rightarrow> ServerSession \<Rightarrow> error option \<times> registry \<times> ServerSession" where
  "ServerSession_CheckLease now R s = ServerSession_ensureActiveLocked now R s"

end
