(* ===== verification/Server_Invariants.thy ===== *)
theory Server_Invariants
  imports Server_Session
begin

text \<open>
  The invariant of a server session, the contract that every handler keeps, and the states a
  session reaches from \<open>Accept\<close>.
\<close>

section \<open>The invariant\<close>

text \<open>A configuration that carries the identity of the session and the hash of its own payload.\<close>

definition snapshot_owned :: "('a golib_scheme) \<Rightarrow> ServerSession \<Rightarrow> Snapshot \<Rightarrow> bool" where
  "snapshot_owned L s snap \<longleftrightarrow>
     snap_AccountID snap = res_AccountID (ss_auth s) \<and>
     snap_TunnelID snap = ref_TunnelID (ss_ref s) \<and>
     snap_ConnectorID snap = ref_ConnectorID (ss_ref s) \<and>
     snap_SessionID snap = ref_SessionID (ss_ref s) \<and>
     snap_ProcessGeneration snap = ref_ProcessGeneration (ss_ref s) \<and>
     snap_ContentHash snap = content_hash L (snap_Payload snap)"

text \<open>A pending delta always continues the active configuration.\<close>

definition delta_continues :: "('a golib_scheme) \<Rightarrow> ServerSession \<Rightarrow> Delta \<Rightarrow> bool" where
  "delta_continues L s d \<longleftrightarrow>
     ss_hasActive s \<and> \<not> ss_hasCandidate s \<and> ss_pendingSnapshot s = None \<and>
     delta_PreviousGeneration d = snap_Generation (ss_active s) \<and>
     delta_PreviousContentHash d = snap_ContentHash (ss_active s) \<and>
     delta_Generation d = delta_PreviousGeneration d + 1 \<and>
     delta_TunnelID d = ref_TunnelID (ss_ref s) \<and>
     delta_ContentHash d = content_hash L (delta_Payload d)"

definition inv_config :: "('a golib_scheme) \<Rightarrow> ServerSession \<Rightarrow> bool" where
  "inv_config L s \<longleftrightarrow>
     (\<forall>p. ss_pendingSnapshot s = Some p \<longrightarrow> snapshot_owned L s p) \<and>
     (ss_hasCandidate s \<longrightarrow> snapshot_owned L s (ss_candidate s)) \<and>
     (ss_hasActive s \<longrightarrow> snapshot_owned L s (ss_active s)) \<and>
     (\<forall>d. ss_pendingDelta s = Some d \<longrightarrow> delta_continues L s d)"

text \<open>Readiness is claimed for an active, current configuration only; a closed session has a reason.\<close>

definition inv_state :: "ServerSession \<Rightarrow> bool" where
  "inv_state s \<longleftrightarrow>
     ss_state s \<noteq> SessionNew \<and>
     (ss_state s = SessionReady \<longrightarrow> has_ready_active s \<and> \<not> ss_needsSnapshot s) \<and>
     (ss_state s = SessionDraining \<longrightarrow> ss_drain s \<noteq> None) \<and>
     (if ss_state s = SessionClosed then validDisconnectReason (ss_disconnectReason s)
      else ss_disconnectReason s = ReasonEmpty)"

text \<open>The authenticated identity, and a lease that never outlives the credential.\<close>

definition inv_auth :: "ServerSession \<Rightarrow> bool" where
  "inv_auth s \<longleftrightarrow>
     SessionRef_Validate (ss_ref s) = None \<and>
     res_TunnelID (ss_auth s) = ref_TunnelID (ss_ref s) \<and>
     res_ConnectorID (ss_auth s) = ref_ConnectorID (ss_ref s) \<and>
     res_ProcessGeneration (ss_auth s) = ref_ProcessGeneration (ss_ref s) \<and>
     lease_SessionID (ss_lease s) = ref_SessionID (ss_ref s) \<and>
     lease_ExpiresAt (ss_lease s) \<le> res_CredentialExpiresAt (ss_auth s)"

text \<open>The drain request addresses this session.\<close>

definition inv_drain :: "ServerSession \<Rightarrow> bool" where
  "inv_drain s \<longleftrightarrow>
     (case ss_drain s of
        None \<Rightarrow> \<not> ss_drainCompleted s
      | Some d \<Rightarrow>
          matchesIdentity s (drain_AccountID d) (drain_TunnelID d) (drain_ConnectorID d)
            (drain_SessionID d) (drain_ProcessGeneration d) \<and> drain_StopNewStreams d)"

definition server_inv :: "('a golib_scheme) \<Rightarrow> ServerSession \<Rightarrow> bool" where
  "server_inv L s \<longleftrightarrow> inv_config L s \<and> inv_state s \<and> inv_auth s \<and> inv_drain s"

lemmas inv_defs = inv_config_def inv_state_def inv_auth_def inv_drain_def snapshot_owned_def
  delta_continues_def has_ready_active_def matchesIdentity_def

text \<open>The fields each part does not read.\<close>

lemma inv_config_frame [simp]:
  "inv_config L (s\<lparr>ss_readyGeneration := x_readyGeneration\<rparr>) = inv_config L s"
  "inv_config L (s\<lparr>ss_needsSnapshot := x_needsSnapshot\<rparr>) = inv_config L s"
  "inv_config L (s\<lparr>ss_state := x_state\<rparr>) = inv_config L s"
  "inv_config L (s\<lparr>ss_lastHeartbeat := x_lastHeartbeat\<rparr>) = inv_config L s"
  "inv_config L (s\<lparr>ss_lastHeartbeatSentAt := x_lastHeartbeatSentAt\<rparr>) = inv_config L s"
  "inv_config L (s\<lparr>ss_drain := x_drain\<rparr>) = inv_config L s"
  "inv_config L (s\<lparr>ss_drainStatus := x_drainStatus\<rparr>) = inv_config L s"
  "inv_config L (s\<lparr>ss_drainCode := x_drainCode\<rparr>) = inv_config L s"
  "inv_config L (s\<lparr>ss_drainCompleted := x_drainCompleted\<rparr>) = inv_config L s"
  "inv_config L (s\<lparr>ss_disconnectReason := x_disconnectReason\<rparr>) = inv_config L s"
  "inv_config L (s\<lparr>ss_lease := x_lease\<rparr>) = inv_config L s"
  "inv_config L (s\<lparr>ss_welcome := x_welcome\<rparr>) = inv_config L s"
  by (simp_all add: inv_defs split: option.split)

lemma inv_state_frame [simp]:
  "inv_state (s\<lparr>ss_pendingSnapshot := x_pendingSnapshot\<rparr>) = inv_state s"
  "inv_state (s\<lparr>ss_pendingDelta := x_pendingDelta\<rparr>) = inv_state s"
  "inv_state (s\<lparr>ss_candidate := x_candidate\<rparr>) = inv_state s"
  "inv_state (s\<lparr>ss_hasCandidate := x_hasCandidate\<rparr>) = inv_state s"
  "inv_state (s\<lparr>ss_lastHeartbeat := x_lastHeartbeat\<rparr>) = inv_state s"
  "inv_state (s\<lparr>ss_lastHeartbeatSentAt := x_lastHeartbeatSentAt\<rparr>) = inv_state s"
  "inv_state (s\<lparr>ss_drainStatus := x_drainStatus\<rparr>) = inv_state s"
  "inv_state (s\<lparr>ss_drainCode := x_drainCode\<rparr>) = inv_state s"
  "inv_state (s\<lparr>ss_drainCompleted := x_drainCompleted\<rparr>) = inv_state s"
  "inv_state (s\<lparr>ss_lease := x_lease\<rparr>) = inv_state s"
  "inv_state (s\<lparr>ss_welcome := x_welcome\<rparr>) = inv_state s"
  "inv_state (s\<lparr>ss_auth := x_auth\<rparr>) = inv_state s"
  by (simp_all add: inv_defs split: option.split)

lemma inv_auth_frame [simp]:
  "inv_auth (s\<lparr>ss_pendingSnapshot := x_pendingSnapshot\<rparr>) = inv_auth s"
  "inv_auth (s\<lparr>ss_pendingDelta := x_pendingDelta\<rparr>) = inv_auth s"
  "inv_auth (s\<lparr>ss_active := x_active\<rparr>) = inv_auth s"
  "inv_auth (s\<lparr>ss_hasActive := x_hasActive\<rparr>) = inv_auth s"
  "inv_auth (s\<lparr>ss_candidate := x_candidate\<rparr>) = inv_auth s"
  "inv_auth (s\<lparr>ss_hasCandidate := x_hasCandidate\<rparr>) = inv_auth s"
  "inv_auth (s\<lparr>ss_readyGeneration := x_readyGeneration\<rparr>) = inv_auth s"
  "inv_auth (s\<lparr>ss_needsSnapshot := x_needsSnapshot\<rparr>) = inv_auth s"
  "inv_auth (s\<lparr>ss_state := x_state\<rparr>) = inv_auth s"
  "inv_auth (s\<lparr>ss_lastHeartbeat := x_lastHeartbeat\<rparr>) = inv_auth s"
  "inv_auth (s\<lparr>ss_lastHeartbeatSentAt := x_lastHeartbeatSentAt\<rparr>) = inv_auth s"
  "inv_auth (s\<lparr>ss_drain := x_drain\<rparr>) = inv_auth s"
  "inv_auth (s\<lparr>ss_drainStatus := x_drainStatus\<rparr>) = inv_auth s"
  "inv_auth (s\<lparr>ss_drainCode := x_drainCode\<rparr>) = inv_auth s"
  "inv_auth (s\<lparr>ss_drainCompleted := x_drainCompleted\<rparr>) = inv_auth s"
  "inv_auth (s\<lparr>ss_disconnectReason := x_disconnectReason\<rparr>) = inv_auth s"
  "inv_auth (s\<lparr>ss_welcome := x_welcome\<rparr>) = inv_auth s"
  by (simp_all add: inv_defs split: option.split)

lemma inv_drain_frame [simp]:
  "inv_drain (s\<lparr>ss_pendingSnapshot := x_pendingSnapshot\<rparr>) = inv_drain s"
  "inv_drain (s\<lparr>ss_pendingDelta := x_pendingDelta\<rparr>) = inv_drain s"
  "inv_drain (s\<lparr>ss_active := x_active\<rparr>) = inv_drain s"
  "inv_drain (s\<lparr>ss_hasActive := x_hasActive\<rparr>) = inv_drain s"
  "inv_drain (s\<lparr>ss_candidate := x_candidate\<rparr>) = inv_drain s"
  "inv_drain (s\<lparr>ss_hasCandidate := x_hasCandidate\<rparr>) = inv_drain s"
  "inv_drain (s\<lparr>ss_readyGeneration := x_readyGeneration\<rparr>) = inv_drain s"
  "inv_drain (s\<lparr>ss_needsSnapshot := x_needsSnapshot\<rparr>) = inv_drain s"
  "inv_drain (s\<lparr>ss_state := x_state\<rparr>) = inv_drain s"
  "inv_drain (s\<lparr>ss_lastHeartbeat := x_lastHeartbeat\<rparr>) = inv_drain s"
  "inv_drain (s\<lparr>ss_lastHeartbeatSentAt := x_lastHeartbeatSentAt\<rparr>) = inv_drain s"
  "inv_drain (s\<lparr>ss_drainStatus := x_drainStatus\<rparr>) = inv_drain s"
  "inv_drain (s\<lparr>ss_drainCode := x_drainCode\<rparr>) = inv_drain s"
  "inv_drain (s\<lparr>ss_disconnectReason := x_disconnectReason\<rparr>) = inv_drain s"
  "inv_drain (s\<lparr>ss_lease := x_lease\<rparr>) = inv_drain s"
  "inv_drain (s\<lparr>ss_welcome := x_welcome\<rparr>) = inv_drain s"
  by (simp_all add: inv_defs split: option.split)

lemma snapshot_owned_frame [simp]:
  "snapshot_owned L (s\<lparr>ss_pendingSnapshot := x_pendingSnapshot\<rparr>) q = snapshot_owned L s q"
  "snapshot_owned L (s\<lparr>ss_pendingDelta := x_pendingDelta\<rparr>) q = snapshot_owned L s q"
  "snapshot_owned L (s\<lparr>ss_active := x_active\<rparr>) q = snapshot_owned L s q"
  "snapshot_owned L (s\<lparr>ss_hasActive := x_hasActive\<rparr>) q = snapshot_owned L s q"
  "snapshot_owned L (s\<lparr>ss_candidate := x_candidate\<rparr>) q = snapshot_owned L s q"
  "snapshot_owned L (s\<lparr>ss_hasCandidate := x_hasCandidate\<rparr>) q = snapshot_owned L s q"
  "snapshot_owned L (s\<lparr>ss_readyGeneration := x_readyGeneration\<rparr>) q = snapshot_owned L s q"
  "snapshot_owned L (s\<lparr>ss_needsSnapshot := x_needsSnapshot\<rparr>) q = snapshot_owned L s q"
  "snapshot_owned L (s\<lparr>ss_state := x_state\<rparr>) q = snapshot_owned L s q"
  "snapshot_owned L (s\<lparr>ss_lastHeartbeat := x_lastHeartbeat\<rparr>) q = snapshot_owned L s q"
  "snapshot_owned L (s\<lparr>ss_lastHeartbeatSentAt := x_lastHeartbeatSentAt\<rparr>) q = snapshot_owned L s q"
  "snapshot_owned L (s\<lparr>ss_drain := x_drain\<rparr>) q = snapshot_owned L s q"
  "snapshot_owned L (s\<lparr>ss_drainStatus := x_drainStatus\<rparr>) q = snapshot_owned L s q"
  "snapshot_owned L (s\<lparr>ss_drainCode := x_drainCode\<rparr>) q = snapshot_owned L s q"
  "snapshot_owned L (s\<lparr>ss_drainCompleted := x_drainCompleted\<rparr>) q = snapshot_owned L s q"
  "snapshot_owned L (s\<lparr>ss_disconnectReason := x_disconnectReason\<rparr>) q = snapshot_owned L s q"
  "snapshot_owned L (s\<lparr>ss_lease := x_lease\<rparr>) q = snapshot_owned L s q"
  "snapshot_owned L (s\<lparr>ss_welcome := x_welcome\<rparr>) q = snapshot_owned L s q"
  by (simp_all add: inv_defs split: option.split)

section \<open>The contract of a handler\<close>

text \<open>What the body of a handler, run on an open session, may change.\<close>

definition body_ok :: "('a golib_scheme) \<Rightarrow> ServerSession \<Rightarrow> ServerSession \<Rightarrow> bool" where
  "body_ok L s s' \<longleftrightarrow>
     server_inv L s' \<and> ss_ref s' = ss_ref s \<and> ss_welcome s' = ss_welcome s \<and>
     res_AccountID (ss_auth s') = res_AccountID (ss_auth s) \<and> ss_state s' \<noteq> SessionClosed \<and>
     (ss_drain s \<noteq> None \<longrightarrow> ss_drain s' = ss_drain s) \<and>
     (ss_lastHeartbeatSentAt s \<noteq> 0 \<longrightarrow> ss_lastHeartbeatSentAt s \<le> ss_lastHeartbeatSentAt s') \<and>
     res_CredentialGeneration (ss_auth s) \<le> res_CredentialGeneration (ss_auth s')"

text \<open>
  What a handler may change: a closed session and its registry stay as they are; the registry
  changes only by the removal of this session's own reference, and only when the session closes.
\<close>

definition session_step ::
  "('a golib_scheme) \<Rightarrow> registry \<Rightarrow> ServerSession \<Rightarrow> registry \<Rightarrow> ServerSession \<Rightarrow> bool" where
  "session_step L R s R' s' \<longleftrightarrow>
     (ss_state s = SessionClosed \<longrightarrow> R' = R \<and> s' = s) \<and>
     (R' = R \<or> fmlookup R (ref_ConnectorID (ss_ref s)) = Some (ss_ref s) \<and>
        R' = fmdrop (ref_ConnectorID (ss_ref s)) R \<and> ss_state s' = SessionClosed) \<and>
     server_inv L s' \<and> ss_ref s' = ss_ref s \<and> ss_welcome s' = ss_welcome s \<and>
     res_AccountID (ss_auth s') = res_AccountID (ss_auth s) \<and>
     (ss_drain s \<noteq> None \<longrightarrow> ss_drain s' = ss_drain s) \<and>
     (ss_lastHeartbeatSentAt s \<noteq> 0 \<longrightarrow> ss_lastHeartbeatSentAt s \<le> ss_lastHeartbeatSentAt s') \<and>
     res_CredentialGeneration (ss_auth s) \<le> res_CredentialGeneration (ss_auth s')"

lemma session_step_refl: "server_inv L s \<Longrightarrow> session_step L R s R s"
  by (simp add: session_step_def)

lemma body_ok_refl: "server_inv L s \<Longrightarrow> ss_state s \<noteq> SessionClosed \<Longrightarrow> body_ok L s s"
  by (simp add: body_ok_def)

lemma session_step_body: "body_ok L s s' \<Longrightarrow> ss_state s \<noteq> SessionClosed \<Longrightarrow> session_step L R s R s'"
  by (simp add: session_step_def body_ok_def)

lemma server_inv_close:
  assumes "server_inv L s" and "validDisconnectReason reason"
  shows "server_inv L (s\<lparr>ss_state := SessionClosed, ss_disconnectReason := reason\<rparr>)"
  using assms by (simp add: server_inv_def inv_state_def)

lemma Disconnect_registry:
  "snd (SessionRegistry_Disconnect ref reason R) = R \<or>
   fmlookup R (ref_ConnectorID ref) = Some ref \<and>
     snd (SessionRegistry_Disconnect ref reason R) = fmdrop (ref_ConnectorID ref) R"
  by (auto simp: SessionRegistry_Disconnect_def split: option.splits)

lemma closeLocked_step:
  assumes "server_inv L s" and "validDisconnectReason reason"
    and "ServerSession_closeLocked reason R s = (R', s')"
  shows "session_step L R s R' s'" and "ss_state s' = SessionClosed"
  using assms Disconnect_registry [of "ss_ref s" reason R] server_inv_close [OF assms(1,2)]
  by (auto simp: ServerSession_closeLocked_def session_step_def split: if_splits)

lemma ensureActive_disj:
  assumes "ServerSession_ensureActiveLocked now R s = (res, R', s')"
  shows "res = None \<and> R' = R \<and> s' = s \<and> ss_state s \<noteq> SessionClosed \<or>
     res \<noteq> None \<and> ss_state s = SessionClosed \<and> R' = R \<and> s' = s \<or>
     res \<noteq> None \<and> ss_state s \<noteq> SessionClosed \<and>
       (\<exists>reason. ServerSession_closeLocked reason R s = (R', s') \<and> validDisconnectReason reason)"
  using assms unfolding ServerSession_ensureActiveLocked_def
  by (auto split: if_splits)

lemma ensureActive_cases:
  assumes "ServerSession_ensureActiveLocked now R s = (res, R', s')"
  obtains (active) "res = None" "R' = R" "s' = s" "ss_state s \<noteq> SessionClosed"
    | (closed) err where "res = Some err" "ss_state s = SessionClosed" "R' = R" "s' = s"
    | (closing) err reason where "res = Some err" "validDisconnectReason reason"
        "ss_state s \<noteq> SessionClosed" "ServerSession_closeLocked reason R s = (R', s')"
  using ensureActive_disj [OF assms] by blast

lemma ensureActive_step:
  assumes "ServerSession_ensureActiveLocked now R s = (res, R', s')" and "server_inv L s"
  shows "session_step L R s R' s'"
  using assms(1)
proof (cases rule: ensureActive_cases)
  case (closing err reason)
  with assms(2) show ?thesis by (auto intro: closeLocked_step(1))
qed (use assms(2) in \<open>auto intro: session_step_refl\<close>)

lemma guarded_step:
  assumes "guarded fail now body R s = (res, R', s')" and "server_inv L s"
    and "ss_state s \<noteq> SessionClosed \<Longrightarrow> body_ok L s (snd (body s))"
  shows "session_step L R s R' s'"
proof -
  obtain e R1 s1 where e: "ServerSession_ensureActiveLocked now R s = (e, R1, s1)" by (metis prod_cases3)
  then show ?thesis
  proof (cases rule: ensureActive_cases)
    case active
    obtain r s2 where "body s = (r, s2)" by fastforce
    with assms(1) e active have "R' = R" "s' = s2" by (auto simp: guarded_def)
    with assms(3) \<open>body s = (r, s2)\<close> active show ?thesis by (simp add: session_step_body)
  next
    case (closed err)
    with assms(1) e have "R' = R1" "s' = s1" by (auto simp: guarded_def)
    with ensureActive_step [OF e assms(2)] show ?thesis by simp
  next
    case (closing err reason)
    with assms(1) e have "R' = R1" "s' = s1" by (auto simp: guarded_def)
    with ensureActive_step [OF e assms(2)] show ?thesis by simp
  qed
qed

text \<open>The interface shared by the handlers, with what follows from the contract alone.\<close>

locale session_handler =
  fixes L :: "'a golib_scheme"
    and handle :: "registry \<Rightarrow> ServerSession \<Rightarrow> 'r \<times> registry \<times> ServerSession"
  assumes handle_step: "handle R s = (r, R', s') \<Longrightarrow> server_inv L s \<Longrightarrow> session_step L R s R' s'"
begin

lemma keeps_inv: "handle R s = (r, R', s') \<Longrightarrow> server_inv L s \<Longrightarrow> server_inv L s'"
  by (auto dest: handle_step simp: session_step_def)

lemma closed_final:
  "handle R s = (r, R', s') \<Longrightarrow> server_inv L s \<Longrightarrow> ss_state s = SessionClosed \<Longrightarrow> R' = R \<and> s' = s"
  by (auto dest: handle_step simp: session_step_def)

lemma spares_other_sessions:
  assumes "handle R s = (r, R', s')" and "server_inv L s"
    and "fmlookup R c = Some ref" and "ref \<noteq> ss_ref s"
  shows "fmlookup R' c = Some ref"
proof -
  from handle_step [OF assms(1,2)]
  have "R' = R \<or> fmlookup R (ref_ConnectorID (ss_ref s)) = Some (ss_ref s) \<and>
        R' = fmdrop (ref_ConnectorID (ss_ref s)) R"
    by (auto simp: session_step_def)
  with assms(3,4) show ?thesis by (cases "c = ref_ConnectorID (ss_ref s)") auto
qed

end

section \<open>The handlers keep the contract\<close>

lemma restoreStateLocked_eq:
  "restoreStateLocked s = s\<lparr>ss_state :=
     if has_ready_active s \<and> \<not> ss_needsSnapshot s then SessionReady else SessionAwaitingSnapshot\<rparr>"
  by (simp add: restoreStateLocked_def has_ready_active_def)

lemma inv_config_pendingSnapshot:
  "inv_config L s \<Longrightarrow> ss_pendingSnapshot s = Some p \<Longrightarrow> ss_pendingDelta s = None \<and> snapshot_owned L s p"
  by (cases "ss_pendingDelta s") (auto simp: inv_config_def delta_continues_def)

lemma inv_config_pendingDelta:
  "inv_config L s \<Longrightarrow> ss_pendingDelta s = Some d \<Longrightarrow> delta_continues L s d"
  by (simp add: inv_config_def)

lemma inv_config_candidate: "inv_config L s \<Longrightarrow> ss_hasCandidate s \<Longrightarrow> snapshot_owned L s (ss_candidate s)"
  by (simp add: inv_config_def)

lemma inv_config_active: "inv_config L s \<Longrightarrow> ss_hasActive s \<Longrightarrow> snapshot_owned L s (ss_active s)"
  by (simp add: inv_config_def)

lemma inv_config_stage:
  assumes "inv_config L s" and "snapshot_owned L s c" and "ss_pendingDelta s = None"
  shows "inv_config L (s\<lparr>ss_candidate := c, ss_hasCandidate := True\<rparr>)"
  using assms by (simp add: inv_config_def)

lemma inv_config_clear_snapshot: "inv_config L s \<Longrightarrow> inv_config L (s\<lparr>ss_pendingSnapshot := None\<rparr>)"
  by (simp add: inv_config_def delta_continues_def)

lemma inv_config_clear_delta: "inv_config L s \<Longrightarrow> inv_config L (s\<lparr>ss_pendingDelta := None\<rparr>)"
  by (simp add: inv_config_def)

lemma inv_config_offer:
  "inv_config L s \<Longrightarrow> snapshot_owned L s p \<Longrightarrow>
     inv_config L (s\<lparr>ss_pendingDelta := None, ss_pendingSnapshot := Some p\<rparr>)"
  by (simp add: inv_config_def)

lemma inv_config_promote:
  "inv_config L s \<Longrightarrow> ss_hasCandidate s \<Longrightarrow>
     inv_config L (s\<lparr>ss_active := ss_candidate s, ss_hasActive := True,
                     ss_candidate := zero_Snapshot, ss_hasCandidate := False\<rparr>)"
  by (auto simp: inv_config_def delta_continues_def)

lemma server_inv_parts:
  assumes "server_inv L s"
  shows "inv_config L s" "inv_state s" "inv_auth s" "inv_drain s"
  using assms by (auto simp: server_inv_def)

lemma open_reason:
  "server_inv L s \<Longrightarrow> ss_state s \<noteq> SessionClosed \<Longrightarrow> ss_disconnectReason s = ReasonEmpty"
  by (simp add: server_inv_def inv_state_def)

text \<open>A body that changes the configuration, the readiness or the state only.\<close>

lemma body_ok_config:
  assumes "server_inv L s" and "inv_config L s'" and "inv_state s'" and "ss_state s' \<noteq> SessionClosed"
    and eq: "ss_ref s' = ss_ref s" "ss_auth s' = ss_auth s" "ss_lease s' = ss_lease s"
      "ss_welcome s' = ss_welcome s" "ss_drain s' = ss_drain s"
      "ss_drainCompleted s' = ss_drainCompleted s"
      "ss_lastHeartbeatSentAt s' = ss_lastHeartbeatSentAt s"
  shows "body_ok L s s'"
proof -
  have "inv_auth s' = inv_auth s" by (simp add: inv_auth_def eq)
  moreover have "inv_drain s' = inv_drain s"
    by (simp add: inv_drain_def matchesIdentity_def eq split: option.split)
  ultimately show ?thesis using assms(1-4) by (simp add: body_ok_def server_inv_def eq)
qed

lemma restoreStateLocked_needs:
  "restoreStateLocked (s\<lparr>ss_needsSnapshot := True\<rparr>) =
     s\<lparr>ss_needsSnapshot := True, ss_state := SessionAwaitingSnapshot\<rparr>"
  by (simp add: restoreStateLocked_eq)

lemma inv_state_upd:
  "inv_state s \<Longrightarrow> ss_state s \<noteq> SessionClosed \<Longrightarrow> inv_state (s\<lparr>ss_needsSnapshot := False\<rparr>)"
  "inv_state s \<Longrightarrow> ss_state s \<noteq> SessionClosed \<Longrightarrow> st \<in> {SessionAwaitingSnapshot, SessionAwaitingReady} \<Longrightarrow>
     inv_state (s\<lparr>ss_needsSnapshot := n, ss_state := st\<rparr>)"
  "inv_state s \<Longrightarrow> ss_state s \<noteq> SessionClosed \<Longrightarrow> st \<in> {SessionAwaitingSnapshot, SessionAwaitingReady} \<Longrightarrow>
     inv_state (s\<lparr>ss_state := st\<rparr>)"
  by (auto simp: inv_state_def has_ready_active_def)

text \<open>The states the handlers leave behind, as conditional updates.\<close>

definition negative_status :: "AckStatus \<Rightarrow> bool" where
  "negative_status st \<longleftrightarrow> st = AckSnapshotRequired \<or> st = AckRejected"

definition ack_names :: "Ack \<Rightarrow> AckKind \<Rightarrow> uint64 \<Rightarrow> string \<Rightarrow> bool" where
  "ack_names ack kind generation hash \<longleftrightarrow>
     ack_Kind ack = kind \<and> ack_Generation ack = generation \<and> ack_ContentHash ack = hash"

definition staged :: "Snapshot \<Rightarrow> ServerSession \<Rightarrow> ServerSession" where
  "staged c s = s\<lparr>ss_candidate := c, ss_hasCandidate := True,
     ss_state := (if has_ready_active s then ss_state s else SessionAwaitingReady)\<rparr>"

definition withdrawn :: "ServerSession \<Rightarrow> ServerSession" where
  "withdrawn s = s\<lparr>ss_needsSnapshot := True, ss_state := SessionAwaitingSnapshot\<rparr>"

lemma snd_ack_pending_snapshot:
  "snd (ack_pending_snapshot ack p s) =
     (if \<not> ack_names ack AckSnapshot (snap_Generation p) (snap_ContentHash p) then s
      else if negative_status (ack_Status ack) then withdrawn (s\<lparr>ss_pendingSnapshot := None\<rparr>)
      else staged p (s\<lparr>ss_pendingSnapshot := None, ss_needsSnapshot := False\<rparr>))"
  by (simp add: ack_pending_snapshot_def ack_names_def negative_status_def withdrawn_def staged_def
      restoreStateLocked_def has_ready_active_def Let_def)

definition delta_candidate :: "ServerSession \<Rightarrow> Delta \<Rightarrow> Snapshot" where
  "delta_candidate s d =
     \<lparr>snap_AccountID = res_AccountID (ss_auth s), snap_TunnelID = delta_TunnelID d,
      snap_ConnectorID = ref_ConnectorID (ss_ref s), snap_SessionID = ref_SessionID (ss_ref s),
      snap_ProcessGeneration = ref_ProcessGeneration (ss_ref s),
      snap_Generation = delta_Generation d, snap_ContentHash = delta_ContentHash d,
      snap_Payload = delta_Payload d\<rparr>"

lemma snd_ack_pending_delta:
  assumes "delta_continues L s d"
  shows "snd (ack_pending_delta ack d s) =
     (if \<not> ack_names ack AckDelta (delta_Generation d) (delta_ContentHash d) then s
      else if negative_status (ack_Status ack) then withdrawn (s\<lparr>ss_pendingDelta := None\<rparr>)
      else staged (delta_candidate s d) (s\<lparr>ss_pendingDelta := None\<rparr>))"
  using assms
  by (simp add: ack_pending_delta_def ack_names_def negative_status_def withdrawn_def staged_def
      restoreStateLocked_def has_ready_active_def delta_candidate_def delta_continues_def Let_def)

lemma body_ok_withdrawn:
  assumes "server_inv L s" and "ss_state s \<noteq> SessionClosed"
  shows "body_ok L s (withdrawn (s\<lparr>ss_pendingSnapshot := None\<rparr>))"
    and "body_ok L s (withdrawn (s\<lparr>ss_pendingDelta := None\<rparr>))"
  unfolding withdrawn_def using assms server_inv_parts [OF assms(1)]
  by (intro body_ok_config [OF assms(1)];
      simp add: inv_state_upd inv_config_clear_snapshot inv_config_clear_delta)+

lemma inv_state_staged:
  "inv_state s \<Longrightarrow> ss_state s \<noteq> SessionClosed \<Longrightarrow> inv_state (staged c s)"
  by (auto simp: staged_def inv_state_def has_ready_active_def)

lemma HandleAck_body:
  assumes "server_inv L s" "ss_state s \<noteq> SessionClosed"
  shows "body_ok L s (snd (HandleAck_locked ack s))"
proof -
  note c = server_inv_parts [OF assms(1)]
  have "body_ok L s (snd (ack_pending_snapshot ack p s))" if "ss_pendingSnapshot s = Some p" for p
  proof -
    note pend = inv_config_pendingSnapshot [OF c(1) that]
    have "inv_config L (s\<lparr>ss_pendingSnapshot := None, ss_needsSnapshot := False,
        ss_candidate := p, ss_hasCandidate := True\<rparr>)"
      using pend c(1) by (intro inv_config_stage) (simp_all add: inv_config_clear_snapshot)
    then have "body_ok L s (staged p (s\<lparr>ss_pendingSnapshot := None, ss_needsSnapshot := False\<rparr>))"
      using c assms inv_state_staged [of "s\<lparr>ss_pendingSnapshot := None, ss_needsSnapshot := False\<rparr>" p]
      by (intro body_ok_config [OF assms(1)]) (simp_all add: inv_state_upd staged_def)
    then show ?thesis
      by (simp add: snd_ack_pending_snapshot body_ok_refl assms body_ok_withdrawn)
  qed
  moreover have "body_ok L s (snd (ack_pending_delta ack d s))" if "ss_pendingDelta s = Some d" for d
  proof -
    note d = inv_config_pendingDelta [OF c(1) that]
    have "snapshot_owned L s (delta_candidate s d)"
      using d by (simp add: snapshot_owned_def delta_continues_def delta_candidate_def)
    then have "inv_config L (s\<lparr>ss_pendingDelta := None, ss_candidate := delta_candidate s d,
        ss_hasCandidate := True\<rparr>)"
      using c(1) by (intro inv_config_stage inv_config_clear_delta) auto
    then have "body_ok L s (staged (delta_candidate s d) (s\<lparr>ss_pendingDelta := None\<rparr>))"
      using c assms inv_state_staged [of "s\<lparr>ss_pendingDelta := None\<rparr>"]
      by (intro body_ok_config [OF assms(1)]) (simp_all add: staged_def)
    then show ?thesis
      by (simp add: snd_ack_pending_delta [OF d] body_ok_refl assms body_ok_withdrawn)
  qed
  ultimately show ?thesis
    using body_ok_refl [OF assms] by (simp add: HandleAck_locked_def split: option.split)
qed

definition readiness_accepted :: "Readiness \<Rightarrow> ServerSession \<Rightarrow> bool" where
  "readiness_accepted readiness s \<longleftrightarrow>
     matchesIdentity s (rdy_AccountID readiness) (rdy_TunnelID readiness)
       (rdy_ConnectorID readiness) (rdy_SessionID readiness) (rdy_ProcessGeneration readiness) \<and>
     (let current = (if ss_hasCandidate s then ss_candidate s else ss_active s)
      in (ss_hasCandidate s \<or> ss_hasActive s) \<and>
         rdy_Generation readiness = snap_Generation current \<and>
         rdy_ContentHash readiness = snap_ContentHash current) \<and>
     rdy_EdgeReady readiness \<and> rdy_RouteReady readiness \<and> rdy_OriginReady readiness"

definition promoted :: "ServerSession \<Rightarrow> ServerSession" where
  "promoted s =
     (if ss_hasCandidate s
      then s\<lparr>ss_active := ss_candidate s, ss_hasActive := True, ss_candidate := zero_Snapshot,
             ss_hasCandidate := False\<rparr>
      else s)"

lemma snd_HandleReadiness:
  "snd (HandleReadiness_locked readiness s) =
     (if readiness_accepted readiness s
      then (promoted s)\<lparr>ss_needsSnapshot := False, ss_readyGeneration := rdy_Generation readiness,
                        ss_state := SessionReady\<rparr>
      else s)"
  by (cases "ss_hasCandidate s")
     (simp_all add: HandleReadiness_locked_def readiness_accepted_def promoted_def Let_def)

lemma HandleReadiness_body:
  assumes "server_inv L s" "ss_state s \<noteq> SessionClosed"
  shows "body_ok L s (snd (HandleReadiness_locked readiness s))"
proof (cases "readiness_accepted readiness s")
  case True
  note c = server_inv_parts [OF assms(1)]
  have p: "inv_config L (promoted s)" using inv_config_promote [OF c(1)] c(1) by (simp add: promoted_def)
  have a: "ss_hasActive (promoted s)" "snap_Generation (ss_active (promoted s)) = rdy_Generation readiness"
    using True by (auto simp: readiness_accepted_def promoted_def Let_def split: if_splits)
  have f: "ss_ref (promoted s) = ss_ref s" "ss_auth (promoted s) = ss_auth s"
    "ss_lease (promoted s) = ss_lease s" "ss_welcome (promoted s) = ss_welcome s"
    "ss_drain (promoted s) = ss_drain s" "ss_drainCompleted (promoted s) = ss_drainCompleted s"
    "ss_lastHeartbeatSentAt (promoted s) = ss_lastHeartbeatSentAt s"
    "ss_disconnectReason (promoted s) = ss_disconnectReason s"
    by (simp_all add: promoted_def)
  show ?thesis unfolding snd_HandleReadiness if_P [OF True]
    by (intro body_ok_config [OF assms(1)])
       (simp_all add: p a f inv_state_def has_ready_active_def open_reason [OF assms])
qed (simp add: snd_HandleReadiness body_ok_refl assms)

lemma offer_bound_ok:
  assumes "server_inv L s" "ss_state s \<noteq> SessionClosed"
    and "Snapshot_Validate L snapshot = None" and "snap_TunnelID snapshot = ref_TunnelID (ss_ref s)"
  shows "body_ok L s (offer_bound snapshot s)"
proof -
  let ?p = "bindSnapshot snapshot (res_AccountID (ss_auth s)) (ref_ConnectorID (ss_ref s))
     (ref_SessionID (ss_ref s)) (ref_ProcessGeneration (ss_ref s))"
  note c = server_inv_parts [OF assms(1)]
  have "snapshot_owned L s ?p"
    using assms(4) Snapshot_Validate_None(4) [OF assms(3)]
    by (simp add: snapshot_owned_def bindSnapshot_def)
  then have "inv_config L (s\<lparr>ss_pendingDelta := None, ss_pendingSnapshot := Some ?p\<rparr>)"
    by (rule inv_config_offer [OF c(1)])
  then show ?thesis
    using c assms(2) open_reason [OF assms(1,2)]
    by (auto simp: offer_bound_def Let_def body_ok_def server_inv_def inv_state_def
        has_ready_active_def)
qed

lemma OfferSnapshot_body:
  assumes "server_inv L s" "ss_state s \<noteq> SessionClosed" and "Snapshot_Validate L snapshot = None"
  shows "body_ok L s (snd (OfferSnapshot_locked snapshot s))"
  using offer_bound_ok [OF assms] body_ok_refl [OF assms(1,2)]
  by (simp add: OfferSnapshot_locked_def split: option.split)

lemma OfferDelta_body:
  assumes "server_inv L s" "ss_state s \<noteq> SessionClosed" and "Delta_Validate L delta = None"
  shows "body_ok L s (snd (OfferDelta_locked delta s))"
proof -
  note c = server_inv_parts [OF assms(1)]
  let ?d = "delta\<lparr>delta_AccountID := res_AccountID (ss_auth s),
     delta_ConnectorID := ref_ConnectorID (ss_ref s), delta_SessionID := ref_SessionID (ss_ref s),
     delta_ProcessGeneration := ref_ProcessGeneration (ss_ref s)\<rparr>"
  have "body_ok L s (s\<lparr>ss_pendingDelta := Some ?d\<rparr>)" if "delta_continues L s ?d"
    using that c assms(2)
    by (intro body_ok_config [OF assms(1)]) (simp_all add: inv_config_def delta_continues_def)
  then show ?thesis
    using body_ok_refl [OF assms(1,2)] Delta_Validate_None(5,6) [OF assms(3)]
    by (simp add: OfferDelta_locked_def delta_continues_def has_ready_active_def)
qed

end
