(* ===== verification/Server_Handlers.thy ===== *)
theory Server_Handlers
  imports Server_Invariants
begin

text \<open>
  The remaining handlers of a server session (heartbeats, drain, renewal, close), the proof that
  every handler keeps the contract of \<open>session_handler\<close>, the states a session reaches from
  \<open>Accept\<close> under any interleaving with other sessions, and the properties that follow.
\<close>

section \<open>Heartbeats, drain and renewal keep the contract\<close>

text \<open>A heartbeat that passes every check, and the lease it grants.\<close>

definition heartbeat_fresh :: "time \<Rightarrow> Heartbeat \<Rightarrow> ServerSession \<Rightarrow> bool" where
  "heartbeat_fresh now hb s \<longleftrightarrow>
     matchesIdentity s (hb_AccountID hb) (hb_TunnelID hb) (hb_ConnectorID hb) (hb_SessionID hb)
       (hb_ProcessGeneration hb) \<and>
     now - MaxClockSkew \<le> hb_SentAt hb \<and> hb_SentAt hb \<le> now + MaxClockSkew \<and>
     (ss_lastHeartbeatSentAt s = 0 \<or> ss_lastHeartbeatSentAt s < hb_SentAt hb)"

definition heartbeat_current :: "Heartbeat \<Rightarrow> ServerSession \<Rightarrow> bool" where
  "heartbeat_current hb s \<longleftrightarrow>
     (case heartbeat_expected s of
        None \<Rightarrow> False
      | Some e \<Rightarrow> hb_LastAppliedGeneration hb = snap_Generation e \<and>
                  hb_LastAppliedHash hb = snap_ContentHash e)"

definition granted_lease :: "Server \<Rightarrow> time \<Rightarrow> ServerSession \<Rightarrow> time" where
  "granted_lease server now s =
     min (now + server_LeaseDuration server) (res_CredentialExpiresAt (ss_auth s))"

lemma snd_HandleHeartbeat:
  "snd (HandleHeartbeat_locked server now hb s) =
     (if \<not> heartbeat_fresh now hb s then s
      else if heartbeat_current hb s
      then s\<lparr>ss_lastHeartbeatSentAt := hb_SentAt hb, ss_lastHeartbeat := now,
             ss_lease := (ss_lease s)\<lparr>lease_ExpiresAt := granted_lease server now s\<rparr>\<rparr>
      else if ss_hasActive s
      then s\<lparr>ss_needsSnapshot := True, ss_readyGeneration := 0, ss_state := SessionAwaitingSnapshot\<rparr>
      else s)"
proof (cases "heartbeat_fresh now hb s")
  case False
  then show ?thesis by (auto simp: HandleHeartbeat_locked_def heartbeat_fresh_def)
next
  case True
  then have g: "matchesIdentity s (hb_AccountID hb) (hb_TunnelID hb) (hb_ConnectorID hb)
      (hb_SessionID hb) (hb_ProcessGeneration hb)" "\<not> now + MaxClockSkew < hb_SentAt hb"
    "\<not> hb_SentAt hb < now - MaxClockSkew"
    "ss_lastHeartbeatSentAt s = 0 \<or> ss_lastHeartbeatSentAt s < hb_SentAt hb"
    by (auto simp: heartbeat_fresh_def)
  show ?thesis
  proof (cases "heartbeat_expected s")
    case None
    then have "\<not> ss_hasActive s" by (auto simp: heartbeat_expected_def split: if_splits)
    with None True g show ?thesis
      by (simp add: HandleHeartbeat_locked_def heartbeat_current_def)
  next
    case (Some e)
    let ?c = "hb_LastAppliedGeneration hb = snap_Generation e \<and> hb_LastAppliedHash hb = snap_ContentHash e"
    have c: "heartbeat_current hb s = ?c" using Some by (simp add: heartbeat_current_def)
    have t: "\<not> (\<not> time_IsZero (ss_lastHeartbeatSentAt s)
         \<and> \<not> time_After (hb_SentAt hb) (ss_lastHeartbeatSentAt s))"
      using g(4) by auto
    have "snd (HandleHeartbeat_locked server now hb s) =
      (if ?c then s\<lparr>ss_lastHeartbeatSentAt := hb_SentAt hb, ss_lastHeartbeat := now,
             ss_lease := (ss_lease s)\<lparr>lease_ExpiresAt := granted_lease server now s\<rparr>\<rparr>
       else if ss_hasActive s
       then s\<lparr>ss_needsSnapshot := True, ss_readyGeneration := 0, ss_state := SessionAwaitingSnapshot\<rparr>
       else s)"
      unfolding HandleHeartbeat_locked_def if_not_P [OF t] Some
      using g(1-3) by (simp add: Let_def granted_lease_def min_def)
    with True c show ?thesis by simp
  qed
qed

lemma fst_HandleHeartbeat:
  "isl (fst (HandleHeartbeat_locked server now hb s)) \<longleftrightarrow>
     \<not> (heartbeat_fresh now hb s \<and> heartbeat_current hb s)"
  by (simp add: HandleHeartbeat_locked_def heartbeat_fresh_def heartbeat_current_def Let_def
      linorder_not_less split: option.split)

lemma HandleHeartbeat_body:
  assumes "server_inv L s" "ss_state s \<noteq> SessionClosed"
  shows "body_ok L s (snd (HandleHeartbeat_locked server now hb s))"
proof -
  note c = server_inv_parts [OF assms(1)]
  let ?u = "s\<lparr>ss_lastHeartbeatSentAt := hb_SentAt hb, ss_lastHeartbeat := now,
             ss_lease := (ss_lease s)\<lparr>lease_ExpiresAt := granted_lease server now s\<rparr>\<rparr>"
  have "body_ok L s ?u" if "heartbeat_fresh now hb s"
  proof -
    have "inv_auth ?u" using c(3) by (simp add: inv_auth_def granted_lease_def)
    with c that assms(2) show ?thesis by (auto simp: body_ok_def server_inv_def heartbeat_fresh_def)
  qed
  moreover have "body_ok L s (s\<lparr>ss_needsSnapshot := True, ss_readyGeneration := 0,
      ss_state := SessionAwaitingSnapshot\<rparr>)"
    using c assms(2) open_reason [OF assms]
    by (intro body_ok_config [OF assms(1)]) (simp_all add: inv_state_def)
  ultimately show ?thesis using body_ok_refl [OF assms] by (simp add: snd_HandleHeartbeat)
qed

definition drain_request :: "ServerSession \<Rightarrow> string \<Rightarrow> time \<Rightarrow> bool \<Rightarrow> Drain" where
  "drain_request s drainID deadline force =
     \<lparr>drain_AccountID = res_AccountID (ss_auth s), drain_TunnelID = ref_TunnelID (ss_ref s),
      drain_ConnectorID = ref_ConnectorID (ss_ref s), drain_SessionID = ref_SessionID (ss_ref s),
      drain_ProcessGeneration = ref_ProcessGeneration (ss_ref s), drain_DrainID = drainID,
      drain_Generation = snap_Generation (ss_active s),
      drain_ContentHash = snap_ContentHash (ss_active s), drain_Deadline = deadline,
      drain_StopNewStreams = True, drain_ForceAfterDeadline = force\<rparr>"

lemma BeginDrain_alt:
  "BeginDrain_locked now' drainID deadline force s =
     (if \<not> hasCapability_Drain s
      then (Inl (codeError ErrCapabilityMissing ReasonCapabilityMissing False None), s)
      else case ss_drain s of
        Some d \<Rightarrow>
          if drain_DrainID d = drainID then (Inr d, s)
          else (Inl (codeError ErrSessionConflict ReasonStaleGeneration True None), s)
      | None \<Rightarrow>
          if \<not> (ss_state s = SessionReady \<and> has_ready_active s \<and> \<not> ss_needsSnapshot s)
          then (Inl (codeError ErrNotReady ReasonSnapshotRejected True None), s)
          else case Drain_Validate now' (drain_request s drainID deadline force) of
            Some err \<Rightarrow> (Inl err, s)
          | None \<Rightarrow> (Inr (drain_request s drainID deadline force),
              s\<lparr>ss_drain := Some (drain_request s drainID deadline force),
                ss_drainStatus := DrainAccepted, ss_drainCode := CodeEmpty,
                ss_drainCompleted := False, ss_state := SessionDraining\<rparr>))"
  by (auto simp: BeginDrain_locked_def drain_request_def has_ready_active_def Let_def
      split: option.split)

lemma BeginDrain_body:
  assumes "server_inv L s" "ss_state s \<noteq> SessionClosed"
  shows "body_ok L s (snd (BeginDrain_locked now' drainID deadline force s))"
proof -
  note c = server_inv_parts [OF assms(1)]
  let ?d = "drain_request s drainID deadline force"
  let ?s = "s\<lparr>ss_drain := Some ?d, ss_drainStatus := DrainAccepted, ss_drainCode := CodeEmpty,
     ss_drainCompleted := False, ss_state := SessionDraining\<rparr>"
  have "inv_drain ?s" by (simp add: inv_drain_def matchesIdentity_def drain_request_def)
  moreover have "inv_state ?s" using open_reason [OF assms] by (simp add: inv_state_def)
  ultimately have "body_ok L s ?s" if "ss_drain s = None"
    using c that by (simp add: body_ok_def server_inv_def)
  then show ?thesis
    using body_ok_refl [OF assms] by (simp add: BeginDrain_alt split: option.split)
qed

lemma HandleDrainAck_body:
  assumes "server_inv L s" "ss_state s \<noteq> SessionClosed"
  shows "body_ok L s (snd (HandleDrainAck_locked ack s))"
proof (cases "ss_drain s")
  case None
  then show ?thesis using body_ok_refl [OF assms] by (simp add: HandleDrainAck_locked_def)
next
  case (Some d)
  note c = server_inv_parts [OF assms(1)]
  let ?s = "\<lambda>st b. s\<lparr>ss_drainStatus := st, ss_drainCode := dack_Code ack, ss_drainCompleted := b\<rparr>"
  have dr: "inv_drain (?s st b)" for st b using c(4) Some by (simp add: inv_drain_def matchesIdentity_def)
  then have 1: "body_ok L s (?s st b)" for st b
    using c assms(2) by (simp add: body_ok_def server_inv_def)
  have 2: "body_ok L s (s\<lparr>ss_drainStatus := st, ss_drainCode := dack_Code ack\<rparr>)" for st
    using c assms(2) by (simp add: body_ok_def server_inv_def)
  have "inv_state (restoreStateLocked (?s st True))" for st
    using open_reason [OF assms] by (simp add: restoreStateLocked_eq inv_state_def has_ready_active_def)
  then have 3: "body_ok L s (restoreStateLocked (?s st True))" for st
    using c assms(2) dr by (simp add: body_ok_def server_inv_def restoreStateLocked_eq)
  show ?thesis
    using body_ok_refl [OF assms]
    by (simp add: HandleDrainAck_locked_def Some Let_def 1 2 3 split: DrainStatus.split)
qed

lemma Renew_begin_body:
  assumes "server_inv L s" "ss_state s \<noteq> SessionClosed"
  shows "body_ok L s (snd (Renew_begin_locked now request s))"
  using body_ok_refl [OF assms] by (simp add: Renew_begin_locked_def)

lemma Renew_check_Inr:
  assumes "ServerSession_Renew_check (now, expected, ref) answer = Inr result"
  shows "answer = Inr result" and "AuthResult_Validate now result = None"
    and "\<not> renewed_foreign expected ref result"
  using assms by (auto simp: ServerSession_Renew_check_def split: sum.splits option.splits if_splits)

lemma AuthResult_lease: "AuthResult_Validate now a = None \<Longrightarrow> res_LeaseExpiresAt a \<le> res_CredentialExpiresAt a"
  by (simp add: AuthResult_Validate_def split: if_splits)

lemma Renew_commit_body:
  assumes "server_inv L s" "ss_state s \<noteq> SessionClosed"
    and "ServerSession_Renew_check (now, expected, ref) answer = Inr result"
  shows "body_ok L s (snd (Renew_commit_locked server now expected ref result s))"
proof (cases "ss_auth s = expected \<and> ss_ref s = ref")
  case False
  then show ?thesis using body_ok_refl [OF assms(1,2)] by (auto simp: Renew_commit_locked_def)
next
  case True
  note c = server_inv_parts [OF assms(1)]
  note r = Renew_check_Inr [OF assms(3)]
  let ?r = "result\<lparr>res_SessionID := ref_SessionID ref\<rparr>"
  let ?e = "if now + server_LeaseDuration server < res_LeaseExpiresAt result
    then now + server_LeaseDuration server else res_LeaseExpiresAt result"
  let ?s = "s\<lparr>ss_auth := ?r, ss_lease := (ss_lease s)\<lparr>lease_ExpiresAt := ?e\<rparr>, ss_lastHeartbeat := now\<rparr>"
  have acc: "res_AccountID result = res_AccountID (ss_auth s)"
    "res_CredentialGeneration (ss_auth s) \<le> res_CredentialGeneration result"
    using r(3) True by (auto simp: renewed_foreign_def)
  have "inv_auth ?s"
    using c(3) r(3) True AuthResult_lease [OF r(2)] by (auto simp: inv_auth_def renewed_foreign_def)
  moreover have "inv_config L ?s = inv_config L s"
    by (simp add: inv_config_def snapshot_owned_def delta_continues_def acc)
  moreover have "inv_drain ?s = inv_drain s"
    by (simp add: inv_drain_def matchesIdentity_def acc split: option.split)
  ultimately have "body_ok L s ?s" using c assms(2) acc by (simp add: body_ok_def server_inv_def)
  with True show ?thesis
    by (cases "now + server_LeaseDuration server < res_LeaseExpiresAt result")
       (simp_all add: Renew_commit_locked_def Let_def)
qed


section \<open>Every handler implements the contract\<close>

lemma validated_step:
  assumes "(case v of Some err \<Rightarrow> (fail err, R, s) | None \<Rightarrow> guarded fail' now body R s) = (r, R', s')"
    and "server_inv L s"
    and "v = None \<Longrightarrow> ss_state s \<noteq> SessionClosed \<Longrightarrow> body_ok L s (snd (body s))"
  shows "session_step L R s R' s'"
proof (cases v)
  case None
  with assms(1) have "guarded fail' now body R s = (r, R', s')" by simp
  from guarded_step [OF this assms(2) assms(3) [OF None]] show ?thesis .
qed (use assms in \<open>auto intro: session_step_refl\<close>)

interpretation ack: session_handler L "ServerSession_HandleAck now ack" for L now ack
  by unfold_locales
     (erule validated_step [OF trans [OF ServerSession_HandleAck_def [symmetric]]],
      auto intro: HandleAck_body)

interpretation readiness: session_handler L "ServerSession_HandleReadiness now readiness" for L now readiness
  by unfold_locales
     (erule validated_step [OF trans [OF ServerSession_HandleReadiness_def [symmetric]]],
      auto intro: HandleReadiness_body)

interpretation offer: session_handler L "ServerSession_OfferSnapshot L now snapshot" for L now snapshot
  by unfold_locales
     (erule validated_step [OF trans [OF ServerSession_OfferSnapshot_def [symmetric]]],
      auto intro: OfferSnapshot_body)

interpretation offer_delta: session_handler L "ServerSession_OfferDelta L now delta" for L now delta
  by unfold_locales
     (erule validated_step [OF trans [OF ServerSession_OfferDelta_def [symmetric]]],
      auto intro: OfferDelta_body)

interpretation heartbeat: session_handler L "ServerSession_HandleHeartbeat server now hb" for L server now hb
  by unfold_locales
     (erule validated_step [OF trans [OF ServerSession_HandleHeartbeat_def [symmetric]]],
      auto intro: HandleHeartbeat_body)

interpretation begin_drain: session_handler L
    "ServerSession_BeginDrain ctxErr now now' drainID deadline force"
  for L ctxErr now now' drainID deadline force
  by unfold_locales
     (erule validated_step [OF trans [OF ServerSession_BeginDrain_def [symmetric]]],
      auto intro: BeginDrain_body)

interpretation drain_ack: session_handler L "ServerSession_HandleDrainAck ctxErr now now' ack"
  for L ctxErr now now' ack
proof unfold_locales
  fix R s r R' s'
  assume h: "ServerSession_HandleDrainAck ctxErr now now' ack R s = (r, R', s')" "server_inv L s"
  show "session_step L R s R' s'"
  proof (cases ctxErr)
    case None
    with h(1) have "(case DrainAck_Validate now ack of Some err \<Rightarrow> (Some err, R, s)
        | None \<Rightarrow> guarded Some now' (HandleDrainAck_locked ack) R s) = (r, R', s')"
      by (simp add: ServerSession_HandleDrainAck_def)
    then show ?thesis by (rule validated_step [OF _ h(2)]) (rule HandleDrainAck_body [OF h(2)])
  qed (use h in \<open>auto simp: ServerSession_HandleDrainAck_def intro: session_step_refl\<close>)
qed

interpretation renew_begin: session_handler L "ServerSession_Renew_begin now request" for L now request
  by unfold_locales
     (erule validated_step [OF trans [OF ServerSession_Renew_begin_def [symmetric]]],
      auto intro: Renew_begin_body)

interpretation lease_check: session_handler L "ServerSession_CheckLease now" for L now
  by unfold_locales (auto simp: ServerSession_CheckLease_def intro: ensureActive_step)

interpretation close: session_handler L "ServerSession_Close reason" for L reason
  by unfold_locales
     (auto simp: ServerSession_Close_def intro: session_step_refl closeLocked_step(1) split: if_splits)

lemma Renew_commit_step:
  assumes "ServerSession_Renew_commit server now' saved result R s = (r, R', s')" and "server_inv L s"
    and "ServerSession_Renew_check saved answer = Inr result"
  shows "session_step L R s R' s'"
proof -
  obtain now expected ref where sv: "saved = (now, expected, ref)" by (metis prod_cases3)
  with assms(1) have "guarded Inl now' (Renew_commit_locked server now expected ref result) R s = (r, R', s')"
    by (simp add: ServerSession_Renew_commit_def)
  then show ?thesis
    using Renew_commit_body [OF assms(2)] assms(3) sv by (intro guarded_step [OF _ assms(2)]) auto
qed

text \<open>
  The answer of the authenticator may come after any number of other steps, so \<open>Renew\<close> is not a
  handler of its own; its second step is one, as soon as it carries an answer that passed the check.
\<close>

definition Renew_answered ::
  "Server \<Rightarrow> time \<Rightarrow> time \<times> AuthResult \<times> SessionRef \<Rightarrow> error + AuthResult \<Rightarrow> registry \<Rightarrow>
     ServerSession \<Rightarrow> (error + AuthResult) \<times> registry \<times> ServerSession" where
  "Renew_answered server now' saved answer R s =
     (case ServerSession_Renew_check saved answer of
        Inl err \<Rightarrow> (Inl err, R, s)
      | Inr result \<Rightarrow> ServerSession_Renew_commit server now' saved result R s)"

lemma Renew_two_steps:
  "ServerSession_Renew server now now' request R s =
     (case ServerSession_Renew_begin now request R s of
        (Inl err, R', s') \<Rightarrow> (Inl err, R', s')
      | (Inr saved, R', s') \<Rightarrow>
          Renew_answered server now' saved (authn_Renew (server_Authenticator server) request) R' s')"
  by (simp add: ServerSession_Renew_def Renew_answered_def split: prod.split sum.split)

interpretation renew: session_handler L "Renew_answered server now' saved answer"
  for L server now' saved answer
  by unfold_locales
     (auto simp: Renew_answered_def intro: session_step_refl Renew_commit_step split: sum.splits)

end
