(* ===== verification/Server_Properties.thy ===== *)
theory Server_Properties
  imports Server_Handlers
begin

text \<open>
  The states that a server session reaches from \<open>Accept\<close> under any interleaving of its handlers
  with the other sessions, and the properties of the server side.
\<close>

section \<open>Sessions reached from Accept\<close>

lemma Accept_Inr:
  assumes "Server_Accept L server now hello R = (Inr (s, welcome, bound), R')"
  obtains version capabilities auth snapshot sessionID lease res where
    "Hello_Validate now hello = None"
    "NegotiateVersion (hello_MinVersion hello) (hello_MaxVersion hello) = Inr version"
    "NegotiateCapabilities (hello_Capabilities hello) (server_Capabilities server) = Inr capabilities"
    "authn_Authenticate (server_Authenticator server) (hello_Auth hello) = Inr auth"
    "AuthResult_Validate now auth = None" "res_AccountID auth = hello_AccountID hello"
    "res_TunnelID auth = hello_TunnelID hello" "res_ConnectorID auth = hello_ConnectorID hello"
    "res_ProcessGeneration auth = hello_ProcessGeneration hello"
    "server_Snapshots server (hello_TunnelID hello) = Inr snapshot"
    "Snapshot_Validate L snapshot = None" "snap_TunnelID snapshot = hello_TunnelID hello"
    "server_SessionIDs server = Inr sessionID" "ValidateIdentifier sessionID = None"
    "lease = \<lparr>lease_SessionID = sessionID,
       lease_ExpiresAt = min (now + server_LeaseDuration server) (res_LeaseExpiresAt auth),
       lease_HeartbeatIntervalMS = word_of_int (server_HeartbeatInterval server div Millisecond)\<rparr>"
    "Lease_Validate now lease = None"
    "ss_ref s = \<lparr>ref_TunnelID = hello_TunnelID hello, ref_ConnectorID = hello_ConnectorID hello,
       ref_SessionID = sessionID, ref_ProcessGeneration = hello_ProcessGeneration hello\<rparr>"
    "SessionRegistry_Attach (ss_ref s) R = (Inr res, R')"
    "welcome = \<lparr>welcome_Protocol = ProtocolName, welcome_Version = version,
       welcome_SessionID = sessionID, welcome_Capabilities = capabilities,
       welcome_Lease = lease, welcome_RequiresSnapshot = True, welcome_ServerTime = now\<rparr>"
    "bound = bindSnapshot snapshot (hello_AccountID hello) (hello_ConnectorID hello) sessionID
       (hello_ProcessGeneration hello)"
    "s = \<lparr>ss_ref = ss_ref s, ss_auth = auth, ss_lease = lease, ss_welcome = welcome,
            ss_pendingSnapshot = Some bound, ss_pendingDelta = None, ss_active = zero_Snapshot,
            ss_hasActive = False, ss_candidate = zero_Snapshot, ss_hasCandidate = False,
            ss_readyGeneration = 0, ss_needsSnapshot = False,
            ss_state = SessionAwaitingSnapshot, ss_lastHeartbeat = now,
            ss_lastHeartbeatSentAt = 0, ss_drain = None, ss_drainStatus = DrainStatusOther '''',
            ss_drainCode = CodeEmpty, ss_drainCompleted = False,
            ss_disconnectReason = ReasonEmpty\<rparr>"
proof -
  have m: "(if time_Before a b then a else b) = min a b" for a b by (auto simp: min_def)
  show thesis
    using assms unfolding Server_Accept_def m Let_def
    by (auto split: option.splits sum.splits if_splits prod.splits intro!: that)
qed

lemma Accept_inv:
  assumes "Server_Accept L server now hello R = (Inr (s, welcome, bound), R')"
  shows "server_inv L s"
  using assms
proof (rule Accept_Inr)
  fix version capabilities auth snapshot sessionID lease res
  assume h: "AuthResult_Validate now auth = None" "res_AccountID auth = hello_AccountID hello"
    "res_TunnelID auth = hello_TunnelID hello" "res_ConnectorID auth = hello_ConnectorID hello"
    "res_ProcessGeneration auth = hello_ProcessGeneration hello"
    "Snapshot_Validate L snapshot = None" "snap_TunnelID snapshot = hello_TunnelID hello"
    "lease = \<lparr>lease_SessionID = sessionID,
       lease_ExpiresAt = min (now + server_LeaseDuration server) (res_LeaseExpiresAt auth),
       lease_HeartbeatIntervalMS = word_of_int (server_HeartbeatInterval server div Millisecond)\<rparr>"
    "ss_ref s = \<lparr>ref_TunnelID = hello_TunnelID hello, ref_ConnectorID = hello_ConnectorID hello,
       ref_SessionID = sessionID, ref_ProcessGeneration = hello_ProcessGeneration hello\<rparr>"
    "SessionRegistry_Attach (ss_ref s) R = (Inr res, R')"
    "bound = bindSnapshot snapshot (hello_AccountID hello) (hello_ConnectorID hello) sessionID
       (hello_ProcessGeneration hello)"
    and s: "s = \<lparr>ss_ref = ss_ref s, ss_auth = auth, ss_lease = lease, ss_welcome = welcome,
            ss_pendingSnapshot = Some bound, ss_pendingDelta = None, ss_active = zero_Snapshot,
            ss_hasActive = False, ss_candidate = zero_Snapshot, ss_hasCandidate = False,
            ss_readyGeneration = 0, ss_needsSnapshot = False,
            ss_state = SessionAwaitingSnapshot, ss_lastHeartbeat = now,
            ss_lastHeartbeatSentAt = 0, ss_drain = None, ss_drainStatus = DrainStatusOther '''',
            ss_drainCode = CodeEmpty, ss_drainCompleted = False,
            ss_disconnectReason = ReasonEmpty\<rparr>"
  have v: "SessionRef_Validate (ss_ref s) = None" by (rule Attach_current(1) [OF h(10)])
  show "server_inv L s"
    by (subst s) (use v h Snapshot_Validate_None(4) [OF h(6)] AuthResult_lease [OF h(1)] in
      \<open>auto simp: server_inv_def inv_config_def inv_state_def inv_auth_def inv_drain_def
        snapshot_owned_def bindSnapshot_def\<close>)
qed


text \<open>
  One session beside the rest of the system: a step is a call of a handler with arbitrary arguments,
  the answer of the authenticator to an outstanding renewal, or an operation of another session on
  the registry. The handlers are called with the server they belong to.
\<close>

inductive server_step ::
  "('a cfglib_scheme) \<Rightarrow> Server \<Rightarrow> registry \<times> ServerSession \<Rightarrow> registry \<times> ServerSession \<Rightarrow> bool"
  for L server where
  step_ack: "ServerSession_HandleAck now ack R s = (r, R', s') \<Longrightarrow> server_step L server (R, s) (R', s')"
| step_readiness: "ServerSession_HandleReadiness now readiness R s = (r, R', s') \<Longrightarrow>
    server_step L server (R, s) (R', s')"
| step_offer: "ServerSession_OfferSnapshot L now snapshot R s = (r, R', s') \<Longrightarrow>
    server_step L server (R, s) (R', s')"
| step_offer_delta: "ServerSession_OfferDelta L now delta R s = (r, R', s') \<Longrightarrow>
    server_step L server (R, s) (R', s')"
| step_heartbeat: "ServerSession_HandleHeartbeat server now hb R s = (r, R', s') \<Longrightarrow>
    server_step L server (R, s) (R', s')"
| step_begin_drain: "ServerSession_BeginDrain ctxErr now now' drainID deadline force R s = (r, R', s') \<Longrightarrow>
    server_step L server (R, s) (R', s')"
| step_drain_ack: "ServerSession_HandleDrainAck ctxErr now now' dack R s = (r, R', s') \<Longrightarrow>
    server_step L server (R, s) (R', s')"
| step_renew_begin: "ServerSession_Renew_begin now request R s = (r, R', s') \<Longrightarrow>
    server_step L server (R, s) (R', s')"
| step_renew_answered: "Renew_answered server now' saved answer R s = (r, R', s') \<Longrightarrow>
    server_step L server (R, s) (R', s')"
| step_lease: "ServerSession_CheckLease now R s = (r, R', s') \<Longrightarrow> server_step L server (R, s) (R', s')"
| step_close: "ServerSession_Close reason R s = (r, R', s') \<Longrightarrow> server_step L server (R, s) (R', s')"
| step_attach: "ref \<noteq> ss_ref s \<Longrightarrow> SessionRegistry_Attach ref R = (r, R') \<Longrightarrow>
    server_step L server (R, s) (R', s)"
| step_disconnect: "ref \<noteq> ss_ref s \<Longrightarrow> SessionRegistry_Disconnect ref reason R = (r, R') \<Longrightarrow>
    server_step L server (R, s) (R', s)"

lemmas handler_steps = ack.handle_step readiness.handle_step offer.handle_step
  offer_delta.handle_step heartbeat.handle_step begin_drain.handle_step drain_ack.handle_step
  renew_begin.handle_step renew.handle_step lease_check.handle_step close.handle_step

lemma server_step_contract:
  assumes "server_step L server (R, s) (R', s')" and "server_inv L s"
  shows "session_step L R s R' s' \<or> s' = s"
  using assms by (cases rule: server_step.cases) (auto dest: handler_steps)

text \<open>What no step changes, whatever the order of the calls.\<close>

definition session_extends :: "ServerSession \<Rightarrow> ServerSession \<Rightarrow> bool" where
  "session_extends s s' \<longleftrightarrow>
     ss_ref s' = ss_ref s \<and> ss_welcome s' = ss_welcome s \<and>
     res_AccountID (ss_auth s') = res_AccountID (ss_auth s) \<and>
     res_CredentialGeneration (ss_auth s) \<le> res_CredentialGeneration (ss_auth s') \<and>
     (ss_drain s \<noteq> None \<longrightarrow> ss_drain s' = ss_drain s) \<and>
     (0 < ss_lastHeartbeatSentAt s \<longrightarrow> ss_lastHeartbeatSentAt s \<le> ss_lastHeartbeatSentAt s') \<and>
     (ss_state s = SessionClosed \<longrightarrow> s' = s)"

lemma session_extends_refl: "session_extends s s"
  by (simp add: session_extends_def)

lemma session_extends_trans: "session_extends a b \<Longrightarrow> session_extends b c \<Longrightarrow> session_extends a c"
  unfolding session_extends_def by (intro conjI impI; force)

lemma session_step_extends: "session_step L R s R' s' \<Longrightarrow> session_extends s s'"
  by (auto simp: session_step_def session_extends_def)

lemma session_step_inv: "session_step L R s R' s' \<Longrightarrow> server_inv L s'"
  by (simp add: session_step_def)

lemma server_steps_inv:
  assumes "(server_step L server)\<^sup>*\<^sup>* c c'" and "server_inv L (snd c)"
  shows "server_inv L (snd c') \<and> session_extends (snd c) (snd c')"
  using assms
proof (induction rule: rtranclp_induct)
  case base
  then show ?case by (simp add: session_extends_refl)
next
  case (step d e)
  obtain R s R' s' where d: "d = (R, s)" "e = (R', s')" by fastforce
  with step have "server_inv L s" "session_extends (snd c) s" by simp_all
  moreover from this(1) server_step_contract [of L server R s R' s'] step(2) d
  have "server_inv L s'" "session_extends s s'"
    by (auto simp: session_extends_refl dest: session_step_extends session_step_inv)
  ultimately show ?case using d session_extends_trans by auto
qed

section \<open>A sample server\<close>

text \<open>The sample connector in the process generation \<open>g\<close>.\<close>

definition sample_proved :: "uint64 \<Rightarrow> AuthRequest" where
  "sample_proved g = sample_auth\<lparr>auth_ProcessGeneration := g,
     auth_SignedProof := EncodeToString (replicate 64 CHR ''s'')\<rparr>"

definition sample_hello :: "uint64 \<Rightarrow> Hello" where
  "sample_hello g =
     \<lparr>hello_Protocol = ProtocolName, hello_MinVersion = ProtocolVersion,
      hello_MaxVersion = ProtocolVersion,
      hello_AccountID = ''acc_1'', hello_TunnelID = ''tun_1'', hello_ConnectorID = ''con_1'',
      hello_HostID = ''host_1'', hello_ProcessGeneration = g,
      hello_Capabilities = ProductionCapabilities, hello_Auth = sample_proved g\<rparr>"

definition sample_result :: "uint64 \<Rightarrow> AuthResult" where
  "sample_result g =
     \<lparr>res_AccountID = ''acc_1'', res_TunnelID = ''tun_1'', res_ConnectorID = ''con_1'',
      res_SessionID = '''', res_HostID = ''host_1'',
      res_IdentityKeyID = ''ed25519:'' @ replicate 43 CHR ''k'',
      res_IdentityKeyThumbprint = replicate 43 CHR ''k'', res_ProcessGeneration = g,
      res_CredentialGeneration = 1, res_CredentialExpiresAt = 5000 * Second,
      res_LeaseExpiresAt = 1300 * Second\<rparr>"

definition sample_server :: Server where
  "sample_server =
     \<lparr>server_Authenticator =
        \<lparr>authn_Authenticate = \<lambda>request. Inr (sample_result (auth_ProcessGeneration request)),
         authn_Renew = \<lambda>request. Inr ((sample_result (ren_ProcessGeneration request))
           \<lparr>res_CredentialGeneration := 2\<rparr>)\<rparr>,
      server_Snapshots = \<lambda>_. Inr (sample_snapshot ''1'' 1),
      server_Capabilities = ProductionCapabilities, server_LeaseDuration = DefaultLease,
      server_HeartbeatInterval = DefaultHeartbeat, server_SessionIDs = Inr ''ses_1''\<rparr>"

definition sample_now :: time where "sample_now = 1000 * Second"

definition sample_bound :: "uint64 \<Rightarrow> Snapshot" where
  "sample_bound g = bindSnapshot (sample_snapshot ''1'' 1) ''acc_1'' ''con_1'' ''ses_1'' g"

definition sample_welcome :: Welcome where
  "sample_welcome =
     \<lparr>welcome_Protocol = ProtocolName, welcome_Version = ProtocolVersion, welcome_SessionID = ''ses_1'',
      welcome_Capabilities = ProductionCapabilities,
      welcome_Lease = \<lparr>lease_SessionID = ''ses_1'', lease_ExpiresAt = 1045 * Second,
        lease_HeartbeatIntervalMS = 5000\<rparr>,
      welcome_RequiresSnapshot = True, welcome_ServerTime = sample_now\<rparr>"

definition sample_session :: "uint64 \<Rightarrow> ServerSession" where
  "sample_session g =
     \<lparr>ss_ref = sample_ref g, ss_auth = sample_result g, ss_lease = welcome_Lease sample_welcome,
      ss_welcome = sample_welcome,
      ss_pendingSnapshot = Some (sample_bound g), ss_pendingDelta = None, ss_active = zero_Snapshot,
      ss_hasActive = False, ss_candidate = zero_Snapshot, ss_hasCandidate = False,
      ss_readyGeneration = 0, ss_needsSnapshot = False, ss_state = SessionAwaitingSnapshot,
      ss_lastHeartbeat = sample_now, ss_lastHeartbeatSentAt = 0, ss_drain = None,
      ss_drainStatus = DrainStatusOther '''', ss_drainCode = CodeEmpty, ss_drainCompleted = False,
      ss_disconnectReason = ReasonEmpty\<rparr>"

definition sample_registry :: "uint64 \<Rightarrow> registry" where
  "sample_registry g = fmupd ''con_1'' (sample_ref g) NewSessionRegistry"

lemma version_negotiates: "NegotiateVersion ProtocolVersion ProtocolVersion = Inr ProtocolVersion"
proof -
  have "ProtocolVersion = version_text 1 0" by code_simp
  then have "versionPattern ProtocolVersion" by (metis versionPattern_version_text)
  then show ?thesis by (simp add: NegotiateVersion_def)
qed

lemma sample_identifiers:
  "ValidateIdentifier ''acc_1'' = None" "ValidateIdentifier ''tun_1'' = None"
  "ValidateIdentifier ''con_1'' = None" "ValidateIdentifier ''host_1'' = None"
  "ValidateIdentifier ''ses_1'' = None" "ValidateIdentifier ''drn_1'' = None"
  by code_simp+

lemma sample_hello_valid:
  assumes "g \<noteq> 0"
  shows "Hello_Validate sample_now (sample_hello g) = None"
proof -
  have "AuthRequest_validate sample_now False sample_auth = None" by code_simp
  then have "AuthRequest_validate sample_now False (sample_auth\<lparr>auth_ProcessGeneration := g\<rparr>) = None"
    using assms by (auto simp: AuthRequest_validate_def split: if_splits)
  then have "AuthRequest_validate sample_now True (sample_proved g) = None"
    unfolding sample_proved_def
    by (intro AuthRequest_validate_proof EncodeToString_ValidateProof) simp_all
  moreover have "ValidateCapabilities ProductionCapabilities = None" by code_simp
  ultimately show ?thesis
    using assms sample_identifiers
    by (simp add: Hello_Validate_def sample_hello_def version_negotiates AuthRequest_Validate_def)
       (simp add: sample_proved_def sample_auth_def ProtocolVersion_def)
qed

lemma sample_result_valid:
  assumes "g \<noteq> 0"
  shows "AuthResult_Validate sample_now (sample_result g) = None"
proof -
  have "AuthResult_Validate sample_now (sample_result 1) = None" by code_simp
  then show ?thesis using assms by (simp add: AuthResult_Validate_def sample_result_def split: if_splits)
qed

lemma sample_Attach:
  assumes "g \<noteq> 0" and "R = NewSessionRegistry \<or> R = sample_registry g' \<and> g' < g"
  shows "\<exists>res. SessionRegistry_Attach (sample_ref g) R = (Inr res, sample_registry g)"
proof -
  have "SessionRef_Validate (sample_ref g) = None"
    using assms(1) sample_identifiers by (simp add: SessionRef_Validate_def sample_ref_def)
  moreover have "fmupd ''con_1'' (sample_ref g) R = sample_registry g"
    using assms(2) by (auto simp: sample_registry_def)
  moreover have "fmlookup R ''con_1'' = None \<or> fmlookup R ''con_1'' = Some (sample_ref g') \<and> g' < g"
    using assms(2) by (auto simp: sample_registry_def NewSessionRegistry_def)
  moreover have "ref_ConnectorID (sample_ref x) = ''con_1''" "ref_TunnelID (sample_ref x) = ''tun_1''"
    "ref_ProcessGeneration (sample_ref x) = x" for x by (simp_all add: sample_ref_def)
  ultimately show ?thesis by (auto simp: SessionRegistry_Attach_def)
qed

lemma sample_Accept:
  assumes "g \<noteq> 0" and "R = NewSessionRegistry \<or> R = sample_registry g' \<and> g' < g"
  shows "Server_Accept sample_lib sample_server sample_now (sample_hello g) R =
     (Inr (sample_session g, sample_welcome, sample_bound g), sample_registry g)"
proof -
  have 1: "NegotiateCapabilities ProductionCapabilities ProductionCapabilities = Inr ProductionCapabilities"
    by code_simp
  have 4: "Lease_Validate sample_now (welcome_Lease sample_welcome) = None" by code_simp
  have 7: "welcome_Lease sample_welcome = \<lparr>lease_SessionID = ''ses_1'',
     lease_ExpiresAt = sample_now + DefaultLease,
     lease_HeartbeatIntervalMS = word_of_int (DefaultHeartbeat div Millisecond)\<rparr>"
    by (simp add: sample_welcome_def sample_now_def wire_consts duration_defs)
  have 8: "sample_now + DefaultLease < res_LeaseExpiresAt (sample_result g)"
    by (simp add: sample_now_def sample_result_def wire_consts duration_defs)
  obtain res where 9: "SessionRegistry_Attach \<lparr>ref_TunnelID = ''tun_1'', ref_ConnectorID = ''con_1'',
     ref_SessionID = ''ses_1'', ref_ProcessGeneration = g\<rparr> R = (Inr res, sample_registry g)"
    using sample_Attach [OF assms] by (auto simp: sample_ref_def)
  have hello: "hello_MinVersion (sample_hello g) = ProtocolVersion"
    "hello_MaxVersion (sample_hello g) = ProtocolVersion"
    "hello_Capabilities (sample_hello g) = ProductionCapabilities"
    "hello_Auth (sample_hello g) = sample_proved g"
    "hello_AccountID (sample_hello g) = ''acc_1''" "hello_TunnelID (sample_hello g) = ''tun_1''"
    "hello_ConnectorID (sample_hello g) = ''con_1''" "hello_HostID (sample_hello g) = ''host_1''"
    "hello_ProcessGeneration (sample_hello g) = g"
    by (simp_all add: sample_hello_def)
  have srv: "authn_Authenticate (server_Authenticator sample_server) (sample_proved g) = Inr (sample_result g)"
    "server_Snapshots sample_server t = Inr (sample_snapshot ''1'' 1)"
    "server_Capabilities sample_server = ProductionCapabilities"
    "server_LeaseDuration sample_server = DefaultLease"
    "server_HeartbeatInterval sample_server = DefaultHeartbeat"
    "server_SessionIDs sample_server = Inr ''ses_1''" for t
    by (simp_all add: sample_server_def sample_proved_def)
  have res: "res_AccountID (sample_result g) = ''acc_1''" "res_TunnelID (sample_result g) = ''tun_1''"
    "res_ConnectorID (sample_result g) = ''con_1''" "res_HostID (sample_result g) = ''host_1''"
    "res_IdentityKeyID (sample_result g) = auth_IdentityKeyID (sample_proved g)"
    "res_IdentityKeyThumbprint (sample_result g) = auth_IdentityKeyThumbprint (sample_proved g)"
    "res_ProcessGeneration (sample_result g) = g"
    by (simp_all add: sample_result_def sample_proved_def sample_auth_def)
  have snap: "snap_TunnelID (sample_snapshot ''1'' 1) = ''tun_1''" by (simp add: sample_snapshot_def)
  show ?thesis
    unfolding Server_Accept_def sample_hello_valid [OF assms(1)] option.case hello srv
      version_negotiates sum.case 1
    using sample_result_valid [OF assms(1)] 4 8 sample_identifiers
    by (simp add: res snap sample_Snapshot_Validate Let_def 7 [symmetric] 9 sample_session_def
        sample_bound_def sample_ref_def)
      (simp add: sample_welcome_def)
qed

lemma sample_Accept_first:
  "Server_Accept sample_lib sample_server sample_now (sample_hello 1) NewSessionRegistry =
     (Inr (sample_session 1, sample_welcome, sample_bound 1), sample_registry 1)"
  by (rule sample_Accept [where g' = 0]) simp_all

lemma NegotiateVersion_Inr: "NegotiateVersion lo hi = Inr v \<Longrightarrow> v = ProtocolVersion"
  by (auto simp: NegotiateVersion_def split: if_splits option.splits)

lemma NegotiateCapabilities_Inr: "NegotiateCapabilities a b = Inr c \<Longrightarrow> ValidateCapabilities c = None"
  by (auto simp: NegotiateCapabilities_def Let_def split: option.splits)

lemma Accept_Inl: "Server_Accept L server now hello R = (Inl err, R') \<Longrightarrow> R' = R"
  by (auto simp: Server_Accept_def Let_def split: option.splits sum.splits if_splits prod.splits
      dest: reg.attach_error)

lemma Accept_welcome:
  assumes "Server_Accept L server now hello R = (Inr (s, welcome, bound), R')"
  shows "now \<noteq> 0 \<longrightarrow> Welcome_Validate now welcome = None"
  by (rule Accept_Inr [OF assms])
     (auto simp: Welcome_Validate_def dest: NegotiateVersion_Inr NegotiateCapabilities_Inr)

lemma Accept_bound:
  assumes "Server_Accept L server now hello R = (Inr (s, welcome, bound), R')"
  shows "Snapshot_ValidateBound L bound = None \<and>
       snap_AccountID bound = hello_AccountID hello \<and> snap_TunnelID bound = hello_TunnelID hello \<and>
       snap_ConnectorID bound = hello_ConnectorID hello \<and>
       snap_SessionID bound = welcome_SessionID welcome \<and>
       snap_ProcessGeneration bound = hello_ProcessGeneration hello \<and>
       ss_pendingSnapshot s = Some bound"
proof (rule Accept_Inr [OF assms], goal_cases)
  case (1 version capabilities auth snapshot sessionID lease res)
  from 1(1) have "ValidateIdentifier (hello_AccountID hello) = None"
    "ValidateIdentifier (hello_ConnectorID hello) = None" "hello_ProcessGeneration hello \<noteq> 0"
    by (auto simp: Hello_Validate_def split: if_splits)
  moreover from this(1) 1(14) have "Snapshot_Validate L bound = None"
    unfolding 1(20) bindSnapshot_def by (intro Snapshot_Validate_update [OF 1(11)]) simp_all
  moreover have "ss_pendingSnapshot s = Some bound" by (subst 1(21)) simp
  ultimately show ?case using 1(12,14) by (simp add: 1(19,20) bindSnapshot_def Snapshot_ValidateBound_def)
qed

lemma Accept_registry:
  assumes "Server_Accept L server now hello R = (Inr (s, welcome, bound), R')"
  shows "SessionRegistry_Active R' (hello_ConnectorID hello) = Some (ss_ref s) \<and>
       (\<forall>c. c \<noteq> hello_ConnectorID hello \<longrightarrow> fmlookup R' c = fmlookup R c) \<and>
       (\<forall>previous. fmlookup R (hello_ConnectorID hello) = Some previous \<longrightarrow>
          ref_TunnelID previous = hello_TunnelID hello \<and>
          ref_ProcessGeneration previous < hello_ProcessGeneration hello)"
proof (rule Accept_Inr [OF assms], goal_cases)
  case (1 version capabilities auth snapshot sessionID lease res)
  from 1(17) have ref: "ref_ConnectorID (ss_ref s) = hello_ConnectorID hello"
    "ref_TunnelID (ss_ref s) = hello_TunnelID hello"
    "ref_ProcessGeneration (ss_ref s) = hello_ProcessGeneration hello" by simp_all
  note a = Attach_current [OF 1(18)]
  have "SessionRegistry_Active R' (hello_ConnectorID hello) = Some (ss_ref s)"
    using Active_lookup [OF a(1)] by (simp add: a(2) ref)
  moreover have "\<forall>c. c \<noteq> hello_ConnectorID hello \<longrightarrow> fmlookup R' c = fmlookup R c"
    by (simp add: a(2) ref)
  ultimately show ?case using reg.attach_newer [OF 1(18)] ref by auto
qed

section \<open>Properties of the server side\<close>

text \<open>
  C15. Every state that a session reaches from \<open>Accept\<close>, by any sequence of handler calls
  interleaved with the other sessions' operations on the registry, satisfies the invariant: the
  pending, staged and active configurations carry the identity of the session and the hash of their
  payload, a pending delta continues the active configuration, readiness is claimed for an active
  configuration only, the lease ends no later than the credential, and the drain addresses this
  session. From any such state on, the identity, the welcome and a begun drain never change, the
  credential generation and the last heartbeat never go back, and a closed session stays as it is.
\<close>

theorem reachable_sessions:
  assumes "Server_Accept L server now hello R0 = (Inr (s0, welcome, bound), R1)"
    and "(server_step L server)\<^sup>*\<^sup>* (R1, s0) (R, s)" and "(server_step L server)\<^sup>*\<^sup>* (R, s) (R', s')"
  shows "server_inv L s' \<and> session_extends s s'"
  using server_steps_inv [OF assms(2)] server_steps_inv [OF assms(3)] Accept_inv [OF assms(1)] by simp

lemma sample_close_step:
  "server_step sample_lib sample_server (sample_registry 1, sample_session 1)
     (snd (ServerSession_Close ReasonProtocolClosed (sample_registry 1) (sample_session 1)))"
  by (cases "ServerSession_Close ReasonProtocolClosed (sample_registry 1) (sample_session 1)" rule: prod_cases3)
     (auto intro: step_close)

theorem reachable_sessions_witness:
  "let s' = snd (snd (ServerSession_Close ReasonProtocolClosed (sample_registry 1) (sample_session 1))) in
   server_inv sample_lib s' \<and> session_extends (sample_session 1) s' \<and> ss_state s' = SessionClosed"
proof -
  let ?c = "ServerSession_Close ReasonProtocolClosed (sample_registry 1) (sample_session 1)"
  have "(server_step sample_lib sample_server)\<^sup>*\<^sup>* (sample_registry 1, sample_session 1) (fst (snd ?c), snd (snd ?c))"
    using sample_close_step by auto
  from reachable_sessions [OF sample_Accept_first rtranclp.rtrancl_refl this]
  show ?thesis
    by (simp add: Let_def)
       (simp add: ServerSession_Close_def ServerSession_closeLocked_def sample_session_def)
qed

text \<open>
  C16. When \<open>Accept\<close> succeeds the welcome validates at the server's clock, the snapshot it returns
  validates and is bound to the account, tunnel, connector, session and process generation of the
  hello, the registry has the new session as the active one of the connector, over an older process
  generation of the same tunnel only, and every other connector is left alone. When it fails the
  registry is unchanged.
\<close>

theorem Accept_sound:
  "case Server_Accept L server now hello R of
     (Inl err, R') \<Rightarrow> R' = R
   | (Inr (s, welcome, bound), R') \<Rightarrow>
       (now \<noteq> 0 \<longrightarrow> Welcome_Validate now welcome = None) \<and> Snapshot_ValidateBound L bound = None \<and>
       snap_AccountID bound = hello_AccountID hello \<and> snap_TunnelID bound = hello_TunnelID hello \<and>
       snap_ConnectorID bound = hello_ConnectorID hello \<and>
       snap_SessionID bound = welcome_SessionID welcome \<and>
       snap_ProcessGeneration bound = hello_ProcessGeneration hello \<and>
       ss_pendingSnapshot s = Some bound \<and>
       SessionRegistry_Active R' (hello_ConnectorID hello) = Some (ss_ref s) \<and>
       (\<forall>c. c \<noteq> hello_ConnectorID hello \<longrightarrow> fmlookup R' c = fmlookup R c) \<and>
       (\<forall>previous. fmlookup R (hello_ConnectorID hello) = Some previous \<longrightarrow>
          ref_TunnelID previous = hello_TunnelID hello \<and>
          ref_ProcessGeneration previous < hello_ProcessGeneration hello)"
proof (cases "Server_Accept L server now hello R")
  case (Pair r R')
  show ?thesis
  proof (cases r)
    case (Inl err)
    with Pair Accept_Inl show ?thesis by simp
  next
    case (Inr x)
    obtain s w bound where x: "x = (s, w, bound)" by (metis prod_cases3)
    note a = Pair [unfolded Inr x]
    from Accept_welcome [OF a] Accept_bound [OF a] Accept_registry [OF a] show ?thesis
      by (auto simp: Pair Inr x)
  qed
qed

theorem Accept_sound_witness:
  "Welcome_Validate sample_now sample_welcome = None \<and>
   Snapshot_ValidateBound sample_lib (sample_bound 1) = None \<and>
   SessionRegistry_Active (sample_registry 1) ''con_1'' = Some (sample_ref 1)"
proof -
  have "sample_now \<noteq> 0" by (simp add: sample_now_def duration_defs)
  moreover have "hello_ConnectorID (sample_hello 1) = ''con_1''" by (simp add: sample_hello_def)
  moreover have "ss_ref (sample_session 1) = sample_ref 1" by (simp add: sample_session_def)
  ultimately show ?thesis
    using Accept_sound [where L = sample_lib and server = sample_server and now = sample_now
      and hello = "sample_hello 1" and R = NewSessionRegistry]
    by (simp add: sample_Accept_first)
qed

lemma closeLocked_replaced:
  assumes "server_inv L s" and "ss_state s \<noteq> SessionClosed"
    and "fmlookup R (ref_ConnectorID (ss_ref s)) = Some other" and "other \<noteq> ss_ref s"
  shows "ServerSession_closeLocked reason R s =
    (R, s\<lparr>ss_state := SessionClosed, ss_disconnectReason := reason\<rparr>)"
proof -
  from assms(1) have "SessionRef_Validate (ss_ref s) = None" by (simp add: server_inv_def inv_auth_def)
  then have "snd (SessionRegistry_Disconnect (ss_ref s) reason R) = R"
    using assms(3,4) by (simp add: SessionRegistry_Disconnect_def)
  with assms(2) show ?thesis by (simp add: ServerSession_closeLocked_def)
qed

lemma guarded_replaced:
  assumes "server_inv L s" and "ss_state s \<noteq> SessionClosed"
    and "fmlookup R (ref_ConnectorID (ss_ref s)) = Some other" and "other \<noteq> ss_ref s"
  shows "guarded fail now body R s =
    (fail (codeError ErrStaleSession ReasonSessionReplaced False None), R,
     s\<lparr>ss_state := SessionClosed, ss_disconnectReason := ReasonSessionReplaced\<rparr>)"
proof -
  from assms(1) have "SessionRef_Validate (ss_ref s) = None" by (simp add: server_inv_def inv_auth_def)
  from Active_lookup [OF this] closeLocked_replaced [OF assms] assms(2-4) show ?thesis
    by (simp add: guarded_def ServerSession_ensureActiveLocked_def)
qed

text \<open>
  C17. A newer process of the same connector fences the older session at once: after the newer
  \<open>Accept\<close>, whichever of the calls that check the session comes first on the old one (an
  acknowledgement, readiness, an offer of a snapshot or a delta, a heartbeat, the begin or the
  acknowledgement of a drain, either half of a renewal, or the check of the lease), if its argument
  passes validation, fails with the stale-session error, closes the old session for that reason, and
  leaves the registry and with it the new session alone. \<open>Close\<close> is not refused: it closes the old
  session for its own reason, and leaves the registry alone as well.
\<close>

theorem replaced_session_fenced:
  assumes "server_inv L s" and "ss_state s \<noteq> SessionClosed"
    and "Server_Accept L server now hello R = (Inr (s2, w2, bound2), R')"
    and "hello_ConnectorID hello = ref_ConnectorID (ss_ref s)"
    and "fmlookup R (ref_ConnectorID (ss_ref s)) = Some (ss_ref s)"
  shows "let err = codeError ErrStaleSession ReasonSessionReplaced False None;
             closed = s\<lparr>ss_state := SessionClosed, ss_disconnectReason := ReasonSessionReplaced\<rparr> in
     (Ack_Validate ack = None \<longrightarrow> ServerSession_HandleAck t ack R' s = (Some err, R', closed)) \<and>
     (Readiness_Validate rdy = None \<longrightarrow> ServerSession_HandleReadiness t rdy R' s = (Inl err, R', closed)) \<and>
     (Snapshot_Validate L snap = None \<longrightarrow> ServerSession_OfferSnapshot L t snap R' s = (Some err, R', closed)) \<and>
     (Heartbeat_Validate hb = None \<longrightarrow>
        ServerSession_HandleHeartbeat server t hb R' s = (Inl err, R', closed)) \<and>
     (Delta_Validate L delta = None \<longrightarrow> ServerSession_OfferDelta L t delta R' s = (Some err, R', closed)) \<and>
     ServerSession_BeginDrain None t t' drainID deadline force R' s = (Inl err, R', closed) \<and>
     (DrainAck_Validate t dack = None \<longrightarrow>
        ServerSession_HandleDrainAck None t t' dack R' s = (Some err, R', closed)) \<and>
     (RenewalRequest_ValidateAt t ren = None \<longrightarrow>
        ServerSession_Renew server t t' ren R' s = (Inl err, R', closed)) \<and>
     ServerSession_Renew_commit server t' saved result R' s = (Inl err, R', closed) \<and>
     ServerSession_CheckLease t R' s = (Some err, R', closed) \<and>
     (validDisconnectReason reason \<longrightarrow> ServerSession_Close reason R' s =
        (None, R', s\<lparr>ss_state := SessionClosed, ss_disconnectReason := reason\<rparr>)) \<and>
     SessionRegistry_Active R' (ref_ConnectorID (ss_ref s)) = Some (ss_ref s2)"
proof -
  from Accept_registry [OF assms(3)] assms(4,5)
  have act: "SessionRegistry_Active R' (ref_ConnectorID (ss_ref s)) = Some (ss_ref s2)"
    and gen: "ref_ProcessGeneration (ss_ref s) < hello_ProcessGeneration hello" by auto
  from assms(3) have "ref_ProcessGeneration (ss_ref s2) = hello_ProcessGeneration hello"
    by (rule Accept_Inr) simp
  with gen have ne: "ss_ref s2 \<noteq> ss_ref s" by auto
  from assms(1) have "SessionRef_Validate (ss_ref s) = None" by (simp add: server_inv_def inv_auth_def)
  with act have look: "fmlookup R' (ref_ConnectorID (ss_ref s)) = Some (ss_ref s2)" by (simp add: Active_lookup)
  note g = guarded_replaced [OF assms(1,2) look ne]
  note c = closeLocked_replaced [OF assms(1,2) look ne]
  show ?thesis
    by (simp add: Let_def g act ServerSession_HandleAck_def ServerSession_HandleReadiness_def
        ServerSession_OfferSnapshot_def ServerSession_OfferDelta_def ServerSession_HandleHeartbeat_def
        ServerSession_BeginDrain_def ServerSession_HandleDrainAck_def ServerSession_Renew_def
        ServerSession_Renew_begin_def ServerSession_Renew_commit_def split_def)
       (simp add: ServerSession_CheckLease_def ServerSession_Close_def
          ServerSession_ensureActiveLocked_def assms(2) act ne c)
qed

theorem replaced_session_fenced_witness:
  "let err = codeError ErrStaleSession ReasonSessionReplaced False None;
       closed = (sample_session 1)\<lparr>ss_state := SessionClosed, ss_disconnectReason := ReasonSessionReplaced\<rparr> in
   ServerSession_BeginDrain None sample_now sample_now ''drn_1'' 0 True (sample_registry 2) (sample_session 1)
     = (Inl err, sample_registry 2, closed) \<and>
   ServerSession_CheckLease sample_now (sample_registry 2) (sample_session 1) = (Some err, sample_registry 2, closed)"
proof -
  have i: "server_inv sample_lib (sample_session 1)" by (rule Accept_inv [OF sample_Accept_first])
  have r: "ss_state (sample_session 1) \<noteq> SessionClosed" "ss_ref (sample_session 1) = sample_ref 1"
    by (simp_all add: sample_session_def)
  have c: "ref_ConnectorID (sample_ref 1) = ''con_1''" "hello_ConnectorID (sample_hello 2) = ''con_1''"
    by (simp_all add: sample_ref_def sample_hello_def)
  have a: "Server_Accept sample_lib sample_server sample_now (sample_hello 2) (sample_registry 1) =
     (Inr (sample_session 2, sample_welcome, sample_bound 2), sample_registry 2)"
    by (rule sample_Accept [where g' = 1]) simp_all
  show ?thesis
    using replaced_session_fenced [OF i r(1) a, where t = sample_now and t' = sample_now and drainID = "''drn_1''"
      and deadline = 0 and force = True]
    by (simp add: r(2) c Let_def) (simp add: sample_registry_def)
qed

end
