(* ===== verification/Server_Behaviour.thy ===== *)
theory Server_Behaviour
  imports Server_Properties
begin

text \<open>
  What the handlers of a server session do to the configuration, the heartbeats, the drain and the
  credential: the effect of each message on every branch that changes state, and the sequences of
  messages that the protocol promises to work.
\<close>

section \<open>Live sessions\<close>

text \<open>A session whose handlers run: \<open>ensureActiveLocked\<close> lets it through.\<close>

definition session_live :: "time \<Rightarrow> registry \<Rightarrow> ServerSession \<Rightarrow> bool" where
  "session_live now R s \<longleftrightarrow> fst (ServerSession_ensureActiveLocked now R s) = None"

lemma session_live_iff:
  "session_live now R s \<longleftrightarrow>
     ss_state s \<noteq> SessionClosed \<and>
     SessionRegistry_Active R (ref_ConnectorID (ss_ref s)) = Some (ss_ref s) \<and>
     now < res_CredentialExpiresAt (ss_auth s) \<and> now < lease_ExpiresAt (ss_lease s) \<and>
     (ss_lastHeartbeat s = 0 \<or> time_Sub now (ss_lastHeartbeat s) \<le> 2 * heartbeat_interval (ss_lease s))"
  by (auto simp: session_live_def ServerSession_ensureActiveLocked_def not_less)

lemma guarded_live:
  assumes "session_live now R s"
  shows "guarded fail now body R s = (fst (body s), R, snd (body s))"
proof -
  obtain e R' s' where e: "ServerSession_ensureActiveLocked now R s = (e, R', s')" by (metis prod_cases3)
  with assms have "e = None" by (simp add: session_live_def)
  with e have "R' = R" "s' = s" by (auto elim: ensureActive_cases)
  with e \<open>e = None\<close> show ?thesis by (simp add: guarded_def split: prod.split)
qed

text \<open>What an observation that ignores the session state sees of a guarded call.\<close>

lemma guarded_keeps:
  assumes "guarded fail now body R s = (r, R', s')"
    and "\<And>a b. f (s\<lparr>ss_state := a, ss_disconnectReason := b\<rparr>) = f s" and "f (snd (body s)) = f s"
  shows "f s' = f s"
proof -
  obtain e R1 s1 where e: "ServerSession_ensureActiveLocked now R s = (e, R1, s1)" by (metis prod_cases3)
  then show ?thesis
  proof (cases rule: ensureActive_cases)
    case active
    with assms e show ?thesis by (auto simp: guarded_def split: prod.splits)
  next
    case (closed err)
    with assms e show ?thesis by (auto simp: guarded_def)
  next
    case (closing err reason)
    with assms e show ?thesis by (auto simp: guarded_def ServerSession_closeLocked_def)
  qed
qed

section \<open>The active configuration\<close>

definition activated :: "ServerSession \<Rightarrow> bool \<times> Snapshot" where
  "activated s = (ss_hasActive s, ss_active s)"

lemma activated_close [simp]: "activated (s\<lparr>ss_state := a, ss_disconnectReason := b\<rparr>) = activated s"
  by (simp add: activated_def)

lemma activated_bodies:
  "activated (snd (HandleAck_locked ack s)) = activated s"
  "activated (snd (OfferSnapshot_locked snapshot s)) = activated s"
  "activated (snd (OfferDelta_locked delta s)) = activated s"
  "activated (snd (HandleHeartbeat_locked server now hb s)) = activated s"
  "activated (snd (BeginDrain_locked now drainID deadline force s)) = activated s"
  "activated (snd (HandleDrainAck_locked dack s)) = activated s"
  "activated (snd (Renew_begin_locked now request s)) = activated s"
  "activated (snd (Renew_commit_locked server now expected ref result s)) = activated s"
  subgoal by (simp add: HandleAck_locked_def ack_pending_snapshot_def ack_pending_delta_def
        restoreStateLocked_def activated_def Let_def split: option.split)
  subgoal by (simp add: OfferSnapshot_locked_def offer_bound_def activated_def Let_def split: option.split)
  subgoal by (simp add: OfferDelta_locked_def activated_def)
  subgoal by (simp add: snd_HandleHeartbeat activated_def)
  subgoal by (simp add: BeginDrain_alt activated_def split: option.split)
  subgoal by (simp add: HandleDrainAck_locked_def restoreStateLocked_def activated_def Let_def
        split: option.split DrainStatus.split)
  subgoal by (simp add: Renew_begin_locked_def)
  subgoal by (simp add: Renew_commit_locked_def activated_def Let_def)
  done

lemma closeLocked_activated:
  "activated (snd (ServerSession_closeLocked reason R s)) = activated s"
  by (simp add: ServerSession_closeLocked_def)

lemma ensureActive_activated:
  "ServerSession_ensureActiveLocked now R s = (r, R', s') \<Longrightarrow> activated s' = activated s"
  using closeLocked_activated [of _ R s] by (auto elim!: ensureActive_cases) (metis snd_conv)

lemma guarded_dead:
  assumes "\<not> session_live now R s"
  shows "\<exists>err R' s'. guarded fail now body R s = (fail err, R', s') \<and> activated s' = activated s"
proof -
  obtain e R' s' where e: "ServerSession_ensureActiveLocked now R s = (e, R', s')" by (metis prod_cases3)
  with assms obtain err where "e = Some err" by (auto simp: session_live_def)
  with e ensureActive_activated [OF e] show ?thesis by (auto simp: guarded_def)
qed

lemma fst_HandleReadiness:
  "isl (fst (HandleReadiness_locked readiness s)) \<longleftrightarrow> \<not> readiness_accepted readiness s"
  by (cases "ss_hasCandidate s")
     (auto simp: HandleReadiness_locked_def readiness_accepted_def Let_def)

lemma HandleReadiness_cases:
  assumes "ServerSession_HandleReadiness now readiness R s = (r, R', s')"
  obtains (refused) "activated s' = activated s"
  | (accepted) ack where "r = Inr ack" "readiness_accepted readiness s" "R' = R"
      "s' = (promoted s)\<lparr>ss_needsSnapshot := False, ss_readyGeneration := rdy_Generation readiness,
         ss_state := SessionReady\<rparr>"
proof (cases "Readiness_Validate readiness")
  case (Some err)
  with assms refused show thesis by (simp add: ServerSession_HandleReadiness_def)
next
  case None
  with assms have g: "guarded Inl now (HandleReadiness_locked readiness) R s = (r, R', s')"
    by (simp add: ServerSession_HandleReadiness_def)
  show thesis
  proof (cases "session_live now R s")
    case True
    then have x: "r = fst (HandleReadiness_locked readiness s)" "R' = R"
      "s' = snd (HandleReadiness_locked readiness s)" using g by (simp_all add: guarded_live)
    show thesis
    proof (cases "readiness_accepted readiness s")
      case True
      with fst_HandleReadiness [of readiness s] x(1) obtain ack where "r = Inr ack"
        by (metis isl_def old.sum.exhaust)
      with True x(2,3) accepted show thesis by (simp add: snd_HandleReadiness)
    next
      case False
      with x(3) refused show thesis by (simp add: snd_HandleReadiness)
    qed
  next
    case False
    with g refused show thesis using guarded_dead [OF False, of Inl "HandleReadiness_locked readiness"] by auto
  qed
qed

lemma step_activated:
  assumes "server_step L server (R, s) (R', s')"
  shows "activated s' = activated s \<or>
     (\<exists>now readiness ack. ServerSession_HandleReadiness now readiness R s = (Inr ack, R', s'))"
  using assms
proof (cases rule: server_step.cases)
  case (step_ack now ack r)
  then show ?thesis
    by (auto simp: ServerSession_HandleAck_def activated_bodies split: option.splits
        dest: guarded_keeps [where f = activated])
next
  case (step_readiness now readiness r)
  from this(1) show ?thesis
    by (rule HandleReadiness_cases) (use step_readiness in blast)+
next
  case (step_offer now snapshot r)
  then show ?thesis
    by (auto simp: ServerSession_OfferSnapshot_def activated_bodies split: option.splits
        dest: guarded_keeps [where f = activated])
next
  case (step_offer_delta now delta r)
  then show ?thesis
    by (auto simp: ServerSession_OfferDelta_def activated_bodies split: option.splits
        dest: guarded_keeps [where f = activated])
next
  case (step_heartbeat now hb r)
  then show ?thesis
    by (auto simp: ServerSession_HandleHeartbeat_def activated_bodies split: option.splits
        dest: guarded_keeps [where f = activated])
next
  case (step_begin_drain ctxErr now now' drainID deadline force r)
  then show ?thesis
    by (auto simp: ServerSession_BeginDrain_def activated_bodies split: option.splits
        dest: guarded_keeps [where f = activated])
next
  case (step_drain_ack ctxErr now now' dack r)
  then show ?thesis
    by (auto simp: ServerSession_HandleDrainAck_def activated_bodies split: option.splits
        dest: guarded_keeps [where f = activated])
next
  case (step_renew_begin now request r)
  then show ?thesis
    by (auto simp: ServerSession_Renew_begin_def activated_bodies split: option.splits
        dest: guarded_keeps [where f = activated])
next
  case (step_renew_answered now' saved answer r)
  then show ?thesis
    by (auto simp: Renew_answered_def ServerSession_Renew_commit_def activated_bodies
        split: sum.splits prod.splits dest: guarded_keeps [where f = activated])
next
  case (step_lease now r)
  then show ?thesis by (auto simp: ServerSession_CheckLease_def dest: ensureActive_activated)
next
  case (step_close reason r)
  then show ?thesis
    using closeLocked_activated [of reason R s] by (auto simp: ServerSession_Close_def split: if_splits)
qed simp_all


text \<open>
  C18. The active configuration of a session changes in one way only: by a readiness message for
  exactly the staged candidate, its generation and hash, in which the connector declares the edge,
  the route and the origin ready. No other handler, and no other session, changes it.
\<close>

theorem active_only_by_readiness:
  assumes "server_step L server (R, s) (R', s')"
    and "ss_hasActive s' \<noteq> ss_hasActive s \<or> ss_active s' \<noteq> ss_active s"
  shows "\<exists>now readiness ack. ServerSession_HandleReadiness now readiness R s = (Inr ack, R', s') \<and>
     ss_hasCandidate s \<and> ss_active s' = ss_candidate s \<and> ss_hasActive s' \<and>
     rdy_Generation readiness = snap_Generation (ss_candidate s) \<and>
     rdy_ContentHash readiness = snap_ContentHash (ss_candidate s) \<and>
     rdy_EdgeReady readiness \<and> rdy_RouteReady readiness \<and> rdy_OriginReady readiness"
proof -
  have ch: "activated s' \<noteq> activated s" using assms(2) by (auto simp: activated_def)
  with step_activated [OF assms(1)] obtain now readiness ack where
    h: "ServerSession_HandleReadiness now readiness R s = (Inr ack, R', s')" by blast
  then show ?thesis
  proof (cases rule: HandleReadiness_cases)
    case (accepted ack')
    have "ss_hasCandidate s"
    proof (rule ccontr)
      assume "\<not> ss_hasCandidate s"
      with accepted(4) have "activated s' = activated s" by (simp add: promoted_def activated_def)
      with ch show False by simp
    qed
    moreover from this accepted(4) have "ss_active s' = ss_candidate s \<and> ss_hasActive s'"
      by (simp add: promoted_def)
    ultimately show ?thesis using h accepted(2)
      by (intro exI [of _ now] exI [of _ readiness] exI [of _ ack])
         (simp add: readiness_accepted_def Let_def)
  qed (use ch in blast)
qed

section \<open>Acknowledgements\<close>

lemma staged_simps [simp]:
  "ss_hasCandidate (staged c s)" "ss_candidate (staged c s) = c"
  "ss_pendingSnapshot (staged c s) = ss_pendingSnapshot s" "ss_ref (staged c s) = ss_ref s"
  "ss_auth (staged c s) = ss_auth s" "ss_lease (staged c s) = ss_lease s"
  "ss_lastHeartbeat (staged c s) = ss_lastHeartbeat s"
  "ss_state (staged c s) = SessionClosed \<longleftrightarrow> ss_state s = SessionClosed \<and> has_ready_active s"
  by (simp_all add: staged_def)

lemma matchesIdentity_staged [simp]:
  "matchesIdentity (staged c (s\<lparr>ss_pendingSnapshot := p, ss_needsSnapshot := n\<rparr>)) = matchesIdentity s"
  by (intro ext) (simp add: matchesIdentity_def)

lemma HandleAck_snapshot_applied:
  assumes "session_live t R s" and "ss_pendingSnapshot s = Some p" and "Ack_Validate ack = None"
    and "matchesIdentity s (ack_AccountID ack) (ack_TunnelID ack) (ack_ConnectorID ack)
      (ack_SessionID ack) (ack_ProcessGeneration ack)"
    and "ack_names ack AckSnapshot (snap_Generation p) (snap_ContentHash p)"
    and "\<not> negative_status (ack_Status ack)"
  shows "ServerSession_HandleAck t ack R s =
     (None, R, staged p (s\<lparr>ss_pendingSnapshot := None, ss_needsSnapshot := False\<rparr>))"
proof -
  have "HandleAck_locked ack s = ack_pending_snapshot ack p s"
    using assms(2,4) by (simp add: HandleAck_locked_def)
  moreover have "fst (ack_pending_snapshot ack p s) = None"
    using assms(5,6) by (simp add: ack_pending_snapshot_def ack_names_def negative_status_def Let_def)
  moreover have "snd (ack_pending_snapshot ack p s) =
      staged p (s\<lparr>ss_pendingSnapshot := None, ss_needsSnapshot := False\<rparr>)"
    using assms(5,6) by (simp add: snd_ack_pending_snapshot)
  ultimately show ?thesis
    using assms(1,3) by (simp add: ServerSession_HandleAck_def guarded_live)
qed

lemma Readiness_reply:
  assumes "readiness_accepted readiness s" and "Readiness_Validate readiness = None"
  obtains reply where "fst (HandleReadiness_locked readiness s) = Inr reply" "Ack_Validate reply = None"
    "ack_Kind reply = AckReady" "ack_Generation reply = rdy_Generation readiness"
    "ack_ContentHash reply = rdy_ContentHash readiness"
proof -
  let ?r = "ServerSession_makeAckLocked s AckReady AckApplied
     (zero_Snapshot\<lparr>snap_Generation := rdy_Generation readiness, snap_ContentHash := rdy_ContentHash readiness\<rparr>)"
  have "fst (HandleReadiness_locked readiness s) = Inr ?r"
    using assms(1) by (cases "ss_hasCandidate s")
      (auto simp: HandleReadiness_locked_def readiness_accepted_def ServerSession_makeAckLocked_def Let_def)
  moreover have "Ack_Validate ?r = None"
    using assms by (auto simp: Readiness_Validate_def readiness_accepted_def matchesIdentity_def
        ServerSession_makeAckLocked_def Ack_Validate_def split: if_splits)
  ultimately show thesis using that by (simp add: ServerSession_makeAckLocked_def)
qed

text \<open>
  C19. An offered snapshot that the connector acknowledges as applied and then declares ready is
  activated: both calls succeed, in every state of a live session with a pending snapshot, the
  session reports exactly the offered snapshot as current and ready, no offer is left pending, and
  the acknowledgement sent back validates and names the generation.
\<close>

theorem offered_snapshot_activates:
  assumes "ss_pendingSnapshot s = Some p" and "session_live t1 R s" and "session_live t2 R s"
    and ack: "Ack_Validate ack = None"
      "matchesIdentity s (ack_AccountID ack) (ack_TunnelID ack) (ack_ConnectorID ack)
        (ack_SessionID ack) (ack_ProcessGeneration ack)"
      "ack_names ack AckSnapshot (snap_Generation p) (snap_ContentHash p)"
      "\<not> negative_status (ack_Status ack)"
    and rdy: "Readiness_Validate readiness = None"
      "matchesIdentity s (rdy_AccountID readiness) (rdy_TunnelID readiness)
        (rdy_ConnectorID readiness) (rdy_SessionID readiness) (rdy_ProcessGeneration readiness)"
      "rdy_Generation readiness = snap_Generation p" "rdy_ContentHash readiness = snap_ContentHash p"
      "rdy_EdgeReady readiness" "rdy_RouteReady readiness" "rdy_OriginReady readiness"
  shows "\<exists>s1 s2 reply. ServerSession_HandleAck t1 ack R s = (None, R, s1) \<and>
     ServerSession_HandleReadiness t2 readiness R s1 = (Inr reply, R, s2) \<and>
     ServerSession_Current s2 = (p, True, snap_Generation p) \<and> ss_pendingSnapshot s2 = None \<and>
     Ack_Validate reply = None \<and> ack_Generation reply = snap_Generation p"
proof -
  let ?s1 = "staged p (s\<lparr>ss_pendingSnapshot := None, ss_needsSnapshot := False\<rparr>)"
  have 1: "ServerSession_HandleAck t1 ack R s = (None, R, ?s1)"
    by (rule HandleAck_snapshot_applied [OF assms(2,1) ack])
  have live: "session_live t2 R ?s1" using assms(3) by (simp add: session_live_iff)
  have acc: "readiness_accepted readiness ?s1" using rdy by (simp add: readiness_accepted_def)
  from acc rdy(1) obtain reply where
    reply: "fst (HandleReadiness_locked readiness ?s1) = Inr reply" "Ack_Validate reply = None"
      "ack_Generation reply = rdy_Generation readiness" by (rule Readiness_reply)
  let ?s2 = "snd (HandleReadiness_locked readiness ?s1)"
  have 2: "ServerSession_HandleReadiness t2 readiness R ?s1 = (Inr reply, R, ?s2)"
    using live rdy(1) reply(1) by (simp add: ServerSession_HandleReadiness_def guarded_live)
  have "ServerSession_Current ?s2 = (p, True, snap_Generation p)" "ss_pendingSnapshot ?s2 = None"
    using rdy(3) acc by (simp_all add: snd_HandleReadiness promoted_def ServerSession_Current_def)
  with 1 2 reply rdy(3) show ?thesis by auto
qed

definition sample_ack :: "AckStatus \<Rightarrow> Ack" where
  "sample_ack status =
     \<lparr>ack_AccountID = ''acc_1'', ack_TunnelID = ''tun_1'', ack_ConnectorID = ''con_1'',
      ack_SessionID = ''ses_1'', ack_ProcessGeneration = 1, ack_Kind = AckSnapshot,
      ack_Status = status, ack_Generation = 1, ack_ContentHash = snap_ContentHash (sample_snapshot ''1'' 1),
      ack_Code = (if status = AckRejected then CodeSnapshotRejected else CodeEmpty)\<rparr>"

definition sample_readiness :: Readiness where
  "sample_readiness =
     \<lparr>rdy_AccountID = ''acc_1'', rdy_SessionID = ''ses_1'', rdy_TunnelID = ''tun_1'',
      rdy_ConnectorID = ''con_1'', rdy_ProcessGeneration = 1, rdy_Generation = 1,
      rdy_ContentHash = snap_ContentHash (sample_snapshot ''1'' 1),
      rdy_EdgeReady = True, rdy_RouteReady = True, rdy_OriginReady = True\<rparr>"

lemma sample_hash: "hashPattern (snap_ContentHash (sample_snapshot n g))"
  by (simp add: sample_snapshot_def content_hash_pattern sample_Sum256)

lemma sample_ack_valid:
  "status \<in> {AckApplied, AckDuplicate, AckRejected, AckSnapshotRequired} \<Longrightarrow> Ack_Validate (sample_ack status) = None"
  using sample_hash [of "''1''" 1] sample_identifiers
  by (auto simp: Ack_Validate_def sample_ack_def validCode_def)

lemma sample_readiness_valid: "Readiness_Validate sample_readiness = None"
  using sample_hash [of "''1''" 1] sample_identifiers
  by (simp add: Readiness_Validate_def sample_readiness_def)

lemma sample_live: "session_live sample_now (sample_registry 1) (sample_session 1)"
proof -
  have "SessionRegistry_Active (sample_registry 1) ''con_1'' = Some (sample_ref 1)"
    using sample_identifiers by (simp add: SessionRegistry_Active_def sample_registry_def)
  then show ?thesis
    by (simp add: session_live_iff sample_session_def)
       (simp add: sample_ref_def sample_result_def sample_welcome_def sample_now_def duration_defs
          time_Sub_def minDuration_def maxDuration_def heartbeat_interval_def)
qed

lemma sample_bound_simps:
  "snap_Generation (sample_bound g) = 1"
  "snap_ContentHash (sample_bound g) = snap_ContentHash (sample_snapshot ''1'' 1)"
  by (simp_all add: sample_bound_def bindSnapshot_def sample_snapshot_def)

lemma sample_matches:
  "matchesIdentity (sample_session g) ''acc_1'' ''tun_1'' ''con_1'' ''ses_1'' g"
  by (simp add: matchesIdentity_def sample_session_def sample_result_def sample_ref_def)

theorem offered_snapshot_activates_witness:
  "\<exists>s1 s2 reply. ServerSession_HandleAck sample_now (sample_ack AckApplied) (sample_registry 1)
       (sample_session 1) = (None, sample_registry 1, s1) \<and>
     ServerSession_HandleReadiness sample_now sample_readiness (sample_registry 1) s1 =
       (Inr reply, sample_registry 1, s2) \<and>
     ServerSession_Current s2 = (sample_bound 1, True, 1)"
proof -
  have p: "ss_pendingSnapshot (sample_session 1) = Some (sample_bound 1)" by (simp add: sample_session_def)
  have "\<exists>s1 s2 reply. ServerSession_HandleAck sample_now (sample_ack AckApplied) (sample_registry 1)
       (sample_session 1) = (None, sample_registry 1, s1) \<and>
     ServerSession_HandleReadiness sample_now sample_readiness (sample_registry 1) s1 =
       (Inr reply, sample_registry 1, s2) \<and>
     ServerSession_Current s2 = (sample_bound 1, True, snap_Generation (sample_bound 1)) \<and>
     ss_pendingSnapshot s2 = None \<and> Ack_Validate reply = None \<and>
     ack_Generation reply = snap_Generation (sample_bound 1)"
    by (rule offered_snapshot_activates [OF p sample_live sample_live])
       (use sample_matches [of 1] in \<open>simp_all add: sample_ack_valid sample_readiness_valid sample_bound_simps
          ack_names_def negative_status_def\<close>,
        simp_all add: sample_ack_def sample_readiness_def)
  then show ?thesis by (auto simp: sample_bound_simps)
qed

lemma sample_offer_steps:
  obtains s1 s2 reply where
    "ServerSession_HandleAck sample_now (sample_ack AckApplied) (sample_registry 1)
       (sample_session 1) = (None, sample_registry 1, s1)"
    "ServerSession_HandleReadiness sample_now sample_readiness (sample_registry 1) s1 =
       (Inr reply, sample_registry 1, s2)"
    "\<not> ss_hasActive s1" "ss_candidate s1 = sample_bound 1" "ss_hasActive s2" "ss_active s2 = sample_bound 1"
proof -
  let ?s1 = "staged (sample_bound 1) ((sample_session 1)\<lparr>ss_pendingSnapshot := None, ss_needsSnapshot := False\<rparr>)"
  have p: "ss_pendingSnapshot (sample_session 1) = Some (sample_bound 1)" by (simp add: sample_session_def)
  have a: "ServerSession_HandleAck sample_now (sample_ack AckApplied) (sample_registry 1)
       (sample_session 1) = (None, sample_registry 1, ?s1)"
    by (rule HandleAck_snapshot_applied [OF sample_live p])
       (use sample_matches [of 1] in \<open>simp_all add: sample_ack_valid sample_bound_simps
          ack_names_def negative_status_def\<close>, simp_all add: sample_ack_def)
  have live: "session_live sample_now (sample_registry 1) ?s1"
    using sample_live by (simp add: session_live_iff)
  have acc: "readiness_accepted sample_readiness ?s1"
    using sample_matches [of 1]
    by (simp add: readiness_accepted_def sample_bound_simps) (simp add: sample_readiness_def)
  then obtain reply where r: "fst (HandleReadiness_locked sample_readiness ?s1) = Inr reply"
    by (rule Readiness_reply [OF _ sample_readiness_valid])
  have "ServerSession_HandleReadiness sample_now sample_readiness (sample_registry 1) ?s1 =
       (Inr reply, sample_registry 1, snd (HandleReadiness_locked sample_readiness ?s1))"
    using live sample_readiness_valid r by (simp add: ServerSession_HandleReadiness_def guarded_live)
  moreover have "\<not> ss_hasActive ?s1" by (simp add: staged_def sample_session_def)
  ultimately show thesis
    using a acc that by (simp add: snd_HandleReadiness promoted_def)
qed

text \<open>The sample session activates its first configuration, and by a readiness message.\<close>

theorem active_only_by_readiness_witness:
  "\<exists>s1 s2 now readiness ack. server_step sample_lib sample_server (sample_registry 1, s1) (sample_registry 1, s2) \<and>
     ServerSession_HandleReadiness now readiness (sample_registry 1) s1 = (Inr ack, sample_registry 1, s2) \<and>
     ss_active s2 = sample_bound 1 \<and> rdy_EdgeReady readiness"
proof (rule sample_offer_steps)
  fix s1 s2 reply
  assume h: "ServerSession_HandleReadiness sample_now sample_readiness (sample_registry 1) s1 =
       (Inr reply, sample_registry 1, s2)"
    and c: "\<not> ss_hasActive s1" "ss_candidate s1 = sample_bound 1" "ss_hasActive s2"
  have st: "server_step sample_lib sample_server (sample_registry 1, s1) (sample_registry 1, s2)"
    by (rule step_readiness [OF h])
  from active_only_by_readiness [OF st] c have
    "\<exists>now readiness ack. ServerSession_HandleReadiness now readiness (sample_registry 1) s1 =
       (Inr ack, sample_registry 1, s2) \<and> ss_active s2 = sample_bound 1 \<and> rdy_EdgeReady readiness" by auto
  with st show ?thesis by blast
qed

text \<open>An acknowledgement that names the pending offer.\<close>

definition names_offer :: "Ack \<Rightarrow> ServerSession \<Rightarrow> bool" where
  "names_offer ack s \<longleftrightarrow>
     matchesIdentity s (ack_AccountID ack) (ack_TunnelID ack) (ack_ConnectorID ack)
       (ack_SessionID ack) (ack_ProcessGeneration ack) \<and>
     (case ss_pendingSnapshot s of
        Some p \<Rightarrow> ack_names ack AckSnapshot (snap_Generation p) (snap_ContentHash p)
      | None \<Rightarrow>
          (case ss_pendingDelta s of
             Some d \<Rightarrow> ack_names ack AckDelta (delta_Generation d) (delta_ContentHash d)
           | None \<Rightarrow> False))"

lemma CanPersistNegativeAck_alt:
  "ServerSession_CanPersistNegativeAck s ack \<longleftrightarrow>
     negative_status (ack_Status ack) \<and> Ack_Validate ack = None \<and> names_offer ack s"
  by (auto simp: ServerSession_CanPersistNegativeAck_def names_offer_def negative_status_def
      ack_names_def split: option.split)

lemma HandleAck_dead:
  assumes "\<not> session_live now R s" and "Ack_Validate ack = None"
  shows "\<exists>err R' s'. ServerSession_HandleAck now ack R s = (Some err, R', s') \<and>
    ss_state s' = SessionClosed \<and> ss_pendingSnapshot s' = ss_pendingSnapshot s \<and>
    ss_pendingDelta s' = ss_pendingDelta s \<and>
    ServerSession_CanPersistNegativeAck s' ack = ServerSession_CanPersistNegativeAck s ack"
proof -
  obtain e R' s' where e: "ServerSession_ensureActiveLocked now R s = (e, R', s')" by (metis prod_cases3)
  then have x: "(\<exists>err. e = Some err) \<and> ss_state s' = SessionClosed \<and> ss_pendingSnapshot s' = ss_pendingSnapshot s \<and>
      ss_pendingDelta s' = ss_pendingDelta s \<and> ss_auth s' = ss_auth s \<and> ss_ref s' = ss_ref s"
  proof (cases rule: ensureActive_cases)
    case active
    with e assms(1) show ?thesis by (simp add: session_live_def)
  next
    case (closing err reason)
    then show ?thesis by (auto simp: ServerSession_closeLocked_def)
  qed simp
  then have "ServerSession_CanPersistNegativeAck s' ack = ServerSession_CanPersistNegativeAck s ack"
    by (simp add: ServerSession_CanPersistNegativeAck_def matchesIdentity_def split: option.split)
  with x e assms(2) show ?thesis by (auto simp: ServerSession_HandleAck_def guarded_def)
qed

lemma HandleAck_other:
  assumes "server_inv L s" and "\<not> names_offer ack s"
  shows "snd (HandleAck_locked ack s) = s"
proof -
  have "delta_continues L s d" if "ss_pendingDelta s = Some d" for d
    using that server_inv_parts(1) [OF assms(1)] by (rule inv_config_pendingDelta [rotated])
  with assms(2) show ?thesis
    by (cases "ss_pendingSnapshot s"; cases "ss_pendingDelta s")
       (auto simp: HandleAck_locked_def names_offer_def snd_ack_pending_snapshot snd_ack_pending_delta)
qed

lemma HandleAck_refused:
  assumes "server_inv L s" and "names_offer ack s" and "negative_status (ack_Status ack)"
  shows "\<exists>err. fst (HandleAck_locked ack s) = Some err"
    and "let s' = snd (HandleAck_locked ack s) in
      ss_pendingSnapshot s' = None \<and> ss_pendingDelta s' = None \<and> ss_needsSnapshot s' \<and>
      ss_state s' = SessionAwaitingSnapshot \<and> activated s' = activated s \<and>
      ss_hasCandidate s' = ss_hasCandidate s"
    and "ss_pendingSnapshot s \<noteq> None \<or> ss_pendingDelta s \<noteq> None"
proof -
  have cont: "delta_continues L s d" if "ss_pendingDelta s = Some d" for d
    using that server_inv_parts(1) [OF assms(1)] by (rule inv_config_pendingDelta [rotated])
  have excl: "ss_pendingDelta s = None" if "ss_pendingSnapshot s = Some p" for p
    using inv_config_pendingSnapshot [OF server_inv_parts(1) [OF assms(1)] that] by simp
  show "\<exists>err. fst (HandleAck_locked ack s) = Some err"
    using assms(2,3)
    by (cases "ss_pendingSnapshot s"; cases "ss_pendingDelta s")
       (auto simp: HandleAck_locked_def names_offer_def ack_names_def negative_status_def
        ack_pending_snapshot_def ack_pending_delta_def Let_def)
  show "let s' = snd (HandleAck_locked ack s) in
      ss_pendingSnapshot s' = None \<and> ss_pendingDelta s' = None \<and> ss_needsSnapshot s' \<and>
      ss_state s' = SessionAwaitingSnapshot \<and> activated s' = activated s \<and>
      ss_hasCandidate s' = ss_hasCandidate s"
    using assms(2,3) cont excl
    by (cases "ss_pendingSnapshot s"; cases "ss_pendingDelta s")
       (auto simp: HandleAck_locked_def names_offer_def snd_ack_pending_snapshot snd_ack_pending_delta
        withdrawn_def activated_def Let_def)
  show "ss_pendingSnapshot s \<noteq> None \<or> ss_pendingDelta s \<noteq> None"
    using assms(2) by (auto simp: names_offer_def split: option.splits)
qed

lemma HandleAck_locked_no_gap:
  assumes "server_inv L s"
  shows "\<forall>err. fst (HandleAck_locked ack s) = Some err \<longrightarrow> err_Code err \<noteq> CodeGenerationGap"
proof -
  have "delta_continues L s d" if "ss_pendingDelta s = Some d" for d
    using that server_inv_parts(1) [OF assms] by (rule inv_config_pendingDelta [rotated])
  then show ?thesis
    by (auto simp: HandleAck_locked_def ack_pending_snapshot_def ack_pending_delta_def
        ack_nothing_pending_def delta_continues_def Let_def split: option.splits if_splits)
qed

text \<open>
  C20. The generation-gap error of \<open>HandleAck\<close> is never returned: while a delta is pending the
  active configuration cannot change, so an applied delta always continues it.
\<close>

theorem HandleAck_no_gap:
  assumes "server_inv L s" and "ServerSession_HandleAck now ack R s = (Some err, R', s')"
  shows "err_Code err \<noteq> CodeGenerationGap"
proof (cases "Ack_Validate ack")
  case (Some e)
  with assms(2) show ?thesis
    by (auto simp: ServerSession_HandleAck_def Ack_Validate_def Err_def split: if_splits)
next
  case None
  with assms(2) have g: "guarded Some now (HandleAck_locked ack) R s = (Some err, R', s')"
    by (simp add: ServerSession_HandleAck_def)
  show ?thesis
  proof (cases "session_live now R s")
    case True
    with g HandleAck_locked_no_gap [OF assms(1)] show ?thesis by (auto simp: guarded_live)
  next
    case False
    with g show ?thesis
      by (auto simp: guarded_def session_live_def ServerSession_ensureActiveLocked_def split: if_splits prod.splits)
  qed
qed

text \<open>
  C21. \<open>CanPersistNegativeAck\<close> against \<open>HandleAck\<close>, in every state that satisfies the session
  invariant. While the session is live, the two agree: \<open>CanPersistNegativeAck\<close> accepts an
  acknowledgement if and only if \<open>HandleAck\<close> takes it as the refusal of the pending offer; then the
  offer is withdrawn, the session asks for a snapshot and is no longer ready, an error goes back to
  the caller, and the active configuration and the registry are kept. When the session is not live
  any more (replaced, closed, or past its credential, its lease or its heartbeats), they part:
  \<open>HandleAck\<close> fails, closes the session and keeps the offer, and \<open>CanPersistNegativeAck\<close>, which does
  not look at liveness, answers before and after as it would on a live session.
\<close>

theorem CanPersistNegativeAck_exact:
  assumes "server_inv L s"
  shows "(session_live now R s \<longrightarrow>
     ServerSession_CanPersistNegativeAck s ack \<longleftrightarrow>
     (\<exists>err s'. negative_status (ack_Status ack) \<and> Ack_Validate ack = None \<and>
        ServerSession_HandleAck now ack R s = (Some err, R, s') \<and>
        (ss_pendingSnapshot s \<noteq> None \<or> ss_pendingDelta s \<noteq> None) \<and>
        ss_pendingSnapshot s' = None \<and> ss_pendingDelta s' = None \<and> ss_needsSnapshot s' \<and>
        ss_state s' = SessionAwaitingSnapshot \<and> activated s' = activated s \<and>
        ss_hasCandidate s' = ss_hasCandidate s)) \<and>
    (\<not> session_live now R s \<longrightarrow> Ack_Validate ack = None \<longrightarrow>
     (\<exists>err R' s'. ServerSession_HandleAck now ack R s = (Some err, R', s') \<and>
        ss_state s' = SessionClosed \<and> ss_pendingSnapshot s' = ss_pendingSnapshot s \<and>
        ss_pendingDelta s' = ss_pendingDelta s \<and>
        ServerSession_CanPersistNegativeAck s' ack = ServerSession_CanPersistNegativeAck s ack))"
proof (rule conjI; intro impI)
  assume live: "session_live now R s"
  have h: "ServerSession_HandleAck now ack R s =
      (fst (HandleAck_locked ack s), R, snd (HandleAck_locked ack s))" if "Ack_Validate ack = None"
    using that live by (simp add: ServerSession_HandleAck_def guarded_live)
  show "ServerSession_CanPersistNegativeAck s ack \<longleftrightarrow>
     (\<exists>err s'. negative_status (ack_Status ack) \<and> Ack_Validate ack = None \<and>
        ServerSession_HandleAck now ack R s = (Some err, R, s') \<and>
        (ss_pendingSnapshot s \<noteq> None \<or> ss_pendingDelta s \<noteq> None) \<and>
        ss_pendingSnapshot s' = None \<and> ss_pendingDelta s' = None \<and> ss_needsSnapshot s' \<and>
        ss_state s' = SessionAwaitingSnapshot \<and> activated s' = activated s \<and>
        ss_hasCandidate s' = ss_hasCandidate s)"
  proof (cases "negative_status (ack_Status ack) \<and> Ack_Validate ack = None \<and> names_offer ack s")
    case True
    then show ?thesis
      using HandleAck_refused [OF assms, of ack] h
      by (simp add: CanPersistNegativeAck_alt Let_def)
  next
    case False
    then show ?thesis
      using HandleAck_other [OF assms, of ack] h by (auto simp: CanPersistNegativeAck_alt)
  qed
next
  assume "\<not> session_live now R s" and "Ack_Validate ack = None"
  then show "\<exists>err R' s'. ServerSession_HandleAck now ack R s = (Some err, R', s') \<and>
        ss_state s' = SessionClosed \<and> ss_pendingSnapshot s' = ss_pendingSnapshot s \<and>
        ss_pendingDelta s' = ss_pendingDelta s \<and>
        ServerSession_CanPersistNegativeAck s' ack = ServerSession_CanPersistNegativeAck s ack"
    using HandleAck_dead by blast
qed

lemma sample_refusal:
  "ServerSession_CanPersistNegativeAck (sample_session 1) (sample_ack AckRejected)"
  using sample_matches [of 1] sample_ack_valid [of AckRejected]
  by (simp add: CanPersistNegativeAck_alt negative_status_def names_offer_def)
     (simp add: sample_ack_def ack_names_def sample_session_def sample_bound_simps)

lemmas sample_inv = Accept_inv [OF sample_Accept_first]

theorem CanPersistNegativeAck_exact_witness:
  "(\<exists>err s'. ServerSession_HandleAck sample_now (sample_ack AckRejected) (sample_registry 1) (sample_session 1)
       = (Some err, sample_registry 1, s') \<and> ss_pendingSnapshot s' = None \<and> ss_needsSnapshot s') \<and>
   (\<exists>err R' s'. ServerSession_HandleAck (sample_now + 24 * Hour) (sample_ack AckRejected) (sample_registry 1)
       (sample_session 1) = (Some err, R', s') \<and> ss_state s' = SessionClosed \<and>
     ServerSession_CanPersistNegativeAck s' (sample_ack AckRejected))"
proof -
  have v: "Ack_Validate (sample_ack AckRejected) = None" by (simp add: sample_ack_valid)
  have "\<not> session_live (sample_now + 24 * Hour) (sample_registry 1) (sample_session 1)"
    by (simp add: session_live_iff sample_session_def)
       (simp add: sample_welcome_def sample_result_def sample_now_def duration_defs)
  then have "\<exists>err R' s'. ServerSession_HandleAck (sample_now + 24 * Hour) (sample_ack AckRejected) (sample_registry 1)
       (sample_session 1) = (Some err, R', s') \<and> ss_state s' = SessionClosed \<and>
     ServerSession_CanPersistNegativeAck s' (sample_ack AckRejected)"
    using CanPersistNegativeAck_exact [OF sample_inv, where R = "sample_registry 1" and ack = "sample_ack AckRejected"
      and now = "sample_now + 24 * Hour"] v sample_refusal by fast
  moreover have "\<exists>err s'. ServerSession_HandleAck sample_now (sample_ack AckRejected) (sample_registry 1) (sample_session 1)
       = (Some err, sample_registry 1, s') \<and> ss_pendingSnapshot s' = None \<and> ss_needsSnapshot s'"
    using CanPersistNegativeAck_exact [OF sample_inv, where R = "sample_registry 1" and ack = "sample_ack AckRejected"
      and now = sample_now] sample_live sample_refusal by fast
  ultimately show ?thesis by (rule conjI [rotated])
qed

theorem HandleAck_no_gap_witness:
  "\<exists>err R' s'. ServerSession_HandleAck sample_now (sample_ack AckRejected) (sample_registry 1) (sample_session 1)
       = (Some err, R', s') \<and> err_Code err \<noteq> CodeGenerationGap"
proof -
  have "names_offer (sample_ack AckRejected) (sample_session 1)" "negative_status (ack_Status (sample_ack AckRejected))"
    using sample_refusal by (simp_all add: CanPersistNegativeAck_alt)
  from HandleAck_refused(1) [OF sample_inv this] obtain err where
    "fst (HandleAck_locked (sample_ack AckRejected) (sample_session 1)) = Some err" ..
  then have h: "ServerSession_HandleAck sample_now (sample_ack AckRejected) (sample_registry 1) (sample_session 1)
      = (Some err, sample_registry 1, snd (HandleAck_locked (sample_ack AckRejected) (sample_session 1)))"
    using sample_live by (simp add: ServerSession_HandleAck_def guarded_live sample_ack_valid)
  from HandleAck_no_gap [OF sample_inv h] h show ?thesis by blast
qed

section \<open>Heartbeats\<close>

lemma HandleHeartbeat_live:
  assumes "session_live now R s" and "Heartbeat_Validate hb = None"
  shows "ServerSession_HandleHeartbeat server now hb R s =
     (fst (HandleHeartbeat_locked server now hb s), R, snd (HandleHeartbeat_locked server now hb s))"
  using assms by (simp add: ServerSession_HandleHeartbeat_def guarded_live)

lemma HandleHeartbeat_reply:
  assumes "heartbeat_fresh now hb s" and "heartbeat_current hb s"
  shows "\<exists>reply. fst (HandleHeartbeat_locked server now hb s) = Inr reply \<and>
     hba_LeaseExpiresAt reply = granted_lease server now s \<and> hba_ServerTime reply = now"
  using assms
  by (auto simp: HandleHeartbeat_locked_def heartbeat_fresh_def heartbeat_current_def granted_lease_def
      Let_def min_def split: option.splits)

lemma heartbeat_replay:
  assumes "ServerSession_HandleHeartbeat server now hb R s = (Inr reply, R', s')"
  shows "\<exists>err R'' s''. ServerSession_HandleHeartbeat server later hb R2 s' = (Inl err, R'', s'')"
proof (cases "Heartbeat_Validate hb")
  case (Some err)
  then show ?thesis by (simp add: ServerSession_HandleHeartbeat_def)
next
  case None
  have live: "session_live now R s"
  proof (rule ccontr)
    assume "\<not> session_live now R s"
    from guarded_dead [OF this, of Inl "HandleHeartbeat_locked server now hb"] assms None show False
      by (auto simp: ServerSession_HandleHeartbeat_def)
  qed
  from HandleHeartbeat_live [OF this None] assms
  have r: "fst (HandleHeartbeat_locked server now hb s) = Inr reply"
    "s' = snd (HandleHeartbeat_locked server now hb s)" by simp_all
  then have f: "heartbeat_fresh now hb s" "heartbeat_current hb s"
    using fst_HandleHeartbeat [of server now hb s] by auto
  from None have "hb_SentAt hb \<noteq> 0" by (auto simp: Heartbeat_Validate_def split: if_splits)
  moreover from f r(2) have "ss_lastHeartbeatSentAt s' = hb_SentAt hb" by (simp add: snd_HandleHeartbeat)
  ultimately have "\<not> heartbeat_fresh later hb s'" by (simp add: heartbeat_fresh_def)
  then have "isl (fst (HandleHeartbeat_locked server later hb s'))" by (simp add: fst_HandleHeartbeat)
  then obtain err where e: "fst (HandleHeartbeat_locked server later hb s') = Inl err" by (auto simp: isl_def)
  show ?thesis
  proof (cases "session_live later R2 s'")
    case True
    with HandleHeartbeat_live [OF True None] e show ?thesis by simp
  next
    case False
    from guarded_dead [OF this, of Inl "HandleHeartbeat_locked server later hb"] None show ?thesis
      by (auto simp: ServerSession_HandleHeartbeat_def)
  qed
qed

text \<open>
  C22. On a live session a heartbeat succeeds exactly when it validates, names the session, was sent
  within the clock skew of the server's clock and after the last accepted one, and reports the
  configuration the server expects. A success grants a lease that ends at the credential's expiry
  at the latest and announces it, and a copy of the heartbeat is refused from then on, at any time.
\<close>

theorem HandleHeartbeat_exact:
  assumes "session_live now R s" and "Heartbeat_Validate hb = None"
  shows "case ServerSession_HandleHeartbeat server now hb R s of
      (Inl err, R', s') \<Rightarrow> \<not> (heartbeat_fresh now hb s \<and> heartbeat_current hb s)
    | (Inr reply, R', s') \<Rightarrow>
        heartbeat_fresh now hb s \<and> heartbeat_current hb s \<and> R' = R \<and>
        hba_LeaseExpiresAt reply = lease_ExpiresAt (ss_lease s') \<and>
        lease_ExpiresAt (ss_lease s') =
          min (now + server_LeaseDuration server) (res_CredentialExpiresAt (ss_auth s)) \<and>
        (\<forall>later R2. isl (fst (ServerSession_HandleHeartbeat server later hb R2 s')))"
proof (cases "heartbeat_fresh now hb s \<and> heartbeat_current hb s")
  case True
  then obtain reply where reply: "fst (HandleHeartbeat_locked server now hb s) = Inr reply"
    "hba_LeaseExpiresAt reply = granted_lease server now s"
    using HandleHeartbeat_reply by blast
  with HandleHeartbeat_live [OF assms]
  have h: "ServerSession_HandleHeartbeat server now hb R s =
      (Inr reply, R, snd (HandleHeartbeat_locked server now hb s))" by simp
  have "isl (fst (ServerSession_HandleHeartbeat server later hb R2 (snd (HandleHeartbeat_locked server now hb s))))"
    for later R2 using heartbeat_replay [OF h, of later R2] by auto
  with True reply(2) show ?thesis by (simp add: h) (simp add: snd_HandleHeartbeat granted_lease_def)
next
  case False
  then have "isl (fst (HandleHeartbeat_locked server now hb s))" by (simp add: fst_HandleHeartbeat)
  then obtain err where "fst (HandleHeartbeat_locked server now hb s) = Inl err" by (auto simp: isl_def)
  with False HandleHeartbeat_live [OF assms] show ?thesis by auto
qed

definition sample_heartbeat :: Heartbeat where
  "sample_heartbeat =
     \<lparr>hb_AccountID = ''acc_1'', hb_SessionID = ''ses_1'', hb_TunnelID = ''tun_1'',
      hb_ConnectorID = ''con_1'', hb_ProcessGeneration = 1, hb_LastAppliedGeneration = 1,
      hb_LastAppliedHash = snap_ContentHash (sample_snapshot ''1'' 1), hb_SentAt = sample_now\<rparr>"

theorem HandleHeartbeat_exact_witness:
  "\<exists>reply R' s'. ServerSession_HandleHeartbeat sample_server sample_now sample_heartbeat (sample_registry 1)
       (sample_session 1) = (Inr reply, R', s') \<and>
     (\<forall>later R2. isl (fst (ServerSession_HandleHeartbeat sample_server later sample_heartbeat R2 s')))"
proof -
  have v: "Heartbeat_Validate sample_heartbeat = None"
    using sample_hash [of "''1''" 1] sample_identifiers
    by (simp add: Heartbeat_Validate_def sample_heartbeat_def sample_now_def duration_defs)
  have "heartbeat_current sample_heartbeat (sample_session 1)"
    by (simp add: heartbeat_current_def heartbeat_expected_def sample_session_def sample_bound_simps)
       (simp add: sample_heartbeat_def)
  moreover have "heartbeat_fresh sample_now sample_heartbeat (sample_session 1)"
    using sample_matches [of 1]
    by (simp add: heartbeat_fresh_def sample_heartbeat_def sample_session_def wire_consts duration_defs)
  ultimately show ?thesis
    using HandleHeartbeat_exact [OF sample_live v, of sample_server]
    by (auto split: prod.splits sum.splits)
qed

section \<open>Drain\<close>

lemma BeginDrain_Inr:
  assumes "ServerSession_BeginDrain ctxErr t t' drainID deadline force R s = (Inr d, R', s')"
  shows "ctxErr = None" "session_live t R s" "R' = R" "hasCapability_Drain s"
    and "ss_drain s' = Some d" "drain_DrainID d = drainID" "ss_welcome s' = ss_welcome s"
proof -
  from assms show c: "ctxErr = None" by (auto simp: ServerSession_BeginDrain_def split: option.splits)
  with assms have g: "guarded Inl t (BeginDrain_locked t' drainID deadline force) R s = (Inr d, R', s')"
    by (simp add: ServerSession_BeginDrain_def)
  show l: "session_live t R s"
  proof (rule ccontr)
    assume "\<not> session_live t R s"
    from guarded_dead [OF this, of Inl "BeginDrain_locked t' drainID deadline force"] g show False by auto
  qed
  from g have b: "BeginDrain_locked t' drainID deadline force s = (Inr d, s')" and "R' = R"
    by (auto simp: guarded_live [OF l] prod_eq_iff)
  then show "R' = R" by simp
  show "hasCapability_Drain s" "ss_drain s' = Some d" "drain_DrainID d = drainID"
    "ss_welcome s' = ss_welcome s"
    using b by (auto simp: BeginDrain_alt drain_request_def split: if_splits option.splits)
qed

lemma BeginDrain_again:
  assumes "hasCapability_Drain s" and "ss_drain s = Some d" and "session_live u R s"
  shows "ServerSession_BeginDrain None u u' drainID deadline force R s =
    (if drain_DrainID d = drainID then Inr d
     else Inl (codeError ErrSessionConflict ReasonStaleGeneration True None), R, s)"
  using assms by (simp add: ServerSession_BeginDrain_def guarded_live BeginDrain_alt)

text \<open>
  C23. A drain is begun once in the life of a session: after \<open>BeginDrain\<close> succeeded, and whatever
  happened since, the drain completed or rejected included, the same drain id returns the same
  request and changes nothing, and every other drain id is refused as a session conflict.
\<close>

theorem BeginDrain_once:
  assumes "server_inv L s"
    and "ServerSession_BeginDrain ctxErr t t' drainID deadline force R s = (Inr d, R1, s1)"
    and "(server_step L server)\<^sup>*\<^sup>* (R1, s1) (R2, s2)" and "session_live u R2 s2"
  shows "ServerSession_BeginDrain None u u' drainID' deadline' force' R2 s2 =
    (if drainID' = drainID then Inr d
     else Inl (codeError ErrSessionConflict ReasonStaleGeneration True None), R2, s2)"
proof -
  note d = BeginDrain_Inr [OF assms(2)]
  have "server_inv L s1" by (rule begin_drain.keeps_inv [OF assms(2,1)])
  with server_steps_inv [OF assms(3)] have e: "session_extends s1 s2" by simp
  then have "ss_drain s2 = Some d" "ss_welcome s2 = ss_welcome s"
    using d(5,7) by (auto simp: session_extends_def)
  moreover from this d(4) have "hasCapability_Drain s2" by (simp add: hasCapability_Drain_def)
  ultimately show ?thesis using BeginDrain_again [OF _ _ assms(4)] d(6) by auto
qed

text \<open>The sample session with its first configuration active.\<close>

definition sample_ready :: ServerSession where
  "sample_ready = (sample_session 1)\<lparr>ss_pendingSnapshot := None, ss_active := sample_bound 1,
     ss_hasActive := True, ss_readyGeneration := 1, ss_state := SessionReady\<rparr>"

lemma sample_ready_live: "session_live sample_now (sample_registry 1) sample_ready"
  using sample_live by (simp add: session_live_iff sample_ready_def)

lemma sample_ready_inv: "server_inv sample_lib sample_ready"
proof -
  note c = server_inv_parts [OF sample_inv]
  have p: "ss_pendingSnapshot (sample_session 1) = Some (sample_bound 1)"
    "ss_pendingDelta (sample_session 1) = None" "\<not> ss_hasCandidate (sample_session 1)"
    "\<not> ss_needsSnapshot (sample_session 1)" "ss_disconnectReason (sample_session 1) = ReasonEmpty"
    by (simp_all add: sample_session_def)
  have "inv_config sample_lib sample_ready"
    using inv_config_pendingSnapshot [OF c(1) p(1)] p by (simp add: inv_config_def sample_ready_def)
  moreover have "inv_state sample_ready"
    using p by (simp add: inv_state_def has_ready_active_def sample_ready_def sample_bound_simps)
  ultimately show ?thesis using c(3,4) by (simp add: server_inv_def sample_ready_def)
qed

lemma sample_BeginDrain:
  "\<exists>d s'. ServerSession_BeginDrain None sample_now sample_now ''drn_1'' (sample_now + Hour) True
     (sample_registry 1) sample_ready = (Inr d, sample_registry 1, s') \<and>
     session_live sample_now (sample_registry 1) s'"
proof -
  let ?d = "drain_request sample_ready ''drn_1'' (sample_now + Hour) True"
  have d: "drain_AccountID ?d = ''acc_1''" "drain_TunnelID ?d = ''tun_1''" "drain_ConnectorID ?d = ''con_1''"
    "drain_SessionID ?d = ''ses_1''" "drain_DrainID ?d = ''drn_1''" "drain_ProcessGeneration ?d = 1"
    "drain_Generation ?d = 1" "drain_ContentHash ?d = snap_ContentHash (sample_snapshot ''1'' 1)"
    "drain_Deadline ?d = sample_now + Hour" "drain_StopNewStreams ?d"
    by (simp_all add: drain_request_def sample_ready_def sample_bound_simps)
       (simp_all add: sample_session_def sample_ref_def sample_result_def)
  then have v: "Drain_Validate sample_now ?d = None"
    using sample_hash [of "''1''" 1] sample_identifiers
    by (simp add: Drain_Validate_def sample_now_def duration_defs wire_consts time_Sub_def
        minDuration_def maxDuration_def)
  have c: "hasCapability_Drain sample_ready"
    by (simp add: hasCapability_Drain_def hasCapability_def sample_ready_def sample_session_def
        sample_welcome_def ProductionCapabilities_def)
  have "ss_drain sample_ready = None" "ss_state sample_ready = SessionReady" "has_ready_active sample_ready"
    "\<not> ss_needsSnapshot sample_ready"
    by (simp_all add: sample_ready_def has_ready_active_def sample_bound_simps) (simp_all add: sample_session_def)
  with v c have "BeginDrain_locked sample_now ''drn_1'' (sample_now + Hour) True sample_ready =
      (Inr ?d, sample_ready\<lparr>ss_drain := Some ?d, ss_drainStatus := DrainAccepted, ss_drainCode := CodeEmpty,
         ss_drainCompleted := False, ss_state := SessionDraining\<rparr>)"
    by (simp add: BeginDrain_alt)
  then show ?thesis
    using sample_ready_live by (simp add: ServerSession_BeginDrain_def guarded_live) (simp add: session_live_iff)
qed

theorem BeginDrain_once_witness:
  "\<exists>d s'. ServerSession_BeginDrain None sample_now sample_now ''drn_1'' (sample_now + Hour) True
      (sample_registry 1) sample_ready = (Inr d, sample_registry 1, s') \<and>
    ServerSession_BeginDrain None sample_now sample_now ''drn_2'' (sample_now + Hour) True
      (sample_registry 1) s' =
      (Inl (codeError ErrSessionConflict ReasonStaleGeneration True None), sample_registry 1, s')"
proof -
  from sample_BeginDrain obtain d s' where
    h: "ServerSession_BeginDrain None sample_now sample_now ''drn_1'' (sample_now + Hour) True
      (sample_registry 1) sample_ready = (Inr d, sample_registry 1, s')"
    and live: "session_live sample_now (sample_registry 1) s'" by blast
  from BeginDrain_once [OF sample_ready_inv h rtranclp.rtrancl_refl live, where drainID' = "''drn_2''"
      and u' = sample_now and deadline' = "sample_now + Hour" and force' = True]
  show ?thesis using h by auto
qed

section \<open>Renewal\<close>

lemma Renew_begin_Inr:
  assumes "ServerSession_Renew_begin t request R s = (Inr saved, R', s')"
  shows "saved = (t, ss_auth s, ss_ref s)" "R' = R" "s' = s"
proof -
  from assms have g: "guarded Inl t (Renew_begin_locked t request) R s = (Inr saved, R', s')"
    by (auto simp: ServerSession_Renew_begin_def split: option.splits)
  have "session_live t R s"
  proof (rule ccontr)
    assume "\<not> session_live t R s"
    from guarded_dead [OF this, of Inl "Renew_begin_locked t request"] g show False by auto
  qed
  with g show "saved = (t, ss_auth s, ss_ref s)" "R' = R" "s' = s"
    by (auto simp: guarded_live Renew_begin_locked_def split: if_splits)
qed

lemma Renew_answered_Inr:
  assumes "Renew_answered server t' (t, expected, ref) answer R s = (Inr result, R', s')"
  obtains raw where "answer = Inr raw" "AuthResult_Validate t raw = None"
    "\<not> renewed_foreign expected ref raw" "ss_auth s = expected" "ss_ref s = ref" "session_live t' R s"
    "result = raw\<lparr>res_SessionID := ref_SessionID ref\<rparr>" "R' = R"
    "s' = s\<lparr>ss_auth := result, ss_lease := (ss_lease s)\<lparr>lease_ExpiresAt :=
        min (t + server_LeaseDuration server) (res_LeaseExpiresAt raw)\<rparr>, ss_lastHeartbeat := t\<rparr>"
proof -
  from assms obtain raw where chk: "ServerSession_Renew_check (t, expected, ref) answer = Inr raw"
    and g: "guarded Inl t' (Renew_commit_locked server t expected ref raw) R s = (Inr result, R', s')"
    by (auto simp: Renew_answered_def ServerSession_Renew_commit_def split: sum.splits)
  have l: "session_live t' R s"
  proof (rule ccontr)
    assume "\<not> session_live t' R s"
    from guarded_dead [OF this, of Inl "Renew_commit_locked server t expected ref raw"] g show False by auto
  qed
  with g have c: "Renew_commit_locked server t expected ref raw s = (Inr result, s')" "R' = R"
    by (auto simp: guarded_live prod_eq_iff)
  then have "ss_auth s = expected" "ss_ref s = ref" by (auto simp: Renew_commit_locked_def split: if_splits)
  moreover from this c(1) have "result = raw\<lparr>res_SessionID := ref_SessionID ref\<rparr>"
    "s' = s\<lparr>ss_auth := result, ss_lease := (ss_lease s)\<lparr>lease_ExpiresAt :=
        min (t + server_LeaseDuration server) (res_LeaseExpiresAt raw)\<rparr>, ss_lastHeartbeat := t\<rparr>"
    by (auto simp: Renew_commit_locked_def Let_def min_def)
  ultimately show thesis using that Renew_check_Inr [OF chk] l c(2) by blast
qed

text \<open>
  C24. A renewal is atomic although the session is unlocked while the authenticator runs: when it
  succeeds, then in spite of everything that happened in between the session has at the second lock
  the very authentication and reference it had at the first; the renewed one is for the same
  account, tunnel, connector, host, key and process and not for an older credential, and the new
  lease ends no later than the renewed credential and the configured duration allow.
\<close>

theorem Renew_atomic:
  assumes "ServerSession_Renew_begin t request R0 s0 = (Inr saved, R0', s0')"
    and "(server_step L server)\<^sup>*\<^sup>* (R0', s0') (R1, s1)"
    and "Renew_answered server t' saved answer R1 s1 = (Inr result, R2, s2)"
  shows "ss_auth s1 = ss_auth s0 \<and> ss_ref s1 = ss_ref s0 \<and> R2 = R1 \<and> ss_auth s2 = result \<and>
     res_AccountID result = res_AccountID (ss_auth s0) \<and> res_TunnelID result = ref_TunnelID (ss_ref s0) \<and>
     res_ConnectorID result = ref_ConnectorID (ss_ref s0) \<and> res_SessionID result = ref_SessionID (ss_ref s0) \<and>
     res_HostID result = res_HostID (ss_auth s0) \<and> res_IdentityKeyID result = res_IdentityKeyID (ss_auth s0) \<and>
     res_ProcessGeneration result = ref_ProcessGeneration (ss_ref s0) \<and>
     res_CredentialGeneration (ss_auth s0) \<le> res_CredentialGeneration result \<and>
     lease_ExpiresAt (ss_lease s2) \<le> res_CredentialExpiresAt result \<and>
     lease_ExpiresAt (ss_lease s2) \<le> t + server_LeaseDuration server"
proof -
  note b = Renew_begin_Inr [OF assms(1)]
  from assms(3) [unfolded b(1)] show ?thesis
  proof (rule Renew_answered_Inr)
    fix raw
    assume r: "AuthResult_Validate t raw = None" "\<not> renewed_foreign (ss_auth s0) (ss_ref s0) raw"
      "ss_auth s1 = ss_auth s0" "ss_ref s1 = ss_ref s0" "result = raw\<lparr>res_SessionID := ref_SessionID (ss_ref s0)\<rparr>"
      "R2 = R1" "s2 = s1\<lparr>ss_auth := result, ss_lease := (ss_lease s1)\<lparr>lease_ExpiresAt :=
        min (t + server_LeaseDuration server) (res_LeaseExpiresAt raw)\<rparr>, ss_lastHeartbeat := t\<rparr>"
    from r(2,5) AuthResult_lease [OF r(1)] show ?thesis
      by (auto simp: r(3,4,6,7) renewed_foreign_def not_less min_le_iff_disj)
  qed
qed

definition sample_renew :: RenewalRequest where
  "sample_renew = sample_renewal\<lparr>ren_SignedProof := EncodeToString (replicate 64 CHR ''s'')\<rparr>"

lemma sample_renew_valid: "RenewalRequest_ValidateAt sample_now sample_renew = None"
proof -
  have "RenewalRequest_validate True sample_renew = None"
    unfolding sample_renew_def
    by (intro RenewalRequest_validate_proof sample_renewal_valid EncodeToString_ValidateProof) simp_all
  then show ?thesis
    by (simp add: RenewalRequest_ValidateAt_def)
       (simp add: sample_renew_def sample_renewal_def sample_now_def wire_consts duration_defs time_Sub_def
          minDuration_def maxDuration_def)
qed

theorem Renew_atomic_witness:
  "\<exists>saved result s2. ServerSession_Renew_begin sample_now sample_renew (sample_registry 1) (sample_session 1) =
       (Inr saved, sample_registry 1, sample_session 1) \<and>
     Renew_answered sample_server sample_now saved (authn_Renew (server_Authenticator sample_server) sample_renew)
       (sample_registry 1) (sample_session 1) = (Inr result, sample_registry 1, s2) \<and>
     res_CredentialGeneration result = 2 \<and> lease_ExpiresAt (ss_lease s2) \<le> res_CredentialExpiresAt result"
proof -
  let ?saved = "(sample_now, sample_result 1, sample_ref 1)"
  let ?raw = "(sample_result 1)\<lparr>res_CredentialGeneration := 2\<rparr>"
  have f: "ss_auth (sample_session 1) = sample_result 1" "ss_ref (sample_session 1) = sample_ref 1"
    by (simp_all add: sample_session_def)
  have "Renew_begin_locked sample_now sample_renew (sample_session 1) = (Inr ?saved, sample_session 1)"
    by (simp add: Renew_begin_locked_def f) (simp add: sample_renew_def sample_renewal_def sample_result_def sample_ref_def)
  then have b: "ServerSession_Renew_begin sample_now sample_renew (sample_registry 1) (sample_session 1) =
       (Inr ?saved, sample_registry 1, sample_session 1)"
    using sample_live by (simp add: ServerSession_Renew_begin_def sample_renew_valid guarded_live)
  have a: "authn_Renew (server_Authenticator sample_server) sample_renew = Inr ?raw"
    by (simp add: sample_server_def sample_renew_def sample_renewal_def)
  have "AuthResult_Validate sample_now ?raw = None" by code_simp
  moreover have "\<not> renewed_foreign (sample_result 1) (sample_ref 1) ?raw"
    by (simp add: renewed_foreign_def sample_result_def sample_ref_def)
  ultimately have "ServerSession_Renew_check ?saved (Inr ?raw) = Inr ?raw"
    by (simp add: ServerSession_Renew_check_def)
  then obtain result s2 where r: "Renew_answered sample_server sample_now ?saved (Inr ?raw) (sample_registry 1)
      (sample_session 1) = (Inr result, sample_registry 1, s2)" "result = ?raw\<lparr>res_SessionID := ref_SessionID (sample_ref 1)\<rparr>"
    using sample_live f
    by (simp add: Renew_answered_def ServerSession_Renew_commit_def guarded_live Renew_commit_locked_def Let_def)
  from Renew_atomic [OF b rtranclp.rtrancl_refl r(1)] b a r show ?thesis by auto
qed

section \<open>The configuration of the server\<close>

definition default_duration :: "duration \<Rightarrow> duration \<Rightarrow> duration" where
  "default_duration d x = (if x = 0 then d else x)"

text \<open>
  C25. \<open>NewServer\<close> accepts a configuration with an authenticator and a snapshot source exactly when
  its capabilities validate, the lease (45 seconds by default) is positive and at most 24 hours,
  and the heartbeat interval (5 seconds by default) is positive and less than half the lease; or
  when the interval is so large that its double wraps around the 64-bit range, which the comparison
  with the lease does not see.
\<close>

theorem NewServer_accepts_iff:
  assumes "srv_Authenticator config = Some a" and "srv_Snapshots config = Some f"
    and "srv_HeartbeatInterval config < 2 ^ 63"
  shows "(\<exists>server. NewServer random config = Inr server) \<longleftrightarrow>
    (let lease = default_duration DefaultLease (srv_LeaseDuration config);
         heartbeat = default_duration DefaultHeartbeat (srv_HeartbeatInterval config)
     in ValidateCapabilities (srv_Capabilities config) = None \<and> 0 < lease \<and> lease \<le> MaxLease \<and>
        0 < heartbeat \<and> (2 * heartbeat < lease \<or> 2 ^ 62 \<le> heartbeat))"
proof -
  have w: "int64_wrap (h * 2) < l \<longleftrightarrow> 2 * h < l \<or> 2 ^ 62 \<le> h" if "0 < h" "h < 2 ^ 63" "0 < l" for h l :: int
  proof (cases "h < 2 ^ 62")
    case True
    with that have "int64_wrap (h * 2) = h * 2" by (intro int64_wrap_id) (simp_all add: minDuration_def maxDuration_def)
    with True show ?thesis by auto
  next
    case False
    have "(h * 2 + 2 ^ 63) mod 2 ^ 64 = (h * 2 + 2 ^ 63 - 2 ^ 64) mod 2 ^ 64"
      by (rule minus_mod_self2 [symmetric])
    also have "\<dots> = h * 2 + 2 ^ 63 - 2 ^ 64"
      using False that by (intro mod_pos_pos_trivial) simp_all
    finally have "(h * 2 + 2 ^ 63) mod 2 ^ 64 = h * 2 + 2 ^ 63 - 2 ^ 64" .
    with False that show ?thesis by (simp add: int64_wrap_def)
  qed
  let ?h = "default_duration DefaultHeartbeat (srv_HeartbeatInterval config)"
  have "?h < 2 ^ 63" using assms(3) by (simp add: default_duration_def wire_consts duration_defs)
  with w [of ?h "default_duration DefaultLease (srv_LeaseDuration config)"] assms(1,2) show ?thesis
    by (auto simp: NewServer_def Let_def default_duration_def not_le not_less)
qed

theorem NewServer_accepts_iff_witness:
  "\<exists>server. NewServer (Inr ''00'') \<lparr>srv_Authenticator = Some (server_Authenticator sample_server),
     srv_Snapshots = Some (server_Snapshots sample_server), srv_Capabilities = ProductionCapabilities,
     srv_LeaseDuration = 0, srv_HeartbeatInterval = 2 ^ 62, srv_SessionIDs = None\<rparr> = Inr server"
proof -
  have "ValidateCapabilities ProductionCapabilities = None" by code_simp
  then show ?thesis
    by (subst NewServer_accepts_iff)
       (simp_all add: Let_def default_duration_def wire_consts duration_defs)
qed

end
