(* ===== verification/Server_Rollback.thy ===== *)
theory Server_Rollback
  imports Server_Behaviour
begin

text \<open>
  A run of a server session in which the generation of the active configuration goes back, because
  \<open>OfferSnapshot\<close> compares an offer with the active configuration and not with the staged one.
\<close>

section \<open>A run that moves the active generation back\<close>

lemma HandleReadiness_activates:
  assumes "session_live t R s" and "readiness_accepted readiness s" and "Readiness_Validate readiness = None"
  shows "\<exists>reply. ServerSession_HandleReadiness t readiness R s = (Inr reply, R,
     (promoted s)\<lparr>ss_needsSnapshot := False, ss_readyGeneration := rdy_Generation readiness,
        ss_state := SessionReady\<rparr>)"
proof -
  from assms(2,3) obtain reply where "fst (HandleReadiness_locked readiness s) = Inr reply"
    by (rule Readiness_reply)
  with assms show ?thesis
    by (simp add: ServerSession_HandleReadiness_def guarded_live snd_HandleReadiness)
qed

lemma OfferSnapshot_fresh:
  assumes "session_live t R s" and "Snapshot_Validate L snapshot = None"
    and "snap_TunnelID snapshot = ref_TunnelID (ss_ref s)"
    and "snap_AccountID snapshot = []" "snap_ConnectorID snapshot = []" "snap_SessionID snapshot = []"
      "snap_ProcessGeneration snapshot = 0"
    and "\<not> ss_hasActive s" and "ss_hasCandidate s \<Longrightarrow> snap_Generation snapshot \<noteq> snap_Generation (ss_candidate s)"
    and "\<And>p. ss_pendingSnapshot s = Some p \<Longrightarrow> snap_Generation snapshot \<noteq> snap_Generation p"
  shows "ServerSession_OfferSnapshot L t snapshot R s = (None, R, offer_bound snapshot s)"
  using assms
  by (auto simp: ServerSession_OfferSnapshot_def guarded_live OfferSnapshot_locked_def foreign_identity_def
      split: option.split)

definition same_session :: "ServerSession \<Rightarrow> ServerSession \<Rightarrow> bool" where
  "same_session s s' \<longleftrightarrow> ss_ref s' = ss_ref s \<and> ss_auth s' = ss_auth s \<and> ss_lease s' = ss_lease s \<and>
     ss_lastHeartbeat s' = ss_lastHeartbeat s \<and> (ss_state s \<noteq> SessionClosed \<longrightarrow> ss_state s' \<noteq> SessionClosed)"

lemma same_session_live: "same_session s s' \<Longrightarrow> session_live t R s \<Longrightarrow> session_live t R s'"
  by (auto simp: same_session_def session_live_iff)

lemma same_session_matches: "same_session s s' \<Longrightarrow> matchesIdentity s' = matchesIdentity s"
  by (intro ext) (simp add: same_session_def matchesIdentity_def)

lemma same_session_ops:
  "same_session s (offer_bound snapshot s)"
  "same_session s (staged p (s\<lparr>ss_pendingSnapshot := None, ss_needsSnapshot := False\<rparr>))"
  "same_session s ((promoted s)\<lparr>ss_needsSnapshot := False, ss_readyGeneration := g, ss_state := SessionReady\<rparr>)"
  by (auto simp: same_session_def offer_bound_def staged_def promoted_def Let_def)

text \<open>The acknowledgement and the readiness message for the sample configuration \<open>n\<close>.\<close>

definition sample_ack_for :: "string \<Rightarrow> uint64 \<Rightarrow> Ack" where
  "sample_ack_for n g = (sample_ack AckApplied)\<lparr>ack_Generation := g,
     ack_ContentHash := snap_ContentHash (sample_snapshot n g)\<rparr>"

definition sample_readiness_for :: "string \<Rightarrow> uint64 \<Rightarrow> Readiness" where
  "sample_readiness_for n g = sample_readiness\<lparr>rdy_Generation := g,
     rdy_ContentHash := snap_ContentHash (sample_snapshot n g)\<rparr>"

definition sample_bound_for :: "string \<Rightarrow> uint64 \<Rightarrow> Snapshot" where
  "sample_bound_for n g = bindSnapshot (sample_snapshot n g) ''acc_1'' ''con_1'' ''ses_1'' 1"

lemma sample_bound_for_simps:
  "snap_Generation (sample_bound_for n g) = g"
  "snap_ContentHash (sample_bound_for n g) = snap_ContentHash (sample_snapshot n g)"
  by (simp_all add: sample_bound_for_def bindSnapshot_def sample_snapshot_def)

lemma sample_offer_bound:
  assumes "same_session (sample_session 1) s" and "\<not> ss_hasActive s"
  shows "offer_bound (sample_snapshot n g) s = s\<lparr>ss_pendingDelta := None,
     ss_pendingSnapshot := Some (sample_bound_for n g), ss_state := SessionAwaitingSnapshot\<rparr>"
proof -
  have "ss_ref s = sample_ref 1" "ss_auth s = sample_result 1"
    using assms(1) by (simp_all add: same_session_def) (simp_all add: sample_session_def)
  with assms(2) show ?thesis
    by (simp add: offer_bound_def sample_bound_for_def Let_def) (simp add: sample_ref_def sample_result_def)
qed

lemma sample_ack_step:
  assumes "same_session (sample_session 1) s" and "ss_pendingSnapshot s = Some (sample_bound_for n g)" and "g \<noteq> 0"
  shows "server_step sample_lib sample_server (sample_registry 1, s) (sample_registry 1,
     staged (sample_bound_for n g) (s\<lparr>ss_pendingSnapshot := None, ss_needsSnapshot := False\<rparr>))"
proof -
  have "Ack_Validate (sample_ack_for n g) = None"
    using sample_identifiers sample_hash [of n g] assms(3)
    by (simp add: Ack_Validate_def sample_ack_for_def sample_ack_def)
  moreover have "matchesIdentity s (ack_AccountID (sample_ack_for n g)) (ack_TunnelID (sample_ack_for n g))
      (ack_ConnectorID (sample_ack_for n g)) (ack_SessionID (sample_ack_for n g))
      (ack_ProcessGeneration (sample_ack_for n g))"
    using sample_matches [of 1] same_session_matches [OF assms(1)]
    by (simp add: sample_ack_for_def sample_ack_def)
  moreover have "ack_names (sample_ack_for n g) AckSnapshot (snap_Generation (sample_bound_for n g))
      (snap_ContentHash (sample_bound_for n g))" "\<not> negative_status (ack_Status (sample_ack_for n g))"
    by (simp_all add: sample_bound_for_simps ack_names_def negative_status_def)
       (simp_all add: sample_ack_for_def sample_ack_def)
  ultimately show ?thesis
    using same_session_live [OF assms(1) sample_live] assms(2)
    by (intro step_ack [OF HandleAck_snapshot_applied])
qed

lemma sample_readiness_step:
  assumes "same_session (sample_session 1) s" and "ss_hasCandidate s" and "ss_candidate s = sample_bound_for n g"
    and "g \<noteq> 0"
  shows "server_step sample_lib sample_server (sample_registry 1, s) (sample_registry 1,
     (promoted s)\<lparr>ss_needsSnapshot := False, ss_readyGeneration := g, ss_state := SessionReady\<rparr>)"
proof -
  have "Readiness_Validate (sample_readiness_for n g) = None"
    using sample_identifiers sample_hash [of n g] assms(4)
    by (simp add: Readiness_Validate_def sample_readiness_for_def sample_readiness_def)
  moreover have "readiness_accepted (sample_readiness_for n g) s"
    using sample_matches [of 1] same_session_matches [OF assms(1)] assms(2,3)
    by (simp add: readiness_accepted_def sample_bound_for_simps)
       (simp add: sample_readiness_for_def sample_readiness_def)
  ultimately obtain reply where "ServerSession_HandleReadiness sample_now (sample_readiness_for n g)
      (sample_registry 1) s = (Inr reply, sample_registry 1, (promoted s)\<lparr>ss_needsSnapshot := False,
         ss_readyGeneration := rdy_Generation (sample_readiness_for n g), ss_state := SessionReady\<rparr>)"
    using HandleReadiness_activates [OF same_session_live [OF assms(1) sample_live]] by blast
  from step_readiness [OF this] show ?thesis by (simp add: sample_readiness_for_def)
qed

lemma sample_offer_step:
  assumes "same_session (sample_session 1) s" and "\<not> ss_hasActive s"
    and "Snapshot_Validate sample_lib (sample_snapshot n g) = None"
    and "ss_hasCandidate s \<Longrightarrow> g \<noteq> snap_Generation (ss_candidate s)"
    and "\<And>p. ss_pendingSnapshot s = Some p \<Longrightarrow> g \<noteq> snap_Generation p"
  shows "server_step sample_lib sample_server (sample_registry 1, s) (sample_registry 1, s\<lparr>ss_pendingDelta := None,
     ss_pendingSnapshot := Some (sample_bound_for n g), ss_state := SessionAwaitingSnapshot\<rparr>)"
proof -
  have "ss_ref s = sample_ref 1" using assms(1) by (simp add: same_session_def) (simp add: sample_session_def)
  then have "snap_TunnelID (sample_snapshot n g) = ref_TunnelID (ss_ref s)"
    by (simp add: sample_snapshot_def sample_ref_def)
  then have "ServerSession_OfferSnapshot sample_lib sample_now (sample_snapshot n g) (sample_registry 1) s =
      (None, sample_registry 1, offer_bound (sample_snapshot n g) s)"
    using assms by (intro OfferSnapshot_fresh same_session_live [OF assms(1) sample_live])
      (simp_all add: sample_snapshot_def zero_Snapshot_def)
  from step_offer [OF this] show ?thesis by (simp add: sample_offer_bound [OF assms(1,2)])
qed

lemma same_session_trans: "same_session a b \<Longrightarrow> same_session b c \<Longrightarrow> same_session a c"
  by (simp add: same_session_def)

text \<open>
  C26. The active generation of a session can go back. The sample session is offered generation 2,
  which the connector applies, and is then offered generation 1, which \<open>OfferSnapshot\<close> accepts since
  nothing is active yet; generation 2 is declared ready and becomes active; then the acknowledgement
  of generation 1 replaces the candidate and its readiness makes generation 1 active. All messages
  pass validation and every call succeeds.
\<close>

theorem active_generation_goes_back:
  "\<exists>s s'. (server_step sample_lib sample_server)\<^sup>*\<^sup>* (sample_registry 1, sample_session 1) (sample_registry 1, s) \<and>
     (server_step sample_lib sample_server)\<^sup>*\<^sup>* (sample_registry 1, s) (sample_registry 1, s') \<and>
     ServerSession_Current s = (sample_bound_for ''2'' 2, True, 2) \<and>
     ServerSession_Current s' = (sample_bound_for ''1'' 1, True, 1)"
proof -
  let ?s0 = "sample_session 1"
  define s1 where "s1 = ?s0\<lparr>ss_pendingDelta := None,
     ss_pendingSnapshot := Some (sample_bound_for ''2'' 2), ss_state := SessionAwaitingSnapshot\<rparr>"
  define s2 where "s2 = staged (sample_bound_for ''2'' 2) (s1\<lparr>ss_pendingSnapshot := None, ss_needsSnapshot := False\<rparr>)"
  define s3 where "s3 = s2\<lparr>ss_pendingDelta := None,
     ss_pendingSnapshot := Some (sample_bound_for ''1'' 1), ss_state := SessionAwaitingSnapshot\<rparr>"
  define s4 where "s4 = (promoted s3)\<lparr>ss_needsSnapshot := False, ss_readyGeneration := 2, ss_state := SessionReady\<rparr>"
  define s5 where "s5 = staged (sample_bound_for ''1'' 1) (s4\<lparr>ss_pendingSnapshot := None, ss_needsSnapshot := False\<rparr>)"
  define s6 where "s6 = (promoted s5)\<lparr>ss_needsSnapshot := False, ss_readyGeneration := 1, ss_state := SessionReady\<rparr>"
  have e0: "same_session ?s0 ?s0" "\<not> ss_hasActive ?s0" "\<not> ss_hasCandidate ?s0"
    "ss_pendingSnapshot ?s0 = Some (sample_bound 1)" by (simp_all add: same_session_def sample_session_def)
  have e1: "same_session ?s0 s1" "\<not> ss_hasActive s1" "ss_pendingSnapshot s1 = Some (sample_bound_for ''2'' 2)"
    using e0 by (simp_all add: s1_def same_session_def)
  have e2: "same_session ?s0 s2" "\<not> ss_hasActive s2" "ss_hasCandidate s2" "ss_candidate s2 = sample_bound_for ''2'' 2"
    "ss_pendingSnapshot s2 = None"
    using e1 same_session_trans [OF e1(1) same_session_ops(2)] by (simp_all add: s2_def) (simp add: staged_def)
  have e3: "same_session ?s0 s3" "ss_hasCandidate s3" "ss_candidate s3 = sample_bound_for ''2'' 2"
    "ss_pendingSnapshot s3 = Some (sample_bound_for ''1'' 1)"
    using e2 by (simp_all add: s3_def same_session_def)
  have e4: "same_session ?s0 s4" "ss_pendingSnapshot s4 = Some (sample_bound_for ''1'' 1)"
    "ServerSession_Current s4 = (sample_bound_for ''2'' 2, True, 2)"
    using e3 same_session_trans [OF e3(1) same_session_ops(3)]
    by (simp_all add: s4_def promoted_def ServerSession_Current_def sample_bound_for_simps)
  have e5: "same_session ?s0 s5" "ss_hasCandidate s5" "ss_candidate s5 = sample_bound_for ''1'' 1"
    using same_session_trans [OF e4(1) same_session_ops(2)] by (simp_all add: s5_def)
  have e6: "ServerSession_Current s6 = (sample_bound_for ''1'' 1, True, 1)"
    using e5 by (simp add: s6_def promoted_def ServerSession_Current_def sample_bound_for_simps)
  let ?step = "server_step sample_lib sample_server"
  have t1: "?step (sample_registry 1, ?s0) (sample_registry 1, s1)"
    unfolding s1_def using e0 sample_Snapshot_Validate
    by (intro sample_offer_step) (auto simp: sample_bound_simps)
  have t2: "?step (sample_registry 1, s1) (sample_registry 1, s2)"
    unfolding s2_def by (rule sample_ack_step [OF e1(1,3)]) simp
  have t3: "?step (sample_registry 1, s2) (sample_registry 1, s3)"
    unfolding s3_def using e2 sample_Snapshot_Validate
    by (intro sample_offer_step) (auto simp: sample_bound_for_simps)
  have t4: "?step (sample_registry 1, s3) (sample_registry 1, s4)"
    unfolding s4_def by (rule sample_readiness_step [OF e3(1-3)]) simp
  have t5: "?step (sample_registry 1, s4) (sample_registry 1, s5)"
    unfolding s5_def by (rule sample_ack_step [OF e4(1,2)]) simp
  have t6: "?step (sample_registry 1, s5) (sample_registry 1, s6)"
    unfolding s6_def by (rule sample_readiness_step [OF e5]) simp
  have "?step\<^sup>*\<^sup>* (sample_registry 1, ?s0) (sample_registry 1, s4)"
    using t1 t2 t3 t4 by (meson rtranclp.rtrancl_into_rtrancl rtranclp.rtrancl_refl)
  moreover have "?step\<^sup>*\<^sup>* (sample_registry 1, s4) (sample_registry 1, s6)"
    using t5 t6 by (meson rtranclp.rtrancl_into_rtrancl rtranclp.rtrancl_refl)
  ultimately show ?thesis using e4(3) e6 by blast
qed

end
