(* ===== verification/Client_Session.thy ===== *)
theory Client_Session
  imports Server_Session
begin

text \<open>
  The client side of a connector session
  (\<open>src/internal/connectorprotocol/session.go\<close>, lines 863 to 1797).

  A method that holds the session mutex for its whole body is one function from the session to its
  result and the session. A method that releases the mutex while it calls the applier or the
  drainer is split at these calls into \<open>_begin\<close>, the handling of the answer, and \<open>_commit\<close> parts,
  and then composed again in the order of the code, so that other calls can be interleaved between
  the parts. The answers of the applier and the drainer and the readings of the clock and of
  \<open>ctx.Err()\<close> are arguments. A prepared configuration is named by a handle, and the calls of
  \<open>Activate\<close> and \<open>Abort\<close> on handles are recorded in the result. The guards for a nil session or
  context are left out, and so are the copies of byte slices, because values are immutable here.
\<close>

section \<open>State\<close>

type_synonym handle = nat

datatype client_call = CallActivate handle | CallAbort handle

record ClientSessionConfig =
  cc_Hello :: Hello
  cc_ApplyTimeout :: duration
  cc_AbortTimeout :: duration

record ClientSession =
  cs_config :: ClientSessionConfig
  cs_welcome :: Welcome
  cs_state :: SessionState
  cs_lease :: Lease
  cs_auth :: AuthRequest
  cs_active :: Snapshot
  cs_hasActive :: bool
  cs_candidate :: Snapshot
  cs_hasCandidate :: bool
  cs_prepared :: "handle option"
  cs_needsSnapshot :: bool
  cs_readyGeneration :: uint64
  cs_lastHeartbeatAck :: time
  cs_drain :: "Drain option"
  cs_drainStatus :: DrainStatus
  cs_drainCode :: Code
  cs_drainCompleted :: bool
  cs_activeStreams :: uint32
  cs_disconnectReason :: DisconnectReason

abbreviation cs_Hello :: "ClientSession \<Rightarrow> Hello" where
  "cs_Hello c \<equiv> cc_Hello (cs_config c)"

definition zero_Lease :: Lease where
  "zero_Lease = \<lparr>lease_SessionID = '''', lease_ExpiresAt = 0, lease_HeartbeatIntervalMS = 0\<rparr>"

definition zero_Welcome :: Welcome where
  "zero_Welcome =
     \<lparr>welcome_Protocol = '''', welcome_Version = '''', welcome_SessionID = '''',
      welcome_Capabilities = [], welcome_Lease = zero_Lease, welcome_RequiresSnapshot = False,
      welcome_ServerTime = 0\<rparr>"

definition NewClientSession :: "time \<Rightarrow> ClientSessionConfig \<Rightarrow> error + ClientSession" where
  "NewClientSession now config =
     (let apply = (if cc_ApplyTimeout config = 0 then DefaultApplyTimeout else cc_ApplyTimeout config);
          abort = (if cc_AbortTimeout config = 0 then DefaultAbortTimeout else cc_AbortTimeout config);
          config' = config\<lparr>cc_ApplyTimeout := apply, cc_AbortTimeout := abort\<rparr>
      in if apply \<le> 0 \<or> MaxLease < apply \<or> abort \<le> 0 \<or> MaxLease < abort
         then Inl ErrInvalidInput
         else case Hello_Validate now (cc_Hello config) of
           Some err \<Rightarrow> Inl err
         | None \<Rightarrow>
             Inr \<lparr>cs_config = config', cs_welcome = zero_Welcome, cs_state = SessionNew,
                  cs_lease = zero_Lease, cs_auth = hello_Auth (cc_Hello config),
                  cs_active = zero_Snapshot, cs_hasActive = False, cs_candidate = zero_Snapshot,
                  cs_hasCandidate = False, cs_prepared = None, cs_needsSnapshot = False,
                  cs_readyGeneration = 0, cs_lastHeartbeatAck = 0, cs_drain = None,
                  cs_drainStatus = DrainStatusOther '''', cs_drainCode = CodeEmpty,
                  cs_drainCompleted = False, cs_activeStreams = 0,
                  cs_disconnectReason = ReasonEmpty\<rparr>)"

definition ClientSession_Auth :: "ClientSession \<Rightarrow> AuthRequest" where
  "ClientSession_Auth c = cs_auth c"

definition ClientSession_AcceptWelcome ::
  "time \<Rightarrow> time \<Rightarrow> Welcome \<Rightarrow> ClientSession \<Rightarrow> error option \<times> ClientSession" where
  "ClientSession_AcceptWelcome now now' w c =
     (case Welcome_Validate now w of
        Some err \<Rightarrow> (Some err, c)
      | None \<Rightarrow>
     if cs_state c \<noteq> SessionNew
     then (Some (codeError ErrSessionConflict ReasonProtocolClosed False None), c)
     else if welcome_Version w \<noteq> ProtocolVersion \<or> welcome_Protocol w \<noteq> ProtocolName
     then (Some (codeError ErrProtocolIncompatible ReasonProtocolMismatch False None), c)
     else
     (case NegotiateVersion (hello_MinVersion (cs_Hello c)) (hello_MaxVersion (cs_Hello c)) of
        Inl err \<Rightarrow> (Some err, c)
      | Inr _ \<Rightarrow>
     (case NegotiateCapabilities (hello_Capabilities (cs_Hello c)) (welcome_Capabilities w) of
        Inl err \<Rightarrow> (Some err, c)
      | Inr _ \<Rightarrow>
          (None, c\<lparr>cs_welcome := w, cs_lease := welcome_Lease w,
                   cs_state := SessionAwaitingSnapshot, cs_lastHeartbeatAck := now'\<rparr>))))"

section \<open>Shared helpers\<close>

definition ClientSession_ensureActiveLocked ::
  "time \<Rightarrow> ClientSession \<Rightarrow> error option \<times> ClientSession" where
  "ClientSession_ensureActiveLocked now c =
     (if cs_state c = SessionClosed
      then (Some (codeError ErrSessionClosed (cs_disconnectReason c) False None), c)
      else if cs_state c = SessionNew
      then (Some (codeError ErrSessionConflict ReasonProtocolClosed False None), c)
      else if \<not> time_After (lease_ExpiresAt (cs_lease c)) now
      then (Some (codeError ErrLeaseExpired ReasonLeaseExpired True None),
            c\<lparr>cs_state := SessionClosed, cs_disconnectReason := ReasonLeaseExpired\<rparr>)
      else if \<not> time_IsZero (cs_lastHeartbeatAck c) \<and>
           2 * heartbeat_interval (cs_lease c) < time_Sub now (cs_lastHeartbeatAck c)
      then (Some (codeError ErrHeartbeatTimeout ReasonHeartbeatTimeout True None),
            c\<lparr>cs_state := SessionClosed, cs_disconnectReason := ReasonHeartbeatTimeout\<rparr>)
      else (None, c))"

text \<open>The guard at the head of a method: the error of the check, or the body on the same session.\<close>

definition client_guarded ::
  "(error \<Rightarrow> 'r) \<Rightarrow> time \<Rightarrow> (ClientSession \<Rightarrow> 'r \<times> ClientSession) \<Rightarrow> ClientSession \<Rightarrow> 'r \<times> ClientSession" where
  "client_guarded fail now body c =
     (case ClientSession_ensureActiveLocked now c of
        (Some err, c') \<Rightarrow> (fail err, c')
      | (None, c') \<Rightarrow> body c')"

definition ClientSession_ensureActiveReadLocked :: "time \<Rightarrow> ClientSession \<Rightarrow> error option" where
  "ClientSession_ensureActiveReadLocked now c =
     (if cs_state c = SessionClosed
      then Some (codeError ErrSessionClosed (cs_disconnectReason c) False None)
      else if cs_state c = SessionNew
      then Some (codeError ErrSessionConflict ReasonProtocolClosed False None)
      else if \<not> time_After (lease_ExpiresAt (cs_lease c)) now
      then Some (codeError ErrLeaseExpired ReasonLeaseExpired True None)
      else None)"

definition ClientSession_restoreStateLocked :: "ClientSession \<Rightarrow> ClientSession" where
  "ClientSession_restoreStateLocked c =
     (if cs_hasActive c \<and> cs_readyGeneration c = snap_Generation (cs_active c) \<and> \<not> cs_needsSnapshot c
      then c\<lparr>cs_state := SessionReady\<rparr>
      else if cs_hasCandidate c then c\<lparr>cs_state := SessionAwaitingReady\<rparr>
      else c\<lparr>cs_state := SessionAwaitingSnapshot\<rparr>)"

definition ClientSession_makeAckLocked :: "ClientSession \<Rightarrow> AckKind \<Rightarrow> AckStatus \<Rightarrow> Snapshot \<Rightarrow> Ack" where
  "ClientSession_makeAckLocked c kind status snapshot =
     \<lparr>ack_AccountID = hello_AccountID (cs_Hello c), ack_TunnelID = hello_TunnelID (cs_Hello c),
      ack_ConnectorID = hello_ConnectorID (cs_Hello c),
      ack_SessionID = welcome_SessionID (cs_welcome c),
      ack_ProcessGeneration = hello_ProcessGeneration (cs_Hello c), ack_Kind = kind,
      ack_Status = status, ack_Generation = snap_Generation snapshot,
      ack_ContentHash = snap_ContentHash snapshot, ack_Code = CodeEmpty\<rparr>"

definition makeDrainAckLocked ::
  "ClientSession \<Rightarrow> Drain \<Rightarrow> DrainStatus \<Rightarrow> uint32 \<Rightarrow> bool \<Rightarrow> Code \<Rightarrow> DrainAck" where
  "makeDrainAckLocked c request status activeStreams forced code =
     \<lparr>dack_AccountID = hello_AccountID (cs_Hello c), dack_TunnelID = hello_TunnelID (cs_Hello c),
      dack_ConnectorID = hello_ConnectorID (cs_Hello c),
      dack_SessionID = welcome_SessionID (cs_welcome c),
      dack_ProcessGeneration = hello_ProcessGeneration (cs_Hello c),
      dack_DrainID = drain_DrainID request, dack_Generation = drain_Generation request,
      dack_ContentHash = drain_ContentHash request, dack_Status = status,
      dack_ActiveStreams = activeStreams, dack_ForcedClose = forced, dack_Code = code\<rparr>"

text \<open>The identity a message must carry, as the methods compare it field by field.\<close>

definition client_identity ::
  "ClientSession \<Rightarrow> string \<Rightarrow> string \<Rightarrow> string \<Rightarrow> string \<Rightarrow> uint64 \<Rightarrow> bool" where
  "client_identity c accountID tunnelID connectorID sessionID processGeneration \<longleftrightarrow>
     accountID = hello_AccountID (cs_Hello c) \<and> tunnelID = hello_TunnelID (cs_Hello c) \<and>
     connectorID = hello_ConnectorID (cs_Hello c) \<and>
     sessionID = welcome_SessionID (cs_welcome c) \<and>
     processGeneration = hello_ProcessGeneration (cs_Hello c)"

text \<open>\<open>abort\<close> is what \<open>Abort\<close> returns on a handle.\<close>

definition abortPrepared ::
  "(handle \<Rightarrow> error option) \<Rightarrow> handle option \<Rightarrow> error option \<times> client_call list" where
  "abortPrepared abort prepared =
     (case prepared of None \<Rightarrow> (None, []) | Some h \<Rightarrow> (abort h, [CallAbort h]))"

definition abortAndJoin ::
  "(handle \<Rightarrow> error option) \<Rightarrow> error \<Rightarrow> handle option \<Rightarrow> error option \<times> client_call list" where
  "abortAndJoin abort primary prepared =
     (case abortPrepared abort prepared of
        (cleanup, calls) \<Rightarrow> (joinCleanup (Some primary) cleanup, calls))"

section \<open>Applying configurations\<close>

text \<open>
  What a call of \<open>PrepareSnapshot\<close> or \<open>PrepareDelta\<close> left behind: the prepared configuration, the
  error, \<open>ctx.Err()\<close> and \<open>prepareCtx.Err()\<close>. The result of an apply method is the pair of its Go
  results, with \<open>None\<close> for the empty acknowledgement and the nil error.
\<close>

record PrepareOutcome =
  po_prepared :: "handle option"
  po_err :: "error option"
  po_ctxErr :: "error option"
  po_prepareErr :: "error option"

type_synonym apply_result = "Ack option \<times> error option"

text \<open>A \<open>None\<close> result means that the method goes on to prepare the configuration.\<close>

definition ApplySnapshot_locked ::
  "('a cfglib_scheme) \<Rightarrow> Snapshot \<Rightarrow> ClientSession \<Rightarrow> apply_result option" where
  "ApplySnapshot_locked L snapshot c =
     (if snap_TunnelID snapshot \<noteq> hello_TunnelID (cs_Hello c)
      then Some (None, Some (codeError ErrIdentityMismatch ReasonAuthentication False None))
      else if Snapshot_ValidateBound L snapshot \<noteq> None
         \<or> snap_AccountID snapshot \<noteq> hello_AccountID (cs_Hello c)
         \<or> snap_ConnectorID snapshot \<noteq> hello_ConnectorID (cs_Hello c)
         \<or> snap_SessionID snapshot \<noteq> welcome_SessionID (cs_welcome c)
         \<or> snap_ProcessGeneration snapshot \<noteq> hello_ProcessGeneration (cs_Hello c)
      then Some (None, Some (codeError ErrIdentityMismatch ReasonAuthentication False None))
      else
        (let current = (if cs_hasCandidate c then cs_candidate c else cs_active c);
             hasCurrent = (cs_hasActive c \<or> cs_hasCandidate c)
         in if hasCurrent \<and> snap_Generation snapshot < snap_Generation current
            then Some (None, Some (codeError ErrStaleGeneration ReasonStaleGeneration False None))
            else if hasCurrent \<and> snap_Generation snapshot = snap_Generation current
            then if snap_ContentHash snapshot = snap_ContentHash current
                 then Some (Some (ClientSession_makeAckLocked c AckSnapshot AckDuplicate snapshot), None)
                 else Some (None, Some (codeError ErrContentHashMismatch ReasonSnapshotRejected False None))
            else None))"

definition ApplySnapshot_begin ::
  "('a cfglib_scheme) \<Rightarrow> time \<Rightarrow> Snapshot \<Rightarrow> ClientSession \<Rightarrow> apply_result option \<times> ClientSession" where
  "ApplySnapshot_begin L now snapshot c =
     (case Snapshot_Validate L snapshot of
        Some err \<Rightarrow>
          (Some (None, Some (codeError ErrSnapshotRejected ReasonSnapshotRejected False (Some err))), c)
      | None \<Rightarrow>
          client_guarded (\<lambda>err. Some (None, Some err)) now
            (\<lambda>c. (ApplySnapshot_locked L snapshot c, c)) c)"

definition ApplySnapshot_prepare ::
  "error option \<Rightarrow> PrepareOutcome \<Rightarrow> (handle \<Rightarrow> error option) \<Rightarrow> (error + handle) \<times> client_call list" where
  "ApplySnapshot_prepare ctxErr outcome abort =
     (case ctxErr of
        Some err \<Rightarrow> (Inl (codeError ErrCanceled ReasonCanceled True (Some err)), [])
      | None \<Rightarrow>
     (case po_err outcome of
        Some err \<Rightarrow>
          (case abortPrepared abort (po_prepared outcome) of
             (abortErr, calls) \<Rightarrow>
               (if po_ctxErr outcome \<noteq> None \<or> po_prepareErr outcome \<noteq> None
                then let cause = (if po_ctxErr outcome = None then po_prepareErr outcome
                                  else po_ctxErr outcome)
                     in Inl (codeError ErrCanceled ReasonCanceled True (joinCleanup cause abortErr))
                else Inl (codeError ErrSnapshotRejected ReasonSnapshotRejected False
                            (joinCleanup (Some err) abortErr)), calls))
      | None \<Rightarrow>
     (case po_prepareErr outcome of
        Some err \<Rightarrow>
          (case abortPrepared abort (po_prepared outcome) of
             (abortErr, calls) \<Rightarrow>
               (Inl (codeError ErrCanceled ReasonCanceled True (joinCleanup (Some err) abortErr)), calls))
      | None \<Rightarrow>
     (case po_prepared outcome of
        None \<Rightarrow>
          (Inl (codeError ErrSnapshotRejected ReasonSnapshotRejected False
                  (Some (ErrorString ''applier returned nil prepared configuration''))), [])
      | Some h \<Rightarrow> (Inr h, [])))))"

definition ApplySnapshot_commit ::
  "time \<Rightarrow> Snapshot \<Rightarrow> handle \<Rightarrow> (handle \<Rightarrow> error option) \<Rightarrow> ClientSession \<Rightarrow>
     apply_result \<times> client_call list \<times> ClientSession" where
  "ApplySnapshot_commit now' snapshot prepared abort c =
     (case ClientSession_ensureActiveLocked now' c of
        (Some err, c') \<Rightarrow>
          (case abortAndJoin abort err (Some prepared) of (e, calls) \<Rightarrow> ((None, e), calls, c'))
      | (None, c') \<Rightarrow>
          if cs_hasCandidate c' \<and> cs_prepared c' \<noteq> None
          then (case abortAndJoin abort (codeError ErrGenerationGap ReasonGenerationGap True None)
                       (Some prepared) of (e, calls) \<Rightarrow> ((None, e), calls, c'))
          else
            (let bound = bindSnapshot snapshot (hello_AccountID (cs_Hello c'))
                   (hello_ConnectorID (cs_Hello c')) (welcome_SessionID (cs_welcome c'))
                   (hello_ProcessGeneration (cs_Hello c'));
                 c'' = c'\<lparr>cs_candidate := bound, cs_hasCandidate := True, cs_prepared := Some prepared,
                          cs_needsSnapshot := False, cs_readyGeneration := 0,
                          cs_state := SessionAwaitingReady\<rparr>
             in ((Some (ClientSession_makeAckLocked c'' AckSnapshot AckApplied bound), None), [], c'')))"

definition ClientSession_ApplySnapshot ::
  "('a cfglib_scheme) \<Rightarrow> time \<Rightarrow> time \<Rightarrow> error option \<Rightarrow> PrepareOutcome \<Rightarrow> (handle \<Rightarrow> error option) \<Rightarrow>
     Snapshot \<Rightarrow> ClientSession \<Rightarrow> apply_result \<times> client_call list \<times> ClientSession" where
  "ClientSession_ApplySnapshot L now now' ctxErr outcome abort snapshot c =
     (case ApplySnapshot_begin L now snapshot c of
        (Some r, c') \<Rightarrow> (r, [], c')
      | (None, c') \<Rightarrow>
          (case ApplySnapshot_prepare ctxErr outcome abort of
             (Inl err, calls) \<Rightarrow> ((None, Some err), calls, c')
           | (Inr h, calls) \<Rightarrow>
               (case ApplySnapshot_commit now' snapshot h abort c' of
                  (r, calls', c'') \<Rightarrow> (r, calls @ calls', c''))))"

text \<open>The acknowledgement that asks for a full snapshot instead of a delta.\<close>

definition snapshot_required_ack :: "ClientSession \<Rightarrow> Delta \<Rightarrow> Ack" where
  "snapshot_required_ack c delta =
     ClientSession_makeAckLocked c AckDelta AckSnapshotRequired
       (zero_Snapshot\<lparr>snap_Generation := delta_Generation delta,
                      snap_ContentHash := delta_ContentHash delta\<rparr>)"

definition ApplyDelta_locked ::
  "('a cfglib_scheme) \<Rightarrow> Delta \<Rightarrow> ClientSession \<Rightarrow> apply_result option \<times> ClientSession" where
  "ApplyDelta_locked L delta c =
     (if Delta_ValidateBound L delta \<noteq> None
         \<or> \<not> client_identity c (delta_AccountID delta) (delta_TunnelID delta) (delta_ConnectorID delta)
              (delta_SessionID delta) (delta_ProcessGeneration delta)
      then (Some (None, Some (codeError ErrIdentityMismatch ReasonAuthentication False None)), c)
      else if \<not> cs_hasActive c \<or> cs_needsSnapshot c \<or> cs_hasCandidate c
      then (Some (Some (snapshot_required_ack c delta),
                  Some (codeError ErrSnapshotRequired ReasonGenerationGap True None)), c)
      else if delta_PreviousGeneration delta = snap_Generation (cs_active c)
         \<and> delta_PreviousContentHash delta = snap_ContentHash (cs_active c)
      then if delta_Generation delta \<noteq> snap_Generation (cs_active c) + 1
           then (Some (Some (snapshot_required_ack c delta),
                       Some (codeError ErrGenerationGap ReasonGenerationGap True None)),
                 c\<lparr>cs_needsSnapshot := True\<rparr>)
           else (None, c)
      else if delta_Generation delta \<le> snap_Generation (cs_active c)
      then (Some (None, Some (codeError ErrStaleGeneration ReasonStaleGeneration False None)), c)
      else (Some (Some (snapshot_required_ack c delta),
                  Some (codeError ErrGenerationGap ReasonGenerationGap True None)),
            c\<lparr>cs_needsSnapshot := True\<rparr>))"

definition ApplyDelta_begin ::
  "('a cfglib_scheme) \<Rightarrow> time \<Rightarrow> Delta \<Rightarrow> ClientSession \<Rightarrow> apply_result option \<times> ClientSession" where
  "ApplyDelta_begin L now delta c =
     (case Delta_Validate L delta of
        Some err \<Rightarrow>
          (Some (None, Some (codeError ErrDeltaRejected ReasonGenerationGap False (Some err))), c)
      | None \<Rightarrow> client_guarded (\<lambda>err. Some (None, Some err)) now (ApplyDelta_locked L delta) c)"

definition ApplyDelta_prepare ::
  "error option \<Rightarrow> PrepareOutcome \<Rightarrow> (handle \<Rightarrow> error option) \<Rightarrow> (error + handle) \<times> client_call list" where
  "ApplyDelta_prepare ctxErr outcome abort =
     (case ctxErr of
        Some err \<Rightarrow> (Inl (codeError ErrCanceled ReasonCanceled True (Some err)), [])
      | None \<Rightarrow>
     (case po_err outcome of
        Some err \<Rightarrow>
          (case abortPrepared abort (po_prepared outcome) of
             (abortErr, calls) \<Rightarrow>
               (if po_ctxErr outcome \<noteq> None \<or> po_prepareErr outcome \<noteq> None
                then let cause = (if po_ctxErr outcome = None then po_prepareErr outcome
                                  else po_ctxErr outcome)
                     in Inl (codeError ErrCanceled ReasonCanceled True (joinCleanup cause abortErr))
                else Inl (codeError ErrDeltaRejected ReasonSnapshotRejected False
                            (joinCleanup (Some err) abortErr)), calls))
      | None \<Rightarrow>
     (case po_prepareErr outcome of
        Some err \<Rightarrow>
          (case abortPrepared abort (po_prepared outcome) of
             (abortErr, calls) \<Rightarrow>
               (Inl (codeError ErrCanceled ReasonCanceled True (joinCleanup (Some err) abortErr)), calls))
      | None \<Rightarrow>
     (case po_prepared outcome of
        None \<Rightarrow>
          (Inl (codeError ErrDeltaRejected ReasonSnapshotRejected False
                  (Some (ErrorString ''applier returned nil prepared configuration''))), [])
      | Some h \<Rightarrow> (Inr h, [])))))"

definition ApplyDelta_commit ::
  "time \<Rightarrow> Delta \<Rightarrow> handle \<Rightarrow> (handle \<Rightarrow> error option) \<Rightarrow> ClientSession \<Rightarrow>
     apply_result \<times> client_call list \<times> ClientSession" where
  "ApplyDelta_commit now' delta prepared abort c =
     (case ClientSession_ensureActiveLocked now' c of
        (Some err, c') \<Rightarrow>
          (case abortAndJoin abort err (Some prepared) of (e, calls) \<Rightarrow> ((None, e), calls, c'))
      | (None, c') \<Rightarrow>
          if cs_hasCandidate c' \<and> cs_prepared c' \<noteq> None
          then (case abortAndJoin abort (codeError ErrGenerationGap ReasonGenerationGap True None)
                       (Some prepared) of (e, calls) \<Rightarrow> ((None, e), calls, c'))
          else
            (let candidate =
                   \<lparr>snap_AccountID = hello_AccountID (cs_Hello c'), snap_TunnelID = delta_TunnelID delta,
                    snap_ConnectorID = hello_ConnectorID (cs_Hello c'),
                    snap_SessionID = welcome_SessionID (cs_welcome c'),
                    snap_ProcessGeneration = hello_ProcessGeneration (cs_Hello c'),
                    snap_Generation = delta_Generation delta,
                    snap_ContentHash = delta_ContentHash delta, snap_Payload = delta_Payload delta\<rparr>;
                 c'' = c'\<lparr>cs_candidate := candidate, cs_hasCandidate := True,
                          cs_prepared := Some prepared, cs_readyGeneration := 0,
                          cs_state := SessionAwaitingReady\<rparr>
             in ((Some (ClientSession_makeAckLocked c'' AckDelta AckApplied candidate), None), [], c'')))"

definition ClientSession_ApplyDelta ::
  "('a cfglib_scheme) \<Rightarrow> time \<Rightarrow> time \<Rightarrow> error option \<Rightarrow> PrepareOutcome \<Rightarrow> (handle \<Rightarrow> error option) \<Rightarrow>
     Delta \<Rightarrow> ClientSession \<Rightarrow> apply_result \<times> client_call list \<times> ClientSession" where
  "ClientSession_ApplyDelta L now now' ctxErr outcome abort delta c =
     (case ApplyDelta_begin L now delta c of
        (Some r, c') \<Rightarrow> (r, [], c')
      | (None, c') \<Rightarrow>
          (case ApplyDelta_prepare ctxErr outcome abort of
             (Inl err, calls) \<Rightarrow> ((None, Some err), calls, c')
           | (Inr h, calls) \<Rightarrow>
               (case ApplyDelta_commit now' delta h abort c' of
                  (r, calls', c'') \<Rightarrow> (r, calls @ calls', c''))))"

definition ClientSession_RejectionAck ::
  "ClientSession \<Rightarrow> AckKind \<Rightarrow> uint64 \<Rightarrow> string \<Rightarrow> Code \<Rightarrow> Ack" where
  "ClientSession_RejectionAck c kind generation contentHash code =
     \<lparr>ack_AccountID = hello_AccountID (cs_Hello c), ack_TunnelID = hello_TunnelID (cs_Hello c),
      ack_ConnectorID = hello_ConnectorID (cs_Hello c),
      ack_SessionID = welcome_SessionID (cs_welcome c),
      ack_ProcessGeneration = hello_ProcessGeneration (cs_Hello c), ack_Kind = kind,
      ack_Status = AckRejected, ack_Generation = generation, ack_ContentHash = contentHash,
      ack_Code = code\<rparr>"

section \<open>Readiness\<close>

text \<open>
  \<open>MarkReadyContext\<close> up to its first unlock; \<open>Inr\<close> carries the readiness message, the prepared
  configuration and the candidate over to the activation.
\<close>

type_synonym ready_result = "Readiness option \<times> error option"

definition MarkReady_locked ::
  "bool \<Rightarrow> bool \<Rightarrow> bool \<Rightarrow> ClientSession \<Rightarrow> ready_result + Readiness \<times> handle option \<times> Snapshot" where
  "MarkReady_locked edgeReady routeReady originReady c =
     (if \<not> cs_hasCandidate c
      then Inl (None, Some (codeError ErrSnapshotRequired ReasonGenerationGap True None))
      else
        (let readiness =
               \<lparr>rdy_AccountID = hello_AccountID (cs_Hello c),
                rdy_SessionID = welcome_SessionID (cs_welcome c),
                rdy_TunnelID = hello_TunnelID (cs_Hello c),
                rdy_ConnectorID = hello_ConnectorID (cs_Hello c),
                rdy_ProcessGeneration = hello_ProcessGeneration (cs_Hello c),
                rdy_Generation = snap_Generation (cs_candidate c),
                rdy_ContentHash = snap_ContentHash (cs_candidate c), rdy_EdgeReady = edgeReady,
                rdy_RouteReady = routeReady, rdy_OriginReady = originReady\<rparr>
         in if \<not> edgeReady \<or> \<not> routeReady \<or> \<not> originReady
            then Inl (Some readiness, Some (codeError ErrNotReady ReasonSnapshotRejected True None))
            else Inr (readiness, cs_prepared c, cs_candidate c)))"

definition MarkReady_begin ::
  "time \<Rightarrow> bool \<Rightarrow> bool \<Rightarrow> bool \<Rightarrow> ClientSession \<Rightarrow>
     (ready_result + Readiness \<times> handle option \<times> Snapshot) \<times> ClientSession" where
  "MarkReady_begin now edgeReady routeReady originReady c =
     client_guarded (\<lambda>err. Inl (None, Some err)) now
       (\<lambda>c. (MarkReady_locked edgeReady routeReady originReady c, c)) c"

text \<open>The failed activation: the prepared configuration is aborted and the candidate dropped.\<close>

definition MarkReady_failed ::
  "Readiness \<Rightarrow> handle \<Rightarrow> Snapshot \<Rightarrow> error \<Rightarrow> error option \<Rightarrow> (handle \<Rightarrow> error option) \<Rightarrow> ClientSession \<Rightarrow>
     ready_result \<times> client_call list \<times> ClientSession" where
  "MarkReady_failed readiness prepared candidate err ctxErr' abort c =
     (case abortPrepared abort (Some prepared) of
        (abortErr, calls) \<Rightarrow>
          (let c' = (if cs_hasCandidate c \<and> snap_Generation (cs_candidate c) = snap_Generation candidate
                        \<and> snap_ContentHash (cs_candidate c) = snap_ContentHash candidate
                     then ClientSession_restoreStateLocked
                            (c\<lparr>cs_candidate := zero_Snapshot, cs_hasCandidate := False,
                               cs_prepared := None, cs_needsSnapshot := True\<rparr>)
                     else c)
           in ((Some readiness,
                Some (if ctxErr' \<noteq> None
                      then codeError ErrCanceled ReasonCanceled True (joinCleanup (Some err) abortErr)
                      else codeError ErrSnapshotRejected ReasonSnapshotRejected False
                             (joinCleanup (Some err) abortErr))), calls, c')))"

definition MarkReady_commit ::
  "time \<Rightarrow> Readiness \<Rightarrow> Snapshot \<Rightarrow> ClientSession \<Rightarrow> ready_result \<times> ClientSession" where
  "MarkReady_commit now' readiness candidate c =
     client_guarded (\<lambda>err. (Some readiness, Some err)) now'
       (\<lambda>c. if \<not> cs_hasCandidate c \<or> snap_Generation (cs_candidate c) \<noteq> snap_Generation candidate
               \<or> snap_ContentHash (cs_candidate c) \<noteq> snap_ContentHash candidate
            then ((Some readiness, Some (codeError ErrSessionConflict ReasonStaleGeneration True None)), c)
            else ((Some readiness, None),
                  c\<lparr>cs_active := cs_candidate c, cs_hasActive := True, cs_candidate := zero_Snapshot,
                    cs_hasCandidate := False, cs_prepared := None, cs_needsSnapshot := False,
                    cs_readyGeneration := snap_Generation (cs_candidate c),
                    cs_state := SessionReady\<rparr>)) c"

text \<open>
  The part between the two locks. \<open>activate\<close> is what \<open>Activate\<close> returns on a handle; it is called
  unless the context is done or no prepared configuration is there.
\<close>

definition MarkReady_activate ::
  "time \<Rightarrow> error option \<Rightarrow> error option \<Rightarrow> (handle \<Rightarrow> error option) \<Rightarrow> (handle \<Rightarrow> error option) \<Rightarrow>
     Readiness \<times> handle option \<times> Snapshot \<Rightarrow> ClientSession \<Rightarrow>
     ready_result \<times> client_call list \<times> ClientSession" where
  "MarkReady_activate now' ctxErr ctxErr' activate abort = (\<lambda>(readiness, prepared, candidate) c.
     case ctxErr of
       Some err \<Rightarrow>
         ((Some readiness, Some (codeError ErrCanceled ReasonCanceled True (Some err))), [], c)
     | None \<Rightarrow>
         (case prepared of
            None \<Rightarrow>
              ((Some readiness, Some (codeError ErrSnapshotRejected ReasonSnapshotRejected False
                  (Some (ErrorString ''missing prepared configuration'')))), [], c)
          | Some h \<Rightarrow>
              (case activate h of
                 Some err \<Rightarrow>
                   (case MarkReady_failed readiness h candidate err ctxErr' abort c of
                      (r, calls, c') \<Rightarrow> (r, CallActivate h # calls, c'))
               | None \<Rightarrow>
                   (case MarkReady_commit now' readiness candidate c of
                      (r, c') \<Rightarrow> (r, [CallActivate h], c')))))"

definition ClientSession_MarkReadyContext ::
  "time \<Rightarrow> time \<Rightarrow> error option \<Rightarrow> error option \<Rightarrow> (handle \<Rightarrow> error option) \<Rightarrow> (handle \<Rightarrow> error option) \<Rightarrow>
     bool \<Rightarrow> bool \<Rightarrow> bool \<Rightarrow> ClientSession \<Rightarrow> ready_result \<times> client_call list \<times> ClientSession" where
  "ClientSession_MarkReadyContext now now' ctxErr ctxErr' activate abort edgeReady routeReady originReady c =
     (case MarkReady_begin now edgeReady routeReady originReady c of
        (Inl r, c') \<Rightarrow> (r, [], c')
      | (Inr saved, c') \<Rightarrow> MarkReady_activate now' ctxErr ctxErr' activate abort saved c')"

text \<open>\<open>MarkReady\<close> calls it under a fresh deadline of \<open>ApplyTimeout\<close>.\<close>

definition ClientSession_MarkReady ::
  "time \<Rightarrow> time \<Rightarrow> error option \<Rightarrow> error option \<Rightarrow> (handle \<Rightarrow> error option) \<Rightarrow> (handle \<Rightarrow> error option) \<Rightarrow>
     bool \<Rightarrow> bool \<Rightarrow> bool \<Rightarrow> ClientSession \<Rightarrow> ready_result \<times> client_call list \<times> ClientSession" where
  "ClientSession_MarkReady now now' timeoutErr timeoutErr' activate abort edgeReady routeReady originReady c =
     ClientSession_MarkReadyContext now now' timeoutErr timeoutErr' activate abort
       edgeReady routeReady originReady c"

section \<open>Heartbeats\<close>

definition currentCandidateLocked :: "ClientSession \<Rightarrow> Snapshot option" where
  "currentCandidateLocked c =
     (if cs_hasActive c then Some (cs_active c)
      else if cs_hasCandidate c then Some (cs_candidate c)
      else None)"

definition ClientSession_Heartbeat ::
  "time \<Rightarrow> time \<Rightarrow> ClientSession \<Rightarrow> (error + Heartbeat) \<times> ClientSession" where
  "ClientSession_Heartbeat clock now c =
     (let now' = (if time_IsZero now then clock else now)
      in client_guarded Inl now'
           (\<lambda>c. case currentCandidateLocked c of
                  None \<Rightarrow> (Inl (codeError ErrSnapshotRequired ReasonGenerationGap True None), c)
                | Some current \<Rightarrow>
                    (Inr \<lparr>hb_AccountID = hello_AccountID (cs_Hello c),
                          hb_SessionID = welcome_SessionID (cs_welcome c),
                          hb_TunnelID = hello_TunnelID (cs_Hello c),
                          hb_ConnectorID = hello_ConnectorID (cs_Hello c),
                          hb_ProcessGeneration = hello_ProcessGeneration (cs_Hello c),
                          hb_LastAppliedGeneration = snap_Generation current,
                          hb_LastAppliedHash = snap_ContentHash current, hb_SentAt = now'\<rparr>, c)) c)"

definition ClientSession_AcceptHeartbeatAck ::
  "time \<Rightarrow> HeartbeatAck \<Rightarrow> ClientSession \<Rightarrow> error option \<times> ClientSession" where
  "ClientSession_AcceptHeartbeatAck now ack c =
     (case HeartbeatAck_Validate now ack of
        Some err \<Rightarrow> (Some err, c)
      | None \<Rightarrow>
          client_guarded Some now
            (\<lambda>c. if \<not> client_identity c (hba_AccountID ack) (hba_TunnelID ack) (hba_ConnectorID ack)
                        (hba_SessionID ack) (hba_ProcessGeneration ack)
                 then (Some (codeError ErrIdentityMismatch ReasonAuthentication False None), c)
                 else (None, c\<lparr>cs_lease := (cs_lease c)\<lparr>lease_ExpiresAt := hba_LeaseExpiresAt ack\<rparr>,
                               cs_lastHeartbeatAck := now\<rparr>)) c)"

section \<open>Drain\<close>

type_synonym drain_result = "DrainAck option \<times> error option"

text \<open>The first locked part of \<open>HandleDrain\<close>; \<open>None\<close> means that a new drain has begun.\<close>

definition HandleDrain_locked ::
  "Drain \<Rightarrow> ClientSession \<Rightarrow> drain_result option \<times> ClientSession" where
  "HandleDrain_locked request c =
     (let rejected = (\<lambda>n. Some (makeDrainAckLocked c request DrainRejected n False CodeDrainRejected))
      in
     if \<not> hasCapability (welcome_Capabilities (cs_welcome c)) CapabilityDrain
     then (Some (None, Some (codeError ErrCapabilityMissing ReasonCapabilityMissing False None)), c)
     else if \<not> client_identity c (drain_AccountID request) (drain_TunnelID request)
            (drain_ConnectorID request) (drain_SessionID request) (drain_ProcessGeneration request)
     then (Some (rejected 0, Some (codeError ErrIdentityMismatch ReasonAuthentication False None)), c)
     else case cs_drain c of
       Some drain \<Rightarrow>
         (if drain_DrainID request \<noteq> drain_DrainID drain
          then (Some (rejected (cs_activeStreams c),
                      Some (codeError ErrSessionConflict ReasonStaleGeneration True None)), c)
          else if drain_Generation request \<noteq> drain_Generation drain
             \<or> drain_ContentHash request \<noteq> drain_ContentHash drain
          then (Some (rejected (cs_activeStreams c),
                      Some (codeError ErrContentHashMismatch ReasonSnapshotRejected False None)), c)
          else (Some (Some (makeDrainAckLocked c request (cs_drainStatus c) (cs_activeStreams c)
                              (cs_drainStatus c = DrainForced) (cs_drainCode c)), None), c))
     | None \<Rightarrow>
         (if \<not> cs_hasActive c \<or> cs_needsSnapshot c
             \<or> cs_readyGeneration c \<noteq> snap_Generation (cs_active c)
          then (Some (rejected 0, Some (codeError ErrNotReady ReasonSnapshotRejected True None)), c)
          else if drain_Generation request \<noteq> snap_Generation (cs_active c)
             \<or> drain_ContentHash request \<noteq> snap_ContentHash (cs_active c)
          then (Some (rejected 0, Some (codeError ErrStaleGeneration ReasonStaleGeneration True None)), c)
          else (None, c\<lparr>cs_drain := Some request, cs_drainStatus := DrainAccepted,
                        cs_drainCode := CodeEmpty, cs_drainCompleted := False,
                        cs_activeStreams := 0, cs_state := SessionDraining\<rparr>)))"

definition HandleDrain_begin ::
  "error option \<Rightarrow> time \<Rightarrow> Drain \<Rightarrow> ClientSession \<Rightarrow> drain_result option \<times> ClientSession" where
  "HandleDrain_begin ctxErr now request c =
     (case ctxErr of
        Some err \<Rightarrow> (Some (None, Some (codeError ErrCanceled ReasonCanceled True (Some err))), c)
      | None \<Rightarrow>
     (case Drain_Validate now request of
        Some err \<Rightarrow> (Some (None, Some err), c)
      | None \<Rightarrow> client_guarded (\<lambda>err. Some (None, Some err)) now (HandleDrain_locked request) c))"

text \<open>The drain is given up when the runtime cannot stop or count its streams.\<close>

definition HandleDrain_giveup :: "Drain \<Rightarrow> ClientSession \<Rightarrow> ClientSession" where
  "HandleDrain_giveup request c =
     (case cs_drain c of
        None \<Rightarrow> c
      | Some drain \<Rightarrow>
          if drain_DrainID drain = drain_DrainID request
          then ClientSession_restoreStateLocked
                 (c\<lparr>cs_drainStatus := DrainRejected, cs_drainCode := CodeDrainRejected,
                    cs_drainCompleted := True\<rparr>)
          else c)"

definition HandleDrain_stopFailed ::
  "Drain \<Rightarrow> error \<Rightarrow> ClientSession \<Rightarrow> drain_result \<times> ClientSession" where
  "HandleDrain_stopFailed request stopErr c =
     (let c' = HandleDrain_giveup request c
      in ((Some (makeDrainAckLocked c' request DrainRejected (cs_activeStreams c') False CodeDrainRejected),
           Some (codeError ErrDrainRejected ReasonSnapshotRejected True (Some stopErr))), c'))"

definition HandleDrain_counted ::
  "Drain \<Rightarrow> error + uint32 \<Rightarrow> ClientSession \<Rightarrow> drain_result \<times> ClientSession" where
  "HandleDrain_counted request count c =
     (let countErr = (case count of
                        Inl err \<Rightarrow> Some err
                      | Inr n \<Rightarrow> if MaxActiveStreams < n then Some ErrInvalidInput else None)
      in case (countErr, count) of
           (None, Inr activeStreams) \<Rightarrow>
             (case cs_drain c of
                Some drain \<Rightarrow>
                  if drain_DrainID drain \<noteq> drain_DrainID request
                  then ((Some (makeDrainAckLocked c request DrainRejected activeStreams False CodeDrainRejected),
                         Some (codeError ErrStaleSession ReasonStaleGeneration False None)), c)
                  else ((Some (makeDrainAckLocked c request DrainAccepted activeStreams False CodeEmpty), None),
                        c\<lparr>cs_activeStreams := activeStreams\<rparr>)
              | None \<Rightarrow>
                  ((Some (makeDrainAckLocked c request DrainRejected activeStreams False CodeDrainRejected),
                    Some (codeError ErrStaleSession ReasonStaleGeneration False None)), c))
         | (err, _) \<Rightarrow>
             (let c' = HandleDrain_giveup request c
              in ((Some (makeDrainAckLocked c' request DrainRejected 0 False CodeDrainRejected),
                   Some (codeError ErrDrainRejected ReasonSnapshotRejected True err)), c')))"

definition ClientSession_HandleDrain ::
  "error option \<Rightarrow> time \<Rightarrow> error option \<Rightarrow> error + uint32 \<Rightarrow> Drain \<Rightarrow> ClientSession \<Rightarrow>
     drain_result \<times> ClientSession" where
  "ClientSession_HandleDrain ctxErr now stopErr count request c =
     (case HandleDrain_begin ctxErr now request c of
        (Some r, c') \<Rightarrow> (r, c')
      | (None, c') \<Rightarrow>
          (case stopErr of
             Some err \<Rightarrow> HandleDrain_stopFailed request err c'
           | None \<Rightarrow> HandleDrain_counted request count c'))"

definition DrainProgress_locked ::
  "time \<Rightarrow> uint32 \<Rightarrow> bool \<Rightarrow> ClientSession \<Rightarrow> drain_result \<times> ClientSession" where
  "DrainProgress_locked now activeStreams forcedClose c =
     (case cs_drain c of
        None \<Rightarrow> ((None, Some (codeError ErrSessionConflict ReasonStaleGeneration False None)), c)
      | Some drain \<Rightarrow>
          (let c1 = c\<lparr>cs_activeStreams := activeStreams\<rparr>
           in if cs_drainCompleted c1
              then ((Some (makeDrainAckLocked c1 drain (cs_drainStatus c1) (cs_activeStreams c1)
                             (cs_drainStatus c1 = DrainForced) (cs_drainCode c1)), None), c1)
              else if forcedClose
              then if activeStreams \<noteq> 0
                   then ((None, Some (codeError ErrInvalidInput ReasonSnapshotRejected False
                            (Some (ErrorString ''forced drain must have zero active streams'')))), c1)
                   else ((Some (makeDrainAckLocked c1 drain DrainForced 0 True CodeDrainTimeout), None),
                         c1\<lparr>cs_drainStatus := DrainForced, cs_drainCode := CodeDrainTimeout,
                            cs_drainCompleted := True\<rparr>)
              else if activeStreams = 0
              then ((Some (makeDrainAckLocked c1 drain DrainCompleted 0 False CodeEmpty), None),
                    c1\<lparr>cs_drainStatus := DrainCompleted, cs_drainCode := CodeEmpty,
                       cs_drainCompleted := True\<rparr>)
              else if \<not> time_Before now (drain_Deadline drain)
              then ((Some (makeDrainAckLocked c1 drain DrainProgress activeStreams False CodeEmpty),
                     Some (codeError ErrDrainTimeout ReasonHeartbeatTimeout True None)), c1)
              else ((Some (makeDrainAckLocked c1 drain DrainProgress activeStreams False CodeEmpty), None),
                    c1\<lparr>cs_drainStatus := DrainProgress, cs_drainCode := CodeEmpty\<rparr>)))"

definition ClientSession_DrainProgress ::
  "error option \<Rightarrow> time \<Rightarrow> uint32 \<Rightarrow> bool \<Rightarrow> ClientSession \<Rightarrow> drain_result \<times> ClientSession" where
  "ClientSession_DrainProgress ctxErr now activeStreams forcedClose c =
     (if MaxActiveStreams < activeStreams then ((None, Some ErrInvalidInput), c)
      else case ctxErr of
        Some err \<Rightarrow> ((None, Some (codeError ErrCanceled ReasonCanceled True (Some err))), c)
      | None \<Rightarrow>
          client_guarded (\<lambda>err. (None, Some err)) now (DrainProgress_locked now activeStreams forcedClose) c)"

text \<open>\<open>CompleteDrain\<close> up to the call of the runtime: a finished drain is reported again.\<close>

definition CompleteDrain_begin :: "ClientSession \<Rightarrow> drain_result option" where
  "CompleteDrain_begin c =
     (case cs_drain c of
        None \<Rightarrow> Some (None, Some (codeError ErrSessionConflict ReasonStaleGeneration False None))
      | Some request \<Rightarrow>
          if cs_drainCompleted c
          then Some (Some (makeDrainAckLocked c request (cs_drainStatus c) (cs_activeStreams c)
                             (cs_drainStatus c = DrainForced) (cs_drainCode c)), None)
          else None)"

definition ClientSession_CompleteDrain ::
  "error option \<Rightarrow> time \<Rightarrow> bool \<Rightarrow> error option \<Rightarrow> error + uint32 \<Rightarrow> ClientSession \<Rightarrow>
     drain_result \<times> ClientSession" where
  "ClientSession_CompleteDrain ctxErr now force forceErr count c =
     (case CompleteDrain_begin c of
        Some r \<Rightarrow> (r, c)
      | None \<Rightarrow>
          if force
          then (case forceErr of
                  Some err \<Rightarrow>
                    ((None, Some (codeError ErrDrainRejected ReasonSnapshotRejected True (Some err))), c)
                | None \<Rightarrow> ClientSession_DrainProgress ctxErr now 0 True c)
          else (case count of
                  Inl err \<Rightarrow>
                    ((None, Some (codeError ErrDrainRejected ReasonSnapshotRejected True (Some err))), c)
                | Inr active \<Rightarrow> ClientSession_DrainProgress ctxErr now active False c))"

definition ClientSession_Drain :: "ClientSession \<Rightarrow> (Drain \<times> DrainStatus \<times> uint32 \<times> bool) option" where
  "ClientSession_Drain c =
     (case cs_drain c of
        None \<Rightarrow> None
      | Some drain \<Rightarrow> Some (drain, cs_drainStatus c, cs_activeStreams c, cs_drainCompleted c))"

section \<open>Renewal, close and accessors\<close>

definition ClientSession_RenewalRequest ::
  "time \<Rightarrow> time \<Rightarrow> string \<Rightarrow> string \<Rightarrow> ClientSession \<Rightarrow> error + RenewalRequest" where
  "ClientSession_RenewalRequest clock now nonce signedProof c =
     (let now' = (if time_IsZero now then clock else now)
      in case ClientSession_ensureActiveReadLocked now' c of
           Some err \<Rightarrow> Inl err
         | None \<Rightarrow>
             (let request =
                    \<lparr>ren_SessionID = welcome_SessionID (cs_welcome c),
                     ren_AccountID = auth_AccountID (cs_auth c), ren_TunnelID = auth_TunnelID (cs_auth c),
                     ren_ConnectorID = auth_ConnectorID (cs_auth c), ren_HostID = auth_HostID (cs_auth c),
                     ren_IdentityKeyID = auth_IdentityKeyID (cs_auth c),
                     ren_IdentityKeyThumbprint = auth_IdentityKeyThumbprint (cs_auth c),
                     ren_ProcessGeneration = hello_ProcessGeneration (cs_Hello c),
                     ren_CredentialGeneration = auth_CredentialGeneration (cs_auth c),
                     ren_Nonce = nonce, ren_SignedProof = signedProof, ren_RequestedAt = now'\<rparr>
              in case RenewalRequest_Validate request of
                   Some err \<Rightarrow> Inl err
                 | None \<Rightarrow> Inr request))"

definition ApplyRenewal_locked ::
  "time \<Rightarrow> AuthResult \<Rightarrow> ClientSession \<Rightarrow> error option \<times> ClientSession" where
  "ApplyRenewal_locked now result c =
     (if res_AccountID result \<noteq> auth_AccountID (cs_auth c) \<or> res_TunnelID result \<noteq> auth_TunnelID (cs_auth c)
         \<or> res_ConnectorID result \<noteq> auth_ConnectorID (cs_auth c)
         \<or> res_SessionID result \<noteq> welcome_SessionID (cs_welcome c)
         \<or> res_HostID result \<noteq> auth_HostID (cs_auth c)
         \<or> res_IdentityKeyID result \<noteq> auth_IdentityKeyID (cs_auth c)
         \<or> res_IdentityKeyThumbprint result \<noteq> auth_IdentityKeyThumbprint (cs_auth c)
         \<or> res_ProcessGeneration result \<noteq> hello_ProcessGeneration (cs_Hello c)
         \<or> res_CredentialGeneration result < auth_CredentialGeneration (cs_auth c)
      then (Some (codeError ErrIdentityMismatch ReasonAuthentication False None), c)
      else if time_Before (res_CredentialExpiresAt result) (auth_ExpiresAt (cs_auth c))
         \<or> time_Before (res_LeaseExpiresAt result) (lease_ExpiresAt (cs_lease c))
      then (Some (codeError ErrSessionConflict ReasonAuthentication False None), c)
      else if res_CredentialGeneration result = auth_CredentialGeneration (cs_auth c)
         \<and> res_CredentialExpiresAt result = auth_ExpiresAt (cs_auth c)
         \<and> res_LeaseExpiresAt result = lease_ExpiresAt (cs_lease c)
      then (None, c)
      else (None,
            c\<lparr>cs_auth := \<lparr>auth_AccountID = res_AccountID result, auth_TunnelID = res_TunnelID result,
                          auth_ConnectorID = res_ConnectorID result, auth_HostID = res_HostID result,
                          auth_IdentityKeyID = res_IdentityKeyID result,
                          auth_IdentityKeyThumbprint = res_IdentityKeyThumbprint result,
                          auth_ProcessGeneration = res_ProcessGeneration result,
                          auth_CredentialGeneration = res_CredentialGeneration result,
                          auth_Nonce = '''', auth_SignedProof = '''', auth_IssuedAt = now,
                          auth_ExpiresAt = res_CredentialExpiresAt result\<rparr>,
              cs_lease := (cs_lease c)\<lparr>lease_ExpiresAt := res_LeaseExpiresAt result\<rparr>,
              cs_lastHeartbeatAck := now\<rparr>))"

definition ClientSession_ApplyRenewal ::
  "time \<Rightarrow> AuthResult \<Rightarrow> ClientSession \<Rightarrow> error option \<times> ClientSession" where
  "ClientSession_ApplyRenewal now result c =
     (case AuthResult_ValidateBound result of
        Some err \<Rightarrow> (Some err, c)
      | None \<Rightarrow> client_guarded Some now (ApplyRenewal_locked now result) c)"

definition ClientSession_Applied :: "ClientSession \<Rightarrow> Snapshot \<times> bool" where
  "ClientSession_Applied c =
     (case currentCandidateLocked c of None \<Rightarrow> (zero_Snapshot, False) | Some s \<Rightarrow> (s, True))"

definition ClientSession_Candidate :: "ClientSession \<Rightarrow> Snapshot \<times> bool" where
  "ClientSession_Candidate c =
     (if \<not> cs_hasCandidate c then (zero_Snapshot, False) else (cs_candidate c, True))"

definition ClientSession_Active :: "ClientSession \<Rightarrow> Snapshot \<times> bool" where
  "ClientSession_Active c =
     (if \<not> cs_hasActive c then (zero_Snapshot, False) else (cs_active c, True))"

definition ClientSession_Close ::
  "(handle \<Rightarrow> error option) \<Rightarrow> DisconnectReason \<Rightarrow> ClientSession \<Rightarrow>
     error option \<times> client_call list \<times> ClientSession" where
  "ClientSession_Close abort reason c =
     (if \<not> validDisconnectReason reason then (Some ErrInvalidInput, [], c)
      else if cs_state c = SessionClosed then (None, [], c)
      else
        (let c' = c\<lparr>cs_state := SessionClosed, cs_disconnectReason := reason, cs_prepared := None,
                    cs_candidate := zero_Snapshot, cs_hasCandidate := False\<rparr>
         in case abortPrepared abort (cs_prepared c) of
              (Some err, calls) \<Rightarrow>
                (Some (codeError ErrSnapshotRejected ReasonSnapshotRejected False
                         (joinCleanup None (Some err))), calls, c')
            | (None, calls) \<Rightarrow> (None, calls, c')))"

definition ClientSession_Disconnect :: "ClientSession \<Rightarrow> Disconnect" where
  "ClientSession_Disconnect c =
     (let reason = (if cs_disconnectReason c = ReasonEmpty then ReasonProtocolClosed
                    else cs_disconnectReason c)
      in \<lparr>disc_AccountID = hello_AccountID (cs_Hello c), disc_TunnelID = hello_TunnelID (cs_Hello c),
          disc_ConnectorID = hello_ConnectorID (cs_Hello c),
          disc_SessionID = welcome_SessionID (cs_welcome c),
          disc_ProcessGeneration = hello_ProcessGeneration (cs_Hello c), disc_Reason = reason,
          disc_Retryable = (reason = ReasonLeaseExpired \<or> reason = ReasonHeartbeatTimeout
             \<or> reason = ReasonCredentialExpired \<or> reason = ReasonSessionReplaced),
          disc_Message = ''''\<rparr>)"

definition ClientSession_CheckLease :: "time \<Rightarrow> ClientSession \<Rightarrow> error option \<times> ClientSession" where
  "ClientSession_CheckLease now c = ClientSession_ensureActiveLocked now c"

end
