(* ===== verification/Rotation_Messages.thy ===== *)
theory Rotation_Messages
  imports Connector_Messages
begin

text \<open>
  The plan and the messages of a credential rotation with their \<open>Validate\<close> methods
  (\<open>src/internal/connectorprotocol/rotation.go\<close>, lines 18 to 512). The encoder of \<open>encoding/json\<close>
  for the two documents that are hashed and signed, and the Ed25519 verification, are parameters.
\<close>

section \<open>Plans\<close>

definition MaxRotationTargets :: nat where [wire_consts]: "MaxRotationTargets = 256"
definition MaxRotationMessage :: nat where [wire_consts]: "MaxRotationMessage = 512"
definition MaxRotationCredentialLifetime :: duration where [wire_consts]:
  "MaxRotationCredentialLifetime = 5 * 365 * 24 * Hour"

record RotationTarget =
  rt_ConnectorID :: string
  rt_HostID :: string
  rt_OldCredentialGeneration :: uint64
  rt_NewCredentialGeneration :: uint64

definition RotationTarget_Validate :: "RotationTarget \<Rightarrow> error option" where
  "RotationTarget_Validate t =
     (if ValidateIdentifier (rt_ConnectorID t) \<noteq> None \<or> ValidateIdentifier (rt_HostID t) \<noteq> None
         \<or> rt_OldCredentialGeneration t = 0
         \<or> rt_NewCredentialGeneration t \<noteq> rt_OldCredentialGeneration t + 1
      then Some ErrInvalidInput else None)"

record RotationPlan =
  plan_AccountID :: string
  plan_TunnelID :: string
  plan_OperationID :: string
  plan_TargetSetHash :: string
  plan_Targets :: "RotationTarget list"

record rotationPlanDocument =
  pdoc_Protocol :: string
  pdoc_Version :: string
  pdoc_AccountID :: string
  pdoc_TunnelID :: string
  pdoc_OperationID :: string
  pdoc_Targets :: "RotationTarget list"

record rotationProofTranscript =
  rtr_Domain :: string
  rtr_Protocol :: string
  rtr_Version :: string
  rtr_AccountID :: string
  rtr_TunnelID :: string
  rtr_OperationID :: string
  rtr_ConnectorID :: string
  rtr_HostID :: string
  rtr_SessionID :: string
  rtr_ProcessGeneration :: uint64
  rtr_TargetSetHash :: string
  rtr_OldCredentialGeneration :: uint64
  rtr_NewCredentialGeneration :: uint64
  rtr_OldIdentityKeyID :: string
  rtr_OldIdentityKeyThumbprint :: string
  rtr_NewIdentityKeyID :: string
  rtr_NewIdentityKeyThumbprint :: string
  rtr_NewPublicKey :: string
  rtr_NewCredentialReference :: string
  rtr_ChallengeNonce :: string
  rtr_IssuedAt :: time
  rtr_NewCredentialValidUntil :: time

text \<open>\<open>json.Marshal\<close> on the two documents, and \<open>ed25519.Verify\<close>.\<close>

record rotlib = msglib +
  lib_MarshalPlan :: "rotationPlanDocument \<Rightarrow> error + string"
  lib_MarshalRotation :: "rotationProofTranscript \<Rightarrow> error + string"
  lib_Ed25519Verify :: "string \<Rightarrow> string \<Rightarrow> string \<Rightarrow> bool"

text \<open>The loop of \<open>validateRotationPlanFields\<close>: \<open>previous\<close> is the target before, if there is one.\<close>

fun scan_targets :: "RotationTarget option \<Rightarrow> string list \<Rightarrow> RotationTarget list \<Rightarrow> error option" where
  "scan_targets previous seen [] = None"
| "scan_targets previous seen (t # ts) =
     (case RotationTarget_Validate t of
        Some err \<Rightarrow> Some err
      | None \<Rightarrow>
          if (case previous of None \<Rightarrow> False | Some p \<Rightarrow> rt_ConnectorID p \<ge> rt_ConnectorID t)
          then Some ErrInvalidInput
          else if rt_ConnectorID t \<in> set seen then Some ErrInvalidInput
          else scan_targets (Some t) (rt_ConnectorID t # seen) ts)"

definition validateRotationPlanFields :: "RotationPlan \<Rightarrow> error option" where
  "validateRotationPlanFields p =
     (if ValidateIdentifier (plan_AccountID p) \<noteq> None \<or> ValidateIdentifier (plan_TunnelID p) \<noteq> None
         \<or> ValidateIdentifier (plan_OperationID p) \<noteq> None
         \<or> \<not> hashPattern (plan_TargetSetHash p) \<and> plan_TargetSetHash p \<noteq> ''''
         \<or> length (plan_Targets p) = 0 \<or> MaxRotationTargets < length (plan_Targets p)
      then Some ErrInvalidInput
      else scan_targets None [] (plan_Targets p))"

definition rotationPlanHash :: "('a rotlib_scheme) \<Rightarrow> RotationPlan \<Rightarrow> error + string" where
  "rotationPlanHash L p =
     (case lib_MarshalPlan L
             \<lparr>pdoc_Protocol = ProtocolName, pdoc_Version = ProtocolVersion,
              pdoc_AccountID = plan_AccountID p, pdoc_TunnelID = plan_TunnelID p,
              pdoc_OperationID = plan_OperationID p, pdoc_Targets = plan_Targets p\<rparr> of
        Inl err \<Rightarrow> Inl err
      | Inr payload \<Rightarrow> Inr (''sha256:'' @ hex_EncodeToString (lib_Sum256 L payload)))"

text \<open>
  \<open>sort.Slice\<close> is not stable, but targets with equal connectors are refused by the validation that
  follows, so the order among them does not matter and a stable sort stands for it.
\<close>

definition NewRotationPlan ::
  "('a rotlib_scheme) \<Rightarrow> string \<Rightarrow> string \<Rightarrow> string \<Rightarrow> RotationTarget list \<Rightarrow> error + RotationPlan" where
  "NewRotationPlan L accountID tunnelID operationID targets =
     (let plan = \<lparr>plan_AccountID = accountID, plan_TunnelID = tunnelID,
                  plan_OperationID = operationID, plan_TargetSetHash = '''',
                  plan_Targets = sort_key rt_ConnectorID targets\<rparr>
      in case validateRotationPlanFields plan of
           Some err \<Rightarrow> Inl err
         | None \<Rightarrow>
             (case rotationPlanHash L plan of
                Inl err \<Rightarrow> Inl err
              | Inr digest \<Rightarrow> Inr (plan\<lparr>plan_TargetSetHash := digest\<rparr>)))"

definition RotationPlan_Validate :: "('a rotlib_scheme) \<Rightarrow> RotationPlan \<Rightarrow> error option" where
  "RotationPlan_Validate L p =
     (case validateRotationPlanFields p of
        Some err \<Rightarrow> Some err
      | None \<Rightarrow>
          (case rotationPlanHash L p of
             Inl err \<Rightarrow> Some err
           | Inr expected \<Rightarrow>
               if plan_TargetSetHash p \<noteq> expected
               then Some (codeError ErrContentHashMismatch ReasonSnapshotRejected False
                            (Some (ErrorString ''rotation target set hash mismatch'')))
               else None))"

definition RotationPlan_Target :: "RotationPlan \<Rightarrow> string \<Rightarrow> RotationTarget option" where
  "RotationPlan_Target p connectorID =
     find (\<lambda>target. rt_ConnectorID target = connectorID) (plan_Targets p)"

section \<open>Challenge and proof\<close>

definition validRotationNonce :: "string \<Rightarrow> bool" where
  "validRotationNonce value \<longleftrightarrow>
     16 \<le> length value \<and> length value \<le> MaxNonceBytes \<and> TrimSpace value = value \<and>
     \<not> ContainsAny value [CHR 0x0D, CHR 0x0A]"

definition decodeRotationPublicKey :: "string \<Rightarrow> error + string" where
  "decodeRotationPublicKey value =
     (case DecodeString value of
        None \<Rightarrow> Inl ErrInvalidInput
      | Some decoded \<Rightarrow>
          if length decoded \<noteq> 32 \<or> EncodeToString decoded \<noteq> value then Inl ErrInvalidInput
          else Inr decoded)"

record CredentialRotationChallenge =
  rc_AccountID :: string
  rc_TunnelID :: string
  rc_OperationID :: string
  rc_ConnectorID :: string
  rc_HostID :: string
  rc_SessionID :: string
  rc_ProcessGeneration :: uint64
  rc_TargetSetHash :: string
  rc_Target :: RotationTarget
  rc_OldCredentialGeneration :: uint64
  rc_NewCredentialGeneration :: uint64
  rc_OldIdentityKeyID :: string
  rc_OldIdentityKeyThumbprint :: string
  rc_ChallengeNonce :: string
  rc_IssuedAt :: time
  rc_ExpiresAt :: time
  rc_OverlapUntil :: time
  rc_NewCredentialValidUntil :: time

text \<open>The identifiers that head every message of a rotation.\<close>

definition rotation_ids_bad :: "string list \<Rightarrow> bool" where
  "rotation_ids_bad ids \<longleftrightarrow> list_ex (\<lambda>value. ValidateIdentifier value \<noteq> None) ids"

definition CredentialRotationChallenge_Validate ::
  "time \<Rightarrow> CredentialRotationChallenge \<Rightarrow> error option" where
  "CredentialRotationChallenge_Validate now c =
     (if rotation_ids_bad [rc_AccountID c, rc_TunnelID c, rc_OperationID c, rc_ConnectorID c,
           rc_HostID c, rc_SessionID c]
         \<or> rc_ProcessGeneration c = 0 \<or> \<not> hashPattern (rc_TargetSetHash c)
         \<or> rc_OldCredentialGeneration c = 0
         \<or> rc_NewCredentialGeneration c \<noteq> rc_OldCredentialGeneration c + 1
         \<or> ValidateIdentityKey (rc_OldIdentityKeyID c) (rc_OldIdentityKeyThumbprint c) \<noteq> None
         \<or> \<not> validRotationNonce (rc_ChallengeNonce c) \<or> time_IsZero (rc_IssuedAt c)
         \<or> time_IsZero (rc_ExpiresAt c) \<or> time_IsZero (rc_OverlapUntil c)
         \<or> time_IsZero (rc_NewCredentialValidUntil c) \<or> \<not> time_After (rc_ExpiresAt c) (rc_IssuedAt c)
         \<or> \<not> time_After (rc_OverlapUntil c) (rc_ExpiresAt c)
         \<or> \<not> time_After (rc_NewCredentialValidUntil c) (rc_OverlapUntil c)
         \<or> 15 * Minute < time_Sub (rc_ExpiresAt c) (rc_IssuedAt c)
         \<or> MaxLease < time_Sub (rc_OverlapUntil c) (rc_IssuedAt c)
         \<or> MaxRotationCredentialLifetime < time_Sub (rc_NewCredentialValidUntil c) (rc_IssuedAt c)
      then Some ErrInvalidInput
      else if RotationTarget_Validate (rc_Target c) \<noteq> None
         \<or> rt_ConnectorID (rc_Target c) \<noteq> rc_ConnectorID c \<or> rt_HostID (rc_Target c) \<noteq> rc_HostID c
         \<or> rt_OldCredentialGeneration (rc_Target c) \<noteq> rc_OldCredentialGeneration c
         \<or> rt_NewCredentialGeneration (rc_Target c) \<noteq> rc_NewCredentialGeneration c
      then Some (codeError ErrIdentityMismatch ReasonAuthentication False
                   (Some (ErrorString ''rotation challenge target mismatch'')))
      else if \<not> time_IsZero now \<and> (time_After (rc_IssuedAt c) (time_Add now MaxClockSkew)
         \<or> MaxClockSkew < time_Sub now (rc_IssuedAt c) \<or> \<not> time_After (rc_ExpiresAt c) now
         \<or> \<not> time_After (rc_OverlapUntil c) now)
      then Some (codeError ErrCredentialExpired ReasonCredentialExpired True None)
      else None)"

record CredentialRotationProof =
  rp_AccountID :: string
  rp_TunnelID :: string
  rp_OperationID :: string
  rp_ConnectorID :: string
  rp_HostID :: string
  rp_SessionID :: string
  rp_ProcessGeneration :: uint64
  rp_TargetSetHash :: string
  rp_OldCredentialGeneration :: uint64
  rp_NewCredentialGeneration :: uint64
  rp_OldIdentityKeyID :: string
  rp_OldIdentityKeyThumbprint :: string
  rp_NewIdentityKeyID :: string
  rp_NewIdentityKeyThumbprint :: string
  rp_NewPublicKey :: string
  rp_NewCredentialReference :: string
  rp_ChallengeNonce :: string
  rp_IssuedAt :: time
  rp_NewCredentialValidUntil :: time
  rp_OldSignedProof :: string
  rp_NewSignedProof :: string

definition CredentialRotationProof_validate ::
  "('a golib_scheme) \<Rightarrow> CredentialRotationProof \<Rightarrow> error option" where
  "CredentialRotationProof_validate L p =
     (if rotation_ids_bad [rp_AccountID p, rp_TunnelID p, rp_OperationID p, rp_ConnectorID p,
           rp_HostID p, rp_SessionID p]
         \<or> rp_ProcessGeneration p = 0 \<or> \<not> hashPattern (rp_TargetSetHash p)
         \<or> rp_OldCredentialGeneration p = 0
         \<or> rp_NewCredentialGeneration p \<noteq> rp_OldCredentialGeneration p + 1
         \<or> ValidateIdentityKey (rp_OldIdentityKeyID p) (rp_OldIdentityKeyThumbprint p) \<noteq> None
         \<or> ValidateIdentityKey (rp_NewIdentityKeyID p) (rp_NewIdentityKeyThumbprint p) \<noteq> None
         \<or> rp_OldIdentityKeyID p = rp_NewIdentityKeyID p \<or> \<not> validRotationNonce (rp_ChallengeNonce p)
         \<or> time_IsZero (rp_IssuedAt p) \<or> time_IsZero (rp_NewCredentialValidUntil p)
         \<or> ValidateCredentialReference L (rp_NewCredentialReference p) \<noteq> None
         \<or> \<not> time_After (rp_NewCredentialValidUntil p) (rp_IssuedAt p)
         \<or> MaxRotationCredentialLifetime < time_Sub (rp_NewCredentialValidUntil p) (rp_IssuedAt p)
      then Some ErrInvalidInput
      else case decodeRotationPublicKey (rp_NewPublicKey p) of
        Inl err \<Rightarrow> Some err
      | Inr publicKey \<Rightarrow>
          if IdentityThumbprint L publicKey \<noteq> Inr (rp_NewIdentityKeyThumbprint p)
          then Some (codeError ErrIdentityMismatch ReasonAuthentication False
                       (Some (ErrorString ''new rotation key thumbprint mismatch'')))
          else None)"

definition CredentialRotationProof_Validate ::
  "('a golib_scheme) \<Rightarrow> time \<Rightarrow> CredentialRotationProof \<Rightarrow> error option" where
  "CredentialRotationProof_Validate L now p =
     (case CredentialRotationProof_validate L p of
        Some err \<Rightarrow> Some err
      | None \<Rightarrow>
          if ValidateProof (rp_OldSignedProof p) \<noteq> None \<or> ValidateProof (rp_NewSignedProof p) \<noteq> None
          then Some ErrInvalidInput
          else if \<not> time_IsZero now \<and> (time_After (rp_IssuedAt p) (time_Add now MaxClockSkew)
             \<or> MaxClockSkew < time_Sub now (rp_IssuedAt p))
          then Some (codeError ErrAuthenticationFailed ReasonAuthentication False
                       (Some (ErrorString ''rotation proof is outside clock skew'')))
          else None)"

definition rotation_transcript :: "CredentialRotationProof \<Rightarrow> rotationProofTranscript" where
  "rotation_transcript p =
     \<lparr>rtr_Domain = ''paperboat.connector.credential-rotation.v1'', rtr_Protocol = ProtocolName,
      rtr_Version = ProtocolVersion, rtr_AccountID = rp_AccountID p, rtr_TunnelID = rp_TunnelID p,
      rtr_OperationID = rp_OperationID p, rtr_ConnectorID = rp_ConnectorID p,
      rtr_HostID = rp_HostID p, rtr_SessionID = rp_SessionID p,
      rtr_ProcessGeneration = rp_ProcessGeneration p, rtr_TargetSetHash = rp_TargetSetHash p,
      rtr_OldCredentialGeneration = rp_OldCredentialGeneration p,
      rtr_NewCredentialGeneration = rp_NewCredentialGeneration p,
      rtr_OldIdentityKeyID = rp_OldIdentityKeyID p,
      rtr_OldIdentityKeyThumbprint = rp_OldIdentityKeyThumbprint p,
      rtr_NewIdentityKeyID = rp_NewIdentityKeyID p,
      rtr_NewIdentityKeyThumbprint = rp_NewIdentityKeyThumbprint p,
      rtr_NewPublicKey = rp_NewPublicKey p,
      rtr_NewCredentialReference = rp_NewCredentialReference p,
      rtr_ChallengeNonce = rp_ChallengeNonce p, rtr_IssuedAt = rp_IssuedAt p,
      rtr_NewCredentialValidUntil = rp_NewCredentialValidUntil p\<rparr>"

definition CredentialRotationProofPayload ::
  "('a rotlib_scheme) \<Rightarrow> CredentialRotationProof \<Rightarrow> error + string" where
  "CredentialRotationProofPayload L p =
     (case CredentialRotationProof_validate L p of
        Some err \<Rightarrow> Inl err
      | None \<Rightarrow> lib_MarshalRotation L (rotation_transcript p))"

text \<open>As in \<open>SignAuthProof\<close>, the signed proof is returned beside the error of its validation.\<close>

definition SignCredentialRotationProof ::
  "('a rotlib_scheme) \<Rightarrow> CredentialRotationProof \<Rightarrow> (string \<Rightarrow> string) \<Rightarrow> (string \<Rightarrow> string) \<Rightarrow>
     error + CredentialRotationProof \<times> error option" where
  "SignCredentialRotationProof L p oldSign newSign =
     (case CredentialRotationProofPayload L p of
        Inl err \<Rightarrow> Inl err
      | Inr payload \<Rightarrow>
          (case SignProofPayload payload oldSign of
             Inl err \<Rightarrow> Inl err
           | Inr old \<Rightarrow>
               (case SignProofPayload payload newSign of
                  Inl err \<Rightarrow> Inl err
                | Inr new \<Rightarrow>
                    (let p' = p\<lparr>rp_OldSignedProof := old, rp_NewSignedProof := new\<rparr>
                     in Inr (p', CredentialRotationProof_Validate L 0 p')))))"

text \<open>\<open>verifyOld\<close> is the caller's check of the old signature: proof, payload and signature.\<close>

definition VerifyCredentialRotationProofAt ::
  "('a rotlib_scheme) \<Rightarrow> CredentialRotationProof \<Rightarrow>
     (CredentialRotationProof \<Rightarrow> string \<Rightarrow> string \<Rightarrow> error option) \<Rightarrow> time \<Rightarrow> error option" where
  "VerifyCredentialRotationProofAt L p verifyOld now =
     (case CredentialRotationProof_Validate L now p of
        Some err \<Rightarrow> Some err
      | None \<Rightarrow>
     (case CredentialRotationProofPayload L p of
        Inl err \<Rightarrow> Some err
      | Inr payload \<Rightarrow>
     (case DecodeProof (rp_OldSignedProof p) of
        Inl err \<Rightarrow> Some err
      | Inr oldSignature \<Rightarrow>
     (case verifyOld p payload oldSignature of
        Some err \<Rightarrow> Some (codeError ErrAuthenticationFailed ReasonAuthentication False (Some err))
      | None \<Rightarrow>
     (case DecodeProof (rp_NewSignedProof p) of
        Inl err \<Rightarrow> Some err
      | Inr newSignature \<Rightarrow>
          (case decodeRotationPublicKey (rp_NewPublicKey p) of
             Inr publicKey \<Rightarrow>
               if lib_Ed25519Verify L publicKey payload newSignature then None
               else Some (codeError ErrAuthenticationFailed ReasonAuthentication False
                            (Some (ErrorString ''new rotation key proof failed'')))
           | Inl _ \<Rightarrow>
               Some (codeError ErrAuthenticationFailed ReasonAuthentication False
                       (Some (ErrorString ''new rotation key proof failed'')))))))))"

definition VerifyCredentialRotationProof ::
  "('a rotlib_scheme) \<Rightarrow> CredentialRotationProof \<Rightarrow>
     (CredentialRotationProof \<Rightarrow> string \<Rightarrow> string \<Rightarrow> error option) \<Rightarrow> time \<Rightarrow> error option" where
  "VerifyCredentialRotationProof L p verifyOld clock = VerifyCredentialRotationProofAt L p verifyOld clock"

section \<open>Install, ready, revoke and acknowledgement\<close>

record CredentialRotationInstall =
  ri_AccountID :: string
  ri_TunnelID :: string
  ri_OperationID :: string
  ri_ConnectorID :: string
  ri_HostID :: string
  ri_SessionID :: string
  ri_ProcessGeneration :: uint64
  ri_TargetSetHash :: string
  ri_OldCredentialGeneration :: uint64
  ri_NewCredentialGeneration :: uint64
  ri_NewIdentityKeyID :: string
  ri_NewIdentityKeyThumbprint :: string
  ri_NewPublicKey :: string
  ri_NewCredentialReference :: string
  ri_ChallengeNonce :: string
  ri_OverlapUntil :: time
  ri_NewCredentialValidUntil :: time
  ri_ReplacementProcessGeneration :: uint64

definition CredentialRotationInstall_Validate ::
  "('a golib_scheme) \<Rightarrow> time \<Rightarrow> CredentialRotationInstall \<Rightarrow> error option" where
  "CredentialRotationInstall_Validate L now i =
     (if rotation_ids_bad [ri_AccountID i, ri_TunnelID i, ri_OperationID i, ri_ConnectorID i,
           ri_HostID i, ri_SessionID i]
         \<or> ri_ProcessGeneration i = 0 \<or> ri_ReplacementProcessGeneration i \<le> ri_ProcessGeneration i
         \<or> \<not> hashPattern (ri_TargetSetHash i) \<or> ri_OldCredentialGeneration i = 0
         \<or> ri_NewCredentialGeneration i \<noteq> ri_OldCredentialGeneration i + 1
         \<or> ValidateIdentityKey (ri_NewIdentityKeyID i) (ri_NewIdentityKeyThumbprint i) \<noteq> None
         \<or> ValidateCredentialReference L (ri_NewCredentialReference i) \<noteq> None
         \<or> \<not> validRotationNonce (ri_ChallengeNonce i) \<or> time_IsZero (ri_OverlapUntil i)
         \<or> time_IsZero (ri_NewCredentialValidUntil i)
         \<or> \<not> time_After (ri_NewCredentialValidUntil i) (ri_OverlapUntil i)
         \<or> MaxRotationCredentialLifetime < time_Sub (ri_NewCredentialValidUntil i) (ri_OverlapUntil i)
      then Some ErrInvalidInput
      else case decodeRotationPublicKey (ri_NewPublicKey i) of
        Inl err \<Rightarrow> Some err
      | Inr publicKey \<Rightarrow>
          if IdentityThumbprint L publicKey \<noteq> Inr (ri_NewIdentityKeyThumbprint i)
          then Some ErrIdentityMismatch
          else if \<not> time_IsZero now \<and> \<not> time_After (ri_OverlapUntil i) now
          then Some (codeError ErrCredentialExpired ReasonCredentialExpired True None)
          else None)"

record CredentialRotationReady =
  rr_AccountID :: string
  rr_TunnelID :: string
  rr_OperationID :: string
  rr_ConnectorID :: string
  rr_HostID :: string
  rr_SessionID :: string
  rr_PreviousSessionID :: string
  rr_ProcessGeneration :: uint64
  rr_TargetSetHash :: string
  rr_OldCredentialGeneration :: uint64
  rr_NewCredentialGeneration :: uint64
  rr_NewIdentityKeyID :: string
  rr_NewIdentityKeyThumbprint :: string
  rr_NewPublicKey :: string
  rr_NewCredentialReference :: string
  rr_NewCredentialValidUntil :: time
  rr_ConfigGeneration :: uint64
  rr_ConfigContentHash :: string
  rr_EdgeReady :: bool
  rr_RouteReady :: bool
  rr_OriginReady :: bool
  rr_ReadyAt :: time

definition CredentialRotationReady_Validate ::
  "('a golib_scheme) \<Rightarrow> time \<Rightarrow> CredentialRotationReady \<Rightarrow> error option" where
  "CredentialRotationReady_Validate L now r =
     (if rotation_ids_bad [rr_AccountID r, rr_TunnelID r, rr_OperationID r, rr_ConnectorID r,
           rr_HostID r, rr_SessionID r, rr_PreviousSessionID r]
         \<or> rr_ProcessGeneration r = 0 \<or> \<not> hashPattern (rr_TargetSetHash r)
         \<or> rr_OldCredentialGeneration r = 0
         \<or> rr_NewCredentialGeneration r \<noteq> rr_OldCredentialGeneration r + 1
         \<or> ValidateIdentityKey (rr_NewIdentityKeyID r) (rr_NewIdentityKeyThumbprint r) \<noteq> None
         \<or> ValidateCredentialReference L (rr_NewCredentialReference r) \<noteq> None
         \<or> time_IsZero (rr_NewCredentialValidUntil r) \<or> rr_ConfigGeneration r = 0
         \<or> \<not> hashPattern (rr_ConfigContentHash r) \<or> time_IsZero (rr_ReadyAt r)
      then Some ErrInvalidInput
      else case decodeRotationPublicKey (rr_NewPublicKey r) of
        Inl err \<Rightarrow> Some err
      | Inr publicKey \<Rightarrow>
          if IdentityThumbprint L publicKey \<noteq> Inr (rr_NewIdentityKeyThumbprint r)
          then Some ErrIdentityMismatch
          else if \<not> rr_EdgeReady r \<or> \<not> rr_RouteReady r \<or> \<not> rr_OriginReady r
          then Some (codeError ErrCredentialRotationNotReady ReasonSnapshotRejected True None)
          else if \<not> time_IsZero now \<and> (\<not> time_After (rr_NewCredentialValidUntil r) now
             \<or> time_Before (rr_ReadyAt r) (time_Add now (- MaxClockSkew))
             \<or> time_After (rr_ReadyAt r) (time_Add now MaxClockSkew))
          then if \<not> time_After (rr_NewCredentialValidUntil r) now
               then Some (codeError ErrCredentialExpired ReasonCredentialExpired True None)
               else Some ErrInvalidInput
          else None)"

record CredentialRotationRevoke =
  rv_AccountID :: string
  rv_TunnelID :: string
  rv_OperationID :: string
  rv_ConnectorID :: string
  rv_HostID :: string
  rv_SessionID :: string
  rv_ProcessGeneration :: uint64
  rv_TargetSetHash :: string
  rv_OldCredentialGeneration :: uint64
  rv_NewCredentialGeneration :: uint64
  rv_RevokeNonce :: string
  rv_IssuedAt :: time
  rv_Deadline :: time

definition CredentialRotationRevoke_Validate ::
  "time \<Rightarrow> CredentialRotationRevoke \<Rightarrow> error option" where
  "CredentialRotationRevoke_Validate now r =
     (if rotation_ids_bad [rv_AccountID r, rv_TunnelID r, rv_OperationID r, rv_ConnectorID r,
           rv_HostID r, rv_SessionID r]
         \<or> rv_ProcessGeneration r = 0 \<or> \<not> hashPattern (rv_TargetSetHash r)
         \<or> rv_OldCredentialGeneration r = 0
         \<or> rv_NewCredentialGeneration r \<noteq> rv_OldCredentialGeneration r + 1
         \<or> \<not> validRotationNonce (rv_RevokeNonce r) \<or> time_IsZero (rv_IssuedAt r)
         \<or> time_IsZero (rv_Deadline r) \<or> \<not> time_After (rv_Deadline r) (rv_IssuedAt r)
         \<or> DefaultAbortTimeout * 2 < time_Sub (rv_Deadline r) (rv_IssuedAt r)
      then Some ErrInvalidInput
      else if \<not> time_IsZero now \<and> (time_After (rv_IssuedAt r) (time_Add now MaxClockSkew)
         \<or> \<not> time_After (rv_Deadline r) now)
      then Some (codeError ErrCredentialExpired ReasonCredentialExpired True None)
      else None)"

datatype RotationAckStatus =
  RotationAckProofAccepted | RotationAckInstalled | RotationAckReady | RotationAckRevoked
  | RotationAckRejected | RotationAckFailed | RotationAckStatusOther string

record CredentialRotationAck =
  ra_AccountID :: string
  ra_TunnelID :: string
  ra_OperationID :: string
  ra_ConnectorID :: string
  ra_HostID :: string
  ra_SessionID :: string
  ra_ProcessGeneration :: uint64
  ra_TargetSetHash :: string
  ra_OldCredentialGeneration :: uint64
  ra_NewCredentialGeneration :: uint64
  ra_Status :: RotationAckStatus
  ra_Code :: Code
  ra_Message :: string

definition CredentialRotationAck_Validate :: "CredentialRotationAck \<Rightarrow> error option" where
  "CredentialRotationAck_Validate a =
     (if rotation_ids_bad [ra_AccountID a, ra_TunnelID a, ra_OperationID a, ra_ConnectorID a,
           ra_HostID a, ra_SessionID a]
         \<or> ra_ProcessGeneration a = 0 \<or> \<not> hashPattern (ra_TargetSetHash a)
         \<or> ra_OldCredentialGeneration a = 0
         \<or> ra_NewCredentialGeneration a \<noteq> ra_OldCredentialGeneration a + 1
         \<or> MaxRotationMessage < length (ra_Message a)
      then Some ErrInvalidInput
      else if ra_Status a \<in> {RotationAckProofAccepted, RotationAckInstalled, RotationAckReady,
           RotationAckRevoked}
      then if ra_Code a \<noteq> CodeEmpty then Some ErrInvalidInput else None
      else if ra_Status a \<in> {RotationAckRejected, RotationAckFailed}
      then if ra_Code a = CodeEmpty \<or> \<not> validCode (ra_Code a) then Some ErrInvalidInput else None
      else Some ErrInvalidInput)"

section \<open>Summaries\<close>

datatype RotationTargetState =
  RotationTargetPending | RotationTargetChallenged | RotationTargetInstalled | RotationTargetReady
  | RotationTargetRevoking | RotationTargetRevoked | RotationTargetFailed
  | RotationTargetStateOther string

definition validRotationTargetState :: "RotationTargetState \<Rightarrow> bool" where
  "validRotationTargetState state =
     (case state of RotationTargetStateOther _ \<Rightarrow> False | _ \<Rightarrow> True)"

datatype RotationAggregateStatus =
  RotationAggregatePending | RotationAggregateSucceeded | RotationAggregateFailed
  | RotationAggregateOther string

record RotationTargetSummary =
  rts_Target :: RotationTarget
  rts_State :: RotationTargetState
  rts_Code :: Code

record RotationSummary =
  rs_AccountID :: string
  rs_TunnelID :: string
  rs_OperationID :: string
  rs_TargetSetHash :: string
  rs_Status :: RotationAggregateStatus
  rs_Targets :: "RotationTargetSummary list"
  rs_CompletedAt :: time

end
