(* ===== verification/Connector_Frames.thy ===== *)
theory Connector_Frames
  imports Rotation_Messages
begin

unbundle bit_operations_syntax

text \<open>
  The frame codec of the connector protocol
  (\<open>src/internal/connectorprotocol/protocol.go\<close>, lines 403 to 742).

  The typed decoders and the encoder of \<open>encoding/json\<close> are parameters, one decoder per message
  type: a decoder returns the error of \<open>Decode\<close>, or the value and whether the next \<open>Decode\<close> reports
  the end of the input. A reader is the byte string it still delivers before the end of its input;
  a writer is a state with the function that \<open>Write\<close> is on it.
\<close>

section \<open>Message types\<close>

datatype MessageType =
    MessageHello
  | MessageWelcome
  | MessageSnapshot
  | MessageDelta
  | MessageAck
  | MessageReady
  | MessageHeartbeat
  | MessageHeartbeatAck
  | MessageAuthRenew
  | MessageAuthRenewed
  | MessageDrain
  | MessageDrainAck
  | MessageCredentialRotationChallenge
  | MessageCredentialRotationProof
  | MessageCredentialRotationInstall
  | MessageCredentialRotationReady
  | MessageCredentialRotationRevoke
  | MessageCredentialRotationAck
  | MessageDisconnect
  | MessageReject
  | MessageTypeOther string

text \<open>The string that a message type is on the wire.\<close>

primrec messageType_string :: "MessageType \<Rightarrow> string" where
  "messageType_string MessageHello = ''hello''"
| "messageType_string MessageWelcome = ''welcome''"
| "messageType_string MessageSnapshot = ''snapshot''"
| "messageType_string MessageDelta = ''delta''"
| "messageType_string MessageAck = ''ack''"
| "messageType_string MessageReady = ''ready''"
| "messageType_string MessageHeartbeat = ''heartbeat''"
| "messageType_string MessageHeartbeatAck = ''heartbeat_ack''"
| "messageType_string MessageAuthRenew = ''auth_renew''"
| "messageType_string MessageAuthRenewed = ''auth_renewed''"
| "messageType_string MessageDrain = ''drain''"
| "messageType_string MessageDrainAck = ''drain_ack''"
| "messageType_string MessageCredentialRotationChallenge = ''credential_rotation_challenge''"
| "messageType_string MessageCredentialRotationProof = ''credential_rotation_proof''"
| "messageType_string MessageCredentialRotationInstall = ''credential_rotation_install''"
| "messageType_string MessageCredentialRotationReady = ''credential_rotation_ready''"
| "messageType_string MessageCredentialRotationRevoke = ''credential_rotation_revoke''"
| "messageType_string MessageCredentialRotationAck = ''credential_rotation_ack''"
| "messageType_string MessageDisconnect = ''disconnect''"
| "messageType_string MessageReject = ''reject''"
| "messageType_string (MessageTypeOther s) = s"

definition allowedMessageTypes :: "MessageType \<Rightarrow> bool" where
  "allowedMessageTypes t \<longleftrightarrow> (case t of MessageTypeOther _ \<Rightarrow> False | _ \<Rightarrow> True)"

record Frame =
  frame_Type :: MessageType
  frame_Version :: string
  frame_RequestID :: string
  frame_Payload :: string

text \<open>A value of type \<open>any\<close> that \<open>NewFrame\<close> is given: one of the messages, or something else.\<close>

datatype message =
    MsgHello Hello
  | MsgWelcome Welcome
  | MsgSnapshot Snapshot
  | MsgDelta Delta
  | MsgAck Ack
  | MsgReady Readiness
  | MsgHeartbeat Heartbeat
  | MsgHeartbeatAck HeartbeatAck
  | MsgAuthRenew RenewalRequest
  | MsgAuthRenewed AuthResult
  | MsgDrain Drain
  | MsgDrainAck DrainAck
  | MsgCredentialRotationChallenge CredentialRotationChallenge
  | MsgCredentialRotationProof CredentialRotationProof
  | MsgCredentialRotationInstall CredentialRotationInstall
  | MsgCredentialRotationReady CredentialRotationReady
  | MsgCredentialRotationRevoke CredentialRotationRevoke
  | MsgCredentialRotationAck CredentialRotationAck
  | MsgDisconnect Disconnect
  | MsgReject Reject
  | MsgOther

type_synonym 't decoder = "string \<Rightarrow> error + 't \<times> bool"

record framelib = rotlib +
  lib_JSONValid :: "string \<Rightarrow> bool"
  lib_Marshal :: "message \<Rightarrow> error + string"
  lib_Compact :: "string \<Rightarrow> error + string"
  lib_DecodeFrame :: "Frame decoder"
  lib_DecodeHello :: "Hello decoder"
  lib_DecodeWelcome :: "Welcome decoder"
  lib_DecodeSnapshot :: "Snapshot decoder"
  lib_DecodeDelta :: "Delta decoder"
  lib_DecodeAck :: "Ack decoder"
  lib_DecodeReady :: "Readiness decoder"
  lib_DecodeHeartbeat :: "Heartbeat decoder"
  lib_DecodeHeartbeatAck :: "HeartbeatAck decoder"
  lib_DecodeAuthRenew :: "RenewalRequest decoder"
  lib_DecodeAuthRenewed :: "AuthResult decoder"
  lib_DecodeDrain :: "Drain decoder"
  lib_DecodeDrainAck :: "DrainAck decoder"
  lib_DecodeCredentialRotationChallenge :: "CredentialRotationChallenge decoder"
  lib_DecodeCredentialRotationProof :: "CredentialRotationProof decoder"
  lib_DecodeCredentialRotationInstall :: "CredentialRotationInstall decoder"
  lib_DecodeCredentialRotationReady :: "CredentialRotationReady decoder"
  lib_DecodeCredentialRotationRevoke :: "CredentialRotationRevoke decoder"
  lib_DecodeCredentialRotationAck :: "CredentialRotationAck decoder"
  lib_DecodeDisconnect :: "Disconnect decoder"
  lib_DecodeReject :: "Reject decoder"

section \<open>Decoding\<close>

definition decodeStrict :: "('a golib_scheme) \<Rightarrow> 't decoder \<Rightarrow> string \<Rightarrow> error + 't" where
  "decodeStrict L decode data =
     (if length data = 0 \<or> MaxFrameBytes < length data \<or> rejectDuplicateKeys L data \<noteq> None
      then Inl ErrMalformedFrame
      else case decode data of
        Inl err \<Rightarrow> Inl err
      | Inr (value, eof) \<Rightarrow> if \<not> eof then Inl (ErrorString ''trailing JSON'') else Inr value)"

definition validatePayloadJSON :: "('a framelib_scheme) \<Rightarrow> string \<Rightarrow> error option" where
  "validatePayloadJSON L data =
     (if length data = 0 \<or> MaxFrameBytes < length data \<or> \<not> lib_JSONValid L data
      then Some ErrMalformedFrame
      else if rejectDuplicateKeys L data \<noteq> None then Some ErrMalformedFrame
      else None)"

text \<open>One arm of the switch: a payload that does not decode is malformed, else the message decides.\<close>

definition decode_validate ::
  "('a golib_scheme) \<Rightarrow> 't decoder \<Rightarrow> ('t \<Rightarrow> error option) \<Rightarrow> string \<Rightarrow> error option" where
  "decode_validate L decode validate payload =
     (case decodeStrict L decode payload of Inl _ \<Rightarrow> Some ErrMalformedFrame | Inr m \<Rightarrow> validate m)"

definition validateMessagePayload :: "('a framelib_scheme) \<Rightarrow> MessageType \<Rightarrow> string \<Rightarrow> error option" where
  "validateMessagePayload L messageType payload =
     (case messageType of
        MessageHello \<Rightarrow> decode_validate L (lib_DecodeHello L) (\<lambda>m. Hello_Validate 0 m) payload
      | MessageWelcome \<Rightarrow> decode_validate L (lib_DecodeWelcome L) (\<lambda>m. Welcome_Validate 0 m) payload
      | MessageSnapshot \<Rightarrow> decode_validate L (lib_DecodeSnapshot L) (\<lambda>m. Snapshot_ValidateBound L m) payload
      | MessageDelta \<Rightarrow> decode_validate L (lib_DecodeDelta L) (\<lambda>m. Delta_ValidateBound L m) payload
      | MessageAck \<Rightarrow> decode_validate L (lib_DecodeAck L) (\<lambda>m. Ack_Validate m) payload
      | MessageReady \<Rightarrow> decode_validate L (lib_DecodeReady L) (\<lambda>m. Readiness_Validate m) payload
      | MessageHeartbeat \<Rightarrow> decode_validate L (lib_DecodeHeartbeat L) (\<lambda>m. Heartbeat_Validate m) payload
      | MessageHeartbeatAck \<Rightarrow> decode_validate L (lib_DecodeHeartbeatAck L) (\<lambda>m. HeartbeatAck_Validate 0 m) payload
      | MessageAuthRenew \<Rightarrow> decode_validate L (lib_DecodeAuthRenew L) (\<lambda>m. RenewalRequest_Validate m) payload
      | MessageAuthRenewed \<Rightarrow> decode_validate L (lib_DecodeAuthRenewed L) (\<lambda>m. AuthResult_ValidateBound m) payload
      | MessageDrain \<Rightarrow> decode_validate L (lib_DecodeDrain L) (\<lambda>m. Drain_Validate 0 m) payload
      | MessageDrainAck \<Rightarrow> decode_validate L (lib_DecodeDrainAck L) (\<lambda>m. DrainAck_Validate 0 m) payload
      | MessageCredentialRotationChallenge \<Rightarrow> decode_validate L (lib_DecodeCredentialRotationChallenge L) (\<lambda>m. CredentialRotationChallenge_Validate 0 m) payload
      | MessageCredentialRotationProof \<Rightarrow> decode_validate L (lib_DecodeCredentialRotationProof L) (\<lambda>m. CredentialRotationProof_Validate L 0 m) payload
      | MessageCredentialRotationInstall \<Rightarrow> decode_validate L (lib_DecodeCredentialRotationInstall L) (\<lambda>m. CredentialRotationInstall_Validate L 0 m) payload
      | MessageCredentialRotationReady \<Rightarrow> decode_validate L (lib_DecodeCredentialRotationReady L) (\<lambda>m. CredentialRotationReady_Validate L 0 m) payload
      | MessageCredentialRotationRevoke \<Rightarrow> decode_validate L (lib_DecodeCredentialRotationRevoke L) (\<lambda>m. CredentialRotationRevoke_Validate 0 m) payload
      | MessageCredentialRotationAck \<Rightarrow> decode_validate L (lib_DecodeCredentialRotationAck L) (\<lambda>m. CredentialRotationAck_Validate m) payload
      | MessageDisconnect \<Rightarrow> decode_validate L (lib_DecodeDisconnect L) (\<lambda>m. Disconnect_Validate m) payload
      | MessageReject \<Rightarrow> decode_validate L (lib_DecodeReject L) (\<lambda>m. Reject_Validate m) payload
      | MessageTypeOther _ \<Rightarrow> Some ErrUnsupportedMessage)"

section \<open>Frames\<close>

definition validRequestID :: "string \<Rightarrow> bool" where
  "validRequestID value \<longleftrightarrow>
     1 \<le> length value \<and> length value \<le> MaxIdentifierBytes \<and> identifierPattern value"

definition maxPayloadBytes :: "MessageType \<Rightarrow> nat" where
  "maxPayloadBytes messageType =
     (case messageType of
        MessageSnapshot \<Rightarrow> MaxSnapshotBytes + 16 * 2 ^ 10
      | MessageDelta \<Rightarrow> MaxDeltaBytes + 16 * 2 ^ 10
      | _ \<Rightarrow> 64 * 2 ^ 10)"

definition payloadTooLarge :: "MessageType \<Rightarrow> message \<Rightarrow> bool" where
  "payloadTooLarge messageType payload =
     (case (messageType, payload) of
        (MessageSnapshot, MsgSnapshot value) \<Rightarrow> MaxSnapshotBytes < length (snap_Payload value)
      | (MessageDelta, MsgDelta value) \<Rightarrow> MaxDeltaBytes < length (delta_Payload value)
      | _ \<Rightarrow> False)"

definition NewFrame ::
  "('a framelib_scheme) \<Rightarrow> MessageType \<Rightarrow> string \<Rightarrow> message \<Rightarrow> error + Frame" where
  "NewFrame L messageType requestID payload =
     (if \<not> allowedMessageTypes messageType \<or> \<not> validRequestID requestID then Inl ErrInvalidInput
      else case lib_Marshal L payload of
        Inl err \<Rightarrow> Inl (codeError ErrInvalidInput ReasonMalformed False (Some err))
      | Inr encoded \<Rightarrow>
          if payloadTooLarge messageType payload then Inl ErrFrameTooLarge
          else if maxPayloadBytes messageType < length encoded then Inl ErrFrameTooLarge
          else case validatePayloadJSON L encoded of
            Some err \<Rightarrow> Inl err
          | None \<Rightarrow>
              (case validateMessagePayload L messageType encoded of
                 Some err \<Rightarrow> Inl err
               | None \<Rightarrow>
                   Inr \<lparr>frame_Type = messageType, frame_Version = ProtocolVersion,
                        frame_RequestID = requestID, frame_Payload = encoded\<rparr>))"

definition Frame_Validate :: "('a framelib_scheme) \<Rightarrow> Frame \<Rightarrow> error option" where
  "Frame_Validate L f =
     (if \<not> allowedMessageTypes (frame_Type f)
      then Some (codeError ErrUnsupportedMessage ReasonMalformed False None)
      else if frame_Version f \<noteq> ProtocolVersion \<or> \<not> validRequestID (frame_RequestID f)
         \<or> length (frame_Payload f) = 0 \<or> maxPayloadBytes (frame_Type f) < length (frame_Payload f)
      then Some ErrMalformedFrame
      else case validatePayloadJSON L (frame_Payload f) of
        Some err \<Rightarrow> Some err
      | None \<Rightarrow> validateMessagePayload L (frame_Type f) (frame_Payload f))"

definition Frame_DecodePayload ::
  "('a framelib_scheme) \<Rightarrow> Frame \<Rightarrow> 't decoder \<Rightarrow> error + 't" where
  "Frame_DecodePayload L f decode =
     (case Frame_Validate L f of
        Some err \<Rightarrow> Inl err
      | None \<Rightarrow> decodeStrict L decode (frame_Payload f))"

text \<open>
  \<open>json.Marshal\<close> of a frame: its members in the order of the struct. The payload is a
  \<open>json.RawMessage\<close>, which \<open>encoding/json\<close> copies without its insignificant space and with \<open><\<close>, \<open>>\<close> and
  \<open>&\<close> escaped; \<open>lib_Compact\<close> is this copy, which fails on a text that is not JSON.
\<close>

definition frame_text :: "('a framelib_scheme) \<Rightarrow> Frame \<Rightarrow> string \<Rightarrow> string" where
  "frame_text L f payload =
     ''{'' @ Join '',''
       [lib_JSONQuote L ''type'' @ '':'' @ lib_JSONQuote L (messageType_string (frame_Type f)),
        lib_JSONQuote L ''version'' @ '':'' @ lib_JSONQuote L (frame_Version f),
        lib_JSONQuote L ''request_id'' @ '':'' @ lib_JSONQuote L (frame_RequestID f),
        lib_JSONQuote L ''payload'' @ '':'' @ payload] @ ''}''"

definition MarshalFrame :: "('a framelib_scheme) \<Rightarrow> Frame \<Rightarrow> error + string" where
  "MarshalFrame L f =
     (case lib_Compact L (frame_Payload f) of
        Inl err \<Rightarrow> Inl err
      | Inr payload \<Rightarrow> Inr (frame_text L f payload))"

section \<open>Reading and writing\<close>

text \<open>\<open>binary.BigEndian\<close> on four bytes.\<close>

definition PutUint32 :: "uint32 \<Rightarrow> string" where
  "PutUint32 w = map (\<lambda>k. char_of (unat (drop_bit k w) mod 256)) [24, 16, 8, 0]"

definition Uint32 :: "string \<Rightarrow> uint32" where
  "Uint32 bs = foldl (\<lambda>w b. push_bit 8 w OR of_nat (of_char b)) 0 bs"

text \<open>
  \<open>io.ReadFull\<close>: exactly \<open>n\<close> bytes, or the error for an input that ends before them, which is
  consumed then.
\<close>

definition ReadFull :: "nat \<Rightarrow> string \<Rightarrow> (error + string) \<times> string" where
  "ReadFull n input =
     (if n \<le> length input then (Inr (take n input), drop n input)
      else (Inl (ErrorString (if input = [] then ''EOF'' else ''unexpected EOF'')), []))"

definition ReadFrame :: "('a framelib_scheme) \<Rightarrow> string \<Rightarrow> (error + Frame) \<times> string" where
  "ReadFrame L input =
     (case ReadFull 4 input of
        (Inl err, rest) \<Rightarrow> (Inl (codeError ErrMalformedFrame ReasonMalformed False (Some err)), rest)
      | (Inr header, rest) \<Rightarrow>
     (let len = Uint32 header in
      if len = 0 then (Inl ErrMalformedFrame, rest)
      else if MaxFrameBytes < unat len then (Inl ErrFrameTooLarge, rest)
      else
     (case ReadFull (unat len) rest of
        (Inl err, rest') \<Rightarrow> (Inl (codeError ErrMalformedFrame ReasonMalformed False (Some err)), rest')
      | (Inr body, rest') \<Rightarrow>
          (if \<not> lib_JSONValid L body \<or> rejectDuplicateKeys L body \<noteq> None then Inl ErrMalformedFrame
           else case decodeStrict L (lib_DecodeFrame L) body of
             Inl err \<Rightarrow> Inl (codeError ErrMalformedFrame ReasonMalformed False (Some err))
           | Inr frame \<Rightarrow>
               (case Frame_Validate L frame of Some err \<Rightarrow> Inl err | None \<Rightarrow> Inr frame), rest'))))"

text \<open>A writer answers \<open>Write\<close> with the number of bytes taken and an error.\<close>

type_synonym 'w writer = "'w \<Rightarrow> string \<Rightarrow> (int \<times> error option) \<times> 'w"

definition ErrShortWrite :: error where "ErrShortWrite = ErrorString ''short write''"

function writeAll :: "'w writer \<Rightarrow> 'w \<Rightarrow> string \<Rightarrow> error option \<times> 'w" where
  "writeAll wr w data =
     (if length data = 0 then (None, w)
      else case wr w data of
        ((n, Some err), w') \<Rightarrow> (Some err, w')
      | ((n, None), w') \<Rightarrow>
          if n \<le> 0 \<or> int (length data) < n then (Some ErrShortWrite, w')
          else writeAll wr w' (drop (nat n) data))"
  by pat_completeness auto
termination writeAll
  by (relation "measure (\<lambda>(wr, w, data). length data)") auto

declare writeAll.simps [simp del]

definition WriteFrame ::
  "('a framelib_scheme) \<Rightarrow> 'w writer \<Rightarrow> 'w \<Rightarrow> Frame \<Rightarrow> error option \<times> 'w" where
  "WriteFrame L wr w frame =
     (case Frame_Validate L frame of
        Some err \<Rightarrow> (Some err, w)
      | None \<Rightarrow>
     (case MarshalFrame L frame of
        Inl err \<Rightarrow> (Some (codeError ErrMalformedFrame ReasonMalformed False (Some err)), w)
      | Inr body \<Rightarrow>
          if MaxFrameBytes < length body then (Some ErrFrameTooLarge, w)
          else case writeAll wr w (PutUint32 (of_nat (length body))) of
            (Some err, w') \<Rightarrow> (Some err, w')
          | (None, w') \<Rightarrow> writeAll wr w' body))"

section \<open>Properties\<close>

text \<open>The document of a frame, around the document of its payload.\<close>

definition frame_document :: "Frame \<Rightarrow> json \<Rightarrow> json" where
  "frame_document f doc =
     JObject [(''type'', JString (messageType_string (frame_Type f))), (''version'', JString (frame_Version f)),
              (''request_id'', JString (frame_RequestID f)), (''payload'', doc)]"

lemma of_char_char_of_mod: "of_nat (of_char (char_of (n mod 256))) = (of_nat (n mod 256) :: uint32)"
  by (simp add: of_char_of)

lemma byte_of_word: "of_nat (unat (x :: uint32) mod 256) = take_bit 8 x"
proof -
  have "unat x mod 256 = unat (x mod 256)" by (simp add: unat_mod)
  then show ?thesis by (simp add: take_bit_eq_mod)
qed

lemma Uint32_PutUint32: "Uint32 (PutUint32 w) = w"
proof -
  have "Uint32 (PutUint32 w) =
    push_bit 8 (push_bit 8 (push_bit 8 (take_bit 8 (drop_bit 24 w)) OR take_bit 8 (drop_bit 16 w))
      OR take_bit 8 (drop_bit 8 w)) OR take_bit 8 w"
    by (simp add: Uint32_def PutUint32_def of_char_char_of_mod byte_of_word)
  also have "\<dots> = w"
  proof (rule bit_word_eqI)
    fix n assume "n < LENGTH(32)"
    consider "n < 8" | "8 \<le> n" "n < 16" | "16 \<le> n" "n < 24" | "24 \<le> n" by linarith
    then show "bit (push_bit 8 (push_bit 8 (push_bit 8 (take_bit 8 (drop_bit 24 w)) OR take_bit 8 (drop_bit 16 w))
      OR take_bit 8 (drop_bit 8 w)) OR take_bit 8 w) n = bit w n"
      using \<open>n < LENGTH(32)\<close> by cases (auto simp: bit_simps)
  qed
  finally show ?thesis .
qed

lemma length_PutUint32 [simp]: "length (PutUint32 w) = 4"
  by (simp add: PutUint32_def)

lemma ReadFull_append: "length xs = n \<Longrightarrow> ReadFull n (xs @ ys) = (Inr xs, ys)"
  by (auto simp: ReadFull_def)

lemma writeAll_step:
  "data \<noteq> [] \<Longrightarrow> wr w data = ((n, None), w') \<Longrightarrow> 0 < n \<Longrightarrow> n \<le> int (length data) \<Longrightarrow>
     writeAll wr w data = writeAll wr w' (drop (nat n) data)"
  by (subst writeAll.simps) simp

lemma writeAll_None:
  assumes "writeAll wr w data = (None, w')" and "data \<noteq> []"
  obtains n w1 where "wr w data = ((n, None), w1)" "0 < n" "n \<le> int (length data)"
    "writeAll wr w1 (drop (nat n) data) = (None, w')"
  using assms by (subst (asm) writeAll.simps) (auto split: prod.splits option.splits if_splits)

lemma writeAll_contents:
  assumes law: "\<And>w data n w'. wr w data = ((n, None), w') \<Longrightarrow> 0 < n \<Longrightarrow> n \<le> int (length data) \<Longrightarrow>
      contents w' = contents w @ take (nat n) data"
    and "writeAll wr w data = (None, w')"
  shows "contents w' = contents w @ data"
  using assms(2)
proof (induction "length data" arbitrary: w data rule: less_induct)
  case less
  show ?case
  proof (cases "data = []")
    case True
    with less.prems show ?thesis by (subst (asm) writeAll.simps) simp
  next
    case False
    from less.prems False obtain n w1 where n: "wr w data = ((n, None), w1)" "0 < n"
      "n \<le> int (length data)" "writeAll wr w1 (drop (nat n) data) = (None, w')"
      by (rule writeAll_None)
    then have "contents w' = contents w1 @ drop (nat n) data" using False by (intro less.hyps) auto
    with law [OF n(1-3)] show ?thesis by simp
  qed
qed

lemma writeAll_done:
  assumes law: "\<And>w data. data \<noteq> [] \<Longrightarrow> \<exists>n w'. wr w data = ((n, None), w') \<and> 0 < n \<and> n \<le> int (length data)"
  shows "\<exists>w'. writeAll wr w data = (None, w')"
proof (induction "length data" arbitrary: w data rule: less_induct)
  case less
  show ?case
  proof (cases "data = []")
    case True
    then show ?thesis by (subst writeAll.simps) simp
  next
    case False
    with law obtain n w1 where n: "wr w data = ((n, None), w1)" "0 < n" "n \<le> int (length data)" by blast
    then have "\<exists>w'. writeAll wr w1 (drop (nat n) data) = (None, w')" using False by (intro less.hyps) auto
    with writeAll_step [where wr = wr, OF False n] show ?thesis by simp
  qed
qed

lemma ReadFull_cases:
  obtains (full) xs ys where "ReadFull n input = (Inr xs, ys)" "input = xs @ ys" "length xs = n"
  | (short) err where "ReadFull n input = (Inl err, [])" "length input < n"
proof (cases "n \<le> length input")
  case True
  with full [of "take n input" "drop n input"] show thesis by (simp add: ReadFull_def)
next
  case False
  with short show thesis by (simp add: ReadFull_def)
qed

lemma rejectDuplicateKeys_frame:
  assumes "lib_JSONTokens L body = tokens_of (frame_document frame doc)"
  shows "rejectDuplicateKeys L body = None \<longleftrightarrow> json_ok 1 doc"
  using rejectDuplicateKeys_tokens [OF assms] by (simp add: frame_document_def MaxJSONDepth_def)

lemma WriteFrame_None:
  assumes "WriteFrame L wr w frame = (None, w')"
  obtains body w1 where "Frame_Validate L frame = None" "MarshalFrame L frame = Inr body"
    "length body \<le> MaxFrameBytes" "writeAll wr w (PutUint32 (of_nat (length body))) = (None, w1)"
    "writeAll wr w1 body = (None, w')"
proof -
  from assms obtain body where b: "Frame_Validate L frame = None" "MarshalFrame L frame = Inr body"
    "length body \<le> MaxFrameBytes"
    by (cases "Frame_Validate L frame"; cases "MarshalFrame L frame")
       (auto simp: WriteFrame_def split: if_splits)
  obtain err w1 where w1: "writeAll wr w (PutUint32 (of_nat (length body))) = (err, w1)"
    by (cases "writeAll wr w (PutUint32 (of_nat (length body)))")
  with assms b have "err = None" by (cases err) (simp_all add: WriteFrame_def)
  with assms b w1 that show thesis by (simp add: WriteFrame_def)
qed

lemma unat_frame_length: "n \<le> MaxFrameBytes \<Longrightarrow> unat (of_nat n :: uint32) = n"
  by (simp add: unat_of_nat MaxFrameBytes_def MaxSnapshotBytes_def)

lemma ReadFrame_body:
  assumes "0 < length body" and "length body \<le> MaxFrameBytes"
  shows "ReadFrame L (PutUint32 (of_nat (length body)) @ body @ rest) =
    (if \<not> lib_JSONValid L body \<or> rejectDuplicateKeys L body \<noteq> None then Inl ErrMalformedFrame
     else case decodeStrict L (lib_DecodeFrame L) body of
       Inl err \<Rightarrow> Inl (codeError ErrMalformedFrame ReasonMalformed False (Some err))
     | Inr frame \<Rightarrow> (case Frame_Validate L frame of Some err \<Rightarrow> Inl err | None \<Rightarrow> Inr frame), rest)"
proof -
  have "(of_nat (length body) :: uint32) \<noteq> 0"
    using unat_frame_length [OF assms(2)] assms(1) by (metis less_nat_zero_code unat_0)
  then show ?thesis
    using assms
    by (simp add: ReadFrame_def ReadFull_append Uint32_PutUint32 Let_def unat_frame_length)
qed

text \<open>A library that knows one message, its text and the text of its frame.\<close>

definition sample_disconnect :: Disconnect where
  "sample_disconnect =
     \<lparr>disc_AccountID = ''acc_1'', disc_TunnelID = ''tun_1'', disc_ConnectorID = ''con_1'',
      disc_SessionID = ''ses_1'', disc_ProcessGeneration = 1, disc_Reason = ReasonServerShutdown,
      disc_Retryable = True, disc_Message = ''bye''\<rparr>"

definition sample_frame :: Frame where
  "sample_frame =
     \<lparr>frame_Type = MessageDisconnect, frame_Version = ProtocolVersion, frame_RequestID = ''req_1'',
      frame_Payload = ''payload''\<rparr>"

definition sample_payload_document :: json where
  "sample_payload_document = JObject [(''message'', JString ''bye'')]"

definition no_decoder :: "'t decoder" where "no_decoder data = Inl ErrMalformedFrame"

definition sample_frame_text :: string where
  "sample_frame_text =
     ''{'' @ Join '',''
       [sample_quote ''type'' @ '':'' @ sample_quote ''disconnect'', sample_quote ''version'' @ '':'' @ sample_quote ProtocolVersion,
        sample_quote ''request_id'' @ '':'' @ sample_quote ''req_1'', sample_quote ''payload'' @ '':'' @ ''payload''] @ ''}''"

definition sample_framelib :: framelib where
  "sample_framelib =
     \<lparr>lib_URLParse = lib_URLParse sample_base, lib_Sum256 = lib_Sum256 sample_base,
      lib_JSONTokens = (\<lambda>s. if s = ''payload'' then tokens_of sample_payload_document
         else if s = sample_frame_text then tokens_of (frame_document sample_frame sample_payload_document) else [TBad]),
      lib_JSONQuote = sample_quote, lib_DecodeConfig = lib_DecodeConfig sample_base,
      lib_MarshalTranscript = (\<lambda>_. Inr []), lib_MarshalPlan = (\<lambda>_. Inr []),
      lib_MarshalRotation = (\<lambda>_. Inr []), lib_Ed25519Verify = (\<lambda>_ _ _. False),
      lib_JSONValid = (\<lambda>s. s = ''payload'' \<or> s = sample_frame_text),
      lib_Marshal = (\<lambda>m. if m = MsgDisconnect sample_disconnect then Inr ''payload'' else Inl ErrInvalidInput),
      lib_Compact = (\<lambda>s. if s = ''payload'' then Inr s else Inl ErrInvalidInput),
      lib_DecodeFrame = (\<lambda>s. if s = sample_frame_text then Inr (sample_frame, True) else Inl ErrMalformedFrame),
      lib_DecodeHello = no_decoder, lib_DecodeWelcome = no_decoder, lib_DecodeSnapshot = no_decoder,
      lib_DecodeDelta = no_decoder, lib_DecodeAck = no_decoder, lib_DecodeReady = no_decoder,
      lib_DecodeHeartbeat = no_decoder, lib_DecodeHeartbeatAck = no_decoder,
      lib_DecodeAuthRenew = no_decoder, lib_DecodeAuthRenewed = no_decoder, lib_DecodeDrain = no_decoder,
      lib_DecodeDrainAck = no_decoder, lib_DecodeCredentialRotationChallenge = no_decoder,
      lib_DecodeCredentialRotationProof = no_decoder, lib_DecodeCredentialRotationInstall = no_decoder,
      lib_DecodeCredentialRotationReady = no_decoder, lib_DecodeCredentialRotationRevoke = no_decoder,
      lib_DecodeCredentialRotationAck = no_decoder,
      lib_DecodeDisconnect = (\<lambda>s. if s = ''payload'' then Inr (sample_disconnect, True) else Inl ErrMalformedFrame),
      lib_DecodeReject = no_decoder\<rparr>"

text \<open>A writer that takes one byte at a time.\<close>

definition byte_writer :: "string writer" where
  "byte_writer w data = ((1, None), w @ take 1 data)"

lemma sample_frame_text_facts [simp]:
  "sample_frame_text \<noteq> ''payload''" "length sample_frame_text \<le> 100"
  by code_simp+

lemma sample_framelib_simps [simp]:
  "lib_JSONTokens sample_framelib ''payload'' = tokens_of sample_payload_document"
  "lib_JSONTokens sample_framelib sample_frame_text = tokens_of (frame_document sample_frame sample_payload_document)"
  "lib_JSONValid sample_framelib ''payload''" "lib_JSONValid sample_framelib sample_frame_text"
  "lib_Marshal sample_framelib (MsgDisconnect sample_disconnect) = Inr ''payload''"
  "lib_Compact sample_framelib ''payload'' = Inr ''payload''"
  "lib_DecodeFrame sample_framelib sample_frame_text = Inr (sample_frame, True)"
  "lib_DecodeDisconnect sample_framelib ''payload'' = Inr (sample_disconnect, True)"
  by (simp_all add: sample_framelib_def)

lemma sample_payload_keys: "rejectDuplicateKeys sample_framelib ''payload'' = None"
  using rejectDuplicateKeys_tokens [of sample_framelib "''payload''" sample_payload_document]
  by (simp add: sample_payload_document_def MaxJSONDepth_def)

lemma sample_request_id: "validRequestID ''req_1''"
  by code_simp

lemma sample_disconnect_valid: "Disconnect_Validate sample_disconnect = None"
  by code_simp

lemma sample_payload_bounds: "length ''payload'' \<le> MaxFrameBytes" "length ''payload'' \<le> maxPayloadBytes MessageDisconnect"
  "length sample_frame_text \<le> MaxFrameBytes"
  using sample_frame_text_facts(2)
  by (simp_all add: MaxFrameBytes_def MaxSnapshotBytes_def maxPayloadBytes_def del: sample_frame_text_facts)

lemma sample_payload_valid:
  "validatePayloadJSON sample_framelib ''payload'' = None"
  "validateMessagePayload sample_framelib MessageDisconnect ''payload'' = None"
  using sample_payload_bounds(1)
  by (simp_all add: validatePayloadJSON_def validateMessagePayload_def decode_validate_def decodeStrict_def
      sample_payload_keys sample_disconnect_valid)

lemma sample_frame_valid: "Frame_Validate sample_framelib sample_frame = None"
  using sample_payload_valid sample_payload_bounds(2) sample_request_id
  by (simp add: Frame_Validate_def sample_frame_def allowedMessageTypes_def)

lemma byte_writer_writes:
  "byte_writer w data = ((n, None), w') \<Longrightarrow> w' = w @ take (nat n) data"
  by (auto simp: byte_writer_def)

lemma byte_writer_all: "writeAll byte_writer w data = (None, w @ data)"
proof (induction data arbitrary: w)
  case Nil
  then show ?case by (subst writeAll.simps) simp
next
  case (Cons c data)
  have "writeAll byte_writer w (c # data) = writeAll byte_writer (w @ [c]) data"
    by (subst writeAll.simps) (simp add: byte_writer_def)
  with Cons show ?case by simp
qed

lemma sample_MarshalFrame:
  "frame_text sample_framelib sample_frame ''payload'' = sample_frame_text"
  "MarshalFrame sample_framelib sample_frame = Inr sample_frame_text"
  by (simp_all add: MarshalFrame_def)
     (simp_all add: frame_text_def sample_frame_text_def sample_frame_def sample_framelib_def)

lemma sample_WriteFrame:
  "WriteFrame sample_framelib byte_writer w sample_frame =
     (None, w @ PutUint32 (of_nat (length sample_frame_text)) @ sample_frame_text)"
  using sample_payload_bounds(3)
  by (simp add: WriteFrame_def sample_frame_valid byte_writer_all sample_MarshalFrame)

text \<open>
  C27. A frame that \<open>WriteFrame\<close> wrote, through any writer that takes the bytes it counts, is read back
  by \<open>ReadFrame\<close> with its payload as \<open>encoding/json\<close> compacts it, and the reader stands right behind
  it, whatever follows. So a frame whose payload is compact, as the payload of every frame made by
  \<open>NewFrame\<close> is, is read back as it was written. The frames that are written and not read back are
  those whose payload reaches the nesting limit, because the envelope is one level more, and those
  that the escaping made invalid, for instance too large. The hypotheses on \<open>encoding/json\<close> are for
  the text of this frame: it is a valid document with the four members of the struct, and it decodes
  to them, the raw payload being the text it has there.
\<close>

theorem frame_roundtrip:
  assumes writes: "\<And>w data n w'. wr w data = ((n, None), w') \<Longrightarrow> 0 < n \<Longrightarrow> n \<le> int (length data) \<Longrightarrow>
      contents w' = contents w @ take (nat n) data"
    and document: "\<And>q. lib_Compact L (frame_Payload frame) = Inr q \<Longrightarrow>
      lib_JSONTokens L (frame_Payload frame) = tokens_of doc \<and> lib_JSONValid L (frame_text L frame q) \<and>
      lib_JSONTokens L (frame_text L frame q) = tokens_of (frame_document frame doc)"
    and decode: "\<And>q. lib_Compact L (frame_Payload frame) = Inr q \<Longrightarrow>
      lib_DecodeFrame L (frame_text L frame q) = Inr (frame\<lparr>frame_Payload := q\<rparr>, True)"
    and sent: "WriteFrame L wr w frame = (None, w')"
  shows "\<exists>bytes q. contents w' = contents w @ bytes \<and> length bytes \<le> 4 + MaxFrameBytes \<and>
    lib_Compact L (frame_Payload frame) = Inr q \<and>
    (\<forall>rest. ReadFrame L (bytes @ rest) =
       (if \<not> json_ok 1 doc then Inl ErrMalformedFrame
        else case Frame_Validate L (frame\<lparr>frame_Payload := q\<rparr>) of
          Some err \<Rightarrow> Inl err
        | None \<Rightarrow> Inr (frame\<lparr>frame_Payload := q\<rparr>), rest)) \<and>
    (q = frame_Payload frame \<and> json_ok 1 doc \<longrightarrow> (\<forall>rest. ReadFrame L (bytes @ rest) = (Inr frame, rest)))"
proof -
  from sent obtain body w1 where b: "Frame_Validate L frame = None" "MarshalFrame L frame = Inr body"
    "length body \<le> MaxFrameBytes" "writeAll wr w (PutUint32 (of_nat (length body))) = (None, w1)"
    "writeAll wr w1 body = (None, w')" by (rule WriteFrame_None)
  from b(2) obtain q where q: "lib_Compact L (frame_Payload frame) = Inr q" "body = frame_text L frame q"
    by (auto simp: MarshalFrame_def split: sum.splits)
  have ne: "body \<noteq> []" by (simp add: q(2) frame_text_def)
  have j: "lib_JSONValid L body" "lib_JSONTokens L body = tokens_of (frame_document frame doc)"
    "lib_DecodeFrame L body = Inr (frame\<lparr>frame_Payload := q\<rparr>, True)"
    using document [OF q(1)] decode [OF q(1)] by (simp_all add: q(2))
  note dup = rejectDuplicateKeys_frame [OF j(2)]
  have c1: "contents w1 = contents w @ PutUint32 (of_nat (length body))"
    by (rule writeAll_contents [where wr = wr, OF writes b(4)])
  have c2: "contents w' = contents w1 @ body"
    by (rule writeAll_contents [where wr = wr, OF writes b(5)])
  let ?bytes = "PutUint32 (of_nat (length body)) @ body"
  have r: "ReadFrame L (?bytes @ rest) =
      (if \<not> json_ok 1 doc then Inl ErrMalformedFrame
       else case Frame_Validate L (frame\<lparr>frame_Payload := q\<rparr>) of
         Some err \<Rightarrow> Inl err | None \<Rightarrow> Inr (frame\<lparr>frame_Payload := q\<rparr>), rest)" for rest
    using ReadFrame_body [of body L rest] ne j b(3) dup by (simp add: decodeStrict_def)
  have "ReadFrame L (?bytes @ rest) = (Inr frame, rest)" if "q = frame_Payload frame" "json_ok 1 doc" for rest
    using r [of rest] that b(1) by simp
  with c1 c2 b(3) q(1) r show ?thesis by (intro exI [of _ ?bytes] exI [of _ q]) simp
qed

theorem frame_roundtrip_witness:
  "\<exists>bytes w'. WriteFrame sample_framelib byte_writer ''x'' sample_frame = (None, w') \<and> w' = ''x'' @ bytes \<and>
     ReadFrame sample_framelib (bytes @ ''rest'') = (Inr sample_frame, ''rest'')"
proof -
  have "json_ok 1 sample_payload_document" by (simp add: sample_payload_document_def MaxJSONDepth_def)
  moreover have "frame_Payload sample_frame = ''payload''" "sample_frame\<lparr>frame_Payload := ''payload''\<rparr> = sample_frame"
    by (simp_all add: sample_frame_def)
  moreover have "\<exists>bytes q. ''x'' @ PutUint32 (of_nat (length sample_frame_text)) @ sample_frame_text = ''x'' @ bytes \<and>
      length bytes \<le> 4 + MaxFrameBytes \<and> lib_Compact sample_framelib (frame_Payload sample_frame) = Inr q \<and>
      (\<forall>rest. ReadFrame sample_framelib (bytes @ rest) =
         (if \<not> json_ok 1 sample_payload_document then Inl ErrMalformedFrame
          else case Frame_Validate sample_framelib (sample_frame\<lparr>frame_Payload := q\<rparr>) of
            Some err \<Rightarrow> Inl err | None \<Rightarrow> Inr (sample_frame\<lparr>frame_Payload := q\<rparr>), rest)) \<and>
      (q = frame_Payload sample_frame \<and> json_ok 1 sample_payload_document \<longrightarrow>
         (\<forall>rest. ReadFrame sample_framelib (bytes @ rest) = (Inr sample_frame, rest)))"
    by (rule frame_roundtrip [where wr = byte_writer and contents = "\<lambda>w. w", OF _ _ _ sample_WriteFrame])
       (use calculation(2,3) in \<open>auto simp: byte_writer_def sample_MarshalFrame\<close>)
  ultimately show ?thesis by (auto simp: sample_WriteFrame)
qed

text \<open>
  C28. \<open>ReadFrame\<close> consumes a prefix of its input of at most the length prefix and one frame of the
  maximal size. It refuses a length above the limit after the four bytes of the prefix, before it
  reads the body, and a frame it returns is valid and was sent with its exact length.
\<close>

theorem ReadFrame_bounds:
  assumes "ReadFrame L input = (result, rest)"
  shows "\<exists>used. input = used @ rest \<and> length used \<le> 4 + MaxFrameBytes \<and>
    (4 \<le> length input \<and> MaxFrameBytes < unat (Uint32 (take 4 input)) \<longrightarrow>
       result = Inl ErrFrameTooLarge \<and> length used = 4) \<and>
    (\<forall>frame. result = Inr frame \<longrightarrow> Frame_Validate L frame = None \<and>
       4 < length used \<and> unat (Uint32 (take 4 used)) = length used - 4)"
proof (cases rule: ReadFull_cases [of 4 input])
  case (short err)
  with assms show ?thesis by (intro exI [of _ input]) (auto simp: ReadFrame_def)
next
  case (full header r)
  show ?thesis
  proof (cases "Uint32 header = 0 \<or> MaxFrameBytes < unat (Uint32 header)")
    case True
    with assms full show ?thesis
      by (cases "Uint32 header = 0"; intro exI [of _ header]) (auto simp: ReadFrame_def Let_def)
  next
    case False
    then have pos: "0 < unat (Uint32 header)" by (simp add: unat_gt_0)
    show ?thesis
    proof (cases rule: ReadFull_cases [of "unat (Uint32 header)" r])
      case (short err)
      with assms full False show ?thesis
        by (intro exI [of _ input]) (auto simp: ReadFrame_def Let_def)
    next
      case body: (full body r')
      with assms full False pos show ?thesis
        by (intro exI [of _ "header @ body"])
           (auto simp: ReadFrame_def Let_def split: if_splits sum.splits option.splits)
    qed
  qed
qed

theorem ReadFrame_bounds_witness:
  "ReadFrame sample_framelib (PutUint32 (2 ^ 24) @ ''rest'') = (Inl ErrFrameTooLarge, ''rest'')"
proof -
  obtain result rest where r: "ReadFrame sample_framelib (PutUint32 (2 ^ 24) @ ''rest'') = (result, rest)"
    by (cases "ReadFrame sample_framelib (PutUint32 (2 ^ 24) @ ''rest'')")
  have "MaxFrameBytes < unat (Uint32 (take 4 (PutUint32 (2 ^ 24) @ ''rest'')))"
    by (simp add: Uint32_PutUint32 MaxFrameBytes_def MaxSnapshotBytes_def)
  with ReadFrame_bounds [OF r] have "result = Inl ErrFrameTooLarge \<and> rest = ''rest''"
    by (auto simp: append_eq_append_conv)
  with r show ?thesis by simp
qed

text \<open>
  C29. The write loop ends with every writer; with one that makes progress it ends without an error
  and has delivered exactly the data, in however many pieces.
\<close>

theorem writeAll_delivers:
  assumes writes: "\<And>w data. data \<noteq> [] \<Longrightarrow> \<exists>n w'. wr w data = ((n, None), w') \<and>
      0 < n \<and> n \<le> int (length data) \<and> contents w' = contents w @ take (nat n) data"
  shows "\<exists>w'. writeAll wr w data = (None, w') \<and> contents w' = contents w @ data"
proof -
  obtain w' where w': "writeAll wr w data = (None, w')"
    using writeAll_done [of wr] writes by meson
  have "contents w1 = contents w0 @ take (nat n) d"
    if "wr w0 d = ((n, None), w1)" "0 < n" "n \<le> int (length d)" for w0 d n w1
  proof -
    from that have "d \<noteq> []" by auto
    from writes [OF this, of w0] that show ?thesis by auto
  qed
  from writeAll_contents [where wr = wr and contents = contents, OF this w'] w' show ?thesis by blast
qed

theorem writeAll_delivers_witness:
  "\<exists>w'. writeAll byte_writer ''ab'' ''cdef'' = (None, w') \<and> w' = ''abcdef''"
  using writeAll_delivers [where wr = byte_writer and contents = "\<lambda>w. w" and w = "''ab''" and data = "''cdef''"]
  by (auto simp: byte_writer_def Suc_le_eq)

end
