(* ===== verification/Rotation_Coordinator.thy ===== *)
theory Rotation_Coordinator
  imports Rotation_Messages Server_Session
begin

text \<open>
  The coordinator of a credential rotation (\<open>src/internal/connectorprotocol/rotation.go\<close>, lines 543
  to 1165): its state, its operations and the recovery of its state from a store.

  Every operation holds the mutex of the coordinator for its whole body and is one step. The store
  is a parameter: an operation is given the error, if any, that the store answers its record with.
  A nil coordinator and a nil context are not modelled. Times are instants, so the comparison of two
  \<open>time.Time\<close> with \<open>!=\<close> is the comparison of the instants; the location and the monotonic reading of
  a \<open>time.Time\<close> are not modelled.
\<close>

section \<open>State\<close>

definition zero_RotationTarget :: RotationTarget where
  "zero_RotationTarget =
     \<lparr>rt_ConnectorID = '''', rt_HostID = '''', rt_OldCredentialGeneration = 0, rt_NewCredentialGeneration = 0\<rparr>"

definition zero_RotationChallenge :: CredentialRotationChallenge where
  "zero_RotationChallenge =
     \<lparr>rc_AccountID = '''', rc_TunnelID = '''', rc_OperationID = '''', rc_ConnectorID = '''', rc_HostID = '''',
      rc_SessionID = '''', rc_ProcessGeneration = 0, rc_TargetSetHash = '''', rc_Target = zero_RotationTarget,
      rc_OldCredentialGeneration = 0, rc_NewCredentialGeneration = 0, rc_OldIdentityKeyID = '''',
      rc_OldIdentityKeyThumbprint = '''', rc_ChallengeNonce = '''', rc_IssuedAt = 0, rc_ExpiresAt = 0,
      rc_OverlapUntil = 0, rc_NewCredentialValidUntil = 0\<rparr>"

definition zero_RotationProof :: CredentialRotationProof where
  "zero_RotationProof =
     \<lparr>rp_AccountID = '''', rp_TunnelID = '''', rp_OperationID = '''', rp_ConnectorID = '''', rp_HostID = '''',
      rp_SessionID = '''', rp_ProcessGeneration = 0, rp_TargetSetHash = '''', rp_OldCredentialGeneration = 0,
      rp_NewCredentialGeneration = 0, rp_OldIdentityKeyID = '''', rp_OldIdentityKeyThumbprint = '''',
      rp_NewIdentityKeyID = '''', rp_NewIdentityKeyThumbprint = '''', rp_NewPublicKey = '''',
      rp_NewCredentialReference = '''', rp_ChallengeNonce = '''', rp_IssuedAt = 0,
      rp_NewCredentialValidUntil = 0, rp_OldSignedProof = '''', rp_NewSignedProof = ''''\<rparr>"

definition zero_RotationInstall :: CredentialRotationInstall where
  "zero_RotationInstall =
     \<lparr>ri_AccountID = '''', ri_TunnelID = '''', ri_OperationID = '''', ri_ConnectorID = '''', ri_HostID = '''',
      ri_SessionID = '''', ri_ProcessGeneration = 0, ri_TargetSetHash = '''', ri_OldCredentialGeneration = 0,
      ri_NewCredentialGeneration = 0, ri_NewIdentityKeyID = '''', ri_NewIdentityKeyThumbprint = '''',
      ri_NewPublicKey = '''', ri_NewCredentialReference = '''', ri_ChallengeNonce = '''', ri_OverlapUntil = 0,
      ri_NewCredentialValidUntil = 0, ri_ReplacementProcessGeneration = 0\<rparr>"

definition zero_RotationReady :: CredentialRotationReady where
  "zero_RotationReady =
     \<lparr>rr_AccountID = '''', rr_TunnelID = '''', rr_OperationID = '''', rr_ConnectorID = '''', rr_HostID = '''',
      rr_SessionID = '''', rr_PreviousSessionID = '''', rr_ProcessGeneration = 0, rr_TargetSetHash = '''',
      rr_OldCredentialGeneration = 0, rr_NewCredentialGeneration = 0, rr_NewIdentityKeyID = '''',
      rr_NewIdentityKeyThumbprint = '''', rr_NewPublicKey = '''', rr_NewCredentialReference = '''',
      rr_NewCredentialValidUntil = 0, rr_ConfigGeneration = 0, rr_ConfigContentHash = '''', rr_EdgeReady = False,
      rr_RouteReady = False, rr_OriginReady = False, rr_ReadyAt = 0\<rparr>"

definition zero_RotationRevoke :: CredentialRotationRevoke where
  "zero_RotationRevoke =
     \<lparr>rv_AccountID = '''', rv_TunnelID = '''', rv_OperationID = '''', rv_ConnectorID = '''', rv_HostID = '''',
      rv_SessionID = '''', rv_ProcessGeneration = 0, rv_TargetSetHash = '''', rv_OldCredentialGeneration = 0,
      rv_NewCredentialGeneration = 0, rv_RevokeNonce = '''', rv_IssuedAt = 0, rv_Deadline = 0\<rparr>"

definition zero_RotationAck :: CredentialRotationAck where
  "zero_RotationAck =
     \<lparr>ra_AccountID = '''', ra_TunnelID = '''', ra_OperationID = '''', ra_ConnectorID = '''', ra_HostID = '''',
      ra_SessionID = '''', ra_ProcessGeneration = 0, ra_TargetSetHash = '''', ra_OldCredentialGeneration = 0,
      ra_NewCredentialGeneration = 0, ra_Status = RotationAckStatusOther '''', ra_Code = CodeEmpty,
      ra_Message = ''''\<rparr>"

record RotationResumeTarget =
  res_Target :: RotationTarget
  res_State :: RotationTargetState
  res_Code :: Code
  res_OverlapUntil :: time
  res_NewCredentialValidUntil :: time
  res_Challenge :: CredentialRotationChallenge
  res_Proof :: CredentialRotationProof
  res_Install :: CredentialRotationInstall
  res_Ready :: CredentialRotationReady
  res_Revoke :: CredentialRotationRevoke

record RotationResume =
  resume_Plan :: RotationPlan
  resume_Started :: bool
  resume_FinishedAt :: time
  resume_Targets :: "RotationResumeTarget list"

record rotationTargetState =
  ts_target :: RotationTarget
  ts_state :: RotationTargetState
  ts_code :: Code
  ts_challenge :: CredentialRotationChallenge
  ts_proof :: CredentialRotationProof
  ts_install :: CredentialRotationInstall
  ts_ready :: CredentialRotationReady
  ts_revoke :: CredentialRotationRevoke

type_synonym old_verifier = "CredentialRotationProof \<Rightarrow> string \<Rightarrow> string \<Rightarrow> error option"

record RotationCoordinator =
  co_plan :: RotationPlan
  co_verify :: old_verifier
  co_started :: bool
  co_finished :: time
  co_targets :: "(string, rotationTargetState) fmap"

text \<open>The state that the map has for a connector replaced by another.\<close>

definition co_put :: "string \<Rightarrow> rotationTargetState \<Rightarrow> RotationCoordinator \<Rightarrow> RotationCoordinator" where
  "co_put connectorID state c = c\<lparr>co_targets := fmupd connectorID state (co_targets c)\<rparr>"

definition pending_target :: "RotationTarget \<Rightarrow> rotationTargetState" where
  "pending_target target =
     \<lparr>ts_target = target, ts_state = RotationTargetPending, ts_code = CodeEmpty,
      ts_challenge = zero_RotationChallenge, ts_proof = zero_RotationProof,
      ts_install = zero_RotationInstall, ts_ready = zero_RotationReady, ts_revoke = zero_RotationRevoke\<rparr>"

text \<open>A configuration without a store or without a verifier is refused.\<close>

definition NewRotationCoordinator ::
  "('a rotlib_scheme) \<Rightarrow> RotationPlan \<Rightarrow> bool \<Rightarrow> old_verifier option \<Rightarrow> error + RotationCoordinator" where
  "NewRotationCoordinator L plan hasStore verify =
     (if RotationPlan_Validate L plan \<noteq> None \<or> \<not> hasStore then Inl ErrInvalidInput
      else case verify of
        None \<Rightarrow> Inl ErrInvalidInput
      | Some verifyOld \<Rightarrow>
          Inr \<lparr>co_plan = plan, co_verify = verifyOld, co_started = False, co_finished = 0,
               co_targets = fold (\<lambda>target. fmupd (rt_ConnectorID target) (pending_target target))
                              (plan_Targets plan) fmempty\<rparr>)"

section \<open>Start and recovery\<close>

definition canceled :: "error \<Rightarrow> error" where
  "canceled err = codeError ErrCanceled ReasonCanceled True (Some err)"

definition rotation_failed :: "error \<Rightarrow> error" where
  "rotation_failed err = codeError ErrCredentialRotationFailed ReasonCredentialRotation False (Some err)"

definition RotationCoordinator_Start ::
  "error option \<Rightarrow> error option \<Rightarrow> RotationCoordinator \<Rightarrow> error option \<times> RotationCoordinator" where
  "RotationCoordinator_Start ctxErr beginErr c =
     (case ctxErr of
        Some err \<Rightarrow> (Some (canceled err), c)
      | None \<Rightarrow>
          if co_started c then (None, c)
          else case beginErr of
            Some err \<Rightarrow> (Some (rotation_failed err), c)
          | None \<Rightarrow> (None, c\<lparr>co_started := True\<rparr>))"

text \<open>The four blocks of a recovered target that are compared with the plan and with each other.\<close>

definition resume_challenge_bad :: "RotationPlan \<Rightarrow> RotationResumeTarget \<Rightarrow> bool" where
  "resume_challenge_bad plan r \<longleftrightarrow>
     (let h = res_Challenge r; t = res_Target r in
      CredentialRotationChallenge_Validate 0 h \<noteq> None
      \<or> rc_AccountID h \<noteq> plan_AccountID plan \<or> rc_TunnelID h \<noteq> plan_TunnelID plan
      \<or> rc_OperationID h \<noteq> plan_OperationID plan \<or> rc_TargetSetHash h \<noteq> plan_TargetSetHash plan
      \<or> rc_Target h \<noteq> t \<or> rc_ConnectorID h \<noteq> rt_ConnectorID t \<or> rc_HostID h \<noteq> rt_HostID t)"

definition resume_install_bad ::
  "('a golib_scheme) \<Rightarrow> RotationPlan \<Rightarrow> RotationResumeTarget \<Rightarrow> bool" where
  "resume_install_bad L plan r \<longleftrightarrow>
     (let i = res_Install r; h = res_Challenge r; t = res_Target r in
      CredentialRotationInstall_Validate L 0 i \<noteq> None
      \<or> ri_AccountID i \<noteq> plan_AccountID plan \<or> ri_TunnelID i \<noteq> plan_TunnelID plan
      \<or> ri_OperationID i \<noteq> plan_OperationID plan \<or> ri_TargetSetHash i \<noteq> plan_TargetSetHash plan
      \<or> ri_ConnectorID i \<noteq> rt_ConnectorID t \<or> ri_HostID i \<noteq> rt_HostID t
      \<or> ri_SessionID i \<noteq> rc_SessionID h \<or> ri_ProcessGeneration i \<noteq> rc_ProcessGeneration h
      \<or> ri_OldCredentialGeneration i \<noteq> rt_OldCredentialGeneration t
      \<or> ri_NewCredentialGeneration i \<noteq> rt_NewCredentialGeneration t
      \<or> ri_ChallengeNonce i \<noteq> rc_ChallengeNonce h)"

definition resume_ready_bad ::
  "('a golib_scheme) \<Rightarrow> RotationPlan \<Rightarrow> RotationResumeTarget \<Rightarrow> bool" where
  "resume_ready_bad L plan r \<longleftrightarrow>
     (let y = res_Ready r; i = res_Install r; t = res_Target r in
      CredentialRotationReady_Validate L 0 y \<noteq> None
      \<or> rr_AccountID y \<noteq> plan_AccountID plan \<or> rr_TunnelID y \<noteq> plan_TunnelID plan
      \<or> rr_OperationID y \<noteq> plan_OperationID plan \<or> rr_TargetSetHash y \<noteq> plan_TargetSetHash plan
      \<or> rr_ConnectorID y \<noteq> rt_ConnectorID t \<or> rr_HostID y \<noteq> rt_HostID t
      \<or> rr_PreviousSessionID y \<noteq> ri_SessionID i \<or> rr_SessionID y = ri_SessionID i
      \<or> rr_ProcessGeneration y < ri_ReplacementProcessGeneration i
      \<or> rr_OldCredentialGeneration y \<noteq> rt_OldCredentialGeneration t
      \<or> rr_NewCredentialGeneration y \<noteq> rt_NewCredentialGeneration t
      \<or> rr_NewIdentityKeyID y \<noteq> ri_NewIdentityKeyID i
      \<or> rr_NewIdentityKeyThumbprint y \<noteq> ri_NewIdentityKeyThumbprint i
      \<or> rr_NewPublicKey y \<noteq> ri_NewPublicKey i
      \<or> rr_NewCredentialReference y \<noteq> ri_NewCredentialReference i
      \<or> rr_NewCredentialValidUntil y \<noteq> ri_NewCredentialValidUntil i)"

definition resume_revoke_bad :: "RotationPlan \<Rightarrow> RotationResumeTarget \<Rightarrow> bool" where
  "resume_revoke_bad plan r \<longleftrightarrow>
     (let v = res_Revoke r; y = res_Ready r; t = res_Target r;
          sameReadySession = rv_ProcessGeneration v = rr_ProcessGeneration y \<and> rv_SessionID v = rr_SessionID y;
          reboundSession = rv_ProcessGeneration v > rr_ProcessGeneration y \<and> rv_SessionID v \<noteq> rr_SessionID y in
      CredentialRotationRevoke_Validate 0 v \<noteq> None
      \<or> rv_AccountID v \<noteq> plan_AccountID plan \<or> rv_TunnelID v \<noteq> plan_TunnelID plan
      \<or> rv_OperationID v \<noteq> plan_OperationID plan \<or> rv_TargetSetHash v \<noteq> plan_TargetSetHash plan
      \<or> rv_ConnectorID v \<noteq> rt_ConnectorID t \<or> rv_HostID v \<noteq> rt_HostID t
      \<or> \<not> sameReadySession \<and> \<not> reboundSession
      \<or> rv_OldCredentialGeneration v \<noteq> rt_OldCredentialGeneration t
      \<or> rv_NewCredentialGeneration v \<noteq> rt_NewCredentialGeneration t)"

text \<open>The switch over the recovered phase: the messages that must and must not be there.\<close>

definition resume_phase_bad :: "RotationResumeTarget \<Rightarrow> bool" where
  "resume_phase_bad r \<longleftrightarrow>
     (let challengePresent = rc_SessionID (res_Challenge r) \<noteq> '''';
          installPresent = ri_SessionID (res_Install r) \<noteq> '''';
          readyPresent = rr_SessionID (res_Ready r) \<noteq> '''';
          revokePresent = rv_SessionID (res_Revoke r) \<noteq> '''' in
      case res_State r of
        RotationTargetPending \<Rightarrow> challengePresent \<or> installPresent \<or> readyPresent \<or> revokePresent
      | RotationTargetChallenged \<Rightarrow> \<not> challengePresent \<or> installPresent \<or> readyPresent \<or> revokePresent
      | RotationTargetInstalled \<Rightarrow> \<not> installPresent \<or> readyPresent \<or> revokePresent
      | RotationTargetReady \<Rightarrow> \<not> readyPresent \<or> revokePresent
      | RotationTargetRevoking \<Rightarrow> \<not> revokePresent
      | RotationTargetRevoked \<Rightarrow> \<not> revokePresent
      | _ \<Rightarrow> False)"

definition validateRotationResumeTarget ::
  "('a golib_scheme) \<Rightarrow> RotationPlan \<Rightarrow> RotationResumeTarget \<Rightarrow> error option" where
  "validateRotationResumeTarget L plan r =
     (case RotationTarget_Validate (res_Target r) of
        Some err \<Rightarrow> Some err
      | None \<Rightarrow>
          if RotationPlan_Target plan (rt_ConnectorID (res_Target r)) \<noteq> Some (res_Target r)
          then Some ErrIdentityMismatch
          else if \<not> validRotationTargetState (res_State r) then Some ErrInvalidInput
          else if res_State r = RotationTargetFailed \<and> (res_Code r = CodeEmpty \<or> \<not> validCode (res_Code r))
          then Some ErrInvalidInput
          else if res_State r \<noteq> RotationTargetFailed \<and> res_Code r \<noteq> CodeEmpty then Some ErrInvalidInput
          else if time_IsZero (res_OverlapUntil r) \<noteq> time_IsZero (res_NewCredentialValidUntil r)
             \<or> \<not> time_IsZero (res_OverlapUntil r)
               \<and> \<not> time_After (res_NewCredentialValidUntil r) (res_OverlapUntil r)
          then Some ErrInvalidInput
          else
            let challengePresent = rc_SessionID (res_Challenge r) \<noteq> '''';
                installPresent = ri_SessionID (res_Install r) \<noteq> '''';
                readyPresent = rr_SessionID (res_Ready r) \<noteq> '''';
                revokePresent = rv_SessionID (res_Revoke r) \<noteq> ''''
            in
              if \<not> challengePresent \<and> (installPresent \<or> readyPresent \<or> revokePresent) then Some ErrInvalidInput
              else if \<not> installPresent \<and> (readyPresent \<or> revokePresent) then Some ErrInvalidInput
              else if \<not> readyPresent \<and> revokePresent then Some ErrInvalidInput
              else if challengePresent \<and> resume_challenge_bad plan r then Some ErrIdentityMismatch
              else if installPresent \<and> resume_install_bad L plan r then Some ErrIdentityMismatch
              else if readyPresent \<and> resume_ready_bad L plan r then Some ErrIdentityMismatch
              else if revokePresent \<and> resume_revoke_bad plan r then Some ErrIdentityMismatch
              else if resume_phase_bad r then Some ErrInvalidInput
              else None)"

definition recovery_mismatch :: "string \<Rightarrow> error" where
  "recovery_mismatch text =
     codeError ErrIdentityMismatch ReasonCredentialRotation False (Some (ErrorString text))"

text \<open>The checking loop of \<open>Resume\<close>; \<open>seen\<close> are the connectors before.\<close>

fun resume_scan ::
  "('a golib_scheme) \<Rightarrow> RotationCoordinator \<Rightarrow> string list \<Rightarrow> RotationResumeTarget list \<Rightarrow> error option" where
  "resume_scan L c seen [] = None"
| "resume_scan L c seen (r # rs) =
     (let connectorID = rt_ConnectorID (res_Target r) in
      if connectorID \<in> set seen
      then Some (recovery_mismatch ''rotation recovery contains duplicate target'')
      else if (case fmlookup (co_targets c) connectorID of
                 None \<Rightarrow> True
               | Some state \<Rightarrow> ts_target state \<noteq> res_Target r \<or> \<not> validRotationTargetState (res_State r)
                   \<or> validateRotationResumeTarget L (co_plan c) r \<noteq> None)
      then Some (recovery_mismatch ''rotation recovery target or phase mismatch'')
      else resume_scan L c (connectorID # seen) rs)"

text \<open>The restoring loop; every connector has an entry, because the checking loop went through.\<close>

definition resume_target :: "RotationResumeTarget \<Rightarrow> rotationTargetState \<Rightarrow> rotationTargetState" where
  "resume_target r state =
     state\<lparr>ts_state := res_State r, ts_code := res_Code r, ts_challenge := res_Challenge r,
           ts_proof := res_Proof r, ts_install := res_Install r, ts_ready := res_Ready r,
           ts_revoke := res_Revoke r\<rparr>"

definition resume_restore ::
  "RotationResumeTarget list \<Rightarrow> (string, rotationTargetState) fmap \<Rightarrow> (string, rotationTargetState) fmap" where
  "resume_restore rs targets =
     fold (\<lambda>r m. case fmlookup m (rt_ConnectorID (res_Target r)) of
                   None \<Rightarrow> m
                 | Some state \<Rightarrow> fmupd (rt_ConnectorID (res_Target r)) (resume_target r state) m)
       rs targets"

text \<open>The completion time: present only when a target failed or all are revoked, and not in the future.\<close>

definition resume_finished :: "time \<Rightarrow> RotationResume \<Rightarrow> error option" where
  "resume_finished now loaded =
     (if time_IsZero (resume_FinishedAt loaded) then None
      else if \<not> list_ex (\<lambda>r. res_State r = RotationTargetFailed) (resume_Targets loaded)
         \<and> \<not> list_all (\<lambda>r. res_State r = RotationTargetRevoked) (resume_Targets loaded)
      then Some (recovery_mismatch ''rotation recovery finished timestamp does not match target states'')
      else if time_After (resume_FinishedAt loaded) (time_Add now MaxClockSkew)
      then Some (recovery_mismatch ''rotation recovery finished timestamp is in the future'')
      else None)"

definition resume_plan_bad :: "('a rotlib_scheme) \<Rightarrow> RotationPlan \<Rightarrow> RotationResume \<Rightarrow> bool" where
  "resume_plan_bad L plan loaded \<longleftrightarrow>
     \<not> resume_Started loaded \<or> plan_AccountID (resume_Plan loaded) \<noteq> plan_AccountID plan
     \<or> plan_TunnelID (resume_Plan loaded) \<noteq> plan_TunnelID plan
     \<or> plan_OperationID (resume_Plan loaded) \<noteq> plan_OperationID plan
     \<or> plan_TargetSetHash (resume_Plan loaded) \<noteq> plan_TargetSetHash plan
     \<or> RotationPlan_Validate L (resume_Plan loaded) \<noteq> None"

text \<open>\<open>recovery\<close> is what the store loads, or \<open>None\<close> if it has no recovery interface.\<close>

definition RotationCoordinator_Resume ::
  "('a rotlib_scheme) \<Rightarrow> error option \<Rightarrow> (error + RotationResume) option \<Rightarrow> time \<Rightarrow> RotationCoordinator \<Rightarrow>
     error option \<times> RotationCoordinator" where
  "RotationCoordinator_Resume L ctxErr recovery now c =
     (case ctxErr of
        Some err \<Rightarrow> (Some (canceled err), c)
      | None \<Rightarrow>
     (case recovery of
        None \<Rightarrow> (Some (codeError ErrUnsupportedMessage ReasonCredentialRotation False
                   (Some (ErrorString ''rotation persistence does not support recovery''))), c)
      | Some (Inl err) \<Rightarrow>
          (Some (codeError ErrCredentialRotationFailed ReasonCredentialRotation True (Some err)), c)
      | Some (Inr loaded) \<Rightarrow>
          if resume_plan_bad L (co_plan c) loaded
          then (Some (recovery_mismatch ''rotation recovery plan mismatch''), c)
          else if co_started c then (None, c)
          else if length (resume_Targets loaded) \<noteq> fcard (fmdom (co_targets c))
          then (Some (recovery_mismatch ''rotation recovery target count mismatch''), c)
          else case resume_scan L c [] (resume_Targets loaded) of
            Some err \<Rightarrow> (Some err, c)
          | None \<Rightarrow>
              (case resume_finished now loaded of
                 Some err \<Rightarrow> (Some err, c)
               | None \<Rightarrow>
                   (None, c\<lparr>co_targets := resume_restore (resume_Targets loaded) (co_targets c),
                            co_started := True, co_finished := resume_FinishedAt loaded\<rparr>))))"

section \<open>Challenge and proof\<close>

definition rotation_challenge ::
  "RotationPlan \<Rightarrow> RotationTarget \<Rightarrow> string \<Rightarrow> string \<Rightarrow> uint64 \<Rightarrow> string \<Rightarrow> string \<Rightarrow> string \<Rightarrow>
     time \<Rightarrow> time \<Rightarrow> time \<Rightarrow> time \<Rightarrow> CredentialRotationChallenge" where
  "rotation_challenge plan target connectorID sessionID processGeneration oldIdentityKeyID
     oldIdentityKeyThumbprint nonce issuedAt expiresAt overlapUntil credentialValidUntil =
     \<lparr>rc_AccountID = plan_AccountID plan, rc_TunnelID = plan_TunnelID plan,
      rc_OperationID = plan_OperationID plan, rc_ConnectorID = connectorID, rc_HostID = rt_HostID target,
      rc_SessionID = sessionID, rc_ProcessGeneration = processGeneration,
      rc_TargetSetHash = plan_TargetSetHash plan, rc_Target = target,
      rc_OldCredentialGeneration = rt_OldCredentialGeneration target,
      rc_NewCredentialGeneration = rt_NewCredentialGeneration target, rc_OldIdentityKeyID = oldIdentityKeyID,
      rc_OldIdentityKeyThumbprint = oldIdentityKeyThumbprint, rc_ChallengeNonce = nonce,
      rc_IssuedAt = issuedAt, rc_ExpiresAt = expiresAt, rc_OverlapUntil = overlapUntil,
      rc_NewCredentialValidUntil = credentialValidUntil\<rparr>"

text \<open>
  \<open>authErr\<close> is the answer of the optional session authorizer, \<open>None\<close> also if there is none, and
  \<open>recordErr\<close> the answer of the store to the record of the challenge.
\<close>

definition ChallengeWithCredentialExpiry ::
  "error option \<Rightarrow> time \<Rightarrow> error option \<Rightarrow> error option \<Rightarrow> string \<Rightarrow> string \<Rightarrow> uint64 \<Rightarrow> string \<Rightarrow> string \<Rightarrow>
     string \<Rightarrow> time \<Rightarrow> time \<Rightarrow> time \<Rightarrow> time \<Rightarrow> RotationCoordinator \<Rightarrow>
     (error + CredentialRotationChallenge) \<times> RotationCoordinator" where
  "ChallengeWithCredentialExpiry ctxErr now authErr recordErr connectorID sessionID processGeneration
     oldIdentityKeyID oldIdentityKeyThumbprint nonce issuedAt expiresAt overlapUntil credentialValidUntil c =
     (case ctxErr of
        Some err \<Rightarrow> (Inl (canceled err), c)
      | None \<Rightarrow>
          if \<not> co_started c then (Inl ErrInvalidInput, c)
          else case fmlookup (co_targets c) connectorID of
            None \<Rightarrow> (Inl (codeError ErrIdentityMismatch ReasonAuthentication False None), c)
          | Some state \<Rightarrow>
              if ts_state state \<noteq> RotationTargetPending
                 \<and> (ts_state state \<noteq> RotationTargetChallenged
                    \<or> time_IsZero (rc_ExpiresAt (ts_challenge state))
                    \<or> time_After (rc_ExpiresAt (ts_challenge state)) now)
              then (Inl (codeError ErrSessionConflict ReasonStaleGeneration True None), c)
              else
                let challenge = rotation_challenge (co_plan c) (ts_target state) connectorID sessionID
                      processGeneration oldIdentityKeyID oldIdentityKeyThumbprint nonce issuedAt expiresAt
                      overlapUntil credentialValidUntil
                in case CredentialRotationChallenge_Validate now challenge of
                     Some err \<Rightarrow> (Inl err, c)
                   | None \<Rightarrow>
                       (case authErr of
                          Some err \<Rightarrow> (Inl err, c)
                        | None \<Rightarrow>
                            (case recordErr of
                               Some err \<Rightarrow> (Inl (rotation_failed err), c)
                             | None \<Rightarrow>
                                 (Inr challenge,
                                  co_put connectorID (state\<lparr>ts_challenge := challenge,
                                    ts_state := RotationTargetChallenged\<rparr>) c))))"

definition RotationCoordinator_Challenge ::
  "error option \<Rightarrow> time \<Rightarrow> error option \<Rightarrow> error option \<Rightarrow> string \<Rightarrow> string \<Rightarrow> uint64 \<Rightarrow> string \<Rightarrow> string \<Rightarrow>
     string \<Rightarrow> time \<Rightarrow> time \<Rightarrow> time \<Rightarrow> RotationCoordinator \<Rightarrow>
     (error + CredentialRotationChallenge) \<times> RotationCoordinator" where
  "RotationCoordinator_Challenge ctxErr now authErr recordErr connectorID sessionID processGeneration
     oldIdentityKeyID oldIdentityKeyThumbprint nonce issuedAt expiresAt overlapUntil =
     ChallengeWithCredentialExpiry ctxErr now authErr recordErr connectorID sessionID processGeneration
       oldIdentityKeyID oldIdentityKeyThumbprint nonce issuedAt expiresAt overlapUntil
       (time_Add overlapUntil (365 * 24 * Hour))"

definition rotationProofMatchesChallenge ::
  "CredentialRotationProof \<Rightarrow> CredentialRotationChallenge \<Rightarrow> RotationTarget \<Rightarrow> bool" where
  "rotationProofMatchesChallenge proof challenge target \<longleftrightarrow>
     rp_AccountID proof = rc_AccountID challenge \<and> rp_TunnelID proof = rc_TunnelID challenge
     \<and> rp_OperationID proof = rc_OperationID challenge \<and> rp_ConnectorID proof = rc_ConnectorID challenge
     \<and> rp_HostID proof = rc_HostID challenge \<and> rp_SessionID proof = rc_SessionID challenge
     \<and> rp_ProcessGeneration proof = rc_ProcessGeneration challenge
     \<and> rp_TargetSetHash proof = rc_TargetSetHash challenge
     \<and> rp_OldCredentialGeneration proof = rt_OldCredentialGeneration target
     \<and> rp_NewCredentialGeneration proof = rt_NewCredentialGeneration target
     \<and> rp_OldIdentityKeyID proof = rc_OldIdentityKeyID challenge
     \<and> rp_OldIdentityKeyThumbprint proof = rc_OldIdentityKeyThumbprint challenge
     \<and> rp_ChallengeNonce proof = rc_ChallengeNonce challenge
     \<and> rp_NewCredentialValidUntil proof = rc_NewCredentialValidUntil challenge
     \<and> \<not> time_Before (rp_IssuedAt proof) (rc_IssuedAt challenge)
     \<and> \<not> time_After (rp_IssuedAt proof) (rc_ExpiresAt challenge)"

definition rotationAckForInstall :: "CredentialRotationInstall \<Rightarrow> CredentialRotationAck" where
  "rotationAckForInstall install =
     \<lparr>ra_AccountID = ri_AccountID install, ra_TunnelID = ri_TunnelID install,
      ra_OperationID = ri_OperationID install, ra_ConnectorID = ri_ConnectorID install,
      ra_HostID = ri_HostID install, ra_SessionID = ri_SessionID install,
      ra_ProcessGeneration = ri_ProcessGeneration install, ra_TargetSetHash = ri_TargetSetHash install,
      ra_OldCredentialGeneration = ri_OldCredentialGeneration install,
      ra_NewCredentialGeneration = ri_NewCredentialGeneration install,
      ra_Status = RotationAckInstalled, ra_Code = CodeEmpty, ra_Message = ''''\<rparr>"

definition rotation_install ::
  "RotationPlan \<Rightarrow> CredentialRotationChallenge \<Rightarrow> CredentialRotationProof \<Rightarrow> CredentialRotationInstall" where
  "rotation_install plan challenge proof =
     \<lparr>ri_AccountID = plan_AccountID plan, ri_TunnelID = plan_TunnelID plan,
      ri_OperationID = plan_OperationID plan, ri_ConnectorID = rp_ConnectorID proof,
      ri_HostID = rp_HostID proof, ri_SessionID = rp_SessionID proof,
      ri_ProcessGeneration = rp_ProcessGeneration proof, ri_TargetSetHash = plan_TargetSetHash plan,
      ri_OldCredentialGeneration = rp_OldCredentialGeneration proof,
      ri_NewCredentialGeneration = rp_NewCredentialGeneration proof,
      ri_NewIdentityKeyID = rp_NewIdentityKeyID proof,
      ri_NewIdentityKeyThumbprint = rp_NewIdentityKeyThumbprint proof, ri_NewPublicKey = rp_NewPublicKey proof,
      ri_NewCredentialReference = rp_NewCredentialReference proof,
      ri_ChallengeNonce = rp_ChallengeNonce proof, ri_OverlapUntil = rc_OverlapUntil challenge,
      ri_NewCredentialValidUntil = rp_NewCredentialValidUntil proof,
      ri_ReplacementProcessGeneration = rp_ProcessGeneration proof + 1\<rparr>"

text \<open>A record that the store refuses makes the target fail.\<close>

definition store_failed :: "rotationTargetState \<Rightarrow> rotationTargetState" where
  "store_failed state = state\<lparr>ts_state := RotationTargetFailed, ts_code := CodeCredentialRotationFailed\<rparr>"

definition RotationCoordinator_AcceptProof ::
  "('a rotlib_scheme) \<Rightarrow> error option \<Rightarrow> time \<Rightarrow> error option \<Rightarrow> CredentialRotationProof \<Rightarrow> RotationCoordinator \<Rightarrow>
     (error + CredentialRotationInstall \<times> CredentialRotationAck) \<times> RotationCoordinator" where
  "RotationCoordinator_AcceptProof L ctxErr now recordErr proof c =
     (case ctxErr of
        Some err \<Rightarrow> (Inl (canceled err), c)
      | None \<Rightarrow>
     (case CredentialRotationProof_Validate L now proof of
        Some err \<Rightarrow> (Inl err, c)
      | None \<Rightarrow>
     (case fmlookup (co_targets c) (rp_ConnectorID proof) of
        None \<Rightarrow> (Inl (codeError ErrStaleGeneration ReasonStaleGeneration False None), c)
      | Some state \<Rightarrow>
          if ts_state state \<noteq> RotationTargetChallenged
          then (Inl (codeError ErrStaleGeneration ReasonStaleGeneration False None), c)
          else if \<not> rotationProofMatchesChallenge proof (ts_challenge state) (ts_target state)
          then (Inl (codeError ErrIdentityMismatch ReasonAuthentication False None), c)
          else case VerifyCredentialRotationProofAt L proof (co_verify c) now of
            Some err \<Rightarrow> (Inl err, c)
          | None \<Rightarrow>
              (let install = rotation_install (co_plan c) (ts_challenge state) proof
               in case CredentialRotationInstall_Validate L now install of
                    Some err \<Rightarrow> (Inl err, c)
                  | None \<Rightarrow>
                      (case recordErr of
                         Some err \<Rightarrow> (Inl (rotation_failed err), co_put (rp_ConnectorID proof) (store_failed state) c)
                       | None \<Rightarrow>
                           (Inr (install, rotationAckForInstall install),
                            co_put (rp_ConnectorID proof) (state\<lparr>ts_proof := proof, ts_install := install,
                              ts_state := RotationTargetInstalled\<rparr>) c))))))"

section \<open>Readiness\<close>

definition rotation_ready_ack ::
  "RotationAckStatus \<Rightarrow> Code \<Rightarrow> CredentialRotationReady \<Rightarrow> CredentialRotationAck" where
  "rotation_ready_ack status code ready =
     \<lparr>ra_AccountID = rr_AccountID ready, ra_TunnelID = rr_TunnelID ready,
      ra_OperationID = rr_OperationID ready, ra_ConnectorID = rr_ConnectorID ready,
      ra_HostID = rr_HostID ready, ra_SessionID = rr_SessionID ready,
      ra_ProcessGeneration = rr_ProcessGeneration ready, ra_TargetSetHash = rr_TargetSetHash ready,
      ra_OldCredentialGeneration = rr_OldCredentialGeneration ready,
      ra_NewCredentialGeneration = rr_NewCredentialGeneration ready,
      ra_Status = status, ra_Code = code, ra_Message = ''''\<rparr>"

definition rotationRejectedAck :: "CredentialRotationReady \<Rightarrow> Code \<Rightarrow> CredentialRotationAck" where
  "rotationRejectedAck ready code = rotation_ready_ack RotationAckRejected code ready"

definition ready_foreign ::
  "RotationPlan \<Rightarrow> CredentialRotationInstall \<Rightarrow> CredentialRotationReady \<Rightarrow> bool" where
  "ready_foreign plan install ready \<longleftrightarrow>
     rr_AccountID ready \<noteq> plan_AccountID plan \<or> rr_TunnelID ready \<noteq> plan_TunnelID plan
     \<or> rr_OperationID ready \<noteq> plan_OperationID plan \<or> rr_ConnectorID ready \<noteq> ri_ConnectorID install
     \<or> rr_HostID ready \<noteq> ri_HostID install \<or> rr_TargetSetHash ready \<noteq> plan_TargetSetHash plan
     \<or> rr_SessionID ready = ri_SessionID install \<or> rr_PreviousSessionID ready \<noteq> ri_SessionID install
     \<or> rr_ProcessGeneration ready < ri_ReplacementProcessGeneration install
     \<or> rr_OldCredentialGeneration ready \<noteq> ri_OldCredentialGeneration install
     \<or> rr_NewCredentialGeneration ready \<noteq> ri_NewCredentialGeneration install
     \<or> rr_NewIdentityKeyID ready \<noteq> ri_NewIdentityKeyID install
     \<or> rr_NewIdentityKeyThumbprint ready \<noteq> ri_NewIdentityKeyThumbprint install
     \<or> rr_NewPublicKey ready \<noteq> ri_NewPublicKey install
     \<or> rr_NewCredentialReference ready \<noteq> ri_NewCredentialReference install
     \<or> rr_NewCredentialValidUntil ready \<noteq> ri_NewCredentialValidUntil install"

definition RotationCoordinator_MarkReady ::
  "('a golib_scheme) \<Rightarrow> error option \<Rightarrow> time \<Rightarrow> error option \<Rightarrow> CredentialRotationReady \<Rightarrow> RotationCoordinator \<Rightarrow>
     (CredentialRotationAck \<times> error option) \<times> RotationCoordinator" where
  "RotationCoordinator_MarkReady L ctxErr now recordErr ready c =
     (case ctxErr of
        Some err \<Rightarrow> ((zero_RotationAck, Some (canceled err)), c)
      | None \<Rightarrow>
     (case CredentialRotationReady_Validate L now ready of
        Some err \<Rightarrow> ((rotationRejectedAck ready CodeCredentialRotationNotReady, Some err), c)
      | None \<Rightarrow>
     (case fmlookup (co_targets c) (rr_ConnectorID ready) of
        None \<Rightarrow> ((zero_RotationAck, Some (codeError ErrStaleGeneration ReasonStaleGeneration False None)), c)
      | Some state \<Rightarrow>
          if ts_state state \<noteq> RotationTargetInstalled
          then ((zero_RotationAck, Some (codeError ErrStaleGeneration ReasonStaleGeneration False None)), c)
          else if ready_foreign (co_plan c) (ts_install state) ready
          then ((zero_RotationAck, Some (codeError ErrIdentityMismatch ReasonAuthentication False None)), c)
          else case recordErr of
            Some err \<Rightarrow>
              ((zero_RotationAck, Some (rotation_failed err)), co_put (rr_ConnectorID ready) (store_failed state) c)
          | None \<Rightarrow>
              ((rotation_ready_ack RotationAckReady CodeEmpty ready, None),
               co_put (rr_ConnectorID ready) (state\<lparr>ts_ready := ready, ts_state := RotationTargetReady\<rparr>) c))))"

section \<open>Summaries\<close>

definition co_state :: "RotationCoordinator \<Rightarrow> RotationTarget \<Rightarrow> rotationTargetState" where
  "co_state c target =
     (case fmlookup (co_targets c) (rt_ConnectorID target) of
        Some state \<Rightarrow> state | None \<Rightarrow> pending_target target)"

text \<open>The map has an entry for every target of the plan, so the default of \<open>co_state\<close> is never taken.\<close>

definition summaryLocked :: "RotationCoordinator \<Rightarrow> RotationSummary" where
  "summaryLocked c =
     (let failed = list_ex (\<lambda>target. ts_state (co_state c target) = RotationTargetFailed) (plan_Targets (co_plan c));
          succeeded = list_all (\<lambda>target. ts_state (co_state c target) = RotationTargetRevoked) (plan_Targets (co_plan c))
      in \<lparr>rs_AccountID = plan_AccountID (co_plan c), rs_TunnelID = plan_TunnelID (co_plan c),
          rs_OperationID = plan_OperationID (co_plan c), rs_TargetSetHash = plan_TargetSetHash (co_plan c),
          rs_Status = (if failed then RotationAggregateFailed
                       else if succeeded then RotationAggregateSucceeded else RotationAggregatePending),
          rs_Targets = map (\<lambda>target. \<lparr>rts_Target = target, rts_State = ts_state (co_state c target),
                                      rts_Code = ts_code (co_state c target)\<rparr>) (plan_Targets (co_plan c)),
          rs_CompletedAt = (if \<not> failed \<and> succeeded then co_finished c else 0)\<rparr>)"

definition zero_RotationSummary :: RotationSummary where
  "zero_RotationSummary =
     \<lparr>rs_AccountID = '''', rs_TunnelID = '''', rs_OperationID = '''', rs_TargetSetHash = '''',
      rs_Status = RotationAggregateOther '''', rs_Targets = [], rs_CompletedAt = 0\<rparr>"

definition RotationCoordinator_Summary :: "RotationCoordinator \<Rightarrow> RotationSummary" where
  "RotationCoordinator_Summary c = summaryLocked c"

definition allReadyLocked :: "RotationCoordinator \<Rightarrow> bool" where
  "allReadyLocked c \<longleftrightarrow>
     fmpred (\<lambda>_ state. ts_state state = RotationTargetReady \<or> ts_state state = RotationTargetRevoking
                        \<or> ts_state state = RotationTargetRevoked) (co_targets c)"

section \<open>Revocation\<close>

definition RotationCoordinator_Revoke ::
  "error option \<Rightarrow> time \<Rightarrow> error + string \<Rightarrow> error option \<Rightarrow> string \<Rightarrow> RotationCoordinator \<Rightarrow>
     (error + CredentialRotationRevoke) \<times> RotationCoordinator" where
  "RotationCoordinator_Revoke ctxErr now random recordErr connectorID c =
     (case ctxErr of
        Some err \<Rightarrow> (Inl (canceled err), c)
      | None \<Rightarrow>
     (case fmlookup (co_targets c) connectorID of
        None \<Rightarrow> (Inl (codeError ErrIdentityMismatch ReasonAuthentication False None), c)
      | Some state \<Rightarrow>
          if rs_Status (summaryLocked c) = RotationAggregateFailed
          then (Inl (codeError ErrCredentialRotationFailed ReasonCredentialRotation False None), c)
          else if \<not> allReadyLocked c
          then (Inl (codeError ErrCredentialRotationNotReady ReasonSnapshotRejected True None), c)
          else if ts_state state = RotationTargetRevoking then (Inr (ts_revoke state), c)
          else if ts_state state \<noteq> RotationTargetReady
          then (Inl (codeError ErrStaleGeneration ReasonStaleGeneration False None), c)
          else case newOpaqueID random ''rotation-revoke'' of
            Inl err \<Rightarrow> (Inl err, c)
          | Inr revokeNonce \<Rightarrow>
              (let revoke =
                 \<lparr>rv_AccountID = plan_AccountID (co_plan c), rv_TunnelID = plan_TunnelID (co_plan c),
                  rv_OperationID = plan_OperationID (co_plan c), rv_ConnectorID = connectorID,
                  rv_HostID = rt_HostID (ts_target state), rv_SessionID = rr_SessionID (ts_ready state),
                  rv_ProcessGeneration = rr_ProcessGeneration (ts_ready state),
                  rv_TargetSetHash = plan_TargetSetHash (co_plan c),
                  rv_OldCredentialGeneration = rt_OldCredentialGeneration (ts_target state),
                  rv_NewCredentialGeneration = rt_NewCredentialGeneration (ts_target state),
                  rv_RevokeNonce = revokeNonce, rv_IssuedAt = now,
                  rv_Deadline = time_Add now DefaultAbortTimeout\<rparr>
               in case CredentialRotationRevoke_Validate now revoke of
                    Some err \<Rightarrow> (Inl err, c)
                  | None \<Rightarrow>
                      (case recordErr of
                         Some err \<Rightarrow> (Inl (rotation_failed err), co_put connectorID (store_failed state) c)
                       | None \<Rightarrow>
                           (Inr revoke,
                            co_put connectorID (state\<lparr>ts_revoke := revoke,
                              ts_state := RotationTargetRevoking\<rparr>) c)))))"

section \<open>Acknowledgements and failure\<close>

definition rotationNegativeAckMatches :: "rotationTargetState \<Rightarrow> CredentialRotationAck \<Rightarrow> bool" where
  "rotationNegativeAckMatches state ack =
     (let bound = (\<lambda>sessionID processGeneration. sessionID \<noteq> '''' \<and> processGeneration > 0
                     \<and> ra_SessionID ack = sessionID \<and> ra_ProcessGeneration ack = processGeneration)
      in case ts_state state of
           RotationTargetChallenged \<Rightarrow> bound (rc_SessionID (ts_challenge state)) (rc_ProcessGeneration (ts_challenge state))
         | RotationTargetInstalled \<Rightarrow> bound (rc_SessionID (ts_challenge state)) (rc_ProcessGeneration (ts_challenge state))
         | RotationTargetReady \<Rightarrow> bound (rr_SessionID (ts_ready state)) (rr_ProcessGeneration (ts_ready state))
         | RotationTargetRevoking \<Rightarrow> bound (rv_SessionID (ts_revoke state)) (rv_ProcessGeneration (ts_revoke state))
         | _ \<Rightarrow> False)"

definition ack_foreign :: "RotationPlan \<Rightarrow> RotationTarget \<Rightarrow> CredentialRotationAck \<Rightarrow> bool" where
  "ack_foreign plan target ack \<longleftrightarrow>
     ra_AccountID ack \<noteq> plan_AccountID plan \<or> ra_TunnelID ack \<noteq> plan_TunnelID plan
     \<or> ra_OperationID ack \<noteq> plan_OperationID plan \<or> ra_TargetSetHash ack \<noteq> plan_TargetSetHash plan
     \<or> ra_HostID ack \<noteq> rt_HostID target
     \<or> ra_OldCredentialGeneration ack \<noteq> rt_OldCredentialGeneration target
     \<or> ra_NewCredentialGeneration ack \<noteq> rt_NewCredentialGeneration target"

definition code_cause :: "Code \<Rightarrow> error" where
  "code_cause code = ErrorString (Code_string code)"

definition ack_stale :: "RotationSummary \<times> error option" where
  "ack_stale = (zero_RotationSummary, Some (codeError ErrStaleGeneration ReasonStaleGeneration False None))"

definition HandleAck_negative ::
  "error option \<Rightarrow> CredentialRotationAck \<Rightarrow> rotationTargetState \<Rightarrow> RotationCoordinator \<Rightarrow>
     (RotationSummary \<times> error option) \<times> RotationCoordinator" where
  "HandleAck_negative recordErr ack state c =
     (if \<not> rotationNegativeAckMatches state ack
      then ((zero_RotationSummary, Some (codeError ErrIdentityMismatch ReasonAuthentication False None)), c)
      else
        let c' = co_put (ra_ConnectorID ack) (state\<lparr>ts_state := RotationTargetFailed, ts_code := ra_Code ack\<rparr>) c
        in case recordErr of
             Some err \<Rightarrow>
               (let c'' = co_put (ra_ConnectorID ack) state c
                in ((summaryLocked c'', Some (codeError ErrCredentialRotationFailed ReasonCredentialRotation False
                       (Some (ErrorJoin [ErrCredentialRotationFailed, err])))), c''))
           | None \<Rightarrow> ((summaryLocked c', Some (rotation_failed (code_cause (ra_Code ack)))), c'))"

definition HandleAck_revoked ::
  "time \<Rightarrow> error option \<Rightarrow> CredentialRotationAck \<Rightarrow> rotationTargetState \<Rightarrow> RotationCoordinator \<Rightarrow>
     (RotationSummary \<times> error option) \<times> RotationCoordinator" where
  "HandleAck_revoked now recordErr ack state c =
     (if ra_Status ack \<noteq> RotationAckRevoked \<or> ts_state state \<noteq> RotationTargetRevoking
         \<or> ra_SessionID ack \<noteq> rv_SessionID (ts_revoke state)
         \<or> ra_ProcessGeneration ack \<noteq> rv_ProcessGeneration (ts_revoke state)
      then (ack_stale, c)
      else
        let revoked = state\<lparr>ts_state := RotationTargetRevoked\<rparr>;
            c1 = co_put (ra_ConnectorID ack) revoked c;
            succeeded = rs_Status (summaryLocked c1) = RotationAggregateSucceeded;
            c2 = (if succeeded then c1\<lparr>co_finished := now\<rparr> else c1);
            summary = (if succeeded then (summaryLocked c1)\<lparr>rs_CompletedAt := now\<rparr> else summaryLocked c1)
        in case recordErr of
             Some err \<Rightarrow>
               (let c3 = co_put (ra_ConnectorID ack) (store_failed revoked) c2
                in ((summaryLocked c3, Some (rotation_failed err)), c3))
           | None \<Rightarrow> ((summary, None), c2))"

definition RotationCoordinator_HandleAck ::
  "error option \<Rightarrow> time \<Rightarrow> error option \<Rightarrow> CredentialRotationAck \<Rightarrow> RotationCoordinator \<Rightarrow>
     (RotationSummary \<times> error option) \<times> RotationCoordinator" where
  "RotationCoordinator_HandleAck ctxErr now recordErr ack c =
     (case CredentialRotationAck_Validate ack of
        Some err \<Rightarrow> ((zero_RotationSummary, Some err), c)
      | None \<Rightarrow>
     (case ctxErr of
        Some err \<Rightarrow> ((zero_RotationSummary, Some (canceled err)), c)
      | None \<Rightarrow>
     (case fmlookup (co_targets c) (ra_ConnectorID ack) of
        None \<Rightarrow> ((zero_RotationSummary, Some (codeError ErrIdentityMismatch ReasonAuthentication False None)), c)
      | Some state \<Rightarrow>
          if ack_foreign (co_plan c) (ts_target state) ack
          then ((zero_RotationSummary, Some (codeError ErrIdentityMismatch ReasonAuthentication False None)), c)
          else if ts_state state = RotationTargetRevoked \<or> ts_state state = RotationTargetFailed
          then ((summaryLocked c, Some (codeError ErrStaleGeneration ReasonStaleGeneration False None)), c)
          else if ra_Status ack = RotationAckRejected \<or> ra_Status ack = RotationAckFailed
          then HandleAck_negative recordErr ack state c
          else if ra_Status ack = RotationAckInstalled
          then if ts_state state \<noteq> RotationTargetInstalled
                  \<or> ra_SessionID ack \<noteq> ri_SessionID (ts_install state)
                  \<or> ra_ProcessGeneration ack \<noteq> ri_ProcessGeneration (ts_install state)
               then (ack_stale, c)
               else ((summaryLocked c, None), c)
          else if ra_Status ack = RotationAckReady
          then if ts_state state \<noteq> RotationTargetReady
                  \<or> ra_SessionID ack \<noteq> rr_SessionID (ts_ready state)
                  \<or> ra_ProcessGeneration ack \<noteq> rr_ProcessGeneration (ts_ready state)
               then (ack_stale, c)
               else ((summaryLocked c, None), c)
          else HandleAck_revoked now recordErr ack state c)))"

definition failureAckLocked :: "RotationCoordinator \<Rightarrow> rotationTargetState \<Rightarrow> Code \<Rightarrow> CredentialRotationAck" where
  "failureAckLocked c state code =
     (let (sessionID, processGeneration) =
            (if rv_SessionID (ts_revoke state) \<noteq> ''''
             then (rv_SessionID (ts_revoke state), rv_ProcessGeneration (ts_revoke state))
             else if rr_SessionID (ts_ready state) \<noteq> ''''
             then (rr_SessionID (ts_ready state), rr_ProcessGeneration (ts_ready state))
             else (rc_SessionID (ts_challenge state), rc_ProcessGeneration (ts_challenge state)))
      in \<lparr>ra_AccountID = plan_AccountID (co_plan c), ra_TunnelID = plan_TunnelID (co_plan c),
          ra_OperationID = plan_OperationID (co_plan c), ra_ConnectorID = rt_ConnectorID (ts_target state),
          ra_HostID = rt_HostID (ts_target state), ra_SessionID = sessionID,
          ra_ProcessGeneration = processGeneration, ra_TargetSetHash = plan_TargetSetHash (co_plan c),
          ra_OldCredentialGeneration = rt_OldCredentialGeneration (ts_target state),
          ra_NewCredentialGeneration = rt_NewCredentialGeneration (ts_target state),
          ra_Status = RotationAckFailed, ra_Code = code, ra_Message = ''''\<rparr>)"

text \<open>
  \<open>Fail\<close> hands the store the acknowledgement of \<open>failureAckLocked\<close>; \<open>record\<close> is the answer of the
  store to it and to the summary.
\<close>

definition RotationCoordinator_Fail ::
  "(CredentialRotationAck \<Rightarrow> RotationSummary \<Rightarrow> error option) \<Rightarrow> string \<Rightarrow> Code \<Rightarrow>
     RotationCoordinator \<Rightarrow> (RotationSummary \<times> error option) \<times> RotationCoordinator" where
  "RotationCoordinator_Fail record connectorID code c =
     (if \<not> validCode code \<or> code = CodeEmpty then ((zero_RotationSummary, Some ErrInvalidInput), c)
      else case fmlookup (co_targets c) connectorID of
        None \<Rightarrow> ((zero_RotationSummary, Some (codeError ErrIdentityMismatch ReasonAuthentication False None)), c)
      | Some state \<Rightarrow>
          if ts_state state = RotationTargetRevoked
          then ((summaryLocked c, Some (codeError ErrStaleGeneration ReasonStaleGeneration False None)), c)
          else if ts_state state = RotationTargetFailed
          then ((summaryLocked c, Some (rotation_failed (code_cause (ts_code state)))), c)
          else
            let failed = state\<lparr>ts_state := RotationTargetFailed, ts_code := code\<rparr>;
                c' = co_put connectorID failed c
            in case record (failureAckLocked c' failed code) (summaryLocked c') of
                 Some err \<Rightarrow>
                   (let c'' = co_put connectorID state c
                    in ((summaryLocked c'', Some (rotation_failed err)), c''))
               | None \<Rightarrow> ((summaryLocked c', Some (rotation_failed (code_cause code))), c'))"

end
