(* ===== verification/Rotation_Invariants.thy ===== *)
theory Rotation_Invariants
  imports Rotation_Coordinator
begin

text \<open>
  What the coordinator of a rotation guarantees. A coordinator is well formed if its map has exactly
  the targets of its plan and every target passes the check that recovery makes of a stored target;
  every operation keeps this. The phases of the targets follow an abstract machine, in which an old
  credential is revoked only when every target is ready.
\<close>

section \<open>Well-formed coordinators\<close>

text \<open>What a store has to keep of a target so that recovery restores it.\<close>

definition target_view :: "time \<Rightarrow> time \<Rightarrow> rotationTargetState \<Rightarrow> RotationResumeTarget" where
  "target_view overlapUntil validUntil state =
     \<lparr>res_Target = ts_target state, res_State = ts_state state, res_Code = ts_code state,
      res_OverlapUntil = overlapUntil, res_NewCredentialValidUntil = validUntil,
      res_Challenge = ts_challenge state, res_Proof = ts_proof state, res_Install = ts_install state,
      res_Ready = ts_ready state, res_Revoke = ts_revoke state\<rparr>"

lemma target_view_simps [simp]:
  "res_Target (target_view ov nv state) = ts_target state" "res_State (target_view ov nv state) = ts_state state"
  "res_Code (target_view ov nv state) = ts_code state" "res_Challenge (target_view ov nv state) = ts_challenge state"
  "res_OverlapUntil (target_view ov nv state) = ov" "res_NewCredentialValidUntil (target_view ov nv state) = nv"
  "res_Proof (target_view ov nv state) = ts_proof state" "res_Install (target_view ov nv state) = ts_install state"
  "res_Ready (target_view ov nv state) = ts_ready state" "res_Revoke (target_view ov nv state) = ts_revoke state"
  by (simp_all add: target_view_def)

definition target_ok :: "('a golib_scheme) \<Rightarrow> RotationPlan \<Rightarrow> rotationTargetState \<Rightarrow> bool" where
  "target_ok L plan state \<longleftrightarrow> validateRotationResumeTarget L plan (target_view 0 0 state) = None"

text \<open>A completion time is there only when a target has failed or all are revoked.\<close>

definition finished_ok :: "RotationCoordinator \<Rightarrow> bool" where
  "finished_ok c \<longleftrightarrow> co_finished c = 0
     \<or> \<not> fmpred (\<lambda>_ state. ts_state state \<noteq> RotationTargetFailed) (co_targets c)
     \<or> fmpred (\<lambda>_ state. ts_state state = RotationTargetRevoked) (co_targets c)"

definition coordinator_ok :: "('a rotlib_scheme) \<Rightarrow> RotationCoordinator \<Rightarrow> bool" where
  "coordinator_ok L c \<longleftrightarrow>
     RotationPlan_Validate L (co_plan c) = None
     \<and> fmdom (co_targets c) = fset_of_list (map rt_ConnectorID (plan_Targets (co_plan c)))
     \<and> fmpred (\<lambda>connectorID state. rt_ConnectorID (ts_target state) = connectorID
                \<and> target_ok L (co_plan c) state) (co_targets c)
     \<and> finished_ok c"

section \<open>One target\<close>

abbreviation challenged :: "rotationTargetState \<Rightarrow> bool" where
  "challenged state \<equiv> rc_SessionID (ts_challenge state) \<noteq> ''''"

abbreviation installed :: "rotationTargetState \<Rightarrow> bool" where
  "installed state \<equiv> ri_SessionID (ts_install state) \<noteq> ''''"

abbreviation readied :: "rotationTargetState \<Rightarrow> bool" where
  "readied state \<equiv> rr_SessionID (ts_ready state) \<noteq> ''''"

abbreviation revoked :: "rotationTargetState \<Rightarrow> bool" where
  "revoked state \<equiv> rv_SessionID (ts_revoke state) \<noteq> ''''"

definition code_ok :: "rotationTargetState \<Rightarrow> bool" where
  "code_ok state \<longleftrightarrow> (if ts_state state = RotationTargetFailed then validCode (ts_code state)
     else ts_code state = CodeEmpty)"

definition times_ok :: "time \<Rightarrow> time \<Rightarrow> bool" where
  "times_ok overlapUntil validUntil \<longleftrightarrow> overlapUntil = 0 \<and> validUntil = 0
     \<or> overlapUntil \<noteq> 0 \<and> validUntil \<noteq> 0 \<and> overlapUntil < validUntil"

definition messages_ok :: "('a golib_scheme) \<Rightarrow> RotationPlan \<Rightarrow> rotationTargetState \<Rightarrow> bool" where
  "messages_ok L plan state \<longleftrightarrow>
     (installed state \<longrightarrow> challenged state) \<and> (readied state \<longrightarrow> installed state) \<and> (revoked state \<longrightarrow> readied state)
     \<and> (challenged state \<longrightarrow> \<not> resume_challenge_bad plan (target_view 0 0 state))
     \<and> (installed state \<longrightarrow> \<not> resume_install_bad L plan (target_view 0 0 state))
     \<and> (readied state \<longrightarrow> \<not> resume_ready_bad L plan (target_view 0 0 state))
     \<and> (revoked state \<longrightarrow> \<not> resume_revoke_bad plan (target_view 0 0 state))"

lemma view_bad_irrelevant:
  "resume_challenge_bad plan (target_view ov nv state) = resume_challenge_bad plan (target_view 0 0 state)"
  "resume_install_bad L plan (target_view ov nv state) = resume_install_bad L plan (target_view 0 0 state)"
  "resume_ready_bad L plan (target_view ov nv state) = resume_ready_bad L plan (target_view 0 0 state)"
  "resume_revoke_bad plan (target_view ov nv state) = resume_revoke_bad plan (target_view 0 0 state)"
  "resume_phase_bad (target_view ov nv state) = resume_phase_bad (target_view 0 0 state)"
  by (simp_all add: resume_challenge_bad_def resume_install_bad_def resume_ready_bad_def
      resume_revoke_bad_def resume_phase_bad_def)

lemma validate_view_iff:
  "validateRotationResumeTarget L plan (target_view ov nv state) = None \<longleftrightarrow>
     RotationTarget_Validate (ts_target state) = None
     \<and> RotationPlan_Target plan (rt_ConnectorID (ts_target state)) = Some (ts_target state)
     \<and> validRotationTargetState (ts_state state) \<and> code_ok state \<and> times_ok ov nv
     \<and> messages_ok L plan state \<and> \<not> resume_phase_bad (target_view 0 0 state)"
  (is "?lhs \<longleftrightarrow> ?rhs")
proof (cases "RotationTarget_Validate (ts_target state)")
  case None
  have code: "(ts_state state = RotationTargetFailed \<and> (ts_code state = CodeEmpty \<or> \<not> validCode (ts_code state)))
      \<or> (ts_state state \<noteq> RotationTargetFailed \<and> ts_code state \<noteq> CodeEmpty) \<longleftrightarrow> \<not> code_ok state"
    by (auto simp: code_ok_def)
  have times: "time_IsZero ov \<noteq> time_IsZero nv \<or> \<not> time_IsZero ov \<and> \<not> time_After nv ov \<longleftrightarrow> \<not> times_ok ov nv"
    by (auto simp: times_ok_def time_IsZero_def time_After_def)
  show ?thesis
    unfolding validateRotationResumeTarget_def Let_def target_view_simps
    using code times None
    by (simp add: view_bad_irrelevant [where ov = ov and nv = nv] messages_ok_def) blast
qed (simp add: validateRotationResumeTarget_def)

lemma target_ok_iff:
  "target_ok L plan state \<longleftrightarrow>
     RotationTarget_Validate (ts_target state) = None
     \<and> RotationPlan_Target plan (rt_ConnectorID (ts_target state)) = Some (ts_target state)
     \<and> validRotationTargetState (ts_state state) \<and> code_ok state
     \<and> messages_ok L plan state \<and> \<not> resume_phase_bad (target_view 0 0 state)"
  unfolding target_ok_def validate_view_iff by (simp add: times_ok_def)

lemma phase_view:
  "resume_phase_bad (target_view 0 0 state) \<longleftrightarrow>
     (case ts_state state of
        RotationTargetPending \<Rightarrow> challenged state \<or> installed state \<or> readied state \<or> revoked state
      | RotationTargetChallenged \<Rightarrow> \<not> challenged state \<or> installed state \<or> readied state \<or> revoked state
      | RotationTargetInstalled \<Rightarrow> \<not> installed state \<or> readied state \<or> revoked state
      | RotationTargetReady \<Rightarrow> \<not> readied state \<or> revoked state
      | RotationTargetRevoking \<Rightarrow> \<not> revoked state
      | RotationTargetRevoked \<Rightarrow> \<not> revoked state
      | _ \<Rightarrow> False)"
  by (simp add: resume_phase_bad_def Let_def)

lemma rotation_ids_nonempty: "\<not> rotation_ids_bad ids \<Longrightarrow> x \<in> set ids \<Longrightarrow> x \<noteq> ''''"
  using ValidateIdentifier_nonempty by (auto simp: rotation_ids_bad_def list_ex_iff)

text \<open>A message that is valid now is valid at the zero time, which stands for no time.\<close>

lemma Challenge_Validate_zero:
  "CredentialRotationChallenge_Validate now h = None \<Longrightarrow> CredentialRotationChallenge_Validate 0 h = None"
  by (simp add: CredentialRotationChallenge_Validate_def time_IsZero_def split: if_splits)

lemma Install_Validate_zero:
  "CredentialRotationInstall_Validate L now i = None \<Longrightarrow> CredentialRotationInstall_Validate L 0 i = None"
  by (simp add: CredentialRotationInstall_Validate_def time_IsZero_def split: if_splits sum.splits)

lemma Ready_Validate_zero:
  "CredentialRotationReady_Validate L now y = None \<Longrightarrow> CredentialRotationReady_Validate L 0 y = None"
  by (simp add: CredentialRotationReady_Validate_def time_IsZero_def split: if_splits sum.splits)

lemma Revoke_Validate_zero:
  "CredentialRotationRevoke_Validate now v = None \<Longrightarrow> CredentialRotationRevoke_Validate 0 v = None"
  by (simp add: CredentialRotationRevoke_Validate_def time_IsZero_def split: if_splits)

lemma rotation_session_nonempty:
  "CredentialRotationChallenge_Validate now h = None \<Longrightarrow> rc_SessionID h \<noteq> ''''"
  "CredentialRotationInstall_Validate L now i = None \<Longrightarrow> ri_SessionID i \<noteq> ''''"
  "CredentialRotationReady_Validate L now y = None \<Longrightarrow> rr_SessionID y \<noteq> ''''"
  "CredentialRotationRevoke_Validate now v = None \<Longrightarrow> rv_SessionID v \<noteq> ''''"
  by (auto simp: CredentialRotationChallenge_Validate_def CredentialRotationInstall_Validate_def
      CredentialRotationReady_Validate_def CredentialRotationRevoke_Validate_def
      dest: rotation_ids_nonempty [of _ "''''"] split: if_splits)

lemma scan_targets_None:
  "scan_targets previous seen ts = None \<Longrightarrow>
     (\<forall>t \<in> set ts. RotationTarget_Validate t = None) \<and> distinct (map rt_ConnectorID ts) \<and>
     set seen \<inter> set (map rt_ConnectorID ts) = {}"
  by (induction previous seen ts rule: scan_targets.induct) (auto split: option.splits if_splits)

lemma find_key: "distinct (map f xs) \<Longrightarrow> x \<in> set xs \<Longrightarrow> find (\<lambda>y. f y = f x) xs = Some x"
  by (induction xs) (auto simp: image_iff)

lemma find_keyD: "find (\<lambda>y. f y = k) xs = Some x \<Longrightarrow> x \<in> set xs \<and> f x = k"
  by (auto simp: find_Some_iff)

lemma plan_targets:
  assumes "RotationPlan_Validate L plan = None"
  shows "distinct (map rt_ConnectorID (plan_Targets plan))" "plan_Targets plan \<noteq> []"
    and "t \<in> set (plan_Targets plan) \<Longrightarrow> RotationTarget_Validate t = None"
    and "t \<in> set (plan_Targets plan) \<Longrightarrow> RotationPlan_Target plan (rt_ConnectorID t) = Some t"
proof -
  have "validateRotationPlanFields plan = None"
    using assms by (simp add: RotationPlan_Validate_def split: option.splits)
  then have s: "scan_targets None [] (plan_Targets plan) = None" and ne: "plan_Targets plan \<noteq> []"
    by (auto simp: validateRotationPlanFields_def split: if_splits)
  from scan_targets_None [OF s] show d: "distinct (map rt_ConnectorID (plan_Targets plan))" by simp
  from ne show "plan_Targets plan \<noteq> []" .
  show "t \<in> set (plan_Targets plan) \<Longrightarrow> RotationTarget_Validate t = None"
    using scan_targets_None [OF s] by simp
  show "t \<in> set (plan_Targets plan) \<Longrightarrow> RotationPlan_Target plan (rt_ConnectorID t) = Some t"
    using find_key [OF d] by (simp add: RotationPlan_Target_def)
qed

lemma pending_simps [simp]:
  "ts_target (pending_target t) = t" "ts_state (pending_target t) = RotationTargetPending"
  "ts_code (pending_target t) = CodeEmpty" "\<not> challenged (pending_target t)" "\<not> installed (pending_target t)"
  "\<not> readied (pending_target t)" "\<not> revoked (pending_target t)"
  by (simp_all add: pending_target_def zero_RotationChallenge_def zero_RotationInstall_def
      zero_RotationReady_def zero_RotationRevoke_def)

lemma target_ok_pending:
  "RotationPlan_Validate L plan = None \<Longrightarrow> t \<in> set (plan_Targets plan) \<Longrightarrow> target_ok L plan (pending_target t)"
  by (simp add: target_ok_iff plan_targets phase_view messages_ok_def code_ok_def validRotationTargetState_def)

text \<open>The comparisons of a target's messages do not look at its phase and code.\<close>

lemma messages_ok_phase [simp]:
  "messages_ok L plan (state\<lparr>ts_state := p\<rparr>) = messages_ok L plan state"
  "messages_ok L plan (state\<lparr>ts_state := p, ts_code := k\<rparr>) = messages_ok L plan state"
  by (simp_all add: messages_ok_def resume_challenge_bad_def resume_install_bad_def resume_ready_bad_def
      resume_revoke_bad_def)

lemma target_ok_failed:
  "target_ok L plan state \<Longrightarrow> validCode code \<Longrightarrow>
     target_ok L plan (state\<lparr>ts_state := RotationTargetFailed, ts_code := code\<rparr>)"
  by (simp add: target_ok_iff phase_view code_ok_def validRotationTargetState_def)

lemma target_ok_store_failed: "target_ok L plan state \<Longrightarrow> target_ok L plan (store_failed state)"
  unfolding store_failed_def by (rule target_ok_failed) (simp_all add: validCode_def)

lemma target_ok_challenged:
  assumes "target_ok L plan state" and "ts_state state \<in> {RotationTargetPending, RotationTargetChallenged}"
    and "CredentialRotationChallenge_Validate now h = None"
    and "h = rotation_challenge plan (ts_target state) (rt_ConnectorID (ts_target state)) sessionID
      processGeneration keyID thumbprint nonce issuedAt expiresAt overlapUntil validUntil"
  shows "target_ok L plan (state\<lparr>ts_challenge := h, ts_state := RotationTargetChallenged\<rparr>)"
proof -
  have z: "CredentialRotationChallenge_Validate 0 h = None" and n: "rc_SessionID h \<noteq> ''''"
    using assms(3) Challenge_Validate_zero rotation_session_nonempty(1) by blast+
  have b: "rc_AccountID h = plan_AccountID plan" "rc_TunnelID h = plan_TunnelID plan"
    "rc_OperationID h = plan_OperationID plan" "rc_TargetSetHash h = plan_TargetSetHash plan"
    "rc_Target h = ts_target state" "rc_ConnectorID h = rt_ConnectorID (ts_target state)"
    "rc_HostID h = rt_HostID (ts_target state)"
    using assms(4) by (simp_all add: rotation_challenge_def)
  let ?s = "state\<lparr>ts_challenge := h, ts_state := RotationTargetChallenged\<rparr>"
  have "\<not> resume_challenge_bad plan (target_view 0 0 ?s)"
    using z b by (simp add: resume_challenge_bad_def)
  moreover have "\<not> installed state \<and> \<not> readied state \<and> \<not> revoked state"
    using assms(1,2) by (auto simp: target_ok_iff phase_view)
  ultimately have "messages_ok L plan ?s" using n by (simp add: messages_ok_def)
  then show ?thesis
    using assms(1,2) n \<open>\<not> installed state \<and> \<not> readied state \<and> \<not> revoked state\<close>
    by (auto simp: target_ok_iff phase_view code_ok_def validRotationTargetState_def)
qed

lemma target_ok_installed:
  assumes "target_ok L plan state" and "ts_state state = RotationTargetChallenged"
    and m: "rotationProofMatchesChallenge proof (ts_challenge state) (ts_target state)"
    and "CredentialRotationInstall_Validate L now (rotation_install plan (ts_challenge state) proof) = None"
  shows "target_ok L plan (state\<lparr>ts_proof := proof,
    ts_install := rotation_install plan (ts_challenge state) proof, ts_state := RotationTargetInstalled\<rparr>)"
proof -
  let ?i = "rotation_install plan (ts_challenge state) proof"
  have z: "CredentialRotationInstall_Validate L 0 ?i = None" and n: "ri_SessionID ?i \<noteq> ''''"
    using assms(4) Install_Validate_zero rotation_session_nonempty(2) by blast+
  have i: "ri_AccountID ?i = plan_AccountID plan" "ri_TunnelID ?i = plan_TunnelID plan"
    "ri_OperationID ?i = plan_OperationID plan" "ri_TargetSetHash ?i = plan_TargetSetHash plan"
    "ri_ConnectorID ?i = rc_ConnectorID (ts_challenge state)" "ri_HostID ?i = rc_HostID (ts_challenge state)"
    "ri_SessionID ?i = rc_SessionID (ts_challenge state)"
    "ri_ProcessGeneration ?i = rc_ProcessGeneration (ts_challenge state)"
    "ri_OldCredentialGeneration ?i = rt_OldCredentialGeneration (ts_target state)"
    "ri_NewCredentialGeneration ?i = rt_NewCredentialGeneration (ts_target state)"
    "ri_ChallengeNonce ?i = rc_ChallengeNonce (ts_challenge state)"
    using m by (simp_all add: rotation_install_def rotationProofMatchesChallenge_def)
  let ?s = "state\<lparr>ts_proof := proof, ts_install := ?i, ts_state := RotationTargetInstalled\<rparr>"
  have old: "challenged state" "\<not> readied state" "\<not> revoked state"
    "\<not> resume_challenge_bad plan (target_view 0 0 state)"
    using assms(1,2) by (simp_all add: target_ok_iff phase_view messages_ok_def)
  from old(4) have h: "\<not> resume_challenge_bad plan (target_view 0 0 ?s)"
    and t: "rc_ConnectorID (ts_challenge state) = rt_ConnectorID (ts_target state)"
      "rc_HostID (ts_challenge state) = rt_HostID (ts_target state)"
    by (simp_all add: resume_challenge_bad_def Let_def)
  have "\<not> resume_install_bad L plan (target_view 0 0 ?s)"
    using z i t by (simp add: resume_install_bad_def)
  with old h n have "messages_ok L plan ?s" by (simp add: messages_ok_def)
  then show ?thesis
    using assms(1,2) n old by (simp add: target_ok_iff phase_view code_ok_def validRotationTargetState_def)
qed

lemma target_ok_readied:
  assumes "target_ok L plan state" and "ts_state state = RotationTargetInstalled"
    and "CredentialRotationReady_Validate L now ready = None" and "\<not> ready_foreign plan (ts_install state) ready"
  shows "target_ok L plan (state\<lparr>ts_ready := ready, ts_state := RotationTargetReady\<rparr>)"
proof -
  have z: "CredentialRotationReady_Validate L 0 ready = None" and n: "rr_SessionID ready \<noteq> ''''"
    using assms(3) Ready_Validate_zero rotation_session_nonempty(3) by blast+
  let ?s = "state\<lparr>ts_ready := ready, ts_state := RotationTargetReady\<rparr>"
  have old: "challenged state" "installed state" "\<not> revoked state"
    "\<not> resume_challenge_bad plan (target_view 0 0 state)" "\<not> resume_install_bad L plan (target_view 0 0 state)"
    using assms(1,2) by (simp_all add: target_ok_iff phase_view messages_ok_def)
  from old(4,5) have h: "\<not> resume_challenge_bad plan (target_view 0 0 ?s)" "\<not> resume_install_bad L plan (target_view 0 0 ?s)"
    by (simp_all add: resume_challenge_bad_def resume_install_bad_def)
  from old(5) have t: "ri_ConnectorID (ts_install state) = rt_ConnectorID (ts_target state)"
      "ri_HostID (ts_install state) = rt_HostID (ts_target state)"
      "ri_OldCredentialGeneration (ts_install state) = rt_OldCredentialGeneration (ts_target state)"
      "ri_NewCredentialGeneration (ts_install state) = rt_NewCredentialGeneration (ts_target state)"
    by (simp_all add: resume_install_bad_def Let_def)
  have "\<not> resume_ready_bad L plan (target_view 0 0 ?s)"
    using assms(4) z t by (simp add: resume_ready_bad_def ready_foreign_def)
  with old h n have "messages_ok L plan ?s" by (simp add: messages_ok_def)
  then show ?thesis
    using assms(1,2) n old by (simp add: target_ok_iff phase_view code_ok_def validRotationTargetState_def)
qed

lemma target_ok_revoking:
  assumes "target_ok L plan state" and "ts_state state = RotationTargetReady"
    and "CredentialRotationRevoke_Validate now v = None"
    and "rv_AccountID v = plan_AccountID plan" "rv_TunnelID v = plan_TunnelID plan"
      "rv_OperationID v = plan_OperationID plan" "rv_TargetSetHash v = plan_TargetSetHash plan"
      "rv_ConnectorID v = rt_ConnectorID (ts_target state)" "rv_HostID v = rt_HostID (ts_target state)"
      "rv_SessionID v = rr_SessionID (ts_ready state)"
      "rv_ProcessGeneration v = rr_ProcessGeneration (ts_ready state)"
      "rv_OldCredentialGeneration v = rt_OldCredentialGeneration (ts_target state)"
      "rv_NewCredentialGeneration v = rt_NewCredentialGeneration (ts_target state)"
  shows "target_ok L plan (state\<lparr>ts_revoke := v, ts_state := RotationTargetRevoking\<rparr>)"
proof -
  have z: "CredentialRotationRevoke_Validate 0 v = None"
    using assms(3) Revoke_Validate_zero by blast
  let ?s = "state\<lparr>ts_revoke := v, ts_state := RotationTargetRevoking\<rparr>"
  have old: "challenged state" "installed state" "readied state"
    "\<not> resume_challenge_bad plan (target_view 0 0 state)" "\<not> resume_install_bad L plan (target_view 0 0 state)"
    "\<not> resume_ready_bad L plan (target_view 0 0 state)"
    using assms(1,2) by (simp_all add: target_ok_iff phase_view messages_ok_def)
  from old(4-6) have h: "\<not> resume_challenge_bad plan (target_view 0 0 ?s)" "\<not> resume_install_bad L plan (target_view 0 0 ?s)"
    "\<not> resume_ready_bad L plan (target_view 0 0 ?s)"
    by (simp_all add: resume_challenge_bad_def resume_install_bad_def resume_ready_bad_def)
  have "\<not> resume_revoke_bad plan (target_view 0 0 ?s)"
    using assms(4-) z by (simp add: resume_revoke_bad_def)
  with old h have "messages_ok L plan ?s" by (simp add: messages_ok_def)
  then show ?thesis
    using assms old by (simp add: target_ok_iff phase_view code_ok_def validRotationTargetState_def)
qed

lemma target_ok_revoked:
  "target_ok L plan state \<Longrightarrow> ts_state state = RotationTargetRevoking \<Longrightarrow>
     target_ok L plan (state\<lparr>ts_state := RotationTargetRevoked\<rparr>)"
  by (simp add: target_ok_iff phase_view code_ok_def validRotationTargetState_def)

section \<open>The abstract machine\<close>

text \<open>
  The phases of the connectors of a rotation, and the steps that a coordinator may make: a connector
  goes forward by one phase, an old credential is revoked only when every connector is ready, and a
  connector that is not revoked may fail.
\<close>

type_synonym phases = "string \<Rightarrow> RotationTargetState option"

definition ready_phases :: "RotationTargetState set" where
  "ready_phases = {RotationTargetReady, RotationTargetRevoking, RotationTargetRevoked}"

fun phase_rank :: "RotationTargetState \<Rightarrow> nat" where
  "phase_rank RotationTargetPending = 0"
| "phase_rank RotationTargetChallenged = 1"
| "phase_rank RotationTargetInstalled = 2"
| "phase_rank RotationTargetReady = 3"
| "phase_rank RotationTargetRevoking = 4"
| "phase_rank RotationTargetRevoked = 5"
| "phase_rank RotationTargetFailed = 6"
| "phase_rank (RotationTargetStateOther _) = 7"

inductive rotation_spec :: "phases \<Rightarrow> phases \<Rightarrow> bool" where
  spec_stay: "rotation_spec P P"
| spec_challenge: "P k = Some RotationTargetPending \<Longrightarrow> rotation_spec P (P(k \<mapsto> RotationTargetChallenged))"
| spec_install: "P k = Some RotationTargetChallenged \<Longrightarrow> rotation_spec P (P(k \<mapsto> RotationTargetInstalled))"
| spec_ready: "P k = Some RotationTargetInstalled \<Longrightarrow> rotation_spec P (P(k \<mapsto> RotationTargetReady))"
| spec_revoke: "P k = Some RotationTargetReady \<Longrightarrow> (\<And>k p. P k = Some p \<Longrightarrow> p \<in> ready_phases) \<Longrightarrow>
    rotation_spec P (P(k \<mapsto> RotationTargetRevoking))"
| spec_revoked: "P k = Some RotationTargetRevoking \<Longrightarrow> rotation_spec P (P(k \<mapsto> RotationTargetRevoked))"
| spec_fail: "P k = Some p \<Longrightarrow> phase_rank p < phase_rank RotationTargetRevoked \<Longrightarrow>
    rotation_spec P (P(k \<mapsto> RotationTargetFailed))"

text \<open>The phase of a connector never goes back, and a revoked or failed one stays as it is.\<close>

definition phases_advance :: "phases \<Rightarrow> phases \<Rightarrow> bool" where
  "phases_advance P Q \<longleftrightarrow> dom P = dom Q \<and>
     (\<forall>k p q. P k = Some p \<longrightarrow> Q k = Some q \<longrightarrow>
        p = q \<or> phase_rank p < phase_rank q \<and> p \<noteq> RotationTargetRevoked \<and> p \<noteq> RotationTargetFailed)"

lemma advance_upd:
  "P k = Some p \<Longrightarrow> phase_rank p < phase_rank q \<Longrightarrow> phase_rank p < 5 \<Longrightarrow> phases_advance P (P(k \<mapsto> q))"
  by (auto simp: phases_advance_def insert_absorb domI)

lemma spec_advances: "rotation_spec P Q \<Longrightarrow> phases_advance P Q"
  by (induction rule: rotation_spec.induct) (simp add: phases_advance_def, (erule advance_upd; simp)+)

text \<open>An old credential is revoked only after every connector has been ready.\<close>

definition revokes_late :: "phases \<Rightarrow> bool" where
  "revokes_late P \<longleftrightarrow> ((\<exists>k. P k = Some RotationTargetRevoking \<or> P k = Some RotationTargetRevoked) \<longrightarrow>
     (\<forall>k p. P k = Some p \<longrightarrow> p = RotationTargetFailed \<or> p \<in> ready_phases))"

lemma spec_revokes_late: "rotation_spec P Q \<Longrightarrow> revokes_late P \<Longrightarrow> revokes_late Q"
  by (induction rule: rotation_spec.induct) (auto simp: revokes_late_def ready_phases_def split: if_splits)

section \<open>The contract of an operation\<close>

definition phases_of :: "RotationCoordinator \<Rightarrow> phases" where
  "phases_of c k = map_option ts_state (fmlookup (co_targets c) k)"

definition rotation_contract :: "('a rotlib_scheme) \<Rightarrow> RotationCoordinator \<Rightarrow> RotationCoordinator \<Rightarrow> bool" where
  "rotation_contract L c c' \<longleftrightarrow>
     coordinator_ok L c' \<and> co_plan c' = co_plan c \<and> co_verify c' = co_verify c \<and>
     (co_started c \<longrightarrow> co_started c' \<and> rotation_spec (phases_of c) (phases_of c'))"

lemma contract_refl: "coordinator_ok L c \<Longrightarrow> rotation_contract L c c"
  by (simp add: rotation_contract_def spec_stay)

lemma co_put_simps [simp]:
  "co_plan (co_put k st c) = co_plan c" "co_verify (co_put k st c) = co_verify c"
  "co_started (co_put k st c) = co_started c" "co_finished (co_put k st c) = co_finished c"
  "co_targets (co_put k st c) = fmupd k st (co_targets c)"
  by (simp_all add: co_put_def)

lemma phases_frame [simp]:
  "phases_of (c\<lparr>co_finished := t\<rparr>) = phases_of c" "phases_of (c\<lparr>co_started := b\<rparr>) = phases_of c"
  by (simp_all add: phases_of_def fun_eq_iff)

lemma phases_put: "phases_of (co_put k st c) = (phases_of c)(k \<mapsto> ts_state st)"
  by (auto simp: phases_of_def)

lemma phases_lookup: "fmlookup (co_targets c) k = Some st \<Longrightarrow> phases_of c k = Some (ts_state st)"
  by (simp add: phases_of_def)

lemma co_put_same: "fmlookup (co_targets c) k = Some st \<Longrightarrow> co_put k st c = c"
  unfolding co_put_def by (rule RotationCoordinator.equality) (auto intro!: fmap_ext)

lemma ok_target:
  "coordinator_ok L c \<Longrightarrow> fmlookup (co_targets c) k = Some st \<Longrightarrow>
     rt_ConnectorID (ts_target st) = k \<and> target_ok L (co_plan c) st"
  by (auto simp: coordinator_ok_def fmpred_iff)

lemma finished_ok_put:
  assumes "finished_ok c" and "fmlookup (co_targets c) k = Some st"
    and "ts_state st \<noteq> RotationTargetRevoked" and "ts_state st \<noteq> RotationTargetFailed"
  shows "finished_ok (co_put k st' c)"
proof (cases "co_finished c = 0")
  case False
  have "\<not> fmpred (\<lambda>_ state. ts_state state = RotationTargetRevoked) (co_targets c)"
    using assms(2,3) by (auto simp: fmpred_iff)
  with False assms(1) obtain x y where "fmlookup (co_targets c) x = Some y" "ts_state y = RotationTargetFailed"
    by (auto simp: finished_ok_def fmpred_iff)
  with assms(2,4) have "fmlookup (co_targets (co_put k st' c)) x = Some y" "ts_state y = RotationTargetFailed"
    by auto
  then show ?thesis unfolding finished_ok_def fmpred_iff by blast
qed (simp add: finished_ok_def)

lemma coordinator_ok_put:
  assumes "coordinator_ok L c" and "fmlookup (co_targets c) k = Some st"
    and "ts_target st' = ts_target st" and "target_ok L (co_plan c) st'" and "finished_ok (co_put k st' c)"
  shows "coordinator_ok L (co_put k st' c)"
proof -
  have "k |\<in>| fmdom (co_targets c)" using assms(2) by (rule fmdomI)
  with assms ok_target [OF assms(1,2)] show ?thesis
    by (auto simp: coordinator_ok_def fmpred_iff finsert_absorb)
qed

lemma contract_put:
  assumes "coordinator_ok L c" and "fmlookup (co_targets c) k = Some st"
    and "ts_target st' = ts_target st" and "target_ok L (co_plan c) st'"
    and "ts_state st \<noteq> RotationTargetRevoked" and "ts_state st \<noteq> RotationTargetFailed"
    and "rotation_spec (phases_of c) ((phases_of c)(k \<mapsto> ts_state st'))"
  shows "rotation_contract L c (co_put k st' c)"
proof -
  from assms(1) have "finished_ok c" by (simp add: coordinator_ok_def)
  from finished_ok_put [OF this assms(2,5,6)] have "coordinator_ok L (co_put k st' c)"
    by (rule coordinator_ok_put [OF assms(1-4)])
  with assms(7) show ?thesis by (simp add: rotation_contract_def phases_put)
qed

lemma open_phase_rank:
  "target_ok L plan st \<Longrightarrow> ts_state st \<noteq> RotationTargetRevoked \<Longrightarrow> ts_state st \<noteq> RotationTargetFailed \<Longrightarrow>
     phase_rank (ts_state st) < phase_rank RotationTargetRevoked"
  by (cases "ts_state st") (auto simp: target_ok_iff validRotationTargetState_def)

lemma contract_failed:
  assumes "coordinator_ok L c" and "fmlookup (co_targets c) k = Some st"
    and "ts_state st \<noteq> RotationTargetRevoked" and "ts_state st \<noteq> RotationTargetFailed" and "validCode code"
  shows "rotation_contract L c (co_put k (st\<lparr>ts_state := RotationTargetFailed, ts_code := code\<rparr>) c)"
proof (rule contract_put [OF assms(1,2)])
  show "target_ok L (co_plan c) (st\<lparr>ts_state := RotationTargetFailed, ts_code := code\<rparr>)"
    using ok_target [OF assms(1,2)] assms(5) by (simp add: target_ok_failed)
  show "rotation_spec (phases_of c) ((phases_of c)(k \<mapsto> ts_state (st\<lparr>ts_state := RotationTargetFailed, ts_code := code\<rparr>)))"
    using spec_fail [where P = "phases_of c" and k = k, OF phases_lookup [OF assms(2)]] ok_target [OF assms(1,2)] assms(3,4)
    using open_phase_rank [of L "co_plan c" st] by simp
qed (use assms in simp_all)

lemma contract_store_failed:
  assumes "coordinator_ok L c" and "fmlookup (co_targets c) k = Some st"
    and "ts_state st \<noteq> RotationTargetRevoked" and "ts_state st \<noteq> RotationTargetFailed"
  shows "rotation_contract L c (co_put k (store_failed st) c)"
  unfolding store_failed_def by (rule contract_failed [OF assms]) (simp add: validCode_def)

section \<open>The operations keep the contract\<close>

lemma Start_contract: "coordinator_ok L c \<Longrightarrow> rotation_contract L c (snd (RotationCoordinator_Start ctxErr beginErr c))"
proof -
  assume ok: "coordinator_ok L c"
  then have "coordinator_ok L (c\<lparr>co_started := True\<rparr>)"
    by (simp add: coordinator_ok_def finished_ok_def)
  then show ?thesis using contract_refl [OF ok]
    by (simp add: RotationCoordinator_Start_def rotation_contract_def spec_stay split: option.split)
qed

lemma Challenge_cases:
  assumes "ChallengeWithCredentialExpiry ctxErr now authErr recordErr connectorID sessionID processGeneration
     keyID thumbprint nonce issuedAt expiresAt overlapUntil validUntil c = (result, c')"
  obtains (same) err where "result = Inl err" "c' = c"
  | (sent) state h where "result = Inr h" "fmlookup (co_targets c) connectorID = Some state"
      "ts_state state \<in> {RotationTargetPending, RotationTargetChallenged}"
      "h = rotation_challenge (co_plan c) (ts_target state) connectorID sessionID processGeneration keyID
        thumbprint nonce issuedAt expiresAt overlapUntil validUntil"
      "CredentialRotationChallenge_Validate now h = None"
      "c' = co_put connectorID (state\<lparr>ts_challenge := h, ts_state := RotationTargetChallenged\<rparr>) c"
proof (cases "c' = c \<and> (\<exists>err. result = Inl err)")
  case True
  with same show thesis by blast
next
  case False
  with assms have c: "ctxErr = None" by (cases ctxErr) (auto simp: ChallengeWithCredentialExpiry_def)
  with assms False obtain state where st: "fmlookup (co_targets c) connectorID = Some state" "co_started c"
    by (cases "fmlookup (co_targets c) connectorID"; cases "co_started c")
       (auto simp: ChallengeWithCredentialExpiry_def)
  let ?h = "rotation_challenge (co_plan c) (ts_target state) connectorID sessionID processGeneration keyID
    thumbprint nonce issuedAt expiresAt overlapUntil validUntil"
  let ?out = "\<lambda>h. (Inr h :: error + CredentialRotationChallenge,
    co_put connectorID (state\<lparr>ts_challenge := h, ts_state := RotationTargetChallenged\<rparr>) c)"
  have ph: "ts_state state \<in> {RotationTargetPending, RotationTargetChallenged}"
    using assms False c st by (auto simp: ChallengeWithCredentialExpiry_def split: if_splits)
  have v: "CredentialRotationChallenge_Validate now ?h = None"
    using assms False c st
    by (cases "CredentialRotationChallenge_Validate now ?h")
       (auto simp: ChallengeWithCredentialExpiry_def Let_def split: if_splits)
  have "authErr = None" "recordErr = None"
    using assms False c st v
    by (cases authErr; cases recordErr; auto simp: ChallengeWithCredentialExpiry_def Let_def split: if_splits)+
  with assms False c st v have "(result, c') = ?out ?h"
    by (auto simp: ChallengeWithCredentialExpiry_def Let_def split: if_splits)
  with sent [OF _ st(1) ph refl v] show thesis by simp
qed

lemma Challenge_contract:
  assumes "coordinator_ok L c"
  shows "rotation_contract L c (snd (ChallengeWithCredentialExpiry ctxErr now authErr recordErr connectorID
    sessionID processGeneration keyID thumbprint nonce issuedAt expiresAt overlapUntil validUntil c))"
proof -
  obtain result c' where r: "ChallengeWithCredentialExpiry ctxErr now authErr recordErr connectorID sessionID
    processGeneration keyID thumbprint nonce issuedAt expiresAt overlapUntil validUntil c = (result, c')" by fastforce
  from r show ?thesis
  proof (cases rule: Challenge_cases)
    case same
    with r assms show ?thesis by (simp add: contract_refl)
  next
    case (sent state h)
    note t = ok_target [OF assms sent(2)]
    have "rotation_contract L c c'"
      unfolding sent(6)
    proof (rule contract_put [OF assms sent(2)])
      show "target_ok L (co_plan c) (state\<lparr>ts_challenge := h, ts_state := RotationTargetChallenged\<rparr>)"
        by (rule target_ok_challenged [OF _ sent(3,5)]) (use t sent(4) in auto)
      show "rotation_spec (phases_of c) ((phases_of c)(connectorID \<mapsto>
          ts_state (state\<lparr>ts_challenge := h, ts_state := RotationTargetChallenged\<rparr>)))"
        using phases_lookup [OF sent(2)] sent(3) spec_challenge [of "phases_of c" connectorID] spec_stay [of "phases_of c"]
        by (auto simp: fun_upd_idem)
    qed (use sent(3) in auto)
    with r show ?thesis by simp
  qed
qed

lemma AcceptProof_cases:
  assumes "RotationCoordinator_AcceptProof L ctxErr now recordErr proof c = (result, c')"
  obtains (same) err where "result = Inl err" "c' = c"
  | (verified) state where "fmlookup (co_targets c) (rp_ConnectorID proof) = Some state"
      "ts_state state = RotationTargetChallenged"
      "rotationProofMatchesChallenge proof (ts_challenge state) (ts_target state)"
      "VerifyCredentialRotationProofAt L proof (co_verify c) now = None"
      "CredentialRotationInstall_Validate L now (rotation_install (co_plan c) (ts_challenge state) proof) = None"
      "(result, c') = (case recordErr of
          Some err \<Rightarrow> (Inl (rotation_failed err), co_put (rp_ConnectorID proof) (store_failed state) c)
        | None \<Rightarrow> (Inr (rotation_install (co_plan c) (ts_challenge state) proof,
            rotationAckForInstall (rotation_install (co_plan c) (ts_challenge state) proof)),
            co_put (rp_ConnectorID proof) (state\<lparr>ts_proof := proof,
              ts_install := rotation_install (co_plan c) (ts_challenge state) proof,
              ts_state := RotationTargetInstalled\<rparr>) c))"
proof (cases "c' = c \<and> (\<exists>err. result = Inl err)")
  case True
  with same show thesis by blast
next
  case False
  note d = RotationCoordinator_AcceptProof_def
  from assms False have c: "ctxErr = None" by (cases ctxErr) (auto simp: d)
  from assms False c have v: "CredentialRotationProof_Validate L now proof = None"
    by (cases "CredentialRotationProof_Validate L now proof") (auto simp: d)
  from assms False c v obtain state where st: "fmlookup (co_targets c) (rp_ConnectorID proof) = Some state"
    by (cases "fmlookup (co_targets c) (rp_ConnectorID proof)") (auto simp: d)
  from assms False c v st have p: "ts_state state = RotationTargetChallenged"
    "rotationProofMatchesChallenge proof (ts_challenge state) (ts_target state)"
    by (auto simp: d split: if_splits)
  from assms False c v st p have w: "VerifyCredentialRotationProofAt L proof (co_verify c) now = None"
    by (cases "VerifyCredentialRotationProofAt L proof (co_verify c) now") (auto simp: d)
  let ?i = "rotation_install (co_plan c) (ts_challenge state) proof"
  from assms False c v st p w have i: "CredentialRotationInstall_Validate L now ?i = None"
    by (cases "CredentialRotationInstall_Validate L now ?i") (auto simp: d Let_def)
  show thesis
    by (rule verified [OF st p w i]) (use assms c v st p w i in \<open>simp add: d Let_def\<close>)
qed

lemma AcceptProof_contract:
  assumes "coordinator_ok L c"
  shows "rotation_contract L c (snd (RotationCoordinator_AcceptProof L ctxErr now recordErr proof c))"
proof -
  obtain result c' where r: "RotationCoordinator_AcceptProof L ctxErr now recordErr proof c = (result, c')" by fastforce
  from r show ?thesis
  proof (cases rule: AcceptProof_cases)
    case same
    with r assms show ?thesis by (simp add: contract_refl)
  next
    case (verified state)
    note t = ok_target [OF assms verified(1)]
    let ?s = "state\<lparr>ts_proof := proof, ts_install := rotation_install (co_plan c) (ts_challenge state) proof,
      ts_state := RotationTargetInstalled\<rparr>"
    have "rotation_contract L c (co_put (rp_ConnectorID proof) ?s c)"
    proof (rule contract_put [OF assms verified(1)])
      show "target_ok L (co_plan c) ?s" by (rule target_ok_installed [OF _ verified(2,3,5)]) (use t in simp)
      show "rotation_spec (phases_of c) ((phases_of c)(rp_ConnectorID proof \<mapsto> ts_state ?s))"
        using phases_lookup [OF verified(1)] verified(2) by (simp add: spec_install)
    qed (use verified(2) in simp_all)
    moreover have "rotation_contract L c (co_put (rp_ConnectorID proof) (store_failed state) c)"
      by (rule contract_store_failed [OF assms verified(1)]) (use verified(2) in simp_all)
    ultimately show ?thesis using r verified(6) by (auto split: option.splits)
  qed
qed

lemma MarkReady_cases:
  assumes "RotationCoordinator_MarkReady L ctxErr now recordErr ready c = (result, c')"
  obtains (same) err where "snd result = Some err" "c' = c"
  | (bound) state where "fmlookup (co_targets c) (rr_ConnectorID ready) = Some state"
      "ts_state state = RotationTargetInstalled" "CredentialRotationReady_Validate L now ready = None"
      "\<not> ready_foreign (co_plan c) (ts_install state) ready"
      "(result, c') = (case recordErr of
          Some err \<Rightarrow> ((zero_RotationAck, Some (rotation_failed err)),
            co_put (rr_ConnectorID ready) (store_failed state) c)
        | None \<Rightarrow> ((rotation_ready_ack RotationAckReady CodeEmpty ready, None),
            co_put (rr_ConnectorID ready) (state\<lparr>ts_ready := ready, ts_state := RotationTargetReady\<rparr>) c))"
proof (cases "c' = c \<and> (\<exists>err. snd result = Some err)")
  case True
  with same show thesis by blast
next
  case False
  note d = RotationCoordinator_MarkReady_def
  from assms False have c: "ctxErr = None" by (cases ctxErr) (auto simp: d)
  from assms False c have v: "CredentialRotationReady_Validate L now ready = None"
    by (cases "CredentialRotationReady_Validate L now ready") (auto simp: d)
  from assms False c v obtain state where st: "fmlookup (co_targets c) (rr_ConnectorID ready) = Some state"
    by (cases "fmlookup (co_targets c) (rr_ConnectorID ready)") (auto simp: d)
  from assms False c v st have p: "ts_state state = RotationTargetInstalled"
    "\<not> ready_foreign (co_plan c) (ts_install state) ready"
    by (auto simp: d split: if_splits)
  show thesis by (rule bound [OF st p(1) v p(2)]) (use assms c v st p in \<open>simp add: d\<close>)
qed

lemma MarkReady_contract:
  assumes "coordinator_ok L c"
  shows "rotation_contract L c (snd (RotationCoordinator_MarkReady L ctxErr now recordErr ready c))"
proof -
  obtain result c' where r: "RotationCoordinator_MarkReady L ctxErr now recordErr ready c = (result, c')" by fastforce
  from r show ?thesis
  proof (cases rule: MarkReady_cases)
    case same
    with r assms show ?thesis by (simp add: contract_refl)
  next
    case (bound state)
    note t = ok_target [OF assms bound(1)]
    let ?s = "state\<lparr>ts_ready := ready, ts_state := RotationTargetReady\<rparr>"
    have "rotation_contract L c (co_put (rr_ConnectorID ready) ?s c)"
    proof (rule contract_put [OF assms bound(1)])
      show "target_ok L (co_plan c) ?s" by (rule target_ok_readied [OF _ bound(2,3,4)]) (use t in simp)
      show "rotation_spec (phases_of c) ((phases_of c)(rr_ConnectorID ready \<mapsto> ts_state ?s))"
        using phases_lookup [OF bound(1)] bound(2) by (simp add: spec_ready)
    qed (use bound(2) in simp_all)
    moreover have "rotation_contract L c (co_put (rr_ConnectorID ready) (store_failed state) c)"
      by (rule contract_store_failed [OF assms bound(1)]) (use bound(2) in simp_all)
    ultimately show ?thesis using r bound(5) by (auto split: option.splits)
  qed
qed

lemma Revoke_cases:
  assumes "RotationCoordinator_Revoke ctxErr now random recordErr connectorID c = (result, c')"
  obtains (same) err where "result = Inl err" "c' = c"
  | (again) state where "fmlookup (co_targets c) connectorID = Some state" "allReadyLocked c"
      "rs_Status (summaryLocked c) \<noteq> RotationAggregateFailed"
      "ts_state state = RotationTargetRevoking" "result = Inr (ts_revoke state)" "c' = c"
  | (revoke) state v where "fmlookup (co_targets c) connectorID = Some state" "allReadyLocked c"
      "rs_Status (summaryLocked c) \<noteq> RotationAggregateFailed"
      "ts_state state = RotationTargetReady" "CredentialRotationRevoke_Validate now v = None"
      "rv_AccountID v = plan_AccountID (co_plan c)" "rv_TunnelID v = plan_TunnelID (co_plan c)"
      "rv_OperationID v = plan_OperationID (co_plan c)" "rv_TargetSetHash v = plan_TargetSetHash (co_plan c)"
      "rv_ConnectorID v = connectorID" "rv_HostID v = rt_HostID (ts_target state)"
      "rv_SessionID v = rr_SessionID (ts_ready state)"
      "rv_ProcessGeneration v = rr_ProcessGeneration (ts_ready state)"
      "rv_OldCredentialGeneration v = rt_OldCredentialGeneration (ts_target state)"
      "rv_NewCredentialGeneration v = rt_NewCredentialGeneration (ts_target state)"
      "(result, c') = (case recordErr of
          Some err \<Rightarrow> (Inl (rotation_failed err), co_put connectorID (store_failed state) c)
        | None \<Rightarrow> (Inr v, co_put connectorID (state\<lparr>ts_revoke := v, ts_state := RotationTargetRevoking\<rparr>) c))"
proof (cases "c' = c \<and> (\<exists>err. result = Inl err)")
  case True
  with same show thesis by blast
next
  case False
  note d = RotationCoordinator_Revoke_def
  from assms False have c: "ctxErr = None" by (cases ctxErr) (auto simp: d)
  from assms False c obtain state where st: "fmlookup (co_targets c) connectorID = Some state"
    by (cases "fmlookup (co_targets c) connectorID") (auto simp: d)
  from assms False c st have p: "rs_Status (summaryLocked c) \<noteq> RotationAggregateFailed" "allReadyLocked c"
    by (auto simp: d split: if_splits)
  show thesis
  proof (cases "ts_state state = RotationTargetRevoking")
    case True
    from assms c st p True have "result = Inr (ts_revoke state)" "c' = c" by (simp_all add: d)
    with again [OF st p(2,1) True] show thesis by simp
  next
    case nr: False
    from assms False c st p nr have q: "ts_state state = RotationTargetReady" by (auto simp: d split: if_splits)
    from assms False c st p nr q obtain nonce where n: "newOpaqueID random ''rotation-revoke'' = Inr nonce"
      by (cases "newOpaqueID random ''rotation-revoke''") (auto simp: d)
    define v where "v =
       \<lparr>rv_AccountID = plan_AccountID (co_plan c), rv_TunnelID = plan_TunnelID (co_plan c),
        rv_OperationID = plan_OperationID (co_plan c), rv_ConnectorID = connectorID,
        rv_HostID = rt_HostID (ts_target state), rv_SessionID = rr_SessionID (ts_ready state),
        rv_ProcessGeneration = rr_ProcessGeneration (ts_ready state),
        rv_TargetSetHash = plan_TargetSetHash (co_plan c),
        rv_OldCredentialGeneration = rt_OldCredentialGeneration (ts_target state),
        rv_NewCredentialGeneration = rt_NewCredentialGeneration (ts_target state),
        rv_RevokeNonce = nonce, rv_IssuedAt = now, rv_Deadline = time_Add now DefaultAbortTimeout\<rparr>"
    from assms False c st p nr q n have w: "CredentialRotationRevoke_Validate now v = None"
      by (cases "CredentialRotationRevoke_Validate now v") (auto simp: d Let_def v_def)
    have "(result, c') = (case recordErr of
          Some err \<Rightarrow> (Inl (rotation_failed err), co_put connectorID (store_failed state) c)
        | None \<Rightarrow> (Inr v, co_put connectorID (state\<lparr>ts_revoke := v, ts_state := RotationTargetRevoking\<rparr>) c))"
      using assms c st p nr q n w by (cases recordErr) (simp_all add: d Let_def v_def)
    with revoke [OF st p(2,1) q w] show thesis by (simp add: v_def)
  qed
qed

lemma Revoke_contract:
  assumes "coordinator_ok L c"
  shows "rotation_contract L c (snd (RotationCoordinator_Revoke ctxErr now random recordErr connectorID c))"
proof -
  obtain result c' where r: "RotationCoordinator_Revoke ctxErr now random recordErr connectorID c = (result, c')" by fastforce
  from r show ?thesis
  proof (cases rule: Revoke_cases)
    case (revoke state v)
    note t = ok_target [OF assms revoke(1)]
    let ?s = "state\<lparr>ts_revoke := v, ts_state := RotationTargetRevoking\<rparr>"
    have "rotation_contract L c (co_put connectorID ?s c)"
    proof (rule contract_put [OF assms revoke(1)])
      show "target_ok L (co_plan c) ?s"
        by (rule target_ok_revoking [OF _ revoke(4,5)]) (use t revoke(6-15) in simp_all)
      have "p \<in> ready_phases" if "phases_of c k = Some p" for k p
        using that revoke(2) by (auto simp: allReadyLocked_def fmpred_iff phases_of_def ready_phases_def)
      then show "rotation_spec (phases_of c) ((phases_of c)(connectorID \<mapsto> ts_state ?s))"
        using phases_lookup [OF revoke(1)] revoke(4) by (simp add: spec_revoke)
    qed (use revoke(4) in simp_all)
    moreover have "rotation_contract L c (co_put connectorID (store_failed state) c)"
      by (rule contract_store_failed [OF assms revoke(1)]) (use revoke(4) in simp_all)
    ultimately show ?thesis using r revoke(16) by (auto split: option.splits)
  qed (use r assms in \<open>simp_all add: contract_refl\<close>)
qed

lemma plan_all_iff:
  assumes "coordinator_ok L c"
  shows "list_all (\<lambda>t. Q (co_state c t)) (plan_Targets (co_plan c)) \<longleftrightarrow> fmpred (\<lambda>_. Q) (co_targets c)"
proof -
  have dom: "k |\<in>| fmdom (co_targets c) \<longleftrightarrow> k \<in> rt_ConnectorID ` set (plan_Targets (co_plan c))" for k
    using assms by (auto simp: coordinator_ok_def fset_of_list_elem)
  have st: "fmlookup (co_targets c) (rt_ConnectorID t) = Some (co_state c t)"
    if "t \<in> set (plan_Targets (co_plan c))" for t
    using dom [of "rt_ConnectorID t"] that by (auto simp: co_state_def fmlookup_dom_iff)
  show ?thesis
  proof
    assume l: "list_all (\<lambda>t. Q (co_state c t)) (plan_Targets (co_plan c))"
    show "fmpred (\<lambda>_. Q) (co_targets c)"
      unfolding fmpred_iff
    proof (intro allI impI)
      fix k s assume k: "fmlookup (co_targets c) k = Some s"
      then obtain t where "t \<in> set (plan_Targets (co_plan c))" "k = rt_ConnectorID t"
        using dom [of k] fmdomI [OF k] by auto
      with st [of t] k l show "Q s" by (auto simp: list_all_iff)
    qed
  next
    assume "fmpred (\<lambda>_. Q) (co_targets c)"
    with st show "list_all (\<lambda>t. Q (co_state c t)) (plan_Targets (co_plan c))"
      by (auto simp: list_all_iff fmpred_iff)
  qed
qed

lemma summary_status:
  assumes "coordinator_ok L c"
  shows "rs_Status (summaryLocked c) =
    (if \<not> fmpred (\<lambda>_ state. ts_state state \<noteq> RotationTargetFailed) (co_targets c) then RotationAggregateFailed
     else if fmpred (\<lambda>_ state. ts_state state = RotationTargetRevoked) (co_targets c) then RotationAggregateSucceeded
     else RotationAggregatePending)"
proof -
  have "list_ex (\<lambda>t. ts_state (co_state c t) = RotationTargetFailed) (plan_Targets (co_plan c)) \<longleftrightarrow>
      \<not> list_all (\<lambda>t. ts_state (co_state c t) \<noteq> RotationTargetFailed) (plan_Targets (co_plan c))"
    by (auto simp: list_ex_iff list_all_iff)
  with plan_all_iff [OF assms, of "\<lambda>s. ts_state s \<noteq> RotationTargetFailed"]
    plan_all_iff [OF assms, of "\<lambda>s. ts_state s = RotationTargetRevoked"]
  show ?thesis by (simp add: summaryLocked_def Let_def)
qed

lemma HandleAck_negative_contract:
  assumes ok: "coordinator_ok L c" and st: "fmlookup (co_targets c) (ra_ConnectorID ack) = Some state"
    and "ts_state state \<noteq> RotationTargetRevoked" "ts_state state \<noteq> RotationTargetFailed"
    and code: "validCode (ra_Code ack)"
  shows "rotation_contract L c (snd (HandleAck_negative recordErr ack state c))"
  using contract_failed [OF assms] contract_refl [OF ok] co_put_same [OF st]
  by (cases recordErr) (simp_all add: HandleAck_negative_def Let_def)

lemma HandleAck_revoked_contract:
  assumes ok: "coordinator_ok L c" and st: "fmlookup (co_targets c) (ra_ConnectorID ack) = Some state"
  shows "rotation_contract L c (snd (HandleAck_revoked now recordErr ack state c))"
proof (cases "ra_Status ack \<noteq> RotationAckRevoked \<or> ts_state state \<noteq> RotationTargetRevoking
    \<or> ra_SessionID ack \<noteq> rv_SessionID (ts_revoke state) \<or> ra_ProcessGeneration ack \<noteq> rv_ProcessGeneration (ts_revoke state)")
  case True
  then show ?thesis using contract_refl [OF ok] by (auto simp: HandleAck_revoked_def)
next
  case False
  then have rv: "ts_state state = RotationTargetRevoking" by simp
  note t = ok_target [OF ok st]
  let ?k = "ra_ConnectorID ack"
  let ?s = "state\<lparr>ts_state := RotationTargetRevoked\<rparr>"
  let ?c1 = "co_put ?k ?s c"
  let ?c2 = "if rs_Status (summaryLocked ?c1) = RotationAggregateSucceeded then ?c1\<lparr>co_finished := now\<rparr> else ?c1"
  have c1: "rotation_contract L c ?c1"
  proof (rule contract_put [OF ok st])
    show "target_ok L (co_plan c) ?s" using t rv by (simp add: target_ok_revoked)
    show "rotation_spec (phases_of c) ((phases_of c)(?k \<mapsto> ts_state ?s))"
      using phases_lookup [OF st] rv by (simp add: spec_revoked)
  qed (use rv in simp_all)
  then have ok1: "coordinator_ok L ?c1" by (simp add: rotation_contract_def)
  have c2: "rotation_contract L c ?c2"
  proof (cases "rs_Status (summaryLocked ?c1) = RotationAggregateSucceeded")
    case True
    then have "finished_ok (?c1\<lparr>co_finished := now\<rparr>)"
      using summary_status [OF ok1] by (auto simp: finished_ok_def split: if_splits)
    with c1 True show ?thesis by (simp add: rotation_contract_def coordinator_ok_def)
  qed (use c1 in simp)
  let ?c3 = "co_put ?k (store_failed ?s) ?c2"
  have c3: "rotation_contract L c ?c3"
  proof -
    have f: "store_failed ?s = state\<lparr>ts_state := RotationTargetFailed, ts_code := CodeCredentialRotationFailed\<rparr>"
      by (simp add: store_failed_def)
    have c0: "rotation_contract L c (co_put ?k (store_failed state) c)"
      by (rule contract_store_failed [OF ok st]) (simp_all add: rv)
    have "finished_ok ?c3" by (auto simp: finished_ok_def fmpred_iff f intro!: exI [of _ ?k])
    moreover have "co_targets ?c3 = co_targets (co_put ?k (store_failed state) c)"
      by (auto simp: store_failed_def intro!: fmap_ext)
    ultimately show ?thesis using c0 by (simp add: rotation_contract_def coordinator_ok_def phases_of_def [abs_def])
  qed
  show ?thesis using False c2 c3 by (cases recordErr) (auto simp: HandleAck_revoked_def Let_def)
qed

lemma HandleAck_contract:
  assumes ok: "coordinator_ok L c"
  shows "rotation_contract L c (snd (RotationCoordinator_HandleAck ctxErr now recordErr ack c))"
proof (cases "CredentialRotationAck_Validate ack = None \<and> ctxErr = None")
  case valid: True
  then have v: "CredentialRotationAck_Validate ack = None" and ctx: "ctxErr = None" by simp_all
  note d = RotationCoordinator_HandleAck_def
  show ?thesis
  proof (cases "fmlookup (co_targets c) (ra_ConnectorID ack)")
    case None
    with v ctx contract_refl [OF ok] show ?thesis by (simp add: d)
  next
    case (Some state)
    have neg: "rotation_contract L c (snd (HandleAck_negative recordErr ack state c))"
      if "ts_state state \<noteq> RotationTargetRevoked" "ts_state state \<noteq> RotationTargetFailed"
        "ra_Status ack = RotationAckRejected \<or> ra_Status ack = RotationAckFailed"
    proof -
      from that(3) v have "validCode (ra_Code ack)"
        by (auto simp: CredentialRotationAck_Validate_def split: if_splits)
      with HandleAck_negative_contract [OF ok Some that(1,2)] show ?thesis by blast
    qed
    note rev = HandleAck_revoked_contract [OF ok Some, of now recordErr]
    show ?thesis
      using v ctx Some contract_refl [OF ok] neg rev by (simp add: d)
  qed
next
  case False
  then show ?thesis using contract_refl [OF ok]
    by (auto simp: RotationCoordinator_HandleAck_def split: option.splits)
qed

lemma Fail_contract:
  assumes ok: "coordinator_ok L c"
  shows "rotation_contract L c (snd (RotationCoordinator_Fail rec connectorID code c))"
proof (cases "fmlookup (co_targets c) connectorID")
  case None
  then show ?thesis using contract_refl [OF ok] by (simp add: RotationCoordinator_Fail_def)
next
  case (Some state)
  show ?thesis
  proof (cases "ts_state state = RotationTargetRevoked \<or> ts_state state = RotationTargetFailed \<or> \<not> validCode code")
    case True
    then show ?thesis using Some contract_refl [OF ok] by (auto simp: RotationCoordinator_Fail_def)
  next
    case False
    let ?f = "state\<lparr>ts_state := RotationTargetFailed, ts_code := code\<rparr>"
    let ?c = "co_put connectorID ?f c"
    have "rotation_contract L c ?c" using False by (intro contract_failed [OF ok Some]) simp_all
    moreover have "code \<noteq> CodeEmpty" using False by auto
    ultimately show ?thesis using Some False contract_refl [OF ok] co_put_same [OF Some]
      by (cases "rec (failureAckLocked ?c ?f code) (summaryLocked ?c)")
         (simp_all add: RotationCoordinator_Fail_def Let_def)
  qed
qed

text \<open>Recovery: the checking loop, and what the restoring loop leaves for a connector.\<close>

lemma resume_scan_None:
  "resume_scan L c seen rs = None \<Longrightarrow>
     distinct (map (rt_ConnectorID \<circ> res_Target) rs) \<and> set seen \<inter> set (map (rt_ConnectorID \<circ> res_Target) rs) = {} \<and>
     (\<forall>r \<in> set rs. validateRotationResumeTarget L (co_plan c) r = None \<and>
       (\<exists>state. fmlookup (co_targets c) (rt_ConnectorID (res_Target r)) = Some state \<and> ts_target state = res_Target r))"
proof (induction rs arbitrary: seen)
  case (Cons r rs)
  let ?k = "rt_ConnectorID (res_Target r)"
  from Cons.prems obtain state where r: "?k \<notin> set seen" "fmlookup (co_targets c) ?k = Some state"
    "ts_target state = res_Target r" "validateRotationResumeTarget L (co_plan c) r = None"
    "resume_scan L c (?k # seen) rs = None"
    by (cases "fmlookup (co_targets c) ?k") (simp_all add: Let_def split: if_splits)
  from Cons.IH [OF r(5)] r(1-4) show ?case by auto
qed simp

lemma resume_restore_lookup:
  "distinct (map (rt_ConnectorID \<circ> res_Target) rs) \<Longrightarrow>
     fmlookup (resume_restore rs m) k =
       (case find (\<lambda>r. rt_ConnectorID (res_Target r) = k) rs of
          None \<Rightarrow> fmlookup m k
        | Some r \<Rightarrow> map_option (resume_target r) (fmlookup m k))"
proof (induction rs arbitrary: m)
  case Nil
  then show ?case by (simp add: resume_restore_def)
next
  case (Cons r rs)
  let ?m = "case fmlookup m (rt_ConnectorID (res_Target r)) of None \<Rightarrow> m
    | Some state \<Rightarrow> fmupd (rt_ConnectorID (res_Target r)) (resume_target r state) m"
  have step: "resume_restore (r # rs) m = resume_restore rs ?m" by (simp add: resume_restore_def)
  have look: "fmlookup ?m k = (if rt_ConnectorID (res_Target r) = k then map_option (resume_target r) (fmlookup m k)
      else fmlookup m k)"
    by (auto split: option.split)
  have none: "find (\<lambda>r. rt_ConnectorID (res_Target r) = k) rs = None" if "rt_ConnectorID (res_Target r) = k"
    using Cons.prems that by (auto simp: find_None_iff image_iff)
  show ?case unfolding step using Cons.IH [of ?m] Cons.prems look none
    by (auto split: option.split)
qed

lemma fmdom_resume_restore: "fmdom (resume_restore rs m) = fmdom m"
proof (induction rs arbitrary: m)
  case Nil
  then show ?case by (simp add: resume_restore_def)
next
  case (Cons r rs)
  have "resume_restore (r # rs) m = resume_restore rs (case fmlookup m (rt_ConnectorID (res_Target r)) of None \<Rightarrow> m
    | Some state \<Rightarrow> fmupd (rt_ConnectorID (res_Target r)) (resume_target r state) m)" by (simp add: resume_restore_def)
  with Cons show ?case by (auto simp: finsert_absorb fmdomI split: option.split)
qed

lemma resume_target_view:
  "ts_target state = res_Target r \<Longrightarrow>
     target_view (res_OverlapUntil r) (res_NewCredentialValidUntil r) (resume_target r state) = r"
  by (simp add: target_view_def resume_target_def)

lemma resume_target_simps [simp]:
  "ts_target (resume_target r state) = ts_target state" "ts_state (resume_target r state) = res_State r"
  by (simp_all add: resume_target_def)

lemma target_ok_resume:
  assumes "ts_target state = res_Target r" and "validateRotationResumeTarget L plan r = None"
  shows "target_ok L plan (resume_target r state)"
  using assms(2) validate_view_iff [of L plan "res_OverlapUntil r" "res_NewCredentialValidUntil r" "resume_target r state"]
  by (simp add: resume_target_view [OF assms(1)] target_ok_iff)

lemma Resume_cases:
  assumes "RotationCoordinator_Resume L ctxErr recovery now c = (result, c')"
  obtains (same) "c' = c" "result = None \<longrightarrow> co_started c"
  | (restored) loaded where "recovery = Some (Inr loaded)" "\<not> co_started c" "result = None"
      "length (resume_Targets loaded) = fcard (fmdom (co_targets c))"
      "resume_scan L c [] (resume_Targets loaded) = None" "resume_finished now loaded = None"
      "c' = c\<lparr>co_targets := resume_restore (resume_Targets loaded) (co_targets c), co_started := True,
              co_finished := resume_FinishedAt loaded\<rparr>"
proof (cases "c' = c \<and> (result = None \<longrightarrow> co_started c)")
  case True
  with same show thesis by blast
next
  case False
  note d = RotationCoordinator_Resume_def
  from assms False have c: "ctxErr = None" by (cases ctxErr) (auto simp: d)
  from assms False c obtain x where x: "recovery = Some x" by (cases recovery) (auto simp: d)
  with assms False c obtain loaded where l: "recovery = Some (Inr loaded)" by (cases x) (auto simp: d)
  with assms False c have p: "\<not> co_started c" "length (resume_Targets loaded) = fcard (fmdom (co_targets c))"
    "\<not> resume_plan_bad L (co_plan c) loaded"
    by (auto simp: d split: if_splits)
  with assms False c l have s: "resume_scan L c [] (resume_Targets loaded) = None"
    by (cases "resume_scan L c [] (resume_Targets loaded)") (auto simp: d)
  with assms False c l p have f: "resume_finished now loaded = None"
    by (cases "resume_finished now loaded") (auto simp: d)
  show thesis by (rule restored [OF l p(1) _ p(2) s f]) (use assms c l p s f in \<open>simp_all add: d\<close>)
qed

lemma resume_covers:
  assumes scan: "resume_scan L c [] rs = None" and len: "length rs = fcard (fmdom (co_targets c))"
    and k: "fmlookup (co_targets c) k = Some state"
  obtains r where "r \<in> set rs" "rt_ConnectorID (res_Target r) = k" "ts_target state = res_Target r"
    "validateRotationResumeTarget L (co_plan c) r = None"
    "fmlookup (resume_restore rs (co_targets c)) k = Some (resume_target r state)"
proof -
  note s = resume_scan_None [OF scan]
  let ?ks = "map (rt_ConnectorID \<circ> res_Target) rs"
  have sub: "set ?ks \<subseteq> fset (fmdom (co_targets c))" using s by (force intro: fmdomI)
  have "card (set ?ks) = card (fset (fmdom (co_targets c)))"
    using s len distinct_card [of ?ks] by (simp add: fcard.rep_eq)
  then have "set ?ks = fset (fmdom (co_targets c))" using sub by (intro card_subset_eq) simp_all
  with fmdomI [OF k] have "k \<in> set ?ks" by metis
  then obtain r where r: "r \<in> set rs" "rt_ConnectorID (res_Target r) = k" by auto
  have "find (\<lambda>r. rt_ConnectorID (res_Target r) = k) rs = Some r"
    using find_key [of "rt_ConnectorID \<circ> res_Target" rs r] s r by (simp add: comp_def)
  with resume_restore_lookup [of rs "co_targets c" k] s k have
    "fmlookup (resume_restore rs (co_targets c)) k = Some (resume_target r state)" by simp
  with that r s k show thesis by auto
qed

lemma Resume_contract:
  assumes ok: "coordinator_ok L c"
  shows "rotation_contract L c (snd (RotationCoordinator_Resume L ctxErr recovery now c))"
proof -
  obtain result c' where r: "RotationCoordinator_Resume L ctxErr recovery now c = (result, c')" by fastforce
  from r show ?thesis
  proof (cases rule: Resume_cases)
    case (restored loaded)
    let ?rs = "resume_Targets loaded"
    let ?m = "resume_restore ?rs (co_targets c)"
    have dom: "fmdom ?m = fmdom (co_targets c)" by (rule fmdom_resume_restore)
    have old: "\<exists>state. fmlookup (co_targets c) k = Some state" if "fmlookup ?m k = Some s" for k s
      using dom fmdomI [OF that] by (simp add: fmlookup_dom_iff)
    have each: "rt_ConnectorID (ts_target s) = k \<and> target_ok L (co_plan c) s" if s: "fmlookup ?m k = Some s" for k s
    proof -
      obtain state where "fmlookup (co_targets c) k = Some state" using old [OF s] by blast
      then show ?thesis
        by (rule resume_covers [OF restored(5,4)]) (use s in \<open>auto simp: target_ok_resume\<close>)
    qed
    have "finished_ok c'"
    proof (cases "resume_FinishedAt loaded = 0")
      case False
      with restored(6) consider (failed) r where "r \<in> set ?rs" "res_State r = RotationTargetFailed"
        | (revoked) "\<forall>r \<in> set ?rs. res_State r = RotationTargetRevoked"
        by (auto simp: resume_finished_def time_IsZero_def list_ex_iff list_all_iff split: if_splits)
      then show ?thesis
      proof cases
        case failed
        note s = resume_scan_None [OF restored(5)]
        from s failed(1) obtain state where st: "fmlookup (co_targets c) (rt_ConnectorID (res_Target r)) = Some state" by blast
        have "find (\<lambda>x. rt_ConnectorID (res_Target x) = rt_ConnectorID (res_Target r)) ?rs = Some r"
          using find_key [of "rt_ConnectorID \<circ> res_Target" ?rs r] s failed(1) by (simp add: comp_def)
        with resume_restore_lookup [of ?rs "co_targets c"] s st
        have "fmlookup ?m (rt_ConnectorID (res_Target r)) = Some (resume_target r state)" by simp
        moreover have "ts_state (resume_target r state) = RotationTargetFailed" using failed(2) by simp
        ultimately have "\<not> fmpred (\<lambda>_ s. ts_state s \<noteq> RotationTargetFailed) ?m" unfolding fmpred_iff by blast
        then show ?thesis by (simp add: finished_ok_def restored(7))
      next
        case revoked
        have "ts_state s = RotationTargetRevoked" if s: "fmlookup ?m k = Some s" for k s
        proof -
          obtain state where "fmlookup (co_targets c) k = Some state" using old [OF s] by blast
          then show ?thesis
            by (rule resume_covers [OF restored(5,4)]) (use s revoked in \<open>auto simp: resume_target_def\<close>)
        qed
        then show ?thesis by (simp add: finished_ok_def restored(7) fmpred_iff)
      qed
    qed (simp add: finished_ok_def restored(7))
    moreover have "fmpred (\<lambda>k s. rt_ConnectorID (ts_target s) = k \<and> target_ok L (co_plan c) s) ?m"
      using each by (simp add: fmpred_iff)
    ultimately have "rotation_contract L c c'" using ok dom restored(2)
      by (simp add: rotation_contract_def coordinator_ok_def restored(7))
    with r show ?thesis by simp
  qed (use r assms in \<open>simp add: contract_refl\<close>)
qed

section \<open>Every operation, and every run\<close>

text \<open>The contract of an operation of the coordinator, and what follows from it for every operation.\<close>

locale rotation_operation =
  fixes L :: "'a rotlib_scheme" and op :: "RotationCoordinator \<Rightarrow> RotationCoordinator"
  assumes contract: "coordinator_ok L c \<Longrightarrow> rotation_contract L c (op c)"
begin

lemma keeps_ok: "coordinator_ok L c \<Longrightarrow> coordinator_ok L (op c)"
  using contract by (simp add: rotation_contract_def)

lemma keeps_plan: "coordinator_ok L c \<Longrightarrow> co_plan (op c) = co_plan c"
  using contract by (simp add: rotation_contract_def)

lemma refines: "coordinator_ok L c \<Longrightarrow> co_started c \<Longrightarrow> rotation_spec (phases_of c) (phases_of (op c))"
  using contract by (simp add: rotation_contract_def)

end

interpretation rot_start: rotation_operation L "\<lambda>c. snd (RotationCoordinator_Start ctxErr beginErr c)"
  for L ctxErr beginErr
  by unfold_locales (rule Start_contract)

interpretation rot_resume: rotation_operation L "\<lambda>c. snd (RotationCoordinator_Resume L ctxErr recovery now c)"
  for L ctxErr recovery now
  by unfold_locales (rule Resume_contract)

interpretation rot_challenge: rotation_operation L "\<lambda>c. snd (ChallengeWithCredentialExpiry ctxErr now authErr
    recordErr connectorID sessionID processGeneration keyID thumbprint nonce issuedAt expiresAt overlapUntil
    validUntil c)"
  for L ctxErr now authErr recordErr connectorID sessionID processGeneration keyID thumbprint nonce issuedAt
    expiresAt overlapUntil validUntil
  by unfold_locales (rule Challenge_contract)

interpretation rot_proof: rotation_operation L "\<lambda>c. snd (RotationCoordinator_AcceptProof L ctxErr now recordErr proof c)"
  for L ctxErr now recordErr "proof"
  by unfold_locales (rule AcceptProof_contract)

interpretation rot_ready: rotation_operation L "\<lambda>c. snd (RotationCoordinator_MarkReady L ctxErr now recordErr ready c)"
  for L ctxErr now recordErr ready
  by unfold_locales (rule MarkReady_contract)

interpretation rot_revoke: rotation_operation L "\<lambda>c. snd (RotationCoordinator_Revoke ctxErr now random recordErr connectorID c)"
  for L ctxErr now random recordErr connectorID
  by unfold_locales (rule Revoke_contract)

interpretation rot_ack: rotation_operation L "\<lambda>c. snd (RotationCoordinator_HandleAck ctxErr now recordErr ack c)"
  for L ctxErr now recordErr ack
  by unfold_locales (rule HandleAck_contract)

interpretation rot_fail: rotation_operation L "\<lambda>c. snd (RotationCoordinator_Fail rec connectorID code c)"
  for L rec connectorID code
  by unfold_locales (rule Fail_contract)

text \<open>One call of a method of a coordinator, with any arguments and any answers of the store.\<close>

inductive rotation_step :: "('a rotlib_scheme) \<Rightarrow> RotationCoordinator \<Rightarrow> RotationCoordinator \<Rightarrow> bool" for L where
  step_start: "rotation_step L c (snd (RotationCoordinator_Start ctxErr beginErr c))"
| step_resume: "rotation_step L c (snd (RotationCoordinator_Resume L ctxErr recovery now c))"
| step_challenge: "rotation_step L c (snd (ChallengeWithCredentialExpiry ctxErr now authErr recordErr connectorID
    sessionID processGeneration keyID thumbprint nonce issuedAt expiresAt overlapUntil validUntil c))"
| step_proof: "rotation_step L c (snd (RotationCoordinator_AcceptProof L ctxErr now recordErr proof c))"
| step_ready: "rotation_step L c (snd (RotationCoordinator_MarkReady L ctxErr now recordErr ready c))"
| step_revoke: "rotation_step L c (snd (RotationCoordinator_Revoke ctxErr now random recordErr connectorID c))"
| step_ack: "rotation_step L c (snd (RotationCoordinator_HandleAck ctxErr now recordErr ack c))"
| step_fail: "rotation_step L c (snd (RotationCoordinator_Fail rec connectorID code c))"

lemma step_contract: "rotation_step L c c' \<Longrightarrow> coordinator_ok L c \<Longrightarrow> rotation_contract L c c'"
  by (induction rule: rotation_step.induct)
     (blast intro: rot_start.contract rot_resume.contract rot_challenge.contract rot_proof.contract
       rot_ready.contract rot_revoke.contract rot_ack.contract rot_fail.contract)+

lemma steps_contract:
  assumes "(rotation_step L)\<^sup>*\<^sup>* c c'" and "coordinator_ok L c"
  shows "coordinator_ok L c' \<and> co_plan c' = co_plan c \<and> co_verify c' = co_verify c \<and>
    (co_started c \<longrightarrow> co_started c' \<and> rotation_spec\<^sup>*\<^sup>* (phases_of c) (phases_of c'))"
  using assms
proof (induction rule: rtranclp_induct)
  case (step c1 c2)
  from step step_contract [OF step(2)] have "rotation_contract L c1 c2" by simp
  with step show ?case by (auto simp: rotation_contract_def intro: rtranclp.rtrancl_into_rtrancl)
qed simp

lemma phases_advance_trans: "phases_advance P Q \<Longrightarrow> phases_advance Q R \<Longrightarrow> phases_advance P R"
  unfolding phases_advance_def
proof (intro conjI allI impI; elim conjE)
  fix k p r
  assume pq: "\<forall>k p q. P k = Some p \<longrightarrow> Q k = Some q \<longrightarrow>
      p = q \<or> phase_rank p < phase_rank q \<and> p \<noteq> RotationTargetRevoked \<and> p \<noteq> RotationTargetFailed"
    and qr: "\<forall>k p q. Q k = Some p \<longrightarrow> R k = Some q \<longrightarrow>
      p = q \<or> phase_rank p < phase_rank q \<and> p \<noteq> RotationTargetRevoked \<and> p \<noteq> RotationTargetFailed"
    and p: "P k = Some p" and r: "R k = Some r" and d: "dom P = dom Q"
  from p d obtain q where q: "Q k = Some q" by blast
  from pq [rule_format, OF p q] qr [rule_format, OF q r]
  show "p = r \<or> phase_rank p < phase_rank r \<and> p \<noteq> RotationTargetRevoked \<and> p \<noteq> RotationTargetFailed" by auto
qed simp

lemma spec_steps:
  assumes "rotation_spec\<^sup>*\<^sup>* P Q"
  shows "phases_advance P Q" and "revokes_late P \<Longrightarrow> revokes_late Q"
  using assms
proof (induction rule: rtranclp_induct)
  case base
  { case 1 show ?case by (simp add: phases_advance_def) }
  { case 2 then show ?case . }
next
  case (step Q R)
  { case 1 show ?case using step(3) spec_advances [OF step(2)] by (rule phases_advance_trans) }
  { case 2 then show ?case using step(4) spec_revokes_late [OF step(2)] by blast }
qed

section \<open>New coordinators\<close>

lemma new_targets_lookup:
  "distinct (map rt_ConnectorID ts) \<Longrightarrow>
     fmlookup (fold (\<lambda>t. fmupd (rt_ConnectorID t) (pending_target t)) ts m) k =
       (case find (\<lambda>t. rt_ConnectorID t = k) ts of None \<Rightarrow> fmlookup m k | Some t \<Rightarrow> Some (pending_target t))"
proof (induction ts arbitrary: m)
  case (Cons t ts)
  have "find (\<lambda>t. rt_ConnectorID t = k) ts = None" if "rt_ConnectorID t = k"
    using Cons.prems that by (auto simp: find_None_iff image_iff)
  with Cons show ?case by (auto split: option.split)
qed simp

lemma NewRotationCoordinator_Inr:
  assumes "NewRotationCoordinator L plan hasStore verify = Inr c"
  shows "RotationPlan_Validate L plan = None" "co_plan c = plan" "verify = Some (co_verify c)"
    "\<not> co_started c" "co_finished c = 0"
    and "fmlookup (co_targets c) k = map_option pending_target (RotationPlan_Target plan k)"
proof -
  from assms show v: "RotationPlan_Validate L plan = None" and "co_plan c = plan" "verify = Some (co_verify c)"
    "\<not> co_started c" "co_finished c = 0"
    by (auto simp: NewRotationCoordinator_def split: if_splits option.splits)
  from assms have "co_targets c = fold (\<lambda>t. fmupd (rt_ConnectorID t) (pending_target t)) (plan_Targets plan) fmempty"
    by (auto simp: NewRotationCoordinator_def split: if_splits option.splits)
  then show "fmlookup (co_targets c) k = map_option pending_target (RotationPlan_Target plan k)"
    using new_targets_lookup [OF plan_targets(1) [OF v], of fmempty k]
    by (simp add: RotationPlan_Target_def split: option.split)
qed

lemma plan_target_dom:
  "RotationPlan_Validate L plan = None \<Longrightarrow>
     RotationPlan_Target plan k \<noteq> None \<longleftrightarrow> k \<in> rt_ConnectorID ` set (plan_Targets plan)"
  by (auto simp: RotationPlan_Target_def find_None_iff)

lemma new_coordinator_ok:
  assumes "NewRotationCoordinator L plan hasStore verify = Inr c"
  shows "coordinator_ok L c" and "phases_of c = (\<lambda>k. map_option (\<lambda>_. RotationTargetPending) (RotationPlan_Target plan k))"
proof -
  note n = NewRotationCoordinator_Inr [OF assms]
  have "k |\<in>| fmdom (co_targets c) \<longleftrightarrow> k \<in> rt_ConnectorID ` set (plan_Targets plan)" for k
    using plan_target_dom [OF n(1), of k] by (auto simp: fmlookup_dom_iff n(6))
  then have "fmdom (co_targets c) = fset_of_list (map rt_ConnectorID (plan_Targets plan))"
    by (auto simp: fset_of_list_elem intro!: fset_eqI)
  moreover have "fmpred (\<lambda>k st. rt_ConnectorID (ts_target st) = k \<and> target_ok L plan st) (co_targets c)"
    using target_ok_pending [OF n(1)]
    by (auto simp: fmpred_iff n(6) RotationPlan_Target_def dest: find_keyD)
  ultimately show "coordinator_ok L c" using n(1,2,5) by (simp add: coordinator_ok_def finished_ok_def)
  show "phases_of c = (\<lambda>k. map_option (\<lambda>_. RotationTargetPending) (RotationPlan_Target plan k))"
    by (simp add: phases_of_def n(6) fun_eq_iff option.map_comp comp_def)
qed

end
