(* ===== verification/Spec2Isabelle.thy ===== *)
theory Spec2Isabelle
  imports Server_Rollback Client_Session Connector_Frames Rotation_Invariants
begin

text \<open>
  Verification of the connector control plane of the Paperboat server.

  \<^bold>\<open>The program.\<close> A connector is a process on a customer's host that keeps one control session with the
  server. The package \<open>src/internal/connectorprotocol\<close> has the protocol: the messages and their frames
  (\<open>protocol.go\<close>), the two ends of a session (\<open>session.go\<close>: \<open>Server\<close>, \<open>ServerSession\<close>, \<open>ClientSession\<close>
  and the \<open>SessionRegistry\<close> that fences replaced sessions), and the rotation of the connectors'
  credentials (\<open>rotation.go\<close>). The server accepts a hello, answers with a welcome and a configuration
  snapshot, and from there on the two ends exchange snapshots, deltas, acknowledgements, readiness,
  heartbeats, renewals and drains. A configuration goes through three places: it is offered
  (pending), acknowledged as applied (candidate) and declared ready (active).

  \<^bold>\<open>Conventions.\<close> A Go struct is a record with its fields in order, a string type with named constants a
  datatype with one more constructor for every other string, \<open>uint64\<close> and \<open>uint32\<close> are words of that
  width, a \<open>time.Time\<close> and a \<open>time.Duration\<close> are integers of nanoseconds (the zero time is 0), a Go map is
  a finite map, an error result is \<open>error option\<close> or \<open>error + 'a\<close>. A method on a mutex-protected object
  is a function from its state to its result and its new state; a method that releases the mutex in
  the middle is split there, so that other calls may come between the parts. The clock, the context
  and the answers of interfaces (authenticator, snapshot source, applier, drainer, store) are
  arguments. Library code that is not in the repository is a field of an extensible record of
  parameters: the JSON lexer, the decoders and the encoder, SHA-256, URL parsing and Ed25519
  (\<open>golib\<close>, \<open>cfglib\<close>, \<open>msglib\<close>, \<open>rotlib\<close>, \<open>framelib\<close>).

  \<^bold>\<open>The theories.\<close>

  \<^item> \<open>Go_Prelude\<close>: types, the parts of the packages \<open>time\<close>, \<open>strings\<close>, \<open>strconv\<close> and \<open>encoding/hex\<close> that the
    code uses, and their lemmas. \<open>Go_Base64\<close>: \<open>base64.RawURLEncoding\<close> with its round trip.

  \<^item> \<open>Connector_Errors\<close>: codes, reasons, \<open>Error\<close>, \<open>CodeOf\<close>, \<open>ReasonOf\<close>, \<open>joinCleanup\<close>. \<open>Connector_Text\<close>: identifiers,
    key thumbprints, credential references, proofs, capabilities and versions; negotiation is
    characterised exactly.

  \<^item> \<open>Connector_Json\<close>: \<open>rejectDuplicateKeys\<close>, \<open>decodeValue\<close>, \<open>rejectSecretFields\<close> and \<open>canonicalJSON\<close> on token streams,
    each equal to a declarative description of the documents it accepts.

  \<^item> \<open>Connector_Config\<close>: the validation of a configuration payload and what an accepted payload
    guarantees. \<open>Connector_Messages\<close>: every message with its \<open>Validate\<close> methods, the construction of
    snapshots and deltas, and the signed requests, which bind every field they sign.

  \<^item> \<open>Connector_Frames\<close>: \<open>NewFrame\<close>, \<open>ReadFrame\<close>, \<open>WriteFrame\<close>; what is written is read back, in bounded space.

  \<^item> \<open>Session_Registry\<close>: the registry, its contract as the locale \<open>fenced_registry\<close>, and the fencing of
    replaced sessions through every history.

  \<^item> \<open>Server_Session\<close>: \<open>NewServer\<close>, \<open>Accept\<close> and every method of \<open>ServerSession\<close>. \<open>Server_Invariants\<close> has the session
    invariant and the locale \<open>session_handler\<close>, the contract of one handler; \<open>Server_Handlers\<close> interprets it for
    every method; \<open>Server_Properties\<close> has the step relation of a session among others, its reachable
    states and \<open>Accept\<close>; \<open>Server_Behaviour\<close> the behaviour of the single methods; \<open>Server_Rollback\<close> a run in
    which the active generation goes back.

  \<^item> \<open>Client_Session\<close>: \<open>NewClientSession\<close> and every method of \<open>ClientSession\<close>.

  \<^item> \<open>Rotation_Messages\<close>: plans, messages, signing and verification. \<open>Rotation_Coordinator\<close>: the
    coordinator with start, recovery, challenge, proof, readiness, revocation, acknowledgements and
    failure.

  \<^bold>\<open>Bounds and termination.\<close> Nothing is bounded by fuel. The recursive routines are total functions:
  the JSON walkers and the write loop with termination proofs on the length of the rest, the others
  by structural recursion. Limits of the code (frame, payload, identifier, depth) are its constants.

  \<^bold>\<open>Not modelled.\<close> The transports around the protocol (\<open>transport.go\<close>, \<open>websocket.go\<close>, \<open>ingress\<close>), the SQL
  stores, the HTTP API, the account, billing, mail and deployment packages and the relay are input
  and output around a database or the network; they are listed as components that are not modelled.
  Nil pointers, nil contexts and data races are outside the model: every method is the sequence of
  its critical sections. A \<open>time.Time\<close> is an instant, so its location and its monotonic reading are not
  seen.
\<close>

end
